(* ===== verification/Prelude.thy ===== *)
theory Prelude
  imports Main "HOL-Library.Word" "HOL-Library.Sublist" "HOL-Library.AList"
begin

section \<open>Shared vocabulary of the development\<close>

text \<open>
  What every component theory uses: the names of the machine types of the Go program, the
  collections of simplification rules, the wrap-around of a 64-bit signed integer, and
  generic lemmas on lists, options and association lists.

  A Go \<^verbatim>\<open>string\<close> and a Go \<^verbatim>\<open>[]byte\<close> are sequences of bytes. HOL's \<^typ>\<open>char\<close>
  is an 8-bit character, so both are \<^typ>\<open>string\<close> here, and lengths are byte lengths, as
  \<^verbatim>\<open>len\<close> counts them. Instants and durations are nanoseconds, as \<^verbatim>\<open>time.Duration\<close>
  counts them.
\<close>

type_synonym bytes = string
type_synonym gotime = int
type_synonym duration = int
type_synonym filemode = "32 word"

named_theorems go_std \<open>equations of the modelled part of Go's standard library\<close>
named_theorems file_ops \<open>equations of the file-system primitives\<close>
named_theorems store_ops \<open>equations of the key store\<close>
named_theorems handler_ops \<open>equations of the request handlers\<close>
named_theorems audit_ops \<open>equations of the audit records\<close>

subsection \<open>Machine integers\<close>

text \<open>
  Go's \<^verbatim>\<open>int\<close> and \<^verbatim>\<open>int64\<close> are 64-bit two's complement on the supported platforms
  (amd64, arm64). Values are integers; an operation that can leave the range is wrapped
  by \<open>wrap64\<close>. Integer division truncates towards zero.
\<close>

definition wrap64 :: "int \<Rightarrow> int" where
  "wrap64 x = (x + 2 ^ 63) mod 2 ^ 64 - 2 ^ 63"

definition is_int64 :: "int \<Rightarrow> bool" where
  "is_int64 x \<longleftrightarrow> - (2 ^ 63) \<le> x \<and> x < 2 ^ 63"

definition go_div :: "int \<Rightarrow> int \<Rightarrow> int" where
  "go_div a b = sgn a * sgn b * (\<bar>a\<bar> div \<bar>b\<bar>)"

lemma wrap64_id [simp]: "is_int64 x \<Longrightarrow> wrap64 x = x"
  by (simp add: wrap64_def is_int64_def)

lemma is_int64_wrap64 [simp]: "is_int64 (wrap64 x)"
proof -
  have "0 \<le> (x + 2 ^ 63) mod 2 ^ 64" "(x + 2 ^ 63) mod 2 ^ 64 < (2 ^ 64 :: int)"
    by simp_all
  then show ?thesis by (simp add: wrap64_def is_int64_def)
qed

lemma is_int64_small: "- 9223372036854775808 \<le> x \<Longrightarrow> x \<le> 9223372036854775807 \<Longrightarrow> is_int64 x"
  by (simp add: is_int64_def)

lemma wrap64_le_nonneg: "0 \<le> x \<Longrightarrow> wrap64 x \<le> x"
proof -
  assume "0 \<le> x"
  then have "(x + 2 ^ 63) mod 2 ^ 64 \<le> x + 2 ^ 63"
    by (simp add: zmod_le_nonneg_dividend)
  then show ?thesis by (simp add: wrap64_def)
qed

lemma go_div_nonneg: "0 \<le> a \<Longrightarrow> 0 < b \<Longrightarrow> go_div a b = a div b"
  by (cases "a = 0") (simp_all add: go_div_def)

lemma go_div_neg_nonpos: "a < 0 \<Longrightarrow> 0 < b \<Longrightarrow> go_div a b \<le> 0"
  by (simp add: go_div_def pos_imp_zdiv_nonneg_iff)

subsection \<open>Lists\<close>

lemma takeWhile_append_stop: "\<forall>x \<in> set xs. P x \<Longrightarrow> \<not> P y \<Longrightarrow> takeWhile P (xs @ y # ys) = xs"
  by (induction xs) auto

lemma dropWhile_append_stop: "\<forall>x \<in> set xs. P x \<Longrightarrow> \<not> P y \<Longrightarrow> dropWhile P (xs @ y # ys) = y # ys"
  by (induction xs) auto

lemma length_concat_map_const:
  "(\<And>x. length (f x) = k) \<Longrightarrow> length (concat (map f xs)) = k * length xs"
  by (induction xs) auto

lemma prefix_take_length: "prefix p s \<Longrightarrow> s = p @ drop (length p) s"
  by (auto simp: prefix_def)

subsection \<open>Association lists\<close>

text \<open>
  A directory tree and other finite stores that the code iterates over are association
  lists, so that sums and traversals over them compute. \<open>asum\<close> adds a weight over the
  entries; its value after an update or a removal is what the quota arithmetic relies on.
\<close>

definition asum :: "('v \<Rightarrow> int) \<Rightarrow> ('k \<times> 'v) list \<Rightarrow> int" where
  "asum w al = sum_list (map (w \<circ> snd) al)"

definition aweight :: "('v \<Rightarrow> int) \<Rightarrow> 'v option \<Rightarrow> int" where
  "aweight w ov = (case ov of None \<Rightarrow> 0 | Some v \<Rightarrow> w v)"

lemma aweight_simps [simp]: "aweight w None = 0" "aweight w (Some v) = w v"
  by (simp_all add: aweight_def)

lemma asum_Nil [simp]: "asum w [] = 0"
  by (simp add: asum_def)

lemma asum_Cons [simp]: "asum w (kv # al) = w (snd kv) + asum w al"
  by (simp add: asum_def)

lemma asum_append [simp]: "asum w (xs @ ys) = asum w xs + asum w ys"
  by (simp add: asum_def)

lemma asum_nonneg: "(\<And>v. 0 \<le> w v) \<Longrightarrow> 0 \<le> asum w al"
  by (induction al) (auto intro: add_nonneg_nonneg)

lemma asum_update:
  "distinct (map fst al) \<Longrightarrow>
   asum w (AList.update k v al) = asum w al - aweight w (map_of al k) + w v"
  by (induction al) (auto simp: map_of_eq_None_iff)

lemma asum_delete:
  "distinct (map fst al) \<Longrightarrow> asum w (AList.delete k al) = asum w al - aweight w (map_of al k)"
proof (induction al)
  case Nil
  then show ?case by (simp add: AList.delete_eq)
next
  case (Cons kv al)
  then show ?case
    by (cases kv) (force simp: AList.delete_eq aweight_def dest: map_of_SomeD split: option.splits)
qed

lemma map_of_alist_update [simp]:
  "map_of (AList.update k v al) = (map_of al)(k \<mapsto> v)"
  by (rule update_conv')

lemma map_of_alist_delete [simp]:
  "map_of (AList.delete k al) = (map_of al)(k := None)"
  by (rule delete_conv')

lemma distinct_fst_update [simp]:
  "distinct (map fst al) \<Longrightarrow> distinct (map fst (AList.update k v al))"
  by (rule distinct_update)

lemma distinct_fst_delete [simp]:
  "distinct (map fst al) \<Longrightarrow> distinct (map fst (AList.delete k al))"
  by (rule distinct_delete)

end
