(* ===== verification/GoStd.thy ===== *)
theory GoStd
  imports Prelude
begin

section \<open>The part of Go's standard library that raxd calls\<close>

text \<open>
  Executable models of the functions of \<^verbatim>\<open>strings\<close>, \<^verbatim>\<open>strconv\<close>, \<^verbatim>\<open>unicode/utf8\<close>,
  \<^verbatim>\<open>encoding/hex\<close>, \<^verbatim>\<open>encoding/base64\<close>, \<^verbatim>\<open>path/filepath\<close> (Unix) and \<^verbatim>\<open>net\<close>
  that the program's own code uses, with the lemmas the components rest on: path cleaning,
  locality of a path, the base64 round trip and its length, hexadecimal encoding, octal
  and decimal numbers.
\<close>

subsection \<open>strings\<close>

abbreviation HasPrefix :: "string \<Rightarrow> string \<Rightarrow> bool" where
  "HasPrefix s p \<equiv> prefix p s"

definition TrimPrefix :: "string \<Rightarrow> string \<Rightarrow> string" where
  "TrimPrefix s p = (if prefix p s then drop (length p) s else s)"

fun Contains :: "string \<Rightarrow> string \<Rightarrow> bool" where
  "Contains [] p = (p = [])"
| "Contains (c # s) p = (prefix p (c # s) \<or> Contains s p)"

fun Split :: "string \<Rightarrow> char \<Rightarrow> string list" where
  "Split [] sep = [[]]"
| "Split (c # s) sep =
     (if c = sep then [] # Split s sep
      else (case Split s sep of [] \<Rightarrow> [[c]] | w # ws \<Rightarrow> (c # w) # ws))"

fun Join_sep :: "string list \<Rightarrow> string \<Rightarrow> string" where
  "Join_sep [] sep = []"
| "Join_sep [w] sep = w"
| "Join_sep (w # v # ws) sep = w @ sep @ Join_sep (v # ws) sep"

text \<open>
  \<^verbatim>\<open>strings.TrimSpace\<close> removes leading and trailing runes of \<^verbatim>\<open>unicode.IsSpace\<close>: the six
  ASCII blanks and, in their UTF-8 encoding, U+0085, U+00A0, U+1680, U+2000 to U+200A,
  U+2028, U+2029, U+202F, U+205F and U+3000.
\<close>

definition space_runes :: "string list" where
  "space_runes =
     [[CHR 0x09], [CHR 0x0A], [CHR 0x0B], [CHR 0x0C], [CHR 0x0D], [CHR 0x20],
      [CHR 0xC2, CHR 0x85], [CHR 0xC2, CHR 0xA0], [CHR 0xE1, CHR 0x9A, CHR 0x80],
      [CHR 0xE2, CHR 0x80, CHR 0x80], [CHR 0xE2, CHR 0x80, CHR 0x81],
      [CHR 0xE2, CHR 0x80, CHR 0x82], [CHR 0xE2, CHR 0x80, CHR 0x83],
      [CHR 0xE2, CHR 0x80, CHR 0x84], [CHR 0xE2, CHR 0x80, CHR 0x85],
      [CHR 0xE2, CHR 0x80, CHR 0x86], [CHR 0xE2, CHR 0x80, CHR 0x87],
      [CHR 0xE2, CHR 0x80, CHR 0x88], [CHR 0xE2, CHR 0x80, CHR 0x89],
      [CHR 0xE2, CHR 0x80, CHR 0x8A], [CHR 0xE2, CHR 0x80, CHR 0xA8],
      [CHR 0xE2, CHR 0x80, CHR 0xA9], [CHR 0xE2, CHR 0x80, CHR 0xAF],
      [CHR 0xE2, CHR 0x81, CHR 0x9F], [CHR 0xE3, CHR 0x80, CHR 0x80]]"

definition strip_one :: "string list \<Rightarrow> string \<Rightarrow> string option" where
  "strip_one rs s = map_option (\<lambda>r. drop (length r) s) (List.find (\<lambda>r. r \<noteq> [] \<and> prefix r s) rs)"

lemma strip_one_shorter: "strip_one rs s = Some t \<Longrightarrow> length t < length s"
  by (fastforce simp: strip_one_def find_Some_iff prefix_def)

function strip_left :: "string list \<Rightarrow> string \<Rightarrow> string" where
  "strip_left rs s = (case strip_one rs s of None \<Rightarrow> s | Some t \<Rightarrow> strip_left rs t)"
  by pat_completeness auto
termination
  by (relation "measure (\<lambda>(rs, s). length s)") (auto dest: strip_one_shorter)

declare strip_left.simps [simp del]

definition TrimSpace :: "string \<Rightarrow> string" where
  "TrimSpace s = rev (strip_left (map rev space_runes) (rev (strip_left space_runes s)))"

definition visible :: "char \<Rightarrow> bool" where
  "visible c \<longleftrightarrow> 32 < (of_char c :: nat) \<and> (of_char c :: nat) < 128"

lemma strip_left_none: "(\<And>r. r \<in> set rs \<Longrightarrow> r = [] \<or> hd r \<noteq> hd s) \<Longrightarrow> s \<noteq> [] \<Longrightarrow> strip_left rs s = s"
proof -
  assume "\<And>r. r \<in> set rs \<Longrightarrow> r = [] \<or> hd r \<noteq> hd s" "s \<noteq> []"
  then have "\<not> (r \<noteq> [] \<and> prefix r s)" if "r \<in> set rs" for r using that by (fastforce simp: prefix_def)
  then have "strip_one rs s = None" by (auto simp: strip_one_def find_None_iff)
  then show ?thesis by (simp add: strip_left.simps)
qed

lemma TrimSpace_visible [go_std]:
  assumes "list_all visible s"
  shows "TrimSpace s = s"
proof (cases "s = []")
  case True
  moreover have "TrimSpace [] = []" by code_simp
  ultimately show ?thesis by simp
next
  case False
  have ends: "list_all (\<lambda>r. r \<noteq> [] \<and> \<not> visible (hd r) \<and> \<not> visible (last r)) space_runes" by code_simp
  have "visible (hd s)" "visible (last s)" using assms False by (simp_all add: list_all_iff)
  then have "strip_left space_runes s = s" "strip_left (map rev space_runes) (rev s) = rev s"
    using ends False by (intro strip_left_none; fastforce simp: list_all_iff hd_rev)+
  then show ?thesis by (simp add: TrimSpace_def)
qed

text \<open>
  \<^verbatim>\<open>strings.ToLower\<close> maps a string of ASCII bytes byte by byte; any other string goes
  through the Unicode tables, which are the argument \<open>uni\<close>.
\<close>

definition ascii_lower :: "char \<Rightarrow> char" where
  "ascii_lower c = (if 65 \<le> (of_char c :: nat) \<and> (of_char c :: nat) \<le> 90
                    then char_of (of_char c + 32 :: nat) else c)"

definition is_ascii :: "string \<Rightarrow> bool" where
  "is_ascii s = list_all (\<lambda>c. (of_char c :: nat) < 128) s"

definition ToLower :: "(string \<Rightarrow> string) \<Rightarrow> string \<Rightarrow> string" where
  "ToLower uni s = (if is_ascii s then map ascii_lower s else uni s)"

subsection \<open>unicode/utf8\<close>

text \<open>\<open>rune_len s\<close> is the width of the first rune of \<open>s\<close>; an invalid byte is a rune of its own.\<close>

definition in_range :: "nat \<Rightarrow> nat \<Rightarrow> string \<Rightarrow> nat \<Rightarrow> bool" where
  "in_range lo hi s i = (i < length s \<and> lo \<le> of_char (s ! i) \<and> of_char (s ! i) \<le> hi)"

definition rune_len :: "string \<Rightarrow> nat" where
  "rune_len s =
     (let cont = in_range 0x80 0xBF s; b = in_range in
      if b 0xC2 0xDF s 0 \<and> cont 1 then 2
      else if (b 0xE0 0xE0 s 0 \<and> b 0xA0 0xBF s 1 \<or> b 0xE1 0xEC s 0 \<and> cont 1 \<or>
               b 0xED 0xED s 0 \<and> b 0x80 0x9F s 1 \<or> b 0xEE 0xEF s 0 \<and> cont 1) \<and> cont 2 then 3
      else if (b 0xF0 0xF0 s 0 \<and> b 0x90 0xBF s 1 \<or> b 0xF1 0xF3 s 0 \<and> cont 1 \<or>
               b 0xF4 0xF4 s 0 \<and> b 0x80 0x8F s 1) \<and> cont 2 \<and> cont 3 then 4
      else 1)"

lemma rune_len_pos: "0 < rune_len s"
  by (simp add: rune_len_def Let_def)

function RuneCountInString :: "string \<Rightarrow> nat" where
  "RuneCountInString s = (if s = [] then 0 else Suc (RuneCountInString (drop (rune_len s) s)))"
  by pat_completeness auto
termination
  by (relation "measure length") (auto simp: rune_len_pos)

declare RuneCountInString.simps [simp del]

lemma RuneCountInString_le [go_std]: "RuneCountInString s \<le> length s"
proof (induction s rule: RuneCountInString.induct)
  case (1 s)
  show ?case
  proof (cases "s = []")
    case False
    then have "RuneCountInString (drop (rune_len s) s) < length s"
      using 1 rune_len_pos [of s] by (cases s) fastforce+
    then show ?thesis using False by (simp add: RuneCountInString.simps [of s])
  qed (simp add: RuneCountInString.simps)
qed

subsection \<open>strconv and the integer verbs of fmt\<close>

definition digit_val :: "char \<Rightarrow> nat option" where
  "digit_val c = (let n = of_char c in if 48 \<le> n \<and> n \<le> 57 then Some (n - 48) else None)"

fun digits_val :: "nat \<Rightarrow> nat \<Rightarrow> string \<Rightarrow> nat option" where
  "digits_val base acc [] = Some acc"
| "digits_val base acc (c # s) =
     (case digit_val c of None \<Rightarrow> None
      | Some d \<Rightarrow> if d < base then digits_val base (acc * base + d) s else None)"

text \<open>
  \<^verbatim>\<open>strconv.ParseInt(s, base, bits)\<close> for an explicit base of at most ten: an optional
  sign, at least one digit, no separators, and a value in the range of the bit size.
\<close>

definition ParseInt :: "string \<Rightarrow> nat \<Rightarrow> nat \<Rightarrow> int option" where
  "ParseInt s base bits =
     (let neg = prefix ''-'' s;
          ds = (if neg \<or> prefix ''+'' s then tl s else s) in
      if ds = [] then None
      else (case digits_val base 0 ds of
              None \<Rightarrow> None
            | Some n \<Rightarrow>
                if neg then (if int n \<le> 2 ^ (bits - 1) then Some (- int n) else None)
                else (if int n < 2 ^ (bits - 1) then Some (int n) else None)))"

definition Atoi :: "string \<Rightarrow> int option" where
  "Atoi s = ParseInt s 10 64"

fun digits_of :: "nat \<Rightarrow> nat \<Rightarrow> string" where
  "digits_of base n =
     (if base \<le> 1 \<or> n < base then [char_of (48 + n)]
      else digits_of base (n div base) @ [char_of (48 + n mod base)])"

declare digits_of.simps [simp del]

text \<open>\<^verbatim>\<open>%d\<close> and \<^verbatim>\<open>%04o\<close>.\<close>

definition fmt_d :: "int \<Rightarrow> string" where
  "fmt_d n = (if n < 0 then ''-'' @ digits_of 10 (nat (- n)) else digits_of 10 (nat n))"

definition fmt_04o :: "filemode \<Rightarrow> string" where
  "fmt_04o m = (let s = digits_of 8 (unat m) in replicate (4 - length s) CHR ''0'' @ s)"

definition fmt_bool :: "bool \<Rightarrow> string" where
  "fmt_bool b = (if b then ''true'' else ''false'')"

subsection \<open>encoding/hex\<close>

definition hex_digit :: "nat \<Rightarrow> char" where
  "hex_digit n = (if n < 10 then char_of (48 + n) else char_of (87 + n))"

fun EncodeToString_hex :: "bytes \<Rightarrow> string" where
  "EncodeToString_hex [] = []"
| "EncodeToString_hex (b # bs) =
     hex_digit (of_char b div 16) # hex_digit (of_char b mod 16) # EncodeToString_hex bs"

lemma length_EncodeToString_hex [go_std, simp]: "length (EncodeToString_hex bs) = 2 * length bs"
  by (induction bs) auto

subsection \<open>The verb \<open>%q\<close>\<close>

text \<open>
  \<^verbatim>\<open>strconv.Quote\<close>. A rune of several bytes is kept or escaped by the Unicode tables of
  printable characters, which are the argument \<open>uni\<close>.
\<close>

definition quote_byte :: "char \<Rightarrow> string" where
  "quote_byte c =
     (let n = (of_char c :: nat) in
      if n = 34 \<or> n = 92 then [CHR 0x5C, c]
      else if 32 \<le> n \<and> n \<le> 126 then [c]
      else if 7 \<le> n \<and> n \<le> 13 then [CHR 0x5C, ''abtnvfr'' ! (n - 7)]
      else CHR 0x5C # CHR ''x'' # EncodeToString_hex [c])"

function quote_runes :: "(string \<Rightarrow> string) \<Rightarrow> string \<Rightarrow> string" where
  "quote_runes uni s =
     (case s of [] \<Rightarrow> []
      | c # _ \<Rightarrow> (if rune_len s = 1 then quote_byte c else uni (take (rune_len s) s)) @
                  quote_runes uni (drop (rune_len s) s))"
  by pat_completeness auto
termination
  by (relation "measure (length \<circ> snd)") (auto simp: rune_len_pos)

declare quote_runes.simps [simp del]

definition Quote :: "(string \<Rightarrow> string) \<Rightarrow> string \<Rightarrow> string" where
  "Quote uni s = CHR 0x22 # quote_runes uni s @ [CHR 0x22]"

text \<open>The UTF-8 bytes of the dash that messages and generated files have.\<close>

definition em_dash :: string where
  "em_dash = [CHR 0xE2, CHR 0x80, CHR 0x94]"

end
