(* ===== verification/GoBase64.thy ===== *)
theory GoBase64
  imports GoStd
begin

section \<open>encoding/base64\<close>

text \<open>
  \<^verbatim>\<open>base64.RawURLEncoding\<close> (the body of an API key) and \<^verbatim>\<open>base64.StdEncoding\<close> (the
  content of an uploaded file). The decoder follows \<^verbatim>\<open>decodeQuantum\<close>: carriage returns and
  newlines are skipped wherever they stand, a quantum of four characters gives three bytes,
  a padded one ends the input, and anything else is corrupt. The main result is that
  decoding an encoding gives the bytes back, and how the encoded length relates to
  \<^verbatim>\<open>DecodedLen\<close>, which the upload handler tests before it decodes.
\<close>

definition b64_char :: "char \<Rightarrow> char \<Rightarrow> nat \<Rightarrow> char" where
  "b64_char c62 c63 n =
     (if n < 26 then char_of (65 + n)
      else if n < 52 then char_of (97 + (n - 26))
      else if n < 62 then char_of (48 + (n - 52))
      else if n = 62 then c62 else c63)"

definition b64_val :: "char \<Rightarrow> nat option" where
  "b64_val c =
     (let n = of_char c in
      if 65 \<le> n \<and> n \<le> 90 then Some (n - 65)
      else if 97 \<le> n \<and> n \<le> 122 then Some (n - 97 + 26)
      else if 48 \<le> n \<and> n \<le> 57 then Some (n - 48 + 52)
      else if n = 43 then Some 62
      else if n = 47 then Some 63
      else None)"

fun b64_encode :: "(nat \<Rightarrow> char) \<Rightarrow> string \<Rightarrow> bytes \<Rightarrow> string" where
  "b64_encode ch pad [] = []"
| "b64_encode ch pad [a] =
     (let x = of_char a in [ch (x div 4), ch (x mod 4 * 16)] @ pad @ pad)"
| "b64_encode ch pad [a, b] =
     (let x = of_char a; y = of_char b in
      [ch (x div 4), ch (x mod 4 * 16 + y div 16), ch (y mod 16 * 4)] @ pad)"
| "b64_encode ch pad (a # b # c # r) =
     (let x = of_char a; y = of_char b; z = of_char c in
      [ch (x div 4), ch (x mod 4 * 16 + y div 16), ch (y mod 16 * 4 + z div 64), ch (z mod 64)]
      @ b64_encode ch pad r)"

definition StdEncoding_EncodeToString :: "bytes \<Rightarrow> string" where
  "StdEncoding_EncodeToString = b64_encode (b64_char CHR ''+'' CHR ''/'') ''=''"

definition RawURLEncoding_EncodeToString :: "bytes \<Rightarrow> string" where
  "RawURLEncoding_EncodeToString = b64_encode (b64_char CHR ''-'' CHR ''_'') []"

definition b64_byte1 :: "nat \<Rightarrow> nat \<Rightarrow> char" where
  "b64_byte1 v w = char_of (v * 4 + w div 16)"

definition b64_byte2 :: "nat \<Rightarrow> nat \<Rightarrow> char" where
  "b64_byte2 w x = char_of (w mod 16 * 16 + x div 4)"

definition b64_byte3 :: "nat \<Rightarrow> nat \<Rightarrow> char" where
  "b64_byte3 x y = char_of (x mod 4 * 64 + y)"

fun b64_quanta :: "string \<Rightarrow> bytes option" where
  "b64_quanta [] = Some []"
| "b64_quanta (p # q # r # s # t) =
     (case (b64_val p, b64_val q) of
        (Some v, Some w) \<Rightarrow>
          (if r = CHR ''='' then (if s = CHR ''='' \<and> t = [] then Some [b64_byte1 v w] else None)
           else (case b64_val r of
                   None \<Rightarrow> None
                 | Some x \<Rightarrow>
                     if s = CHR ''='' then
                       (if t = [] then Some [b64_byte1 v w, b64_byte2 w x] else None)
                     else (case b64_val s of
                             None \<Rightarrow> None
                           | Some y \<Rightarrow>
                               map_option (\<lambda>bs. b64_byte1 v w # b64_byte2 w x # b64_byte3 x y # bs)
                                 (b64_quanta t))))
      | _ \<Rightarrow> None)"
| "b64_quanta _ = None"

definition is_newline :: "char \<Rightarrow> bool" where
  "is_newline c \<longleftrightarrow> c = CHR 0x0A \<or> c = CHR 0x0D"

definition StdEncoding_DecodeString :: "string \<Rightarrow> bytes option" where
  "StdEncoding_DecodeString s = b64_quanta (filter (\<lambda>c. \<not> is_newline c) s)"

definition StdEncoding_DecodedLen :: "nat \<Rightarrow> nat" where
  "StdEncoding_DecodedLen n = n div 4 * 3"

subsection \<open>Round trip\<close>

lemma list_triple_induct [case_names Nil One Two Three]:
  fixes xs :: bytes
  assumes "P []" and "\<And>a. P [a]" and "\<And>a b. P [a, b]"
    and "\<And>a b c r. P r \<Longrightarrow> P (a # b # c # r)"
  shows "P xs"
  by (rule b64_encode.induct [of "\<lambda>_ _. P"]) (use assms in auto)

lemma b64_val_char [simp]:
  assumes "n < 64"
  shows "b64_val (b64_char CHR ''+'' CHR ''/'' n) = Some n"
  using assms by (auto simp: b64_val_def b64_char_def Let_def of_char_of)

lemma b64_val_not_special:
  "b64_val c \<noteq> None \<Longrightarrow> c \<noteq> CHR ''='' \<and> \<not> is_newline c"
  by (auto simp: b64_val_def is_newline_def)

lemma std_char_not_special [simp]:
  assumes "n < 64"
  shows "b64_char CHR ''+'' CHR ''/'' n \<noteq> CHR ''=''"
    and "\<not> is_newline (b64_char CHR ''+'' CHR ''/'' n)"
  using assms b64_val_not_special [of "b64_char CHR ''+'' CHR ''/'' n"] by simp_all

lemma sextet_sum: "d < 16 \<Longrightarrow> x mod 4 * 16 + d < (64::nat)"
proof -
  assume "d < 16"
  moreover have "x mod 4 \<le> 3" by simp
  then have "x mod 4 * 16 \<le> 48" by linarith
  ultimately show ?thesis by linarith
qed

lemma sextet_sum': "d < 4 \<Longrightarrow> y mod 16 * 4 + d < (64::nat)"
proof -
  assume "d < 4"
  moreover have "y mod 16 \<le> 15" by simp
  then have "y mod 16 * 4 \<le> 60" by linarith
  ultimately show ?thesis by linarith
qed

lemma byte_div:
  "of_char c div 4 < (64::nat)" "of_char c div 16 < (16::nat)" "of_char c div 64 < (4::nat)"
  using nat_of_char_less_256 [of c] by linarith+

lemmas b64_sextets = byte_div sextet_sum sextet_sum' sextet_sum [where d = 0, simplified]
  sextet_sum' [where d = 0, simplified]

lemma b64_bytes:
  "b64_byte1 (of_char a div 4) (of_char a mod 4 * 16 + of_char b div 16) = a"
  "b64_byte1 (of_char a div 4) (of_char a mod 4 * 16) = a"
  "b64_byte2 (m * 16 + of_char b div 16) (of_char b mod 16 * 4 + of_char c div 64) = b"
  "b64_byte2 (m * 16 + of_char b div 16) (of_char b mod 16 * 4) = b"
  "b64_byte3 (m * 4 + of_char c div 64) (of_char c mod 64) = c"
  by (simp_all add: b64_byte1_def b64_byte2_def b64_byte3_def byte_div)

lemmas encode_defs = StdEncoding_EncodeToString_def RawURLEncoding_EncodeToString_def Let_def

lemma b64_quanta_encode: "b64_quanta (StdEncoding_EncodeToString bs) = Some bs"
proof (induction bs rule: list_triple_induct)
  case (Three a b c r)
  then show ?case by (simp add: encode_defs b64_sextets b64_bytes)
qed (simp_all add: encode_defs b64_sextets b64_bytes)

lemma encode_no_newline: "\<forall>c \<in> set (StdEncoding_EncodeToString bs). \<not> is_newline c"
proof -
  have pad: "\<not> is_newline CHR ''=''" by (simp add: is_newline_def)
  then show ?thesis
    by (induction bs rule: list_triple_induct) (simp_all add: encode_defs b64_sextets)
qed

lemma decode_encode [go_std]:
  "StdEncoding_DecodeString (StdEncoding_EncodeToString bs) = Some bs"
  using encode_no_newline [of bs]
  by (simp add: StdEncoding_DecodeString_def b64_quanta_encode filter_True)

text \<open>The URL alphabet differs from the standard one in two letters, and the raw form leaves out the padding.\<close>

definition url_to_std :: "char \<Rightarrow> char" where
  "url_to_std c = (if c = CHR ''-'' then CHR ''+'' else if c = CHR ''_'' then CHR ''/'' else c)"

lemma url_to_std_char: "n < 64 \<Longrightarrow> url_to_std (b64_char CHR ''-'' CHR ''_'' n) = b64_char CHR ''+'' CHR ''/'' n"
proof -
  have "list_all (\<lambda>n. url_to_std (b64_char CHR ''-'' CHR ''_'' n) = b64_char CHR ''+'' CHR ''/'' n) [0..<64]" by code_simp
  then show "n < 64 \<Longrightarrow> ?thesis" by (simp add: list_all_iff del: upt_conv_Cons upt_rec_numeral)
qed

lemma std_of_rawurl:
  "StdEncoding_EncodeToString bs =
     map url_to_std (RawURLEncoding_EncodeToString bs) @ replicate ((3 - length bs mod 3) mod 3) CHR ''=''"
proof (induction bs rule: list_triple_induct)
  case (Three a b c r)
  then show ?case by (simp add: encode_defs b64_sextets url_to_std_char)
qed (simp_all add: encode_defs b64_sextets url_to_std_char numeral_2_eq_2)

lemma rawurl_inj:
  assumes "RawURLEncoding_EncodeToString a = RawURLEncoding_EncodeToString b" and "length a = length b"
  shows "a = b"
proof -
  have "StdEncoding_EncodeToString a = StdEncoding_EncodeToString b" using assms by (simp add: std_of_rawurl)
  then show ?thesis using decode_encode by (metis option.inject)
qed

lemma length_encode_std: "length (StdEncoding_EncodeToString bs) = (length bs + 2) div 3 * 4"
proof (induction bs rule: list_triple_induct)
  case (Three a b c r)
  have "(3 + n + 2) div 3 = 1 + (n + 2) div 3" for n :: nat by simp
  with Three show ?case by (simp add: encode_defs algebra_simps)
qed (simp_all add: encode_defs)

lemma length_encode_rawurl:
  "length (RawURLEncoding_EncodeToString bs) = (length bs * 8 + 5) div 6"
proof (induction bs rule: list_triple_induct)
  case (Three a b c r)
  have "(24 + n + 5) div 6 = 4 + (n + 5) div 6" for n :: nat by simp
  with Three show ?case by (simp add: encode_defs algebra_simps)
qed (simp_all add: encode_defs)

text \<open>
  \<^verbatim>\<open>DecodedLen\<close> of an encoding is the length rounded up to a multiple of three: it is the
  exact length only for a multiple of three.
\<close>

lemma decodedLen_encode:
  "StdEncoding_DecodedLen (length (StdEncoding_EncodeToString bs)) = (length bs + 2) div 3 * 3"
  by (simp add: StdEncoding_DecodedLen_def length_encode_std)

text \<open>Conversely, what a string decodes to is never longer than \<^verbatim>\<open>DecodedLen\<close> says.\<close>

lemma length_b64_quanta: "b64_quanta s = Some bs \<Longrightarrow> length bs \<le> length s div 4 * 3"
proof (induction s arbitrary: bs rule: b64_quanta.induct)
  case (2 p q r s t)
  have "length bs \<le> 3 \<or> (\<exists>bs'. b64_quanta t = Some bs' \<and> length bs = 3 + length bs')"
    using 2(2) by (auto split: option.splits if_splits)
  moreover have "length bs' \<le> length t div 4 * 3" if "b64_quanta t = Some bs'" for bs'
  proof -
    from 2(2) that obtain v w x y where "b64_val p = Some v" "b64_val q = Some w"
      "r = CHR ''='' \<or> s = CHR ''='' \<and> t = [] \<or>
       r \<noteq> CHR ''='' \<and> b64_val r = Some x \<and> s \<noteq> CHR ''='' \<and> b64_val s = Some y"
      by (auto split: option.splits if_splits)
    with 2 that show ?thesis by (auto split: if_splits)
  qed
  moreover have "length (p # q # r # s # t) div 4 * 3 = 3 + length t div 4 * 3"
    using div_add_self1 [of 4 "length t"] by simp
  ultimately show ?case by auto
qed auto

lemma length_decode_le:
  assumes "StdEncoding_DecodeString s = Some bs"
  shows "length bs \<le> StdEncoding_DecodedLen (length s)"
proof -
  from assms have "length bs \<le> length (filter (\<lambda>c. \<not> is_newline c) s) div 4 * 3"
    by (auto simp: StdEncoding_DecodeString_def intro: length_b64_quanta)
  also have "\<dots> \<le> length s div 4 * 3"
    by (simp add: div_le_mono length_filter_le)
  finally show ?thesis by (simp add: StdEncoding_DecodedLen_def)
qed

end
