(* ===== verification/GoSha256.thy ===== *)
theory GoSha256
  imports Prelude
begin

section \<open>SHA-256\<close>

text \<open>
  \<^verbatim>\<open>crypto/sha256\<close>, which the key store hashes keys with and the audit log takes
  fingerprints from: FIPS 180-4 over 32-bit words. The working state is an eight-tuple, so
  a digest has 32 bytes by construction.
\<close>

unbundle bit_operations_syntax

type_synonym word32 = "32 word"
type_synonym sha_state = "word32 \<times> word32 \<times> word32 \<times> word32 \<times> word32 \<times> word32 \<times> word32 \<times> word32"

definition sha_K :: "word32 list" where
  "sha_K =
     [1116352408, 1899447441, 3049323471, 3921009573, 961987163, 1508970993, 2453635748, 2870763221,
      3624381080, 310598401, 607225278, 1426881987, 1925078388, 2162078206, 2614888103, 3248222580,
      3835390401, 4022224774, 264347078, 604807628, 770255983, 1249150122, 1555081692, 1996064986,
      2554220882, 2821834349, 2952996808, 3210313671, 3336571891, 3584528711, 113926993, 338241895,
      666307205, 773529912, 1294757372, 1396182291, 1695183700, 1986661051, 2177026350, 2456956037,
      2730485921, 2820302411, 3259730800, 3345764771, 3516065817, 3600352804, 4094571909, 275423344,
      430227734, 506948616, 659060556, 883997877, 958139571, 1322822218, 1537002063, 1747873779,
      1955562222, 2024104815, 2227730452, 2361852424, 2428436474, 2756734187, 3204031479, 3329325298]"

definition sha_init :: sha_state where
  "sha_init = (1779033703, 3144134277, 1013904242, 2773480762, 1359893119, 2600822924, 528734635, 1541459225)"

definition ror32 :: "nat \<Rightarrow> word32 \<Rightarrow> word32" where
  "ror32 n w = drop_bit n w OR push_bit (32 - n) w"

definition word_bytes :: "word32 \<Rightarrow> bytes" where
  "word_bytes w = map (\<lambda>k. char_of (unat (drop_bit k w AND 0xff))) [24, 16, 8, 0]"

definition bytes_word :: "bytes \<Rightarrow> word32" where
  "bytes_word bs = foldl (\<lambda>acc c. push_bit 8 acc OR of_nat (of_char c)) 0 bs"

fun words_of :: "bytes \<Rightarrow> word32 list" where
  "words_of (a # b # c # d # rest) = bytes_word [a, b, c, d] # words_of rest"
| "words_of _ = []"

definition sha_pad :: "bytes \<Rightarrow> bytes" where
  "sha_pad m =
     (let zeros = (119 - length m mod 64) mod 64; bits = 8 * length m in
      m @ char_of (128 :: nat) # replicate zeros (char_of (0 :: nat)) @
        map (\<lambda>k. char_of ((bits div 256 ^ k) mod 256)) [7, 6, 5, 4, 3, 2, 1, 0])"

fun blocks_of :: "bytes \<Rightarrow> bytes list" where
  "blocks_of [] = []"
| "blocks_of (c # cs) = take 64 (c # cs) # blocks_of (drop 63 cs)"

text \<open>The message schedule, newest word first.\<close>

primrec sha_schedule :: "nat \<Rightarrow> word32 list \<Rightarrow> word32 list" where
  "sha_schedule 0 ws = ws"
| "sha_schedule (Suc n) ws =
     sha_schedule n
       (let w2 = ws ! 1; w7 = ws ! 6; w15 = ws ! 14; w16 = ws ! 15;
            s0 = ror32 7 w15 XOR ror32 18 w15 XOR drop_bit 3 w15;
            s1 = ror32 17 w2 XOR ror32 19 w2 XOR drop_bit 10 w2
        in (w16 + s0 + w7 + s1) # ws)"

fun sha_round :: "word32 \<times> word32 \<Rightarrow> sha_state \<Rightarrow> sha_state" where
  "sha_round (k, w) (a, b, c, d, e, f, g, h) =
     (let S1 = ror32 6 e XOR ror32 11 e XOR ror32 25 e;
          ch = (e AND f) XOR (NOT e AND g);
          t1 = h + S1 + ch + k + w;
          S0 = ror32 2 a XOR ror32 13 a XOR ror32 22 a;
          maj = (a AND b) XOR (a AND c) XOR (b AND c);
          t2 = S0 + maj
      in (t1 + t2, a, b, c, d + t1, e, f, g))"

fun sha_add :: "sha_state \<Rightarrow> sha_state \<Rightarrow> sha_state" where
  "sha_add (a, b, c, d, e, f, g, h) (a', b', c', d', e', f', g', h') =
     (a + a', b + b', c + c', d + d', e + e', f + f', g + g', h + h')"

definition sha_block :: "bytes \<Rightarrow> sha_state \<Rightarrow> sha_state" where
  "sha_block blk st =
     sha_add st (fold sha_round (zip sha_K (rev (sha_schedule 48 (rev (words_of blk))))) st)"

fun sha_bytes :: "sha_state \<Rightarrow> bytes" where
  "sha_bytes (a, b, c, d, e, f, g, h) = concat (map word_bytes [a, b, c, d, e, f, g, h])"

definition sha256 :: "bytes \<Rightarrow> bytes" where
  "sha256 m = sha_bytes (fold sha_block (blocks_of (sha_pad m)) sha_init)"

lemma length_word_bytes [simp]: "length (word_bytes w) = 4"
  by (simp add: word_bytes_def)

lemma length_sha_bytes [simp]: "length (sha_bytes st) = 32"
  by (cases st rule: sha_bytes.cases) simp

lemma length_sha256 [simp]: "length (sha256 m) = 32"
  by (simp add: sha256_def)

lemma pad_arith:
  fixes n :: nat
  shows "(n + (1 + ((119 - n mod 64) mod 64 + 8))) mod 64 = 0"
proof -
  have r: "n mod 64 < 64" by simp
  have "(n mod 64 + (1 + ((119 - n mod 64) mod 64 + 8))) mod 64 = 0"
  proof (cases "n mod 64 \<le> 55")
    case True
    then have "(119 - n mod 64) mod 64 = 55 - n mod 64"
      using mod_add_self2 [of "55 - n mod 64" 64] by simp
    then show ?thesis using True by simp
  next
    case False
    then show ?thesis using r by simp
  qed
  then show ?thesis by (metis mod_add_left_eq)
qed

lemma length_sha_pad: "length (sha_pad m) mod 64 = 0"
  using pad_arith [of "length m"] by (simp add: sha_pad_def Let_def ac_simps)

end
