(* ===== verification/OsFile.thy ===== *)
theory OsFile
  imports Prelude
begin

section \<open>Files on disk, with faults and history\<close>

text \<open>
  The file operations the key store and the certificate code make, on a map from paths to
  files. Two things the operating system decides are an argument of every operation, the
  environment \<open>osenv\<close>: which system calls fail, and which name \<^verbatim>\<open>os.CreateTemp\<close> picks. A
  failing write leaves a prefix of the data in the file.

  The disk keeps its history: every operation that changes a file appends the new map. A
  power cut or a crash of the process leaves one of these maps, and another process reads
  one of them, so what holds of every map in the history holds at every instant.
\<close>

record fileobj =
  fcontent :: bytes
  fperm :: filemode

type_synonym files = "string \<Rightarrow> fileobj option"

datatype syscall =
    SysStat | SysOpen | SysFlock | SysRead | SysCreateTemp | SysChmod | SysWrite | SysSync
  | SysClose | SysRename | SysRemove | SysMkdir | SysRand

record osenv =
  fails :: "syscall \<Rightarrow> bool"
  tmp_name :: string
  written_before_fail :: nat

record disk =
  files :: files
  hist :: "files list"

definition set_files :: "files \<Rightarrow> disk \<Rightarrow> disk" where
  "set_files f d = d\<lparr>files := f, hist := hist d @ [f]\<rparr>"

definition os_open_create :: "osenv \<Rightarrow> string \<Rightarrow> filemode \<Rightarrow> disk \<Rightarrow> disk option" where
  "os_open_create env p m d =
     (if fails env SysOpen then None
      else if files d p = None then Some (set_files ((files d)(p \<mapsto> \<lparr>fcontent = [], fperm = m\<rparr>)) d)
      else Some d)"

text \<open>
  \<^verbatim>\<open>os.CreateTemp\<close> opens with \<^verbatim>\<open>O_EXCL\<close> and mode 0600: it never reuses an existing file.
\<close>

definition os_create_temp :: "osenv \<Rightarrow> disk \<Rightarrow> disk option" where
  "os_create_temp env d =
     (if fails env SysCreateTemp \<or> files d (tmp_name env) \<noteq> None then None
      else Some (set_files ((files d)(tmp_name env \<mapsto> \<lparr>fcontent = [], fperm = 0x180\<rparr>)) d))"

definition os_chmod :: "osenv \<Rightarrow> string \<Rightarrow> filemode \<Rightarrow> disk \<Rightarrow> disk option" where
  "os_chmod env p m d =
     (if fails env SysChmod then None
      else case files d p of
             None \<Rightarrow> None
           | Some fl \<Rightarrow> Some (set_files ((files d)(p \<mapsto> fl\<lparr>fperm := m\<rparr>)) d))"

text \<open>The flag says whether the write returned no error.\<close>

definition os_write :: "osenv \<Rightarrow> string \<Rightarrow> bytes \<Rightarrow> disk \<Rightarrow> bool \<times> disk" where
  "os_write env p data d =
     (case files d p of
        None \<Rightarrow> (False, d)
      | Some fl \<Rightarrow>
          if fails env SysWrite then
            (False, set_files ((files d)(p \<mapsto>
               fl\<lparr>fcontent := fcontent fl @ take (written_before_fail env) data\<rparr>)) d)
          else (True, set_files ((files d)(p \<mapsto> fl\<lparr>fcontent := fcontent fl @ data\<rparr>)) d))"

definition os_rename :: "osenv \<Rightarrow> string \<Rightarrow> string \<Rightarrow> disk \<Rightarrow> disk option" where
  "os_rename env a b d =
     (if fails env SysRename then None
      else case files d a of
             None \<Rightarrow> None
           | Some fl \<Rightarrow> Some (set_files ((files d)(a := None, b \<mapsto> fl)) d))"

text \<open>\<^verbatim>\<open>_ = os.Remove(p)\<close>: its error is ignored.\<close>

definition os_remove :: "osenv \<Rightarrow> string \<Rightarrow> disk \<Rightarrow> disk" where
  "os_remove env p d =
     (if fails env SysRemove \<or> files d p = None then d
      else set_files ((files d)(p := None)) d)"

subsection \<open>Write to a temporary file, then rename\<close>

text \<open>
  The disk after a step is described by what happened to two paths, the temporary file and
  the target, and by the maps added to the history: \<open>always P d d'\<close> says that \<open>P\<close> holds of
  every map the disk went through from \<open>d\<close> to \<open>d'\<close>.
\<close>

definition added :: "disk \<Rightarrow> disk \<Rightarrow> files list" where
  "added d d' = drop (length (hist d)) (hist d')"

definition extends :: "disk \<Rightarrow> disk \<Rightarrow> bool" where
  "extends d d' \<longleftrightarrow> (\<exists>fs. hist d' = hist d @ fs)"

definition always :: "(files \<Rightarrow> bool) \<Rightarrow> disk \<Rightarrow> disk \<Rightarrow> bool" where
  "always P d d' \<longleftrightarrow> extends d d' \<and> (\<forall>f \<in> set (added d d'). P f) \<and> P (files d')"

lemma files_set_files [file_ops, simp]: "files (set_files f d) = f"
  by (simp add: set_files_def)

lemma hist_set_files [file_ops, simp]: "hist (set_files f d) = hist d @ [f]"
  by (simp add: set_files_def)

lemma extends_refl [simp]: "extends d d"
  by (simp add: extends_def)

lemma extends_trans: "extends a b \<Longrightarrow> extends b c \<Longrightarrow> extends a c"
  by (auto simp: extends_def)

lemma added_self [simp]: "added d d = []"
  by (simp add: added_def)

lemma added_trans: "extends a b \<Longrightarrow> extends b c \<Longrightarrow> added a c = added a b @ added b c"
  by (auto simp: extends_def added_def)

lemma added_set_files [simp]: "extends d d' \<Longrightarrow> added d (set_files f d') = added d d' @ [f]"
  by (auto simp: extends_def added_def)

lemma extends_set_files [simp]: "extends d d' \<Longrightarrow> extends d (set_files f d')"
  by (auto simp: extends_def)

lemma always_refl: "P (files d) \<Longrightarrow> always P d d"
  by (simp add: always_def)

lemma always_set_files: "always P d d' \<Longrightarrow> P f \<Longrightarrow> always P d (set_files f d')"
  by (simp add: always_def)

lemma always_files: "always P d d' \<Longrightarrow> P (files d')"
  by (simp add: always_def)

lemma always_mono: "always P d d' \<Longrightarrow> (\<And>f. P f \<Longrightarrow> Q f) \<Longrightarrow> always Q d d'"
  by (auto simp: always_def)

lemma always_trans: "always P a b \<Longrightarrow> always P b c \<Longrightarrow> always P a c"
  unfolding always_def using extends_trans [of a b c] added_trans [of a b c] by auto

lemmas os_defs = os_create_temp_def os_chmod_def os_write_def os_rename_def os_remove_def
  os_open_create_def

lemma always_remove:
  "always P d d' \<Longrightarrow> P ((files d')(p := None)) \<Longrightarrow> always P d (os_remove env p d')"
  by (auto simp: os_remove_def intro: always_set_files)

lemma files_remove_other [simp]: "q \<noteq> p \<Longrightarrow> files (os_remove env p d) q = files d q"
  by (simp add: os_remove_def)

subsection \<open>The contract of an atomic replacement\<close>

text \<open>
  What a client relies on when a file is replaced: at every instant the path has its old
  file or the complete new one with its mode, and the returned flag says which one is there
  at the end. A view of the disk that depends on this path only then has its old value or
  the value of the new file, at every instant.
\<close>

locale atomic_commit =
  fixes commit :: "osenv \<Rightarrow> string \<Rightarrow> bytes \<Rightarrow> disk \<Rightarrow> bool \<times> disk"
    and perm :: filemode
  assumes commit_instants: "commit env p data d = (ok, d') \<Longrightarrow> tmp_name env \<noteq> p \<Longrightarrow>
      always (\<lambda>f. f p = files d p \<or> f p = Some \<lparr>fcontent = data, fperm = perm\<rparr>) d d'"
    and commit_result: "commit env p data d = (ok, d') \<Longrightarrow> tmp_name env \<noteq> p \<Longrightarrow>
      files d' p = (if ok then Some \<lparr>fcontent = data, fperm = perm\<rparr> else files d p)"
    and commit_frame: "commit env p data d = (ok, d') \<Longrightarrow> q \<noteq> p \<Longrightarrow> q \<noteq> tmp_name env \<Longrightarrow>
      files d' q = files d q"
begin

lemma commit_view:
  assumes "commit env p data d = (ok, d')" "tmp_name env \<noteq> p"
    and local: "\<And>f g. f p = g p \<Longrightarrow> view f = view g"
  shows "always (\<lambda>f. view f = view (files d) \<or>
      view f = view ((files d)(p \<mapsto> \<lparr>fcontent = data, fperm = perm\<rparr>))) d d'"
proof (rule always_mono [OF commit_instants [OF assms(1,2)]])
  fix f assume "f p = files d p \<or> f p = Some \<lparr>fcontent = data, fperm = perm\<rparr>"
  then have "f p = files d p \<or> f p = ((files d)(p \<mapsto> \<lparr>fcontent = data, fperm = perm\<rparr>)) p" by simp
  then show "view f = view (files d) \<or> view f = view ((files d)(p \<mapsto> \<lparr>fcontent = data, fperm = perm\<rparr>))"
    using local by blast
qed

lemma commit_view_result:
  assumes "commit env p data d = (ok, d')" "tmp_name env \<noteq> p"
    and local: "\<And>f g. f p = g p \<Longrightarrow> view f = view g"
  shows "view (files d') =
      (if ok then view ((files d)(p \<mapsto> \<lparr>fcontent = data, fperm = perm\<rparr>)) else view (files d))"
proof -
  have "files d' p = (if ok then (files d)(p \<mapsto> \<lparr>fcontent = data, fperm = perm\<rparr>) else files d) p"
    using commit_result [OF assms(1,2)] by simp
  then have "view (files d') = view (if ok then (files d)(p \<mapsto> \<lparr>fcontent = data, fperm = perm\<rparr>) else files d)"
    by (rule local)
  then show ?thesis by (simp only: if_distrib [of view])
qed

end

end
