(* ===== verification/Keystore.thy ===== *)
theory Keystore
  imports GoStd GoBase64 GoSha256 OsFile
begin

section \<open>The key store (\<open>internal/keystore\<close>)\<close>

text \<open>
  Creation, listing, revocation and verification of API keys over the file
  \<^verbatim>\<open>keys.db\<close>. The store value is \<open>Store\<close>, with the path and the buffer of last-use
  times; the database is the file on the \<open>disk\<close> of the theory \<open>OsFile\<close>. Every operation
  takes the environment (which system calls fail, which temporary name is picked), the
  clock where it reads it, and the bytes \<^verbatim>\<open>crypto/rand\<close> delivers where it draws.

  \<^verbatim>\<open>encoding/json\<close> is a parameter \<open>json\<close>: a marshalling and an unmarshalling function
  for \<open>Database\<close>. What the store relies on is \<open>json_law\<close> below.

  An instant counts from Go's zero time, so \<open>0\<close> is the zero \<^verbatim>\<open>time.Time\<close>.
\<close>

subsection \<open>Records (record.go)\<close>

record Record =
  r_ID :: string
  r_Label :: string
  r_Created :: gotime
  r_LastUsed :: gotime
  r_RevokedAt :: gotime
  r_Revoked :: bool
  r_Fingerprint :: string
  r_hash :: bytes
  r_salt :: bytes

record dbRecord =
  d_ID :: string
  d_Label :: string
  d_Created :: gotime
  d_LastUsed :: gotime
  d_RevokedAt :: gotime
  d_Revoked :: bool
  d_Fingerprint :: string
  d_Hash :: bytes
  d_Salt :: bytes

definition toDBRecord :: "Record \<Rightarrow> dbRecord" where
  "toDBRecord r =
     \<lparr>d_ID = r_ID r, d_Label = r_Label r, d_Created = r_Created r, d_LastUsed = r_LastUsed r,
      d_RevokedAt = r_RevokedAt r, d_Revoked = r_Revoked r, d_Fingerprint = r_Fingerprint r,
      d_Hash = r_hash r, d_Salt = r_salt r\<rparr>"

definition fromDBRecord :: "dbRecord \<Rightarrow> Record" where
  "fromDBRecord d =
     \<lparr>r_ID = d_ID d, r_Label = d_Label d, r_Created = d_Created d, r_LastUsed = d_LastUsed d,
      r_RevokedAt = d_RevokedAt d, r_Revoked = d_Revoked d, r_Fingerprint = d_Fingerprint d,
      r_hash = d_Hash d, r_salt = d_Salt d\<rparr>"

definition emptyRecord :: Record where
  "emptyRecord =
     \<lparr>r_ID = [], r_Label = [], r_Created = 0, r_LastUsed = 0, r_RevokedAt = 0, r_Revoked = False,
      r_Fingerprint = [], r_hash = [], r_salt = []\<rparr>"

record Database =
  Version :: int
  Keys :: "dbRecord list"

type_synonym PlainKey = string

record json =
  Marshal :: "Database \<Rightarrow> bytes option"
  Unmarshal :: "bytes \<Rightarrow> Database option"

subsection \<open>Errors (errors.go)\<close>

text \<open>
  The sentinels, and the errors made with \<^verbatim>\<open>fmt.Errorf\<close>: \<open>ErrCorruptRead\<close> wraps
  \<^verbatim>\<open>ErrCorrupt\<close> around the text of a read error, \<open>ErrIO\<close> carries the message that the
  store puts before the operating system's.
\<close>

datatype ks_error =
    ErrNotFound | ErrAlreadyRevoked | ErrCorrupt | ErrCorruptRead | ErrLabelTooLong
  | ErrIO string

definition Is_ErrCorrupt :: "ks_error \<Rightarrow> bool" where
  "Is_ErrCorrupt e \<longleftrightarrow> e = ErrCorrupt \<or> e = ErrCorruptRead"

subsection \<open>Credentials (crypto.go)\<close>

text \<open>
  \<^verbatim>\<open>rand.Read\<close> takes its bytes from the front of what the source delivers. It never
  returns an error; when the source fails the process ends, which is \<open>None\<close> here.
\<close>

definition keyBodyBytes :: nat where "keyBodyBytes = 32"
definition saltBytes :: nat where "saltBytes = 16"
definition idBytes :: nat where "idBytes = 8"
definition keyPrefix :: string where "keyPrefix = ''rax_'' @ ''live_''"

definition rand_Read :: "nat \<Rightarrow> bytes \<Rightarrow> (bytes \<times> bytes) option" where
  "rand_Read n ent = (if length ent < n then None else Some (take n ent, drop n ent))"

definition generateBody :: "bytes \<Rightarrow> (string \<times> bytes) option" where
  "generateBody ent =
     (case rand_Read keyBodyBytes ent of
        None \<Rightarrow> None
      | Some (buf, rest) \<Rightarrow> Some (keyPrefix @ RawURLEncoding_EncodeToString buf, rest))"

definition generateSalt :: "bytes \<Rightarrow> (bytes \<times> bytes) option" where
  "generateSalt ent = rand_Read saltBytes ent"

function generateID :: "string set \<Rightarrow> bytes \<Rightarrow> (string \<times> bytes) option" where
  "generateID existing ent =
     (case rand_Read idBytes ent of
        None \<Rightarrow> None
      | Some (buf, rest) \<Rightarrow>
          let ident = EncodeToString_hex buf in
          if ident \<in> existing then generateID existing rest else Some (ident, rest))"
  by pat_completeness auto
termination
  by (relation "measure (length \<circ> snd)") (auto simp: rand_Read_def idBytes_def split: if_splits)

declare generateID.simps [simp del]

definition hashKey :: "string \<Rightarrow> bytes \<Rightarrow> bytes" where
  "hashKey presented salt = sha256 (presented @ salt)"

definition Fingerprint :: "string \<Rightarrow> string" where
  "Fingerprint presented = EncodeToString_hex (take 6 (sha256 presented))"

subsection \<open>Locks and the database file (lock.go, keystore.go)\<close>

datatype lockMode = lockShared | lockExclusive

definition ErrOpen :: ks_error where "ErrOpen = ErrIO ''cannot open key store''"
definition ErrLocked :: ks_error where "ErrLocked = ErrIO ''key store is locked by another process''"

text \<open>\<open>Inr False\<close> is the \<^verbatim>\<open>(nil, nil)\<close> of a shared lock on an absent file.\<close>

definition acquireLock :: "osenv \<Rightarrow> string \<Rightarrow> lockMode \<Rightarrow> disk \<Rightarrow> (ks_error + bool) \<times> disk" where
  "acquireLock env p mode d =
     (case mode of
        lockShared \<Rightarrow>
          if fails env SysOpen then (Inl ErrOpen, d)
          else if files d p = None then (Inr False, d)
          else if fails env SysFlock then (Inl ErrLocked, d)
          else (Inr True, d)
      | lockExclusive \<Rightarrow>
          (case os_open_create env p 0x180 d of
             None \<Rightarrow> (Inl ErrOpen, d)
           | Some d1 \<Rightarrow> if fails env SysFlock then (Inl ErrLocked, d1) else (Inr True, d1)))"

record Store =
  path :: string
  usageBuf :: "(string \<times> gotime) list"

definition dbVersion :: int where "dbVersion = 1"

definition emptyDB :: Database where
  "emptyDB = \<lparr>Version = dbVersion, Keys = []\<rparr>"

definition readDB :: "json \<Rightarrow> osenv \<Rightarrow> Store \<Rightarrow> disk \<Rightarrow> ks_error + Database" where
  "readDB js env s d =
     (case files d (path s) of
        None \<Rightarrow> if fails env SysRead then Inl ErrCorruptRead else Inr emptyDB
      | Some fl \<Rightarrow>
          if fails env SysRead then Inl ErrCorruptRead
          else if fcontent fl = [] then Inr emptyDB
          else (case Unmarshal js (fcontent fl) of
                  None \<Rightarrow> Inl ErrCorrupt
                | Some db \<Rightarrow> Inr db))"

text \<open>
  \<open>commit_file\<close> is the protocol from \<^verbatim>\<open>os.CreateTemp\<close> to \<^verbatim>\<open>os.Rename\<close>: each failing step
  removes the temporary file and returns its message. A failing \<^verbatim>\<open>Sync\<close> or \<^verbatim>\<open>Close\<close>
  changes no file; the directory \<^verbatim>\<open>fsync\<close> at the end is best effort and ignored.
\<close>

definition commit_file :: "osenv \<Rightarrow> string \<Rightarrow> bytes \<Rightarrow> disk \<Rightarrow> ks_error option \<times> disk" where
  "commit_file env p data d =
     (let tmp = tmp_name env in
      case os_create_temp env d of
        None \<Rightarrow> (Some (ErrIO ''cannot create temp file for key store''), d)
      | Some d1 \<Rightarrow>
      (case os_chmod env tmp 0x180 d1 of
        None \<Rightarrow> (Some (ErrIO ''cannot set temp file permissions''), os_remove env tmp d1)
      | Some d2 \<Rightarrow>
      (let (ok, d3) = os_write env tmp data d2 in
       if \<not> ok then (Some (ErrIO ''cannot write key store''), os_remove env tmp d3)
       else if fails env SysSync then (Some (ErrIO ''cannot sync key store''), os_remove env tmp d3)
       else if fails env SysClose then (Some (ErrIO ''cannot close temp key store''), os_remove env tmp d3)
       else (case os_rename env tmp p d3 of
               None \<Rightarrow> (Some (ErrIO ''cannot commit key store''), os_remove env tmp d3)
             | Some d4 \<Rightarrow> (None, d4)))))"

definition writeDB :: "json \<Rightarrow> osenv \<Rightarrow> Store \<Rightarrow> Database \<Rightarrow> disk \<Rightarrow> ks_error option \<times> disk" where
  "writeDB js env s db d =
     (case Marshal js db of
        None \<Rightarrow> (Some (ErrIO ''cannot serialise key store''), d)
      | Some data \<Rightarrow> commit_file env (path s) data d)"

subsection \<open>Operations (keystore.go)\<close>

definition Open :: "json \<Rightarrow> osenv \<Rightarrow> string \<Rightarrow> disk \<Rightarrow> ks_error + Store" where
  "Open js env p d =
     (let ok = Inr \<lparr>path = p, usageBuf = []\<rparr> in
      case files d p of
        None \<Rightarrow> ok
      | Some fl \<Rightarrow>
          if fails env SysStat \<or> fcontent fl = [] then ok
          else if fails env SysRead then Inl ErrCorruptRead
          else if Unmarshal js (fcontent fl) = None then Inl ErrCorrupt
          else ok)"

text \<open>\<open>Fatal\<close>: the process ended because the entropy source failed.\<close>

datatype 'a ks_result = Ret 'a | Raise ks_error | Fatal

definition newRecord :: "string \<Rightarrow> string \<Rightarrow> bytes \<Rightarrow> string \<Rightarrow> gotime \<Rightarrow> Record" where
  "newRecord label body salt ident now =
     emptyRecord\<lparr>r_ID := ident, r_Label := label, r_Created := now,
       r_Fingerprint := Fingerprint body, r_hash := hashKey body salt, r_salt := salt\<rparr>"

definition Create ::
  "json \<Rightarrow> osenv \<Rightarrow> gotime \<Rightarrow> bytes \<Rightarrow> Store \<Rightarrow> string \<Rightarrow> disk \<Rightarrow> (PlainKey \<times> Record) ks_result \<times> disk" where
  "Create js env now ent s label d =
     (if RuneCountInString label > 64 then (Raise ErrLabelTooLong, d)
      else case acquireLock env (path s) lockExclusive d of
        (Inl e, d1) \<Rightarrow> (Raise e, d1)
      | (Inr _, d1) \<Rightarrow>
      (case readDB js env s d1 of
        Inl e \<Rightarrow> (Raise e, d1)
      | Inr db \<Rightarrow>
      (let existing = set (map d_ID (Keys db)) in
       case generateBody ent of
         None \<Rightarrow> (Fatal, d1)
       | Some (body, ent1) \<Rightarrow>
       (case generateSalt ent1 of
         None \<Rightarrow> (Fatal, d1)
       | Some (salt, ent2) \<Rightarrow>
       (case generateID existing ent2 of
         None \<Rightarrow> (Fatal, d1)
       | Some (ident, _) \<Rightarrow>
       (let rec = newRecord label body salt ident now in
        case writeDB js env s (db\<lparr>Keys := Keys db @ [toDBRecord rec]\<rparr>) d1 of
          (Some e, d2) \<Rightarrow> (Raise e, d2)
        | (None, d2) \<Rightarrow> (Ret (body, rec), d2)))))))"

definition List :: "json \<Rightarrow> osenv \<Rightarrow> Store \<Rightarrow> disk \<Rightarrow> ks_error + Record list" where
  "List js env s d =
     (case fst (acquireLock env (path s) lockShared d) of
        Inl e \<Rightarrow> Inl e
      | Inr held \<Rightarrow>
          if \<not> held then Inr []
          else (case readDB js env s d of
                  Inl e \<Rightarrow> Inl e
                | Inr db \<Rightarrow> Inr (map fromDBRecord [k \<leftarrow> Keys db. \<not> d_Revoked k])))"

text \<open>The loop of \<^verbatim>\<open>Revoke\<close> over the keys, up to the first with the given id.\<close>

fun revokeLoop :: "string \<Rightarrow> gotime \<Rightarrow> dbRecord list \<Rightarrow> ks_error + dbRecord list" where
  "revokeLoop ident now [] = Inl ErrNotFound"
| "revokeLoop ident now (k # ks) =
     (if d_ID k = ident then
        if d_Revoked k then Inl ErrAlreadyRevoked
        else Inr (k\<lparr>d_Revoked := True, d_RevokedAt := now\<rparr> # ks)
      else case revokeLoop ident now ks of
             Inl e \<Rightarrow> Inl e
           | Inr ks' \<Rightarrow> Inr (k # ks'))"

definition Revoke ::
  "json \<Rightarrow> osenv \<Rightarrow> gotime \<Rightarrow> Store \<Rightarrow> string \<Rightarrow> disk \<Rightarrow> ks_error option \<times> disk" where
  "Revoke js env now s ident d =
     (case acquireLock env (path s) lockExclusive d of
        (Inl e, d1) \<Rightarrow> (Some e, d1)
      | (Inr _, d1) \<Rightarrow>
      (case readDB js env s d1 of
        Inl e \<Rightarrow> (Some e, d1)
      | Inr db \<Rightarrow>
      (case revokeLoop ident now (Keys db) of
        Inl e \<Rightarrow> (Some e, d1)
      | Inr keys \<Rightarrow> writeDB js env s (db\<lparr>Keys := keys\<rparr>) d1)))"

text \<open>
  The scan of \<^verbatim>\<open>Verify\<close>: every active record is compared, and a later match replaces an
  earlier one. \<^verbatim>\<open>subtle.ConstantTimeCompare\<close> is 1 exactly on equal contents.
\<close>

definition verifyScan :: "string \<Rightarrow> dbRecord list \<Rightarrow> Record option" where
  "verifyScan presented keys =
     foldl (\<lambda>matched d.
        if d_Revoked d then matched
        else if hashKey presented (d_Salt d) = d_Hash d then Some (fromDBRecord d)
        else matched) None keys"

definition Verify ::
  "json \<Rightarrow> osenv \<Rightarrow> gotime \<Rightarrow> Store \<Rightarrow> string \<Rightarrow> disk \<Rightarrow> (ks_error + Record option) \<times> Store" where
  "Verify js env now s presented d =
     (case fst (acquireLock env (path s) lockShared d) of
        Inl e \<Rightarrow> (Inl e, s)
      | Inr held \<Rightarrow>
          if \<not> held then (Inr None, s)
          else (case readDB js env s d of
                  Inl e \<Rightarrow> (Inl e, s)
                | Inr db \<Rightarrow>
                    (case verifyScan presented (Keys db) of
                       None \<Rightarrow> (Inr None, s)
                     | Some r \<Rightarrow>
                         (Inr (Some (r\<lparr>r_LastUsed := now\<rparr>)),
                          s\<lparr>usageBuf := AList.update (r_ID r) now (usageBuf s)\<rparr>))))"

text \<open>
  \<^verbatim>\<open>FlushUsage\<close> takes the buffer under the mutex, releases it, works on the file, and on a
  lock or read error puts back the entries that no later \<^verbatim>\<open>Verify\<close> has written. The two
  halves are separate definitions because verifications may come in between:
  \<open>flushTake\<close> is the first critical section and \<open>flushCommit\<close> everything after it.
\<close>

definition flushTake :: "Store \<Rightarrow> (string \<times> gotime) list \<times> Store" where
  "flushTake s = (usageBuf s, s\<lparr>usageBuf := []\<rparr>)"

definition restoreUsage :: "(string \<times> gotime) list \<Rightarrow> Store \<Rightarrow> Store" where
  "restoreUsage snapshot s =
     s\<lparr>usageBuf := foldl (\<lambda>buf (ident, t). if map_of buf ident = None then AList.update ident t buf else buf)
                    (usageBuf s) snapshot\<rparr>"

definition applyUsage :: "(string \<times> gotime) list \<Rightarrow> dbRecord \<Rightarrow> dbRecord" where
  "applyUsage snapshot k =
     (case map_of snapshot (d_ID k) of
        None \<Rightarrow> k
      | Some t \<Rightarrow> if d_Revoked k then k else k\<lparr>d_LastUsed := t\<rparr>)"

definition flushCommit ::
  "json \<Rightarrow> osenv \<Rightarrow> (string \<times> gotime) list \<Rightarrow> Store \<Rightarrow> disk \<Rightarrow> ks_error option \<times> Store \<times> disk" where
  "flushCommit js env snapshot s d =
     (case acquireLock env (path s) lockExclusive d of
        (Inl e, d1) \<Rightarrow> (Some e, restoreUsage snapshot s, d1)
      | (Inr _, d1) \<Rightarrow>
      (case readDB js env s d1 of
        Inl e \<Rightarrow> (Some e, restoreUsage snapshot s, d1)
      | Inr db \<Rightarrow>
      (let (err, d2) = writeDB js env s (db\<lparr>Keys := map (applyUsage snapshot) (Keys db)\<rparr>) d1
       in (err, s, d2))))"

definition FlushUsage :: "json \<Rightarrow> osenv \<Rightarrow> Store \<Rightarrow> disk \<Rightarrow> ks_error option \<times> Store \<times> disk" where
  "FlushUsage js env s d =
     (if usageBuf s = [] then (None, s, d)
      else let (snapshot, s1) = flushTake s in flushCommit js env snapshot s1 d)"

end
