(* ===== verification/KeystoreProofs.thy ===== *)
theory KeystoreProofs
  imports Keystore
begin

section \<open>The key store is correct\<close>

text \<open>
  The database at an instant is \<open>db_at\<close>, a function of the file map. The lemmas go from the
  bottom up: credentials, the atomic commit, the effect of each operation on \<open>db_at\<close> at
  every instant of its run, and then runs of operations by any number of processes, crashes
  included (\<open>ks_step\<close>), under which records are never lost and a revocation is final.
\<close>

definition db_at :: "json \<Rightarrow> string \<Rightarrow> files \<Rightarrow> Database option" where
  "db_at js p f =
     (case f p of
        None \<Rightarrow> Some emptyDB
      | Some fl \<Rightarrow> if fcontent fl = [] then Some emptyDB else Unmarshal js (fcontent fl))"

definition hexstr :: "string \<Rightarrow> bool" where
  "hexstr s \<longleftrightarrow> list_all (\<lambda>c. c \<in> set ''0123456789abcdef'') s"

definition clean_db :: "Database \<Rightarrow> bool" where
  "clean_db db \<longleftrightarrow> is_int64 (Version db) \<and>
     list_all (\<lambda>k. hexstr (d_ID k) \<and> hexstr (d_Fingerprint k)) (Keys db)"

definition eq_mod_labels :: "Database \<Rightarrow> Database \<Rightarrow> bool" where
  "eq_mod_labels a b \<longleftrightarrow> Version a = Version b \<and>
     map (d_Label_update (\<lambda>_. [])) (Keys a) = map (d_Label_update (\<lambda>_. [])) (Keys b)"

text \<open>
  What is relied on of \<^verbatim>\<open>encoding/json\<close>: the text of a database is not empty, and it parses
  back to the same database. Labels are exempt, because a string that is not valid UTF-8 is
  marshalled with replacement characters; identifiers and fingerprints are hexadecimal.
\<close>

definition json_law :: "json \<Rightarrow> bool" where
  "json_law js \<longleftrightarrow>
     (\<forall>db data. clean_db db \<longrightarrow> Marshal js db = Some data \<longrightarrow>
        data \<noteq> [] \<and> (\<exists>db'. Unmarshal js data = Some db' \<and> eq_mod_labels db db'))"

definition wf_db :: "Database \<Rightarrow> bool" where
  "wf_db db \<longleftrightarrow> clean_db db \<and> distinct (map d_ID (Keys db))"

text \<open>Every record survives with its credentials, and a revoked one stays revoked.\<close>

definition grows :: "Database \<Rightarrow> Database \<Rightarrow> bool" where
  "grows a b \<longleftrightarrow>
     (\<forall>k \<in> set (Keys a). \<exists>k' \<in> set (Keys b).
        d_ID k' = d_ID k \<and> d_Hash k' = d_Hash k \<and> d_Salt k' = d_Salt k \<and>
        (d_Revoked k \<longrightarrow> d_Revoked k'))"

subsection \<open>Credentials\<close>

lemma hexstr_Cons [simp]: "hexstr (c # s) \<longleftrightarrow> c \<in> set ''0123456789abcdef'' \<and> hexstr s"
  by (simp add: hexstr_def)

lemma hexstr_Nil [simp]: "hexstr []"
  by (simp add: hexstr_def)

lemma hex_digit_hex: "n < 16 \<Longrightarrow> hex_digit n \<in> set ''0123456789abcdef''"
proof -
  assume "n < 16"
  then have "n \<in> set [0..<16]" by simp
  moreover have "list_all (\<lambda>n. hex_digit n \<in> set ''0123456789abcdef'') [0..<16]" by code_simp
  ultimately show ?thesis by (simp only: list_all_iff)
qed

lemma hexstr_EncodeToString_hex [simp]: "hexstr (EncodeToString_hex bs)"
proof (induction bs)
  case (Cons b bs)
  have "of_char b < (256 :: nat)" by (rule nat_of_char_less_256)
  then have "of_char b div 16 < (16 :: nat)" "of_char b mod 16 < (16 :: nat)"
    using less_mult_imp_div_less [of "of_char b" 16 "16 :: nat"] by simp_all
  then show ?case using Cons hex_digit_hex by simp
qed simp

lemma length_hashKey [simp]: "length (hashKey x salt) = 32"
  by (simp add: hashKey_def)

lemma rand_Read_Some: "rand_Read n ent = Some (buf, rest) \<longleftrightarrow> n \<le> length ent \<and> buf = take n ent \<and> rest = drop n ent"
  by (auto simp: rand_Read_def)

lemma generateID_Some:
  "generateID ex ent = Some (ident, rest) \<Longrightarrow>
   ident \<notin> ex \<and> hexstr ident \<and> length ident = 16"
proof (induction ex ent rule: generateID.induct)
  case (1 ex ent)
  show ?case
  proof (cases "rand_Read idBytes ent")
    case None
    then show ?thesis using 1(2) by (simp add: generateID.simps [of ex ent])
  next
    case (Some br)
    then obtain buf rst where br: "rand_Read idBytes ent = Some (buf, rst)" by (cases br) simp
    have step: "generateID ex ent =
        (if EncodeToString_hex buf \<in> ex then generateID ex rst else Some (EncodeToString_hex buf, rst))"
      by (simp add: generateID.simps [of ex ent] br Let_def)
    have "length buf = 8" using br by (auto simp: rand_Read_Some idBytes_def)
    then show ?thesis
      using 1(1) [OF br refl refl] 1(2) by (auto simp: step split: if_splits)
  qed
qed

lemma eq_mod_labels_refl [simp]: "eq_mod_labels a a"
  by (simp add: eq_mod_labels_def)

lemma eq_mod_labels_map:
  assumes "eq_mod_labels a b" and "\<And>k. g (k\<lparr>d_Label := []\<rparr>) = g k"
  shows "map g (Keys a) = map g (Keys b)"
proof -
  have "map g (map (d_Label_update (\<lambda>_. [])) (Keys a)) = map g (map (d_Label_update (\<lambda>_. [])) (Keys b))"
    using assms(1) by (simp only: eq_mod_labels_def)
  then show ?thesis using assms(2) by (simp add: comp_def)
qed

lemma eq_mod_labels_wf: "eq_mod_labels a b \<Longrightarrow> wf_db a \<Longrightarrow> wf_db b"
proof -
  assume e: "eq_mod_labels a b" and w: "wf_db a"
  have "map (\<lambda>k. (d_ID k, d_Fingerprint k)) (Keys a) = map (\<lambda>k. (d_ID k, d_Fingerprint k)) (Keys b)"
    by (rule eq_mod_labels_map [OF e]) simp
  moreover have "map d_ID (Keys a) = map d_ID (Keys b)"
    by (rule eq_mod_labels_map [OF e]) simp
  moreover have "Version a = Version b" using e by (simp add: eq_mod_labels_def)
  moreover have "clean_db db \<longleftrightarrow> is_int64 (Version db) \<and>
      list_all (\<lambda>(i, f). hexstr i \<and> hexstr f) (map (\<lambda>k. (d_ID k, d_Fingerprint k)) (Keys db))" for db
    by (simp add: clean_db_def list.pred_map comp_def)
  ultimately show ?thesis using w by (simp only: wf_db_def)
qed

definition core :: "dbRecord \<Rightarrow> string \<times> bytes \<times> bytes \<times> bool" where
  "core k = (d_ID k, d_Hash k, d_Salt k, d_Revoked k)"

lemma eq_mod_labels_core: "eq_mod_labels a b \<Longrightarrow> map core (Keys a) = map core (Keys b)"
  by (erule eq_mod_labels_map) (simp add: core_def)

lemma grows_core:
  "grows a b \<longleftrightarrow>
     (\<forall>(i, h, s, r) \<in> set (map core (Keys a)). \<exists>(i', h', s', r') \<in> set (map core (Keys b)).
        i' = i \<and> h' = h \<and> s' = s \<and> (r \<longrightarrow> r'))"
  by (auto simp: grows_def core_def)

lemma eq_mod_labels_grows: "grows a b \<Longrightarrow> eq_mod_labels b c \<Longrightarrow> grows a c"
  using eq_mod_labels_core [of b c] by (simp only: grows_core)

lemma grows_refl [simp]: "grows a a"
  by (auto simp: grows_def)

lemma grows_trans: "grows a b \<Longrightarrow> grows b c \<Longrightarrow> grows a c"
  unfolding grows_def by metis

subsection \<open>The atomic commit\<close>

text \<open>
  The three facts about \<open>commit_file\<close>: at every instant the target has its old contents or
  the complete new ones with mode 0600; the result says which; and no other path changes,
  except that a temporary file may stay when its removal fails.
\<close>

abbreviation new_file :: "bytes \<Rightarrow> fileobj" where
  "new_file data \<equiv> \<lparr>fcontent = data, fperm = 0x180\<rparr>"

definition commit_state :: "files \<Rightarrow> string \<Rightarrow> string \<Rightarrow> bytes \<Rightarrow> files \<Rightarrow> bool" where
  "commit_state F tmp p data f \<longleftrightarrow>
     f = F \<or> F tmp = None \<and>
       ((\<exists>w. f = F(tmp \<mapsto> new_file w)) \<or> f = F(tmp := None, p \<mapsto> new_file data))"

lemma commit_stateI:
  "commit_state F tmp p data F"
  "F tmp = None \<Longrightarrow> commit_state F tmp p data (F(tmp \<mapsto> new_file w))"
  "F tmp = None \<Longrightarrow> commit_state F tmp p data (F(tmp := None, p \<mapsto> new_file data))"
  "F tmp = None \<Longrightarrow> commit_state F tmp p data (F(tmp := None))"
  by (auto simp: commit_state_def)

lemma commit_file_states:
  assumes c: "commit_file env p data d = (r, d')"
  shows "always (commit_state (files d) (tmp_name env) p data) d d'"
proof (cases "os_create_temp env d")
  case None
  then show ?thesis using c by (simp add: commit_file_def Let_def always_refl commit_stateI)
next
  case (Some d1)
  let ?P = "commit_state (files d) (tmp_name env) p data"
  have fresh: "files d (tmp_name env) = None"
    and d1: "d1 = set_files ((files d)(tmp_name env \<mapsto> new_file [])) d"
    using Some by (auto simp: os_create_temp_def split: if_splits)
  have a1: "always ?P d d1" unfolding d1
    by (intro always_set_files always_refl commit_stateI fresh)
  have a2: "always ?P d d2" and f2: "files d2 = (files d)(tmp_name env \<mapsto> new_file [])"
    if "os_chmod env (tmp_name env) 0x180 d1 = Some d2" for d2
    using that a1 by (auto simp: os_chmod_def d1 split: if_splits intro!: always_set_files commit_stateI fresh)
  have a3: "always ?P d d3 \<and> (\<exists>w. files d3 = (files d)(tmp_name env \<mapsto> new_file w) \<and> (ok \<longrightarrow> w = data))"
    if "os_chmod env (tmp_name env) 0x180 d1 = Some d2" "os_write env (tmp_name env) data d2 = (ok, d3)"
    for d2 ok d3
    using that(2) a2 [OF that(1)] f2 [OF that(1)]
    by (auto simp: os_write_def split: if_splits intro!: always_set_files commit_stateI fresh)
  have rem: "always ?P d (os_remove env (tmp_name env) dx)"
    if "always ?P d dx" "files dx = (files d)(tmp_name env \<mapsto> new_file w)" for dx w
    using that fresh commit_stateI(1) [of "files d" "tmp_name env" p data]
    by (auto simp: fun_upd_idem intro!: always_remove)
  have ren: "always ?P d d4"
    if "always ?P d dx" "files dx = (files d)(tmp_name env \<mapsto> new_file data)"
       "os_rename env (tmp_name env) p dx = Some d4" for dx d4
    using that by (auto simp: os_rename_def split: if_splits intro!: always_set_files commit_stateI fresh)
  have f1: "files d1 = (files d)(tmp_name env \<mapsto> new_file [])" by (simp add: d1)
  show ?thesis
  proof (cases "os_chmod env (tmp_name env) 0x180 d1")
    case None
    then show ?thesis using c Some rem [OF a1 f1] by (auto simp: commit_file_def Let_def)
  next
    case chm: (Some d2)
    obtain ok d3 where w: "os_write env (tmp_name env) data d2 = (ok, d3)" by (cases "os_write env (tmp_name env) data d2")
    obtain x where x: "always ?P d d3" "files d3 = (files d)(tmp_name env \<mapsto> new_file x)" "ok \<longrightarrow> x = data"
      using a3 [OF chm w] by blast
    show ?thesis
      using c Some chm w rem [OF x(1,2)] ren [OF x(1)] x(2,3)
      by (auto simp: commit_file_def Let_def split: option.splits if_splits)
  qed
qed

lemma commit_file_instants:
  assumes "commit_file env p data d = (r, d')" and "tmp_name env \<noteq> p"
  shows "always (\<lambda>f. (f p = files d p \<or> f p = Some (new_file data)) \<and>
            (\<forall>q. q \<noteq> p \<longrightarrow> q \<noteq> tmp_name env \<longrightarrow> f q = files d q) \<and>
            (\<forall>fl. f (tmp_name env) = Some fl \<longrightarrow> fperm fl = 0x180 \<or> f = files d)) d d'"
  using commit_file_states [OF assms(1)] assms(2)
  by (elim always_mono) (auto simp: commit_state_def)

lemma commit_file_result:
  assumes "commit_file env p data d = (r, d')" and "tmp_name env \<noteq> p"
  shows "files d' p = (if r = None then Some (new_file data) else files d p)"
    and "\<not> fails env SysRemove \<Longrightarrow> r \<noteq> None \<Longrightarrow> files d' = files d"
    and "r = None \<Longrightarrow> files d' = (files d)(p \<mapsto> new_file data)"
  using assms
  by (auto simp: commit_file_def os_defs Let_def fun_eq_iff
      split: option.splits if_splits prod.splits)

subsection \<open>Reading and writing the database\<close>

lemma readDB_db_at:
  "readDB js env s d = Inr db \<longleftrightarrow> \<not> fails env SysRead \<and> db_at js (path s) (files d) = Some db"
  by (auto simp: readDB_def db_at_def split: option.splits if_splits)

lemma readDB_ok:
  "\<not> fails env SysRead \<Longrightarrow> readDB js env s d =
     (case db_at js (path s) (files d) of None \<Rightarrow> Inl ErrCorrupt | Some db \<Rightarrow> Inr db)"
  by (auto simp: readDB_def db_at_def split: option.splits if_splits)

lemma db_at_new_file: "data \<noteq> [] \<Longrightarrow> f p = Some (new_file data) \<Longrightarrow> db_at js p f = Unmarshal js data"
  by (simp add: db_at_def)

lemma db_at_cong: "f p = g p \<Longrightarrow> db_at js p f = db_at js p g"
  by (simp add: db_at_def)

lemma acquireLock_db:
  assumes "acquireLock env p mode d = (r, d1)"
  shows "always (\<lambda>f. db_at js p f = db_at js p (files d) \<and> (\<forall>q. q \<noteq> p \<longrightarrow> f q = files d q)) d d1"
    and "r = Inr b \<Longrightarrow> mode = lockExclusive \<Longrightarrow> files d1 p \<noteq> None"
  using assms
  by (auto simp: acquireLock_def os_open_create_def db_at_def
      split: lockMode.splits option.splits if_splits intro!: always_refl always_set_files)

lemma acquireLock_db_at: "acquireLock env p mode d = (r, d1) \<Longrightarrow> db_at js p (files d1) = db_at js p (files d)"
  using always_files [OF acquireLock_db(1)] by blast

definition commit_ok :: "osenv \<Rightarrow> string \<Rightarrow> bytes \<Rightarrow> disk \<Rightarrow> bool \<times> disk" where
  "commit_ok env p data d = (fst (commit_file env p data d) = None, snd (commit_file env p data d))"

interpretation db_file: atomic_commit commit_ok "0x180"
proof
  fix env p data d ok d' q assume "commit_ok env p data d = (ok, d')"
  then obtain r where c: "commit_file env p data d = (r, d')" and ok: "ok = (r = None)"
    by (cases "commit_file env p data d") (simp add: commit_ok_def)
  show "tmp_name env \<noteq> p \<Longrightarrow> always (\<lambda>f. f p = files d p \<or> f p = Some (new_file data)) d d'"
    by (rule always_mono [OF commit_file_instants [OF c]]) simp_all
  show "tmp_name env \<noteq> p \<Longrightarrow> files d' p = (if ok then Some (new_file data) else files d p)"
    using commit_file_result(1) [OF c] ok by simp
  show "q \<noteq> p \<Longrightarrow> q \<noteq> tmp_name env \<Longrightarrow> files d' q = files d q"
    using always_files [OF commit_file_states [OF c]] by (auto simp: commit_state_def)
qed

lemma writeDB_states:
  assumes "json_law js" "clean_db db" "tmp_name env \<noteq> path s" "writeDB js env s db d = (r, d')"
  shows "always (\<lambda>f. db_at js (path s) f = db_at js (path s) (files d) \<or>
            (\<exists>db'. db_at js (path s) f = Some db' \<and> eq_mod_labels db db')) d d'"
proof (cases "Marshal js db")
  case None
  then show ?thesis using assms(4) by (auto simp: writeDB_def intro: always_refl)
next
  case (Some data)
  then obtain db' where law: "data \<noteq> []" "Unmarshal js data = Some db'" "eq_mod_labels db db'"
    using assms(1,2) unfolding json_law_def by blast
  have c: "commit_file env (path s) data d = (r, d')" using assms(4) Some by (simp add: writeDB_def)
  have "commit_ok env (path s) data d = (r = None, d')" by (simp add: commit_ok_def c)
  then show ?thesis
    by (rule always_mono [OF db_file.commit_view [where view = "db_at js (path s)", OF _ assms(3) db_at_cong]])
      (use law db_at_new_file [OF law(1), of _ "path s" js] in auto)
qed

lemma writeDB_result:
  assumes "json_law js" "clean_db db" "tmp_name env \<noteq> path s" "writeDB js env s db d = (r, d')"
  shows "r = None \<Longrightarrow> \<exists>db'. db_at js (path s) (files d') = Some db' \<and> eq_mod_labels db db'"
    and "r \<noteq> None \<Longrightarrow> db_at js (path s) (files d') = db_at js (path s) (files d)"
proof -
  have "\<exists>db'. db_at js (path s) (files d') = Some db' \<and> eq_mod_labels db db'" if r: "r = None"
  proof -
    obtain data where m: "Marshal js db = Some data" "commit_file env (path s) data d = (r, d')"
      using assms(4) r by (auto simp: writeDB_def split: option.splits)
    obtain db' where law: "data \<noteq> []" "Unmarshal js data = Some db'" "eq_mod_labels db db'"
      using assms(1,2) m(1) unfolding json_law_def by blast
    have "files d' (path s) = Some (new_file data)" using commit_file_result(1) [OF m(2) assms(3)] r by simp
    then show ?thesis using law by (auto simp: db_at_def)
  qed
  then show "r = None \<Longrightarrow> \<exists>db'. db_at js (path s) (files d') = Some db' \<and> eq_mod_labels db db'" .
  show "r \<noteq> None \<Longrightarrow> db_at js (path s) (files d') = db_at js (path s) (files d)"
    using assms(3,4) commit_file_result(1)
    by (auto simp: writeDB_def db_at_def split: option.splits)
qed

subsection \<open>The databases the operations write\<close>

lemma revokeLoop_Inr:
  "revokeLoop ident now ks = Inr ks' \<Longrightarrow>
   \<exists>pre k post. ks = pre @ k # post \<and> ident \<notin> d_ID ` set pre \<and> d_ID k = ident \<and> \<not> d_Revoked k \<and>
     ks' = pre @ k\<lparr>d_Revoked := True, d_RevokedAt := now\<rparr> # post"
proof (induction ks arbitrary: ks')
  case (Cons k ks)
  show ?case
  proof (cases "d_ID k = ident")
    case True
    then show ?thesis using Cons.prems by (intro exI [of _ "[]"]) (auto split: if_splits)
  next
    case False
    then obtain ks1 where ks1: "revokeLoop ident now ks = Inr ks1" "ks' = k # ks1"
      using Cons.prems by (auto split: sum.splits)
    then obtain pre x post where "ks = pre @ x # post" "ident \<notin> d_ID ` set pre" "d_ID x = ident"
      "\<not> d_Revoked x" "ks1 = pre @ x\<lparr>d_Revoked := True, d_RevokedAt := now\<rparr> # post"
      using Cons.IH by blast
    then show ?thesis using ks1 False by (intro exI [of _ "k # pre"] exI [of _ x] exI [of _ post]) auto
  qed
qed simp

lemma revokeLoop_Inl:
  "distinct (map d_ID ks) \<Longrightarrow> revokeLoop ident now ks = Inl e \<longleftrightarrow>
     (if ident \<notin> d_ID ` set ks then e = ErrNotFound
      else e = ErrAlreadyRevoked \<and> (\<exists>k \<in> set ks. d_ID k = ident \<and> d_Revoked k))"
  by (induction ks) (auto split: sum.splits if_splits simp: image_iff)

lemma append_key_wf:
  "wf_db db \<Longrightarrow> d_ID k \<notin> set (map d_ID (Keys db)) \<Longrightarrow> hexstr (d_ID k) \<Longrightarrow> hexstr (d_Fingerprint k) \<Longrightarrow>
   wf_db (db\<lparr>Keys := Keys db @ [k]\<rparr>) \<and> grows db (db\<lparr>Keys := Keys db @ [k]\<rparr>)"
  by (auto simp: wf_db_def clean_db_def grows_def list_all_iff)

lemma revokeLoop_wf:
  assumes "revokeLoop ident now (Keys db) = Inr ks'" "wf_db db"
  shows "wf_db (db\<lparr>Keys := ks'\<rparr>) \<and> grows db (db\<lparr>Keys := ks'\<rparr>)"
  using revokeLoop_Inr [OF assms(1)] assms(2)
  by (auto simp: wf_db_def clean_db_def grows_def list_all_iff)

lemma applyUsage_simps [simp]:
  "d_ID (applyUsage m k) = d_ID k" "d_Hash (applyUsage m k) = d_Hash k" "d_Salt (applyUsage m k) = d_Salt k"
  "d_Revoked (applyUsage m k) = d_Revoked k" "d_Fingerprint (applyUsage m k) = d_Fingerprint k"
  "d_Label (applyUsage m k) = d_Label k" "d_Created (applyUsage m k) = d_Created k"
  "d_RevokedAt (applyUsage m k) = d_RevokedAt k"
  by (auto simp: applyUsage_def split: option.splits)

lemma applyUsage_wf:
  "wf_db db \<Longrightarrow> wf_db (db\<lparr>Keys := map (applyUsage m) (Keys db)\<rparr>) \<and>
     grows db (db\<lparr>Keys := map (applyUsage m) (Keys db)\<rparr>)"
  by (auto simp: wf_db_def clean_db_def grows_def list_all_iff comp_def)

subsection \<open>Every operation, at every instant\<close>

definition holds :: "json \<Rightarrow> string \<Rightarrow> Database \<Rightarrow> files \<Rightarrow> bool" where
  "holds js p db f \<longleftrightarrow> (\<exists>db'. db_at js p f = Some db' \<and> wf_db db' \<and> grows db db')"

lemma holds_self: "db_at js p f = Some db \<Longrightarrow> wf_db db \<Longrightarrow> holds js p db f"
  by (auto simp: holds_def)

lemma holds_lock:
  assumes "acquireLock env p mode d = (r, d1)" "db_at js p (files d) = Some db" "wf_db db"
  shows "always (holds js p db) d d1"
  by (rule always_mono [OF acquireLock_db(1) [OF assms(1), where js = js]])
    (use assms(2,3) in \<open>auto simp: holds_def\<close>)

lemma holds_write:
  assumes "json_law js" "tmp_name env \<noteq> path s"
    and l: "acquireLock env (path s) lockExclusive d = (Inr b, d1)"
    and r: "readDB js env s d1 = Inr db"
    and w: "writeDB js env s db' d1 = (e, d')"
    and ok: "wf_db db' \<and> grows db db'" and wf: "wf_db db"
  shows "always (holds js (path s) db) d d'"
proof -
  have at: "db_at js (path s) (files d) = Some db" "db_at js (path s) (files d1) = Some db"
    using r acquireLock_db_at [OF l] by (auto simp: readDB_db_at)
  have "clean_db db'" using ok by (simp add: wf_db_def)
  have "always (holds js (path s) db) d1 d'"
    by (rule always_mono [OF writeDB_states [OF assms(1) \<open>clean_db db'\<close> assms(2) w]])
      (use at wf ok eq_mod_labels_wf eq_mod_labels_grows in \<open>auto simp: holds_def\<close>)
  then show ?thesis using always_trans holds_lock [OF l at(1) wf] by blast
qed

lemma toDBRecord_newRecord [simp]:
  "d_ID (toDBRecord (newRecord label body salt ident now)) = ident"
  "d_Fingerprint (toDBRecord (newRecord label body salt ident now)) = Fingerprint body"
  "d_Hash (toDBRecord (newRecord label body salt ident now)) = hashKey body salt"
  "d_Salt (toDBRecord (newRecord label body salt ident now)) = salt"
  "d_Revoked (toDBRecord (newRecord label body salt ident now)) = False"
  "d_Label (toDBRecord (newRecord label body salt ident now)) = label"
  "d_LastUsed (toDBRecord (newRecord label body salt ident now)) = 0"
  by (simp_all add: toDBRecord_def newRecord_def emptyRecord_def)

text \<open>The ways a call of \<open>Create\<close> ends, with what it did on the way.\<close>

lemma Create_cases:
  assumes "Create js env now ent s label d = (res, d')"
  obtains
    (early) "d' = d" "res = Raise ErrLabelTooLong"
  | (lock) e where "acquireLock env (path s) lockExclusive d = (Inl e, d')" "res = Raise e"
  | (stop) b where "acquireLock env (path s) lockExclusive d = (Inr b, d')" "\<And>x. res \<noteq> Ret x"
  | (wrote) b d1 db body ent1 salt ent2 ident ent3 e where
      "acquireLock env (path s) lockExclusive d = (Inr b, d1)" "readDB js env s d1 = Inr db"
      "generateBody ent = Some (body, ent1)" "generateSalt ent1 = Some (salt, ent2)"
      "generateID (set (map d_ID (Keys db))) ent2 = Some (ident, ent3)"
      "writeDB js env s (db\<lparr>Keys := Keys db @ [toDBRecord (newRecord label body salt ident now)]\<rparr>) d1 = (e, d')"
      "res = (case e of None \<Rightarrow> Ret (body, newRecord label body salt ident now) | Some x \<Rightarrow> Raise x)"
proof (cases "RuneCountInString label > 64")
  case True
  then show ?thesis using assms early by (simp add: Create_def)
next
  case False
  obtain r d1 where l: "acquireLock env (path s) lockExclusive d = (r, d1)" by fastforce
  show ?thesis
  proof (cases r)
    case (Inl e)
    then show ?thesis using assms False l lock by (simp add: Create_def)
  next
    case (Inr b)
    show ?thesis
      using assms False l Inr stop wrote
      by (auto simp: Create_def Let_def split: sum.splits option.splits prod.splits)
  qed
qed

lemma Create_holds:
  assumes "json_law js" "tmp_name env \<noteq> path s" "Create js env now ent s label d = (res, d')"
    and db: "db_at js (path s) (files d) = Some db" "wf_db db"
  shows "always (holds js (path s) db) d d'"
  using assms(3)
proof (cases rule: Create_cases)
  case early
  then show ?thesis using db by (simp add: always_refl holds_self)
next
  case (wrote b d1 db0 body ent1 salt ent2 ident ent3 e)
  have eq: "db0 = db" using wrote(1,2) db acquireLock_db_at by (fastforce simp: readDB_db_at)
  have fresh: "ident \<notin> set (map d_ID (Keys db0))" "hexstr ident"
    using generateID_Some [OF wrote(5)] by auto
  show ?thesis
    using holds_write [OF assms(1,2) wrote(1,2,6)] append_key_wf [of db0] fresh db
    by (simp add: eq Fingerprint_def)
qed (auto intro: holds_lock db)

lemma Revoke_holds:
  assumes "json_law js" "tmp_name env \<noteq> path s" "Revoke js env now s ident d = (e, d')"
    and db: "db_at js (path s) (files d) = Some db" "wf_db db"
  shows "always (holds js (path s) db) d d'"
proof -
  obtain r d1 where l: "acquireLock env (path s) lockExclusive d = (r, d1)" by fastforce
  have h1: "always (holds js (path s) db) d d1" using holds_lock [OF l db] .
  show ?thesis
  proof (cases "d' = d1")
    case False
    then obtain b db0 ks where w: "r = Inr b" "readDB js env s d1 = Inr db0"
      "revokeLoop ident now (Keys db0) = Inr ks" "writeDB js env s (db0\<lparr>Keys := ks\<rparr>) d1 = (e, d')"
      using assms(3) l by (auto simp: Revoke_def split: sum.splits)
    have "db0 = db" using l w(2) db acquireLock_db_at by (fastforce simp: readDB_db_at)
    then show ?thesis
      using holds_write [OF assms(1,2) _ w(2,4)] revokeLoop_wf [OF w(3)] l w(1) db by simp
  qed (use h1 in simp)
qed

lemma flushCommit_holds:
  assumes "json_law js" "tmp_name env \<noteq> path s" "flushCommit js env snap s d = (e, s', d')"
    and db: "db_at js (path s) (files d) = Some db" "wf_db db"
  shows "always (holds js (path s) db) d d'"
proof -
  obtain r d1 where l: "acquireLock env (path s) lockExclusive d = (r, d1)" by fastforce
  have h1: "always (holds js (path s) db) d d1" using holds_lock [OF l db] .
  show ?thesis
  proof (cases "d' = d1")
    case False
    then obtain b db0 where w: "r = Inr b" "readDB js env s d1 = Inr db0"
      "writeDB js env s (db0\<lparr>Keys := map (applyUsage snap) (Keys db0)\<rparr>) d1 = (e, d')"
      using assms(3) l by (auto simp: flushCommit_def Let_def split: sum.splits prod.splits)
    have "db0 = db" using l w(2) db acquireLock_db_at by (fastforce simp: readDB_db_at)
    then show ?thesis
      using holds_write [OF assms(1,2) _ w(2,3)] applyUsage_wf [of db] l w(1) db by simp
  qed (use h1 in simp)
qed

subsection \<open>Runs of operations, with crashes\<close>

text \<open>
  Any number of processes work on the file, each with a store value of its own; the
  operations that write run one at a time. \<open>ks_op\<close> is one such operation, with any faults,
  any clock, any entropy, any label, any buffered usage. A \<open>crash\<close> stops an operation at
  any instant of its run and the next process finds the files as they were then.
\<close>

inductive ks_op :: "json \<Rightarrow> string \<Rightarrow> disk \<Rightarrow> disk \<Rightarrow> bool" for js p where
  op_create: "Create js env now ent s label d = (res, d') \<Longrightarrow> path s = p \<Longrightarrow> tmp_name env \<noteq> p \<Longrightarrow>
     ks_op js p d d'"
| op_revoke: "Revoke js env now s ident d = (e, d') \<Longrightarrow> path s = p \<Longrightarrow> tmp_name env \<noteq> p \<Longrightarrow>
     ks_op js p d d'"
| op_flush: "flushCommit js env snap s d = (e, s', d') \<Longrightarrow> path s = p \<Longrightarrow> tmp_name env \<noteq> p \<Longrightarrow>
     ks_op js p d d'"

inductive ks_run :: "json \<Rightarrow> string \<Rightarrow> disk \<Rightarrow> disk \<Rightarrow> bool" for js p d where
  run_start: "ks_run js p d d"
| run_op: "ks_run js p d d1 \<Longrightarrow> ks_op js p d1 d2 \<Longrightarrow> ks_run js p d d2"
| run_crash: "ks_run js p d d1 \<Longrightarrow> ks_op js p d1 d2 \<Longrightarrow> f \<in> set (added d1 d2) \<Longrightarrow>
     ks_run js p d (set_files f d1)"

lemma ks_op_holds:
  assumes "ks_op js p d d'" "json_law js" "db_at js p (files d) = Some db" "wf_db db"
  shows "always (holds js p db) d d'"
  using assms by (cases rule: ks_op.cases) (blast intro: Create_holds Revoke_holds flushCommit_holds)+

lemma holds_grow: "grows a b \<Longrightarrow> holds js p b f \<Longrightarrow> holds js p a f"
  unfolding holds_def using grows_trans by blast

lemma ks_run_holds:
  assumes "ks_run js p d d'" "json_law js" "db_at js p (files d) = Some db" "wf_db db"
  shows "holds js p db (files d')"
  using assms(1)
proof (induction rule: ks_run.induct)
  case run_start
  then show ?case using assms holds_self by blast
next
  case (run_op d1 d2)
  obtain db1 where db1: "db_at js p (files d1) = Some db1" "wf_db db1" "grows db db1"
    using run_op.IH unfolding holds_def by blast
  show ?case
    using always_files [OF ks_op_holds [OF run_op.hyps(2) assms(2) db1(1,2)]] by (rule holds_grow [OF db1(3)])
next
  case (run_crash d1 d2 f)
  obtain db1 where db1: "db_at js p (files d1) = Some db1" "wf_db db1" "grows db db1"
    using run_crash.IH unfolding holds_def by blast
  have "holds js p db1 f"
    using ks_op_holds [OF run_crash.hyps(2) assms(2) db1(1,2)] run_crash.hyps(3) unfolding always_def by blast
  then show ?case using holds_grow [OF db1(3)] by simp
qed

subsection \<open>Verification\<close>

definition matches :: "string \<Rightarrow> dbRecord \<Rightarrow> bool" where
  "matches presented k \<longleftrightarrow> \<not> d_Revoked k \<and> hashKey presented (d_Salt k) = d_Hash k"

lemma verifyScan_last:
  "verifyScan presented ks =
     (case rev (filter (matches presented) ks) of [] \<Rightarrow> None | k # _ \<Rightarrow> Some (fromDBRecord k))"
  unfolding verifyScan_def
  by (induction ks rule: rev_induct) (auto simp: matches_def)

lemma verifyScan_snoc:
  "verifyScan presented (ks @ [k]) =
     (if matches presented k then Some (fromDBRecord k) else verifyScan presented ks)"
  by (simp add: verifyScan_def matches_def)

lemma verifyScan_Some:
  "verifyScan presented ks = Some r \<Longrightarrow> \<exists>k \<in> set ks. matches presented k \<and> r = fromDBRecord k"
  by (induction ks rule: rev_induct) (auto simp: verifyScan_snoc verifyScan_def [of _ "[]"] split: if_splits)

lemma verifyScan_None: "verifyScan presented ks = None \<longleftrightarrow> (\<forall>k \<in> set ks. \<not> matches presented k)"
  by (induction ks rule: rev_induct) (auto simp: verifyScan_snoc verifyScan_def [of _ "[]"])

lemma Verify_read:
  assumes "\<not> fails env SysOpen" "\<not> fails env SysFlock" "\<not> fails env SysRead"
    and "db_at js (path s) (files d) = Some db"
  shows "fst (Verify js env now s presented d) =
     Inr (map_option (\<lambda>r. r\<lparr>r_LastUsed := now\<rparr>) (verifyScan presented (Keys db)))"
  using assms
  by (cases "files d (path s)")
    (auto simp: Verify_def acquireLock_def readDB_ok db_at_def emptyDB_def verifyScan_def split: option.splits)

lemma Verify_Some:
  assumes "fst (Verify js env now s presented d) = Inr (Some r)"
  shows "\<exists>db k. db_at js (path s) (files d) = Some db \<and> k \<in> set (Keys db) \<and> matches presented k \<and>
     r = (fromDBRecord k)\<lparr>r_LastUsed := now\<rparr>"
  using assms verifyScan_Some
  by (fastforce simp: Verify_def readDB_db_at split: sum.splits if_splits option.splits)

lemma wf_db_unique: "wf_db db \<Longrightarrow> k \<in> set (Keys db) \<Longrightarrow> k' \<in> set (Keys db) \<Longrightarrow> d_ID k = d_ID k' \<Longrightarrow> k = k'"
  by (auto simp: wf_db_def distinct_map inj_on_def)

subsection \<open>The promise of the store, and its refinement\<close>

text \<open>
  The abstract store maps identifiers to whether they are revoked. \<open>Create\<close> adds a fresh
  active identifier, \<open>Revoke\<close> marks an active one or reports why it cannot.
\<close>

type_synonym abs_store = "string \<Rightarrow> bool option"

definition abs_db :: "Database \<Rightarrow> abs_store" where
  "abs_db db = map_of (map (\<lambda>k. (d_ID k, d_Revoked k)) (Keys db))"

definition spec_revoke :: "string \<Rightarrow> abs_store \<Rightarrow> ks_error + abs_store" where
  "spec_revoke ident m =
     (case m ident of
        None \<Rightarrow> Inl ErrNotFound
      | Some True \<Rightarrow> Inl ErrAlreadyRevoked
      | Some False \<Rightarrow> Inr (m(ident \<mapsto> True)))"

lemma abs_db_core: "abs_db db = map_of (map (\<lambda>(i, h, s, r). (i, r)) (map core (Keys db)))"
  by (simp add: abs_db_def core_def comp_def)

lemma eq_mod_labels_abs: "eq_mod_labels a b \<Longrightarrow> abs_db b = abs_db a"
  using eq_mod_labels_core [of a b] by (simp only: abs_db_core)

lemma abs_db_Some: "wf_db db \<Longrightarrow> abs_db db i = Some r \<longleftrightarrow> (\<exists>k \<in> set (Keys db). d_ID k = i \<and> d_Revoked k = r)"
  by (subst abs_db_def, subst map_of_eq_Some_iff) (auto simp: wf_db_def comp_def)

lemma abs_db_None: "abs_db db i = None \<longleftrightarrow> i \<notin> d_ID ` set (Keys db)"
  by (auto simp: abs_db_def map_of_eq_None_iff image_image)

lemma abs_db_append:
  "d_ID k \<notin> set (map d_ID (Keys db)) \<Longrightarrow>
   abs_db (db\<lparr>Keys := Keys db @ [k]\<rparr>) = (abs_db db)(d_ID k \<mapsto> d_Revoked k)"
proof -
  assume "d_ID k \<notin> set (map d_ID (Keys db))"
  then have "abs_db db (d_ID k) = None" by (simp add: abs_db_None)
  then show ?thesis by (auto simp: abs_db_def fun_eq_iff map_add_def split: option.splits)
qed

lemma revokeLoop_spec:
  assumes "wf_db db"
  shows "map_sum (\<lambda>e. e) (\<lambda>ks. abs_db (db\<lparr>Keys := ks\<rparr>)) (revokeLoop ident now (Keys db)) =
    spec_revoke ident (abs_db db)"
proof (cases "revokeLoop ident now (Keys db)")
  case (Inl e)
  have d: "distinct (map d_ID (Keys db))" using assms by (simp add: wf_db_def)
  show ?thesis
  proof (cases "ident \<in> d_ID ` set (Keys db)")
    case True
    then have "abs_db db ident = Some True" "e = ErrAlreadyRevoked"
      using Inl revokeLoop_Inl [OF d] abs_db_Some [OF assms] by (auto split: if_splits)
    then show ?thesis using Inl by (simp add: spec_revoke_def)
  next
    case False
    then have "abs_db db ident = None" "e = ErrNotFound"
      using Inl revokeLoop_Inl [OF d] abs_db_None by auto
    then show ?thesis using Inl by (simp add: spec_revoke_def)
  qed
next
  case (Inr ks)
  then obtain pre k post where k: "Keys db = pre @ k # post" "ident \<notin> d_ID ` set pre" "d_ID k = ident"
    "\<not> d_Revoked k" "ks = pre @ k\<lparr>d_Revoked := True, d_RevokedAt := now\<rparr> # post"
    using revokeLoop_Inr by blast
  then have "abs_db db ident = Some False" using abs_db_Some [OF assms] by auto
  moreover have "map_of (map (\<lambda>k. (d_ID k, d_Revoked k)) pre) ident = None"
    using k(2) by (auto simp: map_of_eq_None_iff)
  then have "abs_db (db\<lparr>Keys := ks\<rparr>) = (abs_db db)(ident \<mapsto> True)"
    using k by (auto simp: abs_db_def fun_eq_iff map_add_def split: option.splits)
  ultimately show ?thesis using Inr by (simp add: spec_revoke_def)
qed

lemma Revoke_ok:
  assumes "json_law js" "tmp_name env \<noteq> path s" "Revoke js env now s ident d = (e, d')"
    and ok: "\<not> fails env SysOpen" "\<not> fails env SysFlock" "\<not> fails env SysRead"
    and db: "db_at js (path s) (files d) = Some db" "wf_db db"
  shows "case spec_revoke ident (abs_db db) of
      Inl err \<Rightarrow> e = Some err \<and> db_at js (path s) (files d') = Some db
    | Inr m \<Rightarrow>
        (if e = None then \<exists>db'. db_at js (path s) (files d') = Some db' \<and> wf_db db' \<and> abs_db db' = m
         else db_at js (path s) (files d') = Some db)"
proof -
  obtain r d1 where l: "acquireLock env (path s) lockExclusive d = (r, d1)" by fastforce
  then have r: "r = Inr True" using ok by (auto simp: acquireLock_def os_open_create_def split: if_splits)
  have at: "db_at js (path s) (files d1) = Some db" using acquireLock_db_at [OF l] db by simp
  then have rd: "readDB js env s d1 = Inr db" using ok by (simp add: readDB_db_at)
  show ?thesis
  proof (cases "revokeLoop ident now (Keys db)")
    case (Inl err)
    then have "spec_revoke ident (abs_db db) = Inl err"
      using revokeLoop_spec [OF db(2), of ident now] by simp
    then show ?thesis using assms(3) l r rd Inl at by (simp add: Revoke_def)
  next
    case (Inr ks)
    then have m: "spec_revoke ident (abs_db db) = Inr (abs_db (db\<lparr>Keys := ks\<rparr>))"
      using revokeLoop_spec [OF db(2), of ident now] by simp
    have wf: "wf_db (db\<lparr>Keys := ks\<rparr>)" using revokeLoop_wf [OF Inr db(2)] by simp
    then have cl: "clean_db (db\<lparr>Keys := ks\<rparr>)" by (simp add: wf_db_def)
    have w: "writeDB js env s (db\<lparr>Keys := ks\<rparr>) d1 = (e, d')"
      using assms(3) l r rd Inr by (simp add: Revoke_def)
    show ?thesis
      using m writeDB_result [OF assms(1) cl assms(2) w] at eq_mod_labels_wf [OF _ wf] eq_mod_labels_abs
      by auto
  qed
qed

lemma Create_ok:
  assumes "json_law js" "tmp_name env \<noteq> path s" "Create js env now ent s label d = (Ret (body, rec), d')"
    and db: "db_at js (path s) (files d) = Some db" "wf_db db"
  shows "\<exists>db'. db_at js (path s) (files d') = Some db' \<and> wf_db db' \<and>
      eq_mod_labels (db\<lparr>Keys := Keys db @ [toDBRecord rec]\<rparr>) db' \<and>
      r_ID rec \<notin> set (map d_ID (Keys db)) \<and> r_hash rec = hashKey body (r_salt rec) \<and> \<not> r_Revoked rec \<and>
      r_Fingerprint rec = Fingerprint body \<and> r_Label rec = label \<and> r_Created rec = now"
  using assms(3)
proof (cases rule: Create_cases)
  case (wrote b d1 db0 body' ent1 salt ent2 ident ent3 e)
  have eq: "db0 = db" using wrote(1,2) db acquireLock_db_at by (fastforce simp: readDB_db_at)
  have e: "e = None" "body' = body" "rec = newRecord label body salt ident now"
    using wrote(7) by (auto split: option.splits)
  have fresh: "ident \<notin> set (map d_ID (Keys db))" "hexstr ident"
    using generateID_Some [OF wrote(5)] eq by auto
  have wf: "wf_db (db\<lparr>Keys := Keys db @ [toDBRecord rec]\<rparr>)"
    using append_key_wf [of db] fresh db by (simp add: e Fingerprint_def)
  then have cl: "clean_db (db\<lparr>Keys := Keys db @ [toDBRecord rec]\<rparr>)" by (simp add: wf_db_def)
  obtain db' where "db_at js (path s) (files d') = Some db'"
    "eq_mod_labels (db\<lparr>Keys := Keys db @ [toDBRecord rec]\<rparr>) db'"
    using writeDB_result(1) [OF assms(1) cl assms(2)] wrote(6) e eq by blast
  then show ?thesis using eq_mod_labels_wf wf fresh
    by (auto simp: e newRecord_def emptyRecord_def)
qed auto

lemma Create_raise:
  assumes "json_law js" "tmp_name env \<noteq> path s" "Create js env now ent s label d = (res, d')"
    and "\<And>x. res \<noteq> Ret x"
    and db: "db_at js (path s) (files d) = Some db" "wf_db db"
  shows "db_at js (path s) (files d') = Some db"
  using assms(3)
proof (cases rule: Create_cases)
  case (wrote b d1 db0 body' ent1 salt ent2 ident ent3 e)
  have eq: "db0 = db" using wrote(1,2) db acquireLock_db_at by (fastforce simp: readDB_db_at)
  have fresh: "ident \<notin> set (map d_ID (Keys db))" "hexstr ident"
    using generateID_Some [OF wrote(5)] eq by auto
  have "clean_db (db\<lparr>Keys := Keys db @ [toDBRecord (newRecord label body' salt ident now)]\<rparr>)"
    using append_key_wf [of db] fresh db by (simp add: Fingerprint_def wf_db_def)
  moreover have "e \<noteq> None" using wrote(7) assms(4) by (cases e) auto
  ultimately show ?thesis
    using writeDB_result(2) [OF assms(1) _ assms(2) wrote(6)] wrote(1,2) eq
    by (auto simp: readDB_db_at)
qed (use db acquireLock_db_at in auto)

end
