(* ===== verification/KeystoreProps.thy ===== *)
theory KeystoreProps
  imports KeystoreProofs
begin

section \<open>Properties of the key store\<close>

text \<open>
  The properties of \<open>internal/keystore\<close>, each with a concrete run that satisfies its
  hypotheses. The runs use \<open>table_json\<close>, a marshaller given by a finite table: it obeys
  \<open>json_law\<close> whenever the texts in the table are distinct and not empty.
\<close>

definition table_json :: "(Database \<times> bytes) list \<Rightarrow> json" where
  "table_json tbl =
     \<lparr>Marshal = map_of tbl, Unmarshal = map_of (map (\<lambda>(db, data). (data, db)) tbl)\<rparr>"

lemma table_json_law:
  assumes "distinct (map snd tbl)" "[] \<notin> set (map snd tbl)"
  shows "json_law (table_json tbl)"
proof -
  have "data \<noteq> [] \<and> map_of (map (\<lambda>(db, data). (data, db)) tbl) data = Some db"
    if "map_of tbl db = Some data" for db data
  proof -
    have "(db, data) \<in> set tbl" using that by (rule map_of_SomeD)
    then have "data \<noteq> []" using assms(2) by force
    moreover have "(data, db) \<in> set (map (\<lambda>(db, data). (data, db)) tbl)"
      using \<open>(db, data) \<in> set tbl\<close> by force
    moreover have "distinct (map fst (map (\<lambda>(db, data). (data, db)) tbl))"
      using assms(1) by (simp add: comp_def case_prod_beta)
    ultimately show ?thesis using map_of_is_SomeI by metis
  qed
  then show ?thesis unfolding json_law_def table_json_def by fastforce
qed

definition ok_env :: osenv where
  "ok_env = \<lparr>fails = (\<lambda>_. False), tmp_name = ''.keys-1.tmp'', written_before_fail = 0\<rparr>"

definition no_rename_env :: osenv where
  "no_rename_env = ok_env\<lparr>fails := (\<lambda>c. c = SysRename)\<rparr>"

definition demo_store :: Store where
  "demo_store = \<lparr>path = ''keys.db'', usageBuf = []\<rparr>"

definition no_files :: disk where
  "no_files = \<lparr>files = (\<lambda>_. None), hist = []\<rparr>"

definition demo_key :: dbRecord where
  "demo_key = \<lparr>d_ID = ''0a'', d_Label = ''ci'', d_Created = 1, d_LastUsed = 0, d_RevokedAt = 0,
     d_Revoked = False, d_Fingerprint = ''0b'', d_Hash = hashKey ''secret'' ''salt'', d_Salt = ''salt''\<rparr>"

definition demo_db :: Database where
  "demo_db = \<lparr>Version = 1, Keys = [demo_key]\<rparr>"

definition demo_db_revoked :: Database where
  "demo_db_revoked = \<lparr>Version = 1, Keys = [demo_key\<lparr>d_Revoked := True, d_RevokedAt := 7\<rparr>]\<rparr>"

definition demo_db_used :: Database where
  "demo_db_used = \<lparr>Version = 1, Keys = [demo_key\<lparr>d_LastUsed := 5\<rparr>]\<rparr>"

definition demo_json :: json where
  "demo_json = table_json [(demo_db, ''1''), (demo_db_revoked, ''2''), (demo_db_used, ''3'')]"

definition demo_disk :: disk where
  "demo_disk = \<lparr>files = [''keys.db'' \<mapsto> \<lparr>fcontent = ''1'', fperm = 0x180\<rparr>], hist = []\<rparr>"

definition demo_disk_revoked :: disk where
  "demo_disk_revoked = snd (Revoke demo_json ok_env 7 demo_store ''0a'' demo_disk)"

lemma demo_json_law: "json_law demo_json"
  unfolding demo_json_def by (rule table_json_law) auto

lemma demo_ne [simp]: "demo_db_revoked \<noteq> demo_db" "demo_db \<noteq> demo_db_revoked"
  "demo_db_used \<noteq> demo_db" "demo_db_used \<noteq> demo_db_revoked"
  by (auto simp: demo_db_def demo_db_revoked_def demo_db_used_def demo_key_def)

lemma demo_db_at: "db_at demo_json (path demo_store) (files demo_disk) = Some demo_db" "wf_db demo_db"
  by (auto simp: db_at_def demo_json_def table_json_def demo_store_def demo_disk_def
      wf_db_def clean_db_def demo_db_def demo_key_def is_int64_def)

lemmas demo_defs = ok_env_def no_rename_env_def demo_store_def demo_disk_def no_files_def
  demo_json_def table_json_def

lemma demo_env [simp]:
  "tmp_name ok_env \<noteq> path demo_store" "\<not> fails ok_env c" "tmp_name no_rename_env \<noteq> path demo_store"
  by (auto simp: demo_defs)

lemma demo_revoke: "Revoke demo_json ok_env 7 demo_store ''0a'' demo_disk = (None, demo_disk_revoked)"
proof -
  have "Revoke demo_json ok_env 7 demo_store ''0a'' demo_disk =
      writeDB demo_json ok_env demo_store demo_db_revoked demo_disk"
    by (simp add: Revoke_def acquireLock_def os_open_create_def readDB_def demo_defs)
      (simp add: demo_db_def demo_key_def demo_db_revoked_def)
  moreover have "fst (writeDB demo_json ok_env demo_store demo_db_revoked demo_disk) = None"
    by (simp add: writeDB_def commit_file_def os_defs demo_defs Let_def)
  ultimately show ?thesis by (simp add: demo_disk_revoked_def prod_eq_iff)
qed

subsection \<open>Durability\<close>

text \<open>
  C5. The commit of \<open>writeDB\<close> is atomic at every instant, for every combination of failing
  system calls: the database file has its old contents or the whole new text with mode
  0600, a temporary file never has another mode, the returned error says which of the two
  the file ends with, and on an error nothing is left behind unless the removal fails too.
\<close>

theorem writeDB_atomic:
  assumes "tmp_name env \<noteq> path s" and "Marshal js db = Some data"
    and "writeDB js env s db d = (r, d')"
  shows "always (\<lambda>f. (f (path s) = files d (path s) \<or> f (path s) = Some \<lparr>fcontent = data, fperm = 0x180\<rparr>) \<and>
           (\<forall>q. q \<noteq> path s \<longrightarrow> q \<noteq> tmp_name env \<longrightarrow> f q = files d q) \<and>
           (\<forall>fl. f (tmp_name env) = Some fl \<longrightarrow> fperm fl = 0x180 \<or> f = files d)) d d' \<and>
    files d' (path s) = (if r = None then Some \<lparr>fcontent = data, fperm = 0x180\<rparr> else files d (path s)) \<and>
    (r \<noteq> None \<longrightarrow> \<not> fails env SysRemove \<longrightarrow> files d' = files d)"
proof -
  have c: "commit_file env (path s) data d = (r, d')" using assms(2,3) by (simp add: writeDB_def)
  show ?thesis
    using commit_file_instants [OF c assms(1)] commit_file_result(1,2) [OF c assms(1)] by simp
qed

theorem writeDB_atomic_witness:
  "files (snd (writeDB demo_json no_rename_env demo_store demo_db_revoked demo_disk)) ''keys.db'' =
     Some \<lparr>fcontent = ''1'', fperm = 0x180\<rparr>"
proof -
  have m: "Marshal demo_json demo_db_revoked = Some ''2''" by (simp add: demo_defs)
  obtain r d' where w: "writeDB demo_json no_rename_env demo_store demo_db_revoked demo_disk = (r, d')"
    by fastforce
  have "r \<noteq> None" using w by (auto simp: writeDB_def commit_file_def os_defs demo_defs Let_def)
  then show ?thesis using writeDB_atomic [OF _ m w] w by (simp add: demo_store_def demo_disk_def no_rename_env_def ok_env_def)
qed

subsection \<open>Revocation is final\<close>

lemma Revoke_reads:
  "Revoke js env now s ident d0 = (None, d1) \<Longrightarrow> \<not> fails env SysOpen \<and> \<not> fails env SysFlock \<and> \<not> fails env SysRead"
  by (auto simp: Revoke_def acquireLock_def os_open_create_def readDB_def
      split: sum.splits option.splits if_splits)

lemma Revoke_marks:
  assumes "json_law js" and "db_at js (path s) (files d0) = Some db" and "wf_db db"
    and "tmp_name env \<noteq> path s" and "Revoke js env now s ident d0 = (None, d1)"
  obtains db1 k where "db_at js (path s) (files d1) = Some db1" "wf_db db1"
    "k \<in> set (Keys db1)" "d_ID k = ident" "d_Revoked k"
proof -
  have rd: "\<not> fails env SysOpen" "\<not> fails env SysFlock" "\<not> fails env SysRead"
    using Revoke_reads [OF assms(5)] by auto
  obtain m where m: "spec_revoke ident (abs_db db) = Inr m"
    using Revoke_ok [OF assms(1,4,5) rd assms(2,3)] by (auto split: sum.splits)
  then obtain db1 where db1: "db_at js (path s) (files d1) = Some db1" "wf_db db1" "abs_db db1 = m"
    using Revoke_ok [OF assms(1,4,5) rd assms(2,3)] by auto
  have "m ident = Some True" using m by (auto simp: spec_revoke_def split: option.splits bool.splits)
  then obtain k where "k \<in> set (Keys db1)" "d_ID k = ident" "d_Revoked k"
    using abs_db_Some [OF db1(2)] db1(3) by auto
  then show thesis using that db1(1,2) by blast
qed

lemma grows_revoked:
  assumes "grows a b" and "k \<in> set (Keys a)" and "d_ID k = ident" and "d_Revoked k"
  obtains k' where "k' \<in> set (Keys b)" "d_ID k' = ident" "d_Revoked k'"
  using assms unfolding grows_def by metis

lemma Verify_not_revoked:
  assumes "db_at js (path s) (files d) = Some db" and "wf_db db"
    and "k \<in> set (Keys db)" and "d_ID k = ident" and "d_Revoked k"
    and "fst (Verify js env now s presented d) = Inr (Some r)"
  shows "r_ID r \<noteq> ident"
proof
  assume "r_ID r = ident"
  then obtain k2 where "k2 \<in> set (Keys db)" "matches presented k2" "d_ID k2 = ident"
    using Verify_Some [OF assms(6)] assms(1) by (auto simp: fromDBRecord_def)
  then show False using wf_db_unique [OF assms(2)] assms(3-5) by (auto simp: matches_def)
qed

lemma revoked_not_verified:
  assumes "json_law js" and "db_at js (path s) (files d0) = Some db" and "wf_db db"
    and "tmp_name env \<noteq> path s" and "Revoke js env now s ident d0 = (None, d1)"
    and "ks_run js (path s) d1 d2" and "path s' = path s"
    and "fst (Verify js env' now' s' presented d2) = Inr (Some r)"
  shows "r_ID r \<noteq> ident"
proof -
  obtain db1 k where db1: "db_at js (path s) (files d1) = Some db1" "wf_db db1"
    "k \<in> set (Keys db1)" "d_ID k = ident" "d_Revoked k"
    by (rule Revoke_marks [OF assms(1-5)])
  obtain db2 where db2: "db_at js (path s) (files d2) = Some db2" "wf_db db2" "grows db1 db2"
    using ks_run_holds [OF assms(6,1) db1(1,2)] by (auto simp: holds_def)
  obtain k' where "k' \<in> set (Keys db2)" "d_ID k' = ident" "d_Revoked k'"
    by (rule grows_revoked [OF db2(3) db1(3-5)])
  then show ?thesis using Verify_not_revoked [OF _ db2(2) _ _ _ assms(8)] db2(1) assms(7) by simp
qed

text \<open>
  C4. Once \<open>Revoke\<close> has returned without an error, no later call of \<open>Verify\<close> by any process
  accepts a key as the revoked record: not after any sequence of further creations,
  revocations and flushes of usage times, with any failing system calls, and not after a
  crash at any instant of one of them.
\<close>

theorem revocation_final:
  assumes "json_law js" and "db_at js (path s) (files d0) = Some db" and "wf_db db"
    and "tmp_name env \<noteq> path s" and "Revoke js env now s ident d0 = (None, d1)"
    and "ks_run js (path s) d1 d2" and "path s' = path s"
    and "fst (Verify js env' now' s' presented d2) = Inr (Some r)"
  shows "r_ID r \<noteq> ident"
  by (rule revoked_not_verified [OF assms])

lemma demo_verify_before:
  "fst (Verify demo_json ok_env 6 demo_store ''secret'' demo_disk) =
     Inr (Some ((fromDBRecord demo_key)\<lparr>r_LastUsed := 6\<rparr>))"
  using Verify_read [OF _ _ _ demo_db_at(1), of ok_env 6 "''secret''"]
  by (simp add: demo_db_def verifyScan_def) (simp add: demo_key_def)

theorem revocation_final_witness:
  "fst (Verify demo_json ok_env 6 demo_store ''secret'' demo_disk) =
     Inr (Some ((fromDBRecord demo_key)\<lparr>r_LastUsed := 6\<rparr>)) \<and>
   fst (Verify demo_json ok_env 9 demo_store ''secret'' demo_disk_revoked) \<noteq>
     Inr (Some ((fromDBRecord demo_key)\<lparr>r_LastUsed := 9\<rparr>))"
proof -
  have "r_ID (fromDBRecord demo_key) = ''0a''" by (simp add: fromDBRecord_def demo_key_def)
  then show ?thesis
    using revocation_final [OF demo_json_law demo_db_at _ demo_revoke run_start refl] demo_verify_before by fastforce
qed



subsection \<open>Creation and verification\<close>

lemma created_verifies:
  assumes "json_law js" and "tmp_name env \<noteq> path s"
    and "Create js env now ent s label d = (Ret (body, rec), d')"
    and "db_at js (path s) (files d) = Some db" and "wf_db db"
    and "\<not> fails env' SysOpen" and "\<not> fails env' SysFlock" and "\<not> fails env' SysRead"
    and "path s' = path s"
  shows "\<exists>r. fst (Verify js env' now' s' body d') = Inr (Some r) \<and>
      r_ID r = r_ID rec \<and> r_Fingerprint r = Fingerprint body \<and> r_Created r = now \<and> r_LastUsed r = now'"
proof -
  obtain db' where db': "db_at js (path s) (files d') = Some db'"
    "eq_mod_labels (db\<lparr>Keys := Keys db @ [toDBRecord rec]\<rparr>) db'"
    and rec: "r_hash rec = hashKey body (r_salt rec)" "\<not> r_Revoked rec"
      "r_Fingerprint rec = Fingerprint body" "r_Created rec = now"
    using Create_ok [OF assms(1-5)] by blast
  let ?g = "\<lambda>k. (core k, d_Fingerprint k, d_Created k)"
  have g: "map ?g (Keys db') = map ?g (Keys db @ [toDBRecord rec])"
    using eq_mod_labels_map [OF db'(2), of ?g] by (simp add: core_def)
  then obtain ks k where ks: "Keys db' = ks @ [k]" by (cases "Keys db'" rule: rev_cases) auto
  then have "?g k = ?g (toDBRecord rec)" using g by simp
  then show ?thesis
    using Verify_read [OF assms(6-8), of js s' d' db' now' body] db'(1) assms(9) rec
    by (auto simp: ks verifyScan_snoc matches_def core_def toDBRecord_def fromDBRecord_def)
qed

text \<open>
  C8. A key that \<open>Create\<close> returns verifies at once: \<open>Verify\<close> on the resulting disk, with a
  readable file, accepts it and returns the identifier, fingerprint and creation time of
  the record that \<open>Create\<close> returned, with the time of use filled in. No assumption on
  collisions of SHA-256 is needed, because the last matching record wins and the new record
  is the last one.
\<close>

theorem create_then_verify:
  assumes "json_law js" and "tmp_name env \<noteq> path s"
    and "Create js env now ent s label d = (Ret (body, rec), d')"
    and "db_at js (path s) (files d) = Some db" and "wf_db db"
    and "\<not> fails env' SysOpen" and "\<not> fails env' SysFlock" and "\<not> fails env' SysRead"
    and "path s' = path s"
  shows "\<exists>r. fst (Verify js env' now' s' body d') = Inr (Some r) \<and>
      r_ID r = r_ID rec \<and> r_Fingerprint r = Fingerprint body \<and> r_Created r = now \<and> r_LastUsed r = now'"
  by (rule created_verifies [OF assms])

definition demo_body :: string where
  "demo_body = keyPrefix @ RawURLEncoding_EncodeToString (replicate 32 CHR ''a'')"

definition demo_new :: Record where
  "demo_new = newRecord ''ci'' demo_body (replicate 16 CHR ''a'') (EncodeToString_hex (replicate 8 CHR ''a'')) 3"

definition new_json :: json where
  "new_json = table_json [(\<lparr>Version = 1, Keys = [toDBRecord demo_new]\<rparr>, ''n'')]"

lemma RuneCountInString_ci: "\<not> 64 < RuneCountInString ''ci''"
  using RuneCountInString_le [of "''ci''"] by simp

lemma demo_create: "fst (Create new_json ok_env 3 (replicate 56 CHR ''a'') demo_store ''ci'' no_files) = Ret (demo_body, demo_new)"
proof -
  have "generateBody (replicate 56 CHR ''a'') = Some (demo_body, replicate 24 CHR ''a'')"
    by (simp add: generateBody_def rand_Read_def keyBodyBytes_def demo_body_def)
  moreover have "generateSalt (replicate 24 CHR ''a'') = Some (replicate 16 CHR ''a'', replicate 8 CHR ''a'')"
    by (simp add: generateSalt_def rand_Read_def saltBytes_def)
  moreover have "generateID {} (replicate 8 CHR ''a'') = Some (EncodeToString_hex (replicate 8 CHR ''a''), [])"
    by (subst generateID.simps) (simp add: rand_Read_def idBytes_def)
  ultimately show ?thesis
    by (simp add: Create_def RuneCountInString_ci acquireLock_def os_open_create_def readDB_def demo_defs emptyDB_def
        dbVersion_def writeDB_def commit_file_def os_defs Let_def new_json_def flip: demo_new_def)
qed

lemma demo_create_run:
  "json_law new_json" "tmp_name ok_env \<noteq> path demo_store"
  "Create new_json ok_env 3 (replicate 56 CHR ''a'') demo_store ''ci'' no_files =
      (Ret (demo_body, demo_new), snd (Create new_json ok_env 3 (replicate 56 CHR ''a'') demo_store ''ci'' no_files))"
  "db_at new_json (path demo_store) (files no_files) = Some emptyDB" "wf_db emptyDB"
proof -
  show "json_law new_json" unfolding new_json_def by (rule table_json_law) auto
  show "Create new_json ok_env 3 (replicate 56 CHR ''a'') demo_store ''ci'' no_files =
      (Ret (demo_body, demo_new), snd (Create new_json ok_env 3 (replicate 56 CHR ''a'') demo_store ''ci'' no_files))"
    using demo_create by (simp add: prod_eq_iff)
qed (simp_all add: db_at_def no_files_def wf_db_def clean_db_def emptyDB_def dbVersion_def is_int64_def)

theorem create_then_verify_witness:
  "\<exists>r. fst (Verify new_json ok_env 4 demo_store demo_body
       (snd (Create new_json ok_env 3 (replicate 56 CHR ''a'') demo_store ''ci'' no_files))) = Inr (Some r) \<and>
     r_ID r = r_ID demo_new \<and> r_Fingerprint r = Fingerprint demo_body \<and> r_Created r = 3 \<and> r_LastUsed r = 4"
  using create_then_verify [OF demo_create_run, of ok_env demo_store 4] by simp

text \<open>
  C7. \<open>Verify\<close> accepts exactly the keys whose salted SHA-256 is stored in an active record,
  returns such a record with the time of use, and buffers that time under its identifier
  without touching the file. With no such record it answers no, and the store is unchanged.
\<close>

theorem verify_correct:
  assumes "\<not> fails env SysOpen" and "\<not> fails env SysFlock" and "\<not> fails env SysRead"
    and "db_at js (path s) (files d) = Some db"
  shows "case Verify js env now s presented d of
      (Inr (Some r), s') \<Rightarrow>
        (\<exists>k \<in> set (Keys db). \<not> d_Revoked k \<and> sha256 (presented @ d_Salt k) = d_Hash k \<and>
           r = (fromDBRecord k)\<lparr>r_LastUsed := now\<rparr>) \<and>
        map_of (usageBuf s') = (map_of (usageBuf s))(r_ID r \<mapsto> now) \<and> path s' = path s
    | (Inr None, s') \<Rightarrow>
        (\<forall>k \<in> set (Keys db). d_Revoked k \<or> sha256 (presented @ d_Salt k) \<noteq> d_Hash k) \<and> s' = s
    | (Inl e, s') \<Rightarrow> False"
proof (cases "verifyScan presented (Keys db)")
  case None
  then have "Verify js env now s presented d = (Inr None, s)"
    using assms by (cases "files d (path s)")
      (auto simp: Verify_def acquireLock_def readDB_ok db_at_def emptyDB_def split: if_splits)
  then show ?thesis using None by (auto simp: verifyScan_None matches_def hashKey_def)
next
  case (Some r)
  obtain k where k: "k \<in> set (Keys db)" "matches presented k" "r = fromDBRecord k"
    using verifyScan_Some [OF Some] by blast
  have "Verify js env now s presented d =
      (Inr (Some (r\<lparr>r_LastUsed := now\<rparr>)), s\<lparr>usageBuf := AList.update (r_ID r) now (usageBuf s)\<rparr>)"
    using assms Some by (cases "files d (path s)")
      (auto simp: Verify_def acquireLock_def readDB_ok db_at_def emptyDB_def verifyScan_def split: if_splits)
  then show ?thesis using k by (auto simp: matches_def hashKey_def)
qed

theorem verify_correct_witness:
  "usageBuf (snd (Verify demo_json ok_env 6 demo_store ''secret'' demo_disk)) \<noteq> []"
  using verify_correct [OF _ _ _ demo_db_at(1), of ok_env "''secret''" 6] demo_verify_before
  by (auto split: prod.splits
      dest!: fun_cong [of "\<lambda>_. None" _ "r_ID (fromDBRecord demo_key)"])

subsection \<open>Refinement\<close>

text \<open>
  C29. \<open>Revoke\<close> implements the abstract store: it returns \<^verbatim>\<open>ErrNotFound\<close> and
  \<^verbatim>\<open>ErrAlreadyRevoked\<close> exactly when the abstract operation does, leaving the database as it
  was; otherwise it either succeeds, and the database then abstracts to the marked store, or
  returns a write error with the database as it was.
\<close>

theorem revoke_refines:
  assumes "json_law js" and "tmp_name env \<noteq> path s" and "Revoke js env now s ident d = (e, d')"
    and "\<not> fails env SysOpen" and "\<not> fails env SysFlock" and "\<not> fails env SysRead"
    and "db_at js (path s) (files d) = Some db" and "wf_db db"
  shows "case spec_revoke ident (abs_db db) of
      Inl err \<Rightarrow> e = Some err \<and> db_at js (path s) (files d') = Some db
    | Inr m \<Rightarrow>
        (if e = None then \<exists>db'. db_at js (path s) (files d') = Some db' \<and> wf_db db' \<and> abs_db db' = m
         else db_at js (path s) (files d') = Some db)"
  using Revoke_ok [OF assms] .

theorem revoke_refines_witness:
  "\<exists>db'. db_at demo_json ''keys.db'' (files demo_disk_revoked) = Some db' \<and> abs_db db' ''0a'' = Some True"
proof -
  have "spec_revoke ''0a'' (abs_db demo_db) = Inr ((abs_db demo_db)(''0a'' \<mapsto> True))"
    by (simp add: spec_revoke_def abs_db_def demo_db_def demo_key_def)
  then show ?thesis
    using revoke_refines [OF demo_json_law demo_env(1) demo_revoke _ _ _ demo_db_at] by (auto simp: demo_store_def)
qed

text \<open>
  C28. \<open>Create\<close> implements the abstract store: when it returns a key, the identifier of the
  record was not in use, the database gains exactly that active identifier, and the record
  holds the label, the salted hash and the fingerprint of the key. When it returns an error
  or the process ends for lack of entropy, the database is as it was.
\<close>

theorem create_refines:
  assumes "json_law js" and "tmp_name env \<noteq> path s" and "Create js env now ent s label d = (res, d')"
    and "db_at js (path s) (files d) = Some db" and "wf_db db"
  shows "case res of
      Ret (body, rec) \<Rightarrow>
        (\<exists>db'. db_at js (path s) (files d') = Some db' \<and> wf_db db' \<and>
           abs_db db (r_ID rec) = None \<and> abs_db db' = (abs_db db)(r_ID rec \<mapsto> False)) \<and>
        r_Label rec = label \<and> r_hash rec = sha256 (body @ r_salt rec) \<and> r_Fingerprint rec = Fingerprint body
    | _ \<Rightarrow> db_at js (path s) (files d') = Some db"
proof (cases "\<exists>x. res = Ret x")
  case True
  then obtain body rec where res: "res = Ret (body, rec)" by auto
  obtain db' where db': "db_at js (path s) (files d') = Some db'" "wf_db db'"
      "eq_mod_labels (db\<lparr>Keys := Keys db @ [toDBRecord rec]\<rparr>) db'"
    and rec: "r_ID rec \<notin> set (map d_ID (Keys db))" "r_hash rec = hashKey body (r_salt rec)" "\<not> r_Revoked rec"
      "r_Fingerprint rec = Fingerprint body" "r_Label rec = label"
    using Create_ok [OF assms(1,2) _ assms(4,5)] assms(3) res by blast
  have "abs_db db' = (abs_db db)(r_ID rec \<mapsto> False)"
    using eq_mod_labels_abs [OF db'(3)] abs_db_append [of "toDBRecord rec" db] rec
    by (simp add: toDBRecord_def)
  then show ?thesis using res db' rec by (auto simp: abs_db_None hashKey_def)
next
  case False
  then show ?thesis using Create_raise [OF assms(1-3) _ assms(4,5)] by (cases res) auto
qed

theorem create_refines_witness:
  "\<exists>db'. db_at new_json ''keys.db'' (files (snd (Create new_json ok_env 3 (replicate 56 CHR ''a'') demo_store ''ci'' no_files))) =
     Some db' \<and> abs_db db' = [r_ID demo_new \<mapsto> False]"
proof -
  have "abs_db emptyDB = (\<lambda>_. None)" by (simp add: abs_db_def emptyDB_def)
  moreover have "path demo_store = ''keys.db''" by (simp add: demo_store_def)
  ultimately show ?thesis using create_refines [OF demo_create_run] by auto
qed

subsection \<open>The shape of a key\<close>

text \<open>
  C27. A created key and its record have the form that the rest of the program relies on. The key
  is the prefix and 43 characters that determine all 32 random bytes it was made from; its
  record has 16 hexadecimal digits that no other record has, a salt of 16 fresh random bytes,
  the SHA-256 of key and salt, a fingerprint of 12 hexadecimal digits, a label of at most 64
  characters, the time of creation, no use yet, and is not revoked.
\<close>

theorem create_well_typed:
  assumes "Create js env now ent s label d = (Ret (body, rec), d')"
  shows "body = keyPrefix @ RawURLEncoding_EncodeToString (take 32 ent) \<and> length body = 52 \<and>
    (\<forall>raw. length raw = 32 \<longrightarrow> body = keyPrefix @ RawURLEncoding_EncodeToString raw \<longrightarrow> raw = take 32 ent) \<and>
    hexstr (r_ID rec) \<and> length (r_ID rec) = 16 \<and>
    r_salt rec = take 16 (drop 32 ent) \<and> length (r_salt rec) = 16 \<and>
    r_hash rec = sha256 (body @ r_salt rec) \<and> length (r_hash rec) = 32 \<and>
    hexstr (r_Fingerprint rec) \<and> length (r_Fingerprint rec) = 12 \<and>
    r_Label rec = label \<and> RuneCountInString label \<le> 64 \<and>
    r_Created rec = now \<and> r_LastUsed rec = 0 \<and> \<not> r_Revoked rec"
proof -
  have lab: "RuneCountInString label \<le> 64" using assms by (auto simp: Create_def split: if_splits)
  show ?thesis using assms
  proof (cases rule: Create_cases)
    case (wrote b d1 db0 body' ent1 salt ent2 ident ent3 e)
    have eq: "body' = body" "rec = newRecord label body salt ident now" using wrote(7) by (auto split: option.splits)
    have ent: "32 \<le> length ent" "body = keyPrefix @ RawURLEncoding_EncodeToString (take 32 ent)" "ent1 = drop 32 ent"
      using wrote(3) eq(1) by (auto simp: generateBody_def rand_Read_Some keyBodyBytes_def split: option.splits)
    have salt: "16 \<le> length ent1" "salt = take 16 ent1"
      using wrote(4) by (auto simp: generateSalt_def rand_Read_Some saltBytes_def)
    have len: "length body = 52" using ent(1) by (simp add: ent(2) length_encode_rawurl keyPrefix_def)
    have inj: "raw = take 32 ent" if "length raw = 32" "body = keyPrefix @ RawURLEncoding_EncodeToString raw" for raw
      using rawurl_inj [of raw "take 32 ent"] that ent(1,2) by simp
    have "length (sha256 body) = 32" by (simp add: length_sha256)
    then show ?thesis using lab ent salt len inj generateID_Some [OF wrote(5)]
      by (simp add: eq newRecord_def emptyRecord_def Fingerprint_def hashKey_def)
  qed auto
qed

theorem create_well_typed_witness:
  "length demo_body = 52 \<and> length (r_ID demo_new) = 16 \<and> length (r_salt demo_new) = 16"
  using create_well_typed [OF demo_create_run(3)] by simp

subsection \<open>Usage times\<close>

text \<open>
  A successful \<open>FlushUsage\<close> changes nothing but last-use times: record by record, the
  identifier, hash, salt, times of creation and revocation and the revocation mark stay,
  the last use becomes the buffered time if the record is active and has one, and the
  buffer is empty afterwards.
\<close>

theorem flush_only_last_used:
  assumes "json_law js" and "tmp_name env \<noteq> path s" and "FlushUsage js env s d = (None, s', d')"
    and "db_at js (path s) (files d) = Some db" and "wf_db db"
  shows "\<exists>db'. db_at js (path s) (files d') = Some db' \<and> usageBuf s' = [] \<and>
    list_all2 (\<lambda>k k'.
      d_ID k' = d_ID k \<and> d_Hash k' = d_Hash k \<and> d_Salt k' = d_Salt k \<and> d_Revoked k' = d_Revoked k \<and>
      d_Created k' = d_Created k \<and> d_RevokedAt k' = d_RevokedAt k \<and> d_Fingerprint k' = d_Fingerprint k \<and>
      d_LastUsed k' = (case map_of (usageBuf s) (d_ID k) of
                         None \<Rightarrow> d_LastUsed k
                       | Some t \<Rightarrow> if d_Revoked k then d_LastUsed k else t)) (Keys db) (Keys db')"
proof (cases "usageBuf s = []")
  case True
  then show ?thesis using assms by (auto simp: FlushUsage_def intro!: exI [of _ db] list_all2_refl)
next
  case False
  let ?db = "db\<lparr>Keys := map (applyUsage (usageBuf s)) (Keys db)\<rparr>"
  let ?s = "s\<lparr>usageBuf := []\<rparr>"
  obtain b d1 db0 where w: "acquireLock env (path s) lockExclusive d = (Inr b, d1)"
    "readDB js env ?s d1 = Inr db0" "s' = ?s"
    "writeDB js env ?s (db0\<lparr>Keys := map (applyUsage (usageBuf s)) (Keys db0)\<rparr>) d1 = (None, d')"
    using assms(3) False
    by (auto simp: FlushUsage_def flushTake_def flushCommit_def Let_def split: sum.splits prod.splits)
  have "db0 = db" using w(1,2) assms(4) acquireLock_db_at by (fastforce simp: readDB_db_at)
  moreover have "clean_db ?db" using applyUsage_wf [OF assms(5)] by (simp add: wf_db_def)
  ultimately obtain db' where db': "db_at js (path s) (files d') = Some db'" "eq_mod_labels ?db db'"
    using writeDB_result(1) [OF assms(1) _ _ w(4)] assms(2) by auto
  let ?g = "\<lambda>k. (core k, d_Created k, d_RevokedAt k, d_Fingerprint k, d_LastUsed k)"
  have "map ?g (map (applyUsage (usageBuf s)) (Keys db)) = map ?g (Keys db')"
    using eq_mod_labels_map [OF db'(2), of ?g] by (simp add: core_def)
  then have "list_all2 (\<lambda>k k'. ?g (applyUsage (usageBuf s) k) = ?g k') (Keys db) (Keys db')"
    by (simp only: list.rel_eq [symmetric] list_all2_map1 list_all2_map2)
  then have "list_all2 (\<lambda>k k'.
      d_ID k' = d_ID k \<and> d_Hash k' = d_Hash k \<and> d_Salt k' = d_Salt k \<and> d_Revoked k' = d_Revoked k \<and>
      d_Created k' = d_Created k \<and> d_RevokedAt k' = d_RevokedAt k \<and> d_Fingerprint k' = d_Fingerprint k \<and>
      d_LastUsed k' = d_LastUsed (applyUsage (usageBuf s) k)) (Keys db) (Keys db')"
    by (rule list_all2_mono) (auto simp: core_def)
  then show ?thesis
    using db' w(3) by (intro exI [of _ db'] conjI) (auto elim!: list_all2_mono simp: applyUsage_def split: option.splits)
qed

definition used_store :: Store where
  "used_store = demo_store\<lparr>usageBuf := [(''0a'', 5)]\<rparr>"

theorem flush_only_last_used_witness:
  "\<exists>db'. db_at demo_json ''keys.db'' (files (snd (snd (FlushUsage demo_json ok_env used_store demo_disk)))) = Some db' \<and>
     map d_LastUsed (Keys db') = [5]"
proof -
  have "FlushUsage demo_json ok_env used_store demo_disk =
      (let (e, d2) = writeDB demo_json ok_env (demo_store\<lparr>usageBuf := []\<rparr>) demo_db_used demo_disk
       in (e, demo_store\<lparr>usageBuf := []\<rparr>, d2))"
    by (simp add: FlushUsage_def flushTake_def flushCommit_def acquireLock_def os_open_create_def
        readDB_def demo_defs used_store_def) (simp add: demo_db_def demo_key_def demo_db_used_def applyUsage_def)
  moreover have "fst (writeDB demo_json ok_env (demo_store\<lparr>usageBuf := []\<rparr>) demo_db_used demo_disk) = None"
    by (simp add: writeDB_def commit_file_def os_defs demo_defs Let_def)
  ultimately obtain s' d' where f: "FlushUsage demo_json ok_env used_store demo_disk = (None, s', d')"
    by (auto simp: Let_def split: prod.splits)
  have p: "path used_store = ''keys.db''" "path demo_store = ''keys.db''" "usageBuf used_store = [(''0a'', 5)]"
    by (simp_all add: used_store_def demo_store_def)
  have "tmp_name ok_env \<noteq> path used_store" by (simp add: p ok_env_def)
  then show ?thesis
    using flush_only_last_used [OF demo_json_law _ f, of demo_db] demo_db_at
    by (auto simp: p f demo_db_def demo_key_def list_all2_Cons1)
qed

lemma map_of_restore:
  "distinct (map fst snap) \<Longrightarrow> map_of (usageBuf (restoreUsage snap s)) = map_of snap ++ map_of (usageBuf s)"
proof -
  have "map_of (foldl (\<lambda>buf (i, t). if map_of buf i = None then AList.update i t buf else buf) buf snap) =
      map_of snap ++ map_of buf" if "distinct (map fst snap)" for buf
    using that
  proof (induction snap arbitrary: buf)
    case (Cons it snap)
    obtain i t where it: "it = (i, t)" by fastforce
    then have "map_of snap i = None" using Cons.prems by (simp add: map_of_eq_None_iff)
    then show ?case
      using Cons.IH [of buf] Cons.IH [of "AList.update i t buf"] Cons.prems
      by (auto simp: it map_add_def fun_eq_iff split: option.splits)
  qed simp
  then show "distinct (map fst snap) \<Longrightarrow> ?thesis" by (simp add: restoreUsage_def)
qed

text \<open>
  When \<open>FlushUsage\<close> cannot lock or read the file, no usage time is lost, whatever
  verifications ran since the buffer was taken: the buffer then has every time of the
  snapshot except those that a later verification replaced, and the database is unchanged.
\<close>

theorem flush_keeps_usage_on_read_error:
  assumes "flushCommit js env snap s d = (Some e, s', d')" and "distinct (map fst snap)"
    and "fails env SysOpen \<or> fails env SysFlock \<or> fails env SysRead"
  shows "map_of (usageBuf s') = map_of snap ++ map_of (usageBuf s) \<and>
    db_at js (path s) (files d') = db_at js (path s) (files d)"
proof -
  obtain r d1 where l: "acquireLock env (path s) lockExclusive d = (r, d1)" by fastforce
  have "s' = restoreUsage snap s \<and> d' = d1"
  proof (cases r)
    case (Inl x)
    then show ?thesis using assms(1) l by (simp add: flushCommit_def)
  next
    case (Inr b)
    then have "fails env SysRead"
      using l assms(3) by (auto simp: acquireLock_def os_open_create_def split: if_splits)
    then have "readDB js env s d1 = Inl ErrCorruptRead" by (auto simp: readDB_def split: option.splits)
    then show ?thesis using assms(1) l Inr by (simp add: flushCommit_def)
  qed
  then show ?thesis using map_of_restore [OF assms(2)] acquireLock_db_at [OF l] by simp
qed

theorem flush_keeps_usage_on_read_error_witness:
  "map_of (usageBuf (fst (snd (flushCommit demo_json (ok_env\<lparr>fails := (\<lambda>c. c = SysFlock)\<rparr>)
     [(''0a'', 5)] demo_store demo_disk)))) = [''0a'' \<mapsto> 5]"
proof -
  obtain e s' d' where f: "flushCommit demo_json (ok_env\<lparr>fails := (\<lambda>c. c = SysFlock)\<rparr>)
      [(''0a'', 5)] demo_store demo_disk = (Some e, s', d')"
    by (simp add: flushCommit_def acquireLock_def os_open_create_def demo_defs)
  have "usageBuf demo_store = []" by (simp add: demo_store_def)
  then show ?thesis
    using flush_keeps_usage_on_read_error [OF f] by (simp add: f)
qed

text \<open>
  When the lock and the read succeed and the write fails, the buffered usage times are
  lost: the buffer that was taken is not put back, and the file keeps its old times. This
  is the one error path on which \<open>FlushUsage\<close> does not restore its snapshot.
\<close>

theorem flush_write_error_drops_usage:
  assumes "FlushUsage js env s d = (Some e, s', d')"
    and "\<not> fails env SysOpen" and "\<not> fails env SysFlock" and "\<not> fails env SysRead"
    and "db_at js (path s) (files d) = Some db" and "tmp_name env \<noteq> path s"
  shows "usageBuf s' = [] \<and> db_at js (path s) (files d') = Some db"
proof -
  let ?s = "s\<lparr>usageBuf := []\<rparr>"
  obtain r d1 where l: "acquireLock env (path s) lockExclusive d = (r, d1)" by fastforce
  then have r: "r = Inr True" using assms(2,3) by (auto simp: acquireLock_def os_open_create_def split: if_splits)
  have at: "db_at js (path s) (files d1) = Some db" using acquireLock_db_at [OF l] assms(5) by simp
  then have rd: "readDB js env ?s d1 = Inr db" using assms(4) by (simp add: readDB_db_at)
  have w: "writeDB js env ?s (db\<lparr>Keys := map (applyUsage (usageBuf s)) (Keys db)\<rparr>) d1 = (Some e, d')" "s' = ?s"
    using assms(1) l r rd
    by (auto simp: FlushUsage_def flushTake_def flushCommit_def split: if_splits prod.splits)
  have "files d' (path s) = files d1 (path s)"
    using w(1) assms(6) commit_file_result(1)
    by (fastforce simp: writeDB_def split: option.splits)
  then show ?thesis using at w(2) db_at_cong by (metis Store.select_convs(2) Store.surjective Store.update_convs(2))
qed

theorem flush_write_error_drops_usage_witness:
  "usageBuf used_store = [(''0a'', 5)] \<and>
   usageBuf (fst (snd (FlushUsage demo_json no_rename_env used_store demo_disk))) = []"
proof -
  have w: "fst (writeDB demo_json no_rename_env (demo_store\<lparr>usageBuf := []\<rparr>) demo_db_used demo_disk) \<noteq> None"
    by (simp add: writeDB_def commit_file_def os_defs demo_defs Let_def)
  have "FlushUsage demo_json no_rename_env used_store demo_disk =
      (let (e, d2) = writeDB demo_json no_rename_env (demo_store\<lparr>usageBuf := []\<rparr>) demo_db_used demo_disk
       in (e, demo_store\<lparr>usageBuf := []\<rparr>, d2))"
    by (simp add: FlushUsage_def flushTake_def flushCommit_def acquireLock_def os_open_create_def
        readDB_def demo_defs used_store_def) (simp add: demo_db_def demo_key_def demo_db_used_def applyUsage_def)
  then obtain e s' d' where f: "FlushUsage demo_json no_rename_env used_store demo_disk = (Some e, s', d')"
    using w by (auto simp: Let_def split: prod.splits)
  have "usageBuf used_store = [(''0a'', 5)]" "path used_store = path demo_store" by (simp_all add: used_store_def)
  moreover have "\<not> fails no_rename_env SysOpen" "\<not> fails no_rename_env SysFlock" "\<not> fails no_rename_env SysRead"
    by (simp_all add: no_rename_env_def)
  ultimately show ?thesis
    using flush_write_error_drops_usage [OF f, of demo_db] demo_db_at(1) by (simp add: f)
qed

subsection \<open>Credentials\<close>

lemma generateID_None:
  "generateID ex ent = None \<longleftrightarrow>
     (\<forall>i. 8 * i + 8 \<le> length ent \<longrightarrow> EncodeToString_hex (take 8 (drop (8 * i) ent)) \<in> ex)"
proof (induction ex ent rule: generateID.induct)
  case (1 ex ent)
  let ?blk = "\<lambda>i. EncodeToString_hex (take 8 (drop (8 * i) ent))"
  show ?case
  proof (cases "length ent < 8")
    case True
    then show ?thesis by (auto simp: generateID.simps [of ex ent] rand_Read_def idBytes_def)
  next
    case False
    then have rd: "rand_Read idBytes ent = Some (take 8 ent, drop 8 ent)"
      by (simp add: rand_Read_def idBytes_def)
    have from_zero: "(\<forall>n. Q (n :: nat)) = (Q 0 \<and> (\<forall>m. Q (Suc m)))" for Q
      by (metis nat.exhaust)
    have shift: "(\<forall>i. 8 * i + 8 \<le> length ent \<longrightarrow> ?blk i \<in> ex) \<longleftrightarrow>
        ?blk 0 \<in> ex \<and> (\<forall>i. 8 * i + 8 \<le> length (drop 8 ent) \<longrightarrow> ?blk (Suc i) \<in> ex)"
      using False by (subst from_zero) auto
    show ?thesis
      using 1 [OF rd refl refl] rd
      by (subst shift) (auto simp: generateID.simps [of ex ent] Let_def add.commute)
  qed
qed

text \<open>
  \<open>generateID\<close> ends with an identifier exactly when some eight-byte block of the entropy
  it is given encodes to an identifier not in use; the identifier is then fresh and has 16
  lower-case hexadecimal characters.
\<close>

theorem generateID_returns_fresh:
  "((\<exists>ident rest. generateID ex ent = Some (ident, rest)) \<longleftrightarrow>
     (\<exists>i. 8 * i + 8 \<le> length ent \<and> EncodeToString_hex (take 8 (drop (8 * i) ent)) \<notin> ex)) \<and>
   (\<forall>ident rest. generateID ex ent = Some (ident, rest) \<longrightarrow>
     ident \<notin> ex \<and> length ident = 16 \<and> hexstr ident)"
  using generateID_None [of ex ent] generateID_Some [of ex ent] by (cases "generateID ex ent") auto

theorem generateID_returns_fresh_witness:
  "\<exists>ident rest. generateID {} ''abcdefgh'' = Some (ident, rest) \<and> length ident = 16 \<and> hexstr ident"
proof -
  have "\<exists>i. 8 * i + 8 \<le> length ''abcdefgh''" by (intro exI [of _ 0]) simp
  then show ?thesis using generateID_returns_fresh [of "{}" "''abcdefgh''"] by blast
qed

end
