(* ===== verification/KeyLock.thy ===== *)
theory KeyLock
  imports KeystoreProofs
begin

section \<open>Concurrent writers of the key store\<close>

text \<open>
  The theory \<open>KeystoreProofs\<close> runs the writing operations one at a time. Here they interleave,
  at the granularity of their system calls. \<^verbatim>\<open>flock\<close> locks the open file, that is an inode,
  while \<^verbatim>\<open>readDB\<close> and the rename of \<^verbatim>\<open>writeDB\<close> go through the path, which the rename
  binds to a new inode. The world has the inodes with their databases, the inode that the
  path names, and for each process how far it is in one call of \<open>Create\<close>, \<open>Revoke\<close> or
  \<open>FlushUsage\<close>. A call gets to the lock only if it has something to do: \<open>FlushUsage\<close> returns
  before, when no usage is buffered.

  Shown are: what the lock guarantees (one holder per inode, and a commit by a holder of the
  current inode is based on the current database), and what it does not: a process that
  waited for the lock of an inode that was meanwhile renamed over runs beside a holder of
  the new inode, and the later commit undoes the earlier one.
\<close>

datatype kop =
    OpCreate dbRecord
  | OpRevoke string gotime
  | OpFlush "(string \<times> gotime) list"

text \<open>The calls that reach \<open>acquireLock\<close>.\<close>

definition takes_lock :: "kop \<Rightarrow> bool" where
  "takes_lock op = (case op of OpFlush snap \<Rightarrow> snap \<noteq> [] | _ \<Rightarrow> True)"

text \<open>\<open>generateID\<close> gives a new record an id that is not among those that were read.\<close>

definition fresh_for :: "kop \<Rightarrow> Database \<Rightarrow> bool" where
  "fresh_for op db = (case op of OpCreate k \<Rightarrow> d_ID k \<notin> d_ID ` set (Keys db) | _ \<Rightarrow> True)"

text \<open>What the operation writes, given what it read; \<open>None\<close> when it returns without writing.\<close>

definition apply_op :: "kop \<Rightarrow> Database \<Rightarrow> Database option" where
  "apply_op op db =
     (case op of
        OpCreate k \<Rightarrow> Some (db\<lparr>Keys := Keys db @ [k]\<rparr>)
      | OpRevoke i now \<Rightarrow>
          (case revokeLoop i now (Keys db) of
             Inl _ \<Rightarrow> None
           | Inr ks \<Rightarrow> Some (db\<lparr>Keys := ks\<rparr>))
      | OpFlush snap \<Rightarrow> Some (db\<lparr>Keys := map (applyUsage snap) (Keys db)\<rparr>))"

datatype pstate =
    Idle
  | Opened kop nat
  | Locked kop nat
  | HasDB kop nat Database
  | Finished nat "Database option"

record lworld =
  inodes :: "Database list"
  current :: nat
  procs :: "nat \<Rightarrow> pstate"

fun holds_lock :: "pstate \<Rightarrow> nat option" where
  "holds_lock (Locked _ i) = Some i"
| "holds_lock (HasDB _ i _) = Some i"
| "holds_lock (Finished i _) = Some i"
| "holds_lock _ = None"

datatype laction = DoOpen kop | DoFlock | DoRead | DoCommit | DoUnlock

text \<open>
  One system call of process \<open>p\<close>: open the path for an operation, take the exclusive lock of the opened inode
  when no other process has it, read the file the path names, commit by renaming a new
  inode over the path (or give up), release the lock. \<open>ps\<close> are the processes of the system.
\<close>

definition lstep :: "nat list \<Rightarrow> nat \<Rightarrow> laction \<Rightarrow> lworld \<Rightarrow> lworld option" where
  "lstep ps p a w =
     (case (procs w p, a) of
        (Idle, DoOpen op) \<Rightarrow>
          if takes_lock op then Some (w\<lparr>procs := (procs w)(p := Opened op (current w))\<rparr>) else None
      | (Opened op i, DoFlock) \<Rightarrow>
          if list_ex (\<lambda>q. holds_lock (procs w q) = Some i) ps then None
          else Some (w\<lparr>procs := (procs w)(p := Locked op i)\<rparr>)
      | (Locked op i, DoRead) \<Rightarrow>
          Some (w\<lparr>procs := (procs w)(p := HasDB op i (inodes w ! current w))\<rparr>)
      | (HasDB op i db, DoCommit) \<Rightarrow>
          if \<not> fresh_for op db then None
          else (case apply_op op db of
             None \<Rightarrow> Some (w\<lparr>procs := (procs w)(p := Finished i None)\<rparr>)
           | Some db' \<Rightarrow>
               Some (w\<lparr>inodes := inodes w @ [db'], current := length (inodes w),
                       procs := (procs w)(p := Finished i (Some db'))\<rparr>))
      | (Finished i _, DoUnlock) \<Rightarrow> Some (w\<lparr>procs := (procs w)(p := Idle)\<rparr>)
      | _ \<Rightarrow> None)"

inductive lreach :: "nat list \<Rightarrow> Database \<Rightarrow> lworld \<Rightarrow> bool" for ps db where
  lreach_start: "lreach ps db \<lparr>inodes = [db], current = 0, procs = (\<lambda>_. Idle)\<rparr>"
| lreach_step: "lreach ps db w \<Longrightarrow> p \<in> set ps \<Longrightarrow> lstep ps p a w = Some w' \<Longrightarrow> lreach ps db w'"

fun lrun :: "nat list \<Rightarrow> (nat \<times> laction) list \<Rightarrow> lworld \<Rightarrow> lworld option" where
  "lrun ps [] w = Some w"
| "lrun ps ((p, a) # as) w = (case lstep ps p a w of None \<Rightarrow> None | Some w' \<Rightarrow> lrun ps as w')"

lemma lrun_lreach:
  "lrun ps acts w = Some w' \<Longrightarrow> lreach ps db w \<Longrightarrow> fst ` set acts \<subseteq> set ps \<Longrightarrow> lreach ps db w'"
  by (induction ps acts w rule: lrun.induct) (auto split: option.splits intro: lreach_step)

definition linv :: "nat list \<Rightarrow> lworld \<Rightarrow> bool" where
  "linv ps w \<longleftrightarrow>
     current w < length (inodes w) \<and>
     (\<forall>p i. holds_lock (procs w p) = Some i \<longrightarrow> p \<in> set ps) \<and>
     (\<forall>p q i. holds_lock (procs w p) = Some i \<and> holds_lock (procs w q) = Some i \<longrightarrow> p = q) \<and>
     (\<forall>p op i db. procs w p = HasDB op i db \<longrightarrow> i < length (inodes w) \<and> (i = current w \<longrightarrow> db = inodes w ! i)) \<and>
     (\<forall>p op i. procs w p = Opened op i \<or> procs w p = Locked op i \<longrightarrow> i < length (inodes w))"

lemma lstep_cases:
  assumes "lstep ps p a w = Some w'"
  obtains (opens) op where "procs w p = Idle" "w' = w\<lparr>procs := (procs w)(p := Opened op (current w))\<rparr>"
  | (flock) op i where "procs w p = Opened op i" "\<And>q. q \<in> set ps \<Longrightarrow> holds_lock (procs w q) \<noteq> Some i"
      "w' = w\<lparr>procs := (procs w)(p := Locked op i)\<rparr>"
  | (read) op i where "procs w p = Locked op i" "w' = w\<lparr>procs := (procs w)(p := HasDB op i (inodes w ! current w))\<rparr>"
  | (giveup) op i db where "procs w p = HasDB op i db" "w' = w\<lparr>procs := (procs w)(p := Finished i None)\<rparr>"
  | (commit) op i db db' where "procs w p = HasDB op i db" "apply_op op db = Some db'"
      "w' = w\<lparr>inodes := inodes w @ [db'], current := length (inodes w),
              procs := (procs w)(p := Finished i (Some db'))\<rparr>"
  | (unlock) i r where "procs w p = Finished i r" "w' = w\<lparr>procs := (procs w)(p := Idle)\<rparr>"
  using assms
  by (auto simp: lstep_def list_ex_iff split: pstate.splits laction.splits option.splits if_splits)

lemma linv_step:
  assumes "linv ps w" "p \<in> set ps" "lstep ps p a w = Some w'"
  shows "linv ps w'"
  using assms(3)
proof (cases rule: lstep_cases)
  case opens
  then show ?thesis using assms(1) by (auto simp: linv_def)
next
  case (flock op i)
  then show ?thesis using assms(1,2) unfolding linv_def by (auto split: if_splits)
next
  case (read op i)
  then have "holds_lock (procs w p) = Some i" "i < length (inodes w)" using assms(1) by (auto simp: linv_def)
  then show ?thesis using read assms(1,2) unfolding linv_def by (auto split: if_splits)
next
  case (giveup op i db)
  then have "holds_lock (procs w p) = Some i" by simp
  then show ?thesis using giveup assms(1,2) unfolding linv_def by (auto split: if_splits)
next
  case (commit op i db db')
  then have "holds_lock (procs w p) = Some i" by simp
  then show ?thesis using commit assms(1,2) unfolding linv_def
    by (auto split: if_splits simp: nth_append) (metis less_SucI order_less_irrefl)+
next
  case (unlock i r)
  then show ?thesis using assms(1) unfolding linv_def by (auto split: if_splits)
qed

lemma lreach_linv: "lreach ps db w \<Longrightarrow> linv ps w"
  by (induction rule: lreach.induct) (auto simp: linv_def [of _ "\<lparr>inodes = _, current = _, procs = _\<rparr>"] intro: linv_step)

subsection \<open>What the lock guarantees\<close>

text \<open>Two processes never hold the exclusive lock of the same inode.\<close>

theorem lock_one_holder_per_inode:
  assumes "lreach ps db w" and "holds_lock (procs w p) = Some i" and "holds_lock (procs w q) = Some i"
  shows "p = q"
  using lreach_linv [OF assms(1)] assms(2,3) unfolding linv_def by blast

definition lstart :: "Database \<Rightarrow> lworld" where
  "lstart db = \<lparr>inodes = [db], current = 0, procs = (\<lambda>_. Idle)\<rparr>"

theorem lock_one_holder_per_inode_witness:
  "\<exists>w. lrun [0, 1] [(0, DoOpen (OpRevoke ''0a'' 7)), (1, DoOpen (OpRevoke ''0b'' 7)), (1, DoFlock)] (lstart emptyDB) = Some w \<and>
     holds_lock (procs w 1) = Some 0 \<and> holds_lock (procs w 0) \<noteq> Some 0"
proof -
  obtain w where w: "lrun [0, 1] [(0, DoOpen (OpRevoke ''0a'' 7)), (1, DoOpen (OpRevoke ''0b'' 7)), (1, DoFlock)] (lstart emptyDB) = Some w"
    "holds_lock (procs w 1) = Some 0"
    by (simp add: lstart_def lstep_def takes_lock_def)
  have "lreach [0, 1] emptyDB w"
    using lrun_lreach [OF w(1), of emptyDB] lreach_start [of "[0, 1]" emptyDB] by (simp add: lstart_def)
  then show ?thesis using lock_one_holder_per_inode [of _ _ w 1 0 0] w by fastforce
qed

text \<open>
  A commit by a process whose locked inode is still the one that the path names is a
  correct read-modify-write: it applies the operation to the current database, whatever
  the other processes are doing. (Comparing the locked inode with the path's after
  \<^verbatim>\<open>flock\<close> would establish this condition; \<open>acquireLock\<close> does not do it.)
\<close>

theorem commit_on_current_inode:
  assumes "lreach ps db w" and "procs w p = HasDB op (current w) rd" and "lstep ps p DoCommit w = Some w'"
  shows "case apply_op op (inodes w ! current w) of
      None \<Rightarrow> inodes w' ! current w' = inodes w ! current w
    | Some db' \<Rightarrow> inodes w' ! current w' = db'"
proof -
  have "rd = inodes w ! current w" using lreach_linv [OF assms(1)] assms(2) unfolding linv_def by blast
  then show ?thesis using assms(2,3) by (auto simp: lstep_def split: option.splits if_splits)
qed

definition race_db :: Database where
  "race_db = \<lparr>Version = 1, Keys = [\<lparr>d_ID = ''0a'', d_Label = [], d_Created = 1, d_LastUsed = 0, d_RevokedAt = 0,
     d_Revoked = False, d_Fingerprint = ''0b'', d_Hash = [], d_Salt = []\<rparr>]\<rparr>"

theorem commit_on_current_inode_witness:
  "\<exists>w w'. lrun [0] [(0, DoOpen (OpRevoke ''0a'' 7)), (0, DoFlock), (0, DoRead)] (lstart race_db) = Some w \<and>
     lstep [0] 0 DoCommit w = Some w' \<and> map d_Revoked (Keys (inodes w' ! current w')) = [True]"
proof -
  obtain w where w: "lrun [0] [(0, DoOpen (OpRevoke ''0a'' 7)), (0, DoFlock), (0, DoRead)] (lstart race_db) = Some w"
    "procs w 0 = HasDB (OpRevoke ''0a'' 7) (current w) race_db" "inodes w ! current w = race_db"
    by (simp add: lstart_def lstep_def takes_lock_def)
  obtain db' where ap: "apply_op (OpRevoke ''0a'' 7) race_db = Some db'" "map d_Revoked (Keys db') = [True]"
    by (simp add: apply_op_def race_db_def)
  obtain w' where w': "lstep [0] 0 DoCommit w = Some w'"
    using w(2) ap(1) by (simp add: lstep_def fresh_for_def)
  have "lreach [0] race_db w"
    using lrun_lreach [OF w(1), of race_db] lreach_start [of "[0]" race_db] by (simp add: lstart_def)
  then show ?thesis using commit_on_current_inode [OF _ w(2) w'] w w' ap by auto
qed

subsection \<open>What it does not\<close>

text \<open>
  Process 0 creates a key while process 1 waits for the lock to revoke another one; the rename
  leaves process 1 with the lock of the old inode, and process 2, the daemon that flushes its
  usage times, then locks the new one.
\<close>

definition stale_trace :: "dbRecord \<Rightarrow> string \<Rightarrow> gotime \<Rightarrow> (string \<times> gotime) list \<Rightarrow> (nat \<times> laction) list" where
  "stale_trace k i now snap =
     [(0, DoOpen (OpCreate k)), (1, DoOpen (OpRevoke i now)), (0, DoFlock), (0, DoRead), (0, DoCommit), (0, DoUnlock),
      (1, DoFlock), (2, DoOpen (OpFlush snap)), (2, DoFlock), (1, DoRead), (2, DoRead),
      (1, DoCommit), (2, DoCommit)]"

lemma abs_db_applyUsage: "abs_db (db\<lparr>Keys := map (applyUsage m) (Keys db)\<rparr>) = abs_db db"
  by (simp add: abs_db_def comp_def)

text \<open>
  C31. The lock does not serialise writers. For every database with an active key, every
  record of a further key and every usage that the daemon has buffered, there is an interleaving
  of the creation, the revocation of the active key and the flush in which the revocation
  commits and would return success, and the database afterwards has the key active again.
\<close>

theorem stale_lock_undoes_revocation:
  assumes "wf_db (db\<lparr>Keys := Keys db @ [k]\<rparr>)" and "abs_db db i = Some False" and "snap \<noteq> []"
  shows "\<exists>w dbR. lrun [0, 1, 2] (stale_trace k i now snap) (lstart db) = Some w \<and>
    procs w 1 = Finished 0 (Some dbR) \<and> abs_db dbR i = Some True \<and>
    abs_db (inodes w ! current w) i = Some False"
proof -
  let ?db = "db\<lparr>Keys := Keys db @ [k]\<rparr>"
  have k: "d_ID k \<notin> d_ID ` set (Keys db)" using assms(1) by (simp add: wf_db_def)
  then have i: "abs_db ?db i = Some False" using assms(2) by (simp add: abs_db_def map_add_Some_iff)
  then have "spec_revoke i (abs_db ?db) = Inr ((abs_db ?db)(i \<mapsto> True))"
    by (simp add: spec_revoke_def)
  then obtain ks where ks: "revokeLoop i now (Keys ?db) = Inr ks" "abs_db (?db\<lparr>Keys := ks\<rparr>) i = Some True"
    using revokeLoop_spec [OF assms(1), of i now]
    by (cases "revokeLoop i now (Keys ?db)") auto
  have op: "apply_op (OpCreate k) db = Some ?db" "apply_op (OpRevoke i now) ?db = Some (?db\<lparr>Keys := ks\<rparr>)"
    "apply_op (OpFlush snap) ?db = Some (?db\<lparr>Keys := map (applyUsage snap) (Keys ?db)\<rparr>)"
    using ks(1) by (simp_all add: apply_op_def)
  have can: "takes_lock (OpCreate k)" "takes_lock (OpRevoke i now)" "takes_lock (OpFlush snap)"
    "fresh_for (OpCreate k) db" "fresh_for (OpRevoke i now) ?db" "fresh_for (OpFlush snap) ?db"
    using assms(3) k by (simp_all add: takes_lock_def fresh_for_def)
  show ?thesis
    using ks(2) i abs_db_applyUsage [of snap ?db] by (simp add: stale_trace_def lstart_def lstep_def op can)
qed

definition race_key :: dbRecord where
  "race_key = \<lparr>d_ID = ''0c'', d_Label = [], d_Created = 5, d_LastUsed = 0, d_RevokedAt = 0,
     d_Revoked = False, d_Fingerprint = ''0d'', d_Hash = [], d_Salt = []\<rparr>"

theorem stale_lock_undoes_revocation_witness:
  "\<exists>w dbR. lrun [0, 1, 2] (stale_trace race_key ''0a'' 7 [(''0a'', 6)]) (lstart race_db) = Some w \<and>
    procs w 1 = Finished 0 (Some dbR) \<and> abs_db dbR ''0a'' = Some True \<and>
    abs_db (inodes w ! current w) ''0a'' = Some False"
  by (rule stale_lock_undoes_revocation)
    (simp_all add: race_db_def race_key_def wf_db_def clean_db_def abs_db_def is_int64_def)

end
