(* ===== verification/CmdExec.thy ===== *)
theory CmdExec
  imports GoStd
begin

section \<open>The command runner (\<open>internal/cmdexec\<close>)\<close>

text \<open>
  \<^verbatim>\<open>Run\<close> checks a request against the configuration, starts one process without a shell,
  collects its capped output and classifies how it ended. What the operating system decides
  is the argument \<open>exec_env\<close>: the file system as \<^verbatim>\<open>os.Stat\<close> and \<^verbatim>\<open>exec.LookPath\<close> see it,
  the daemon's environment, whether the context is already done when the process is to
  start, and what a started process does. \<open>Run\<close> returns, beside its result, the list of
  processes it started.
\<close>

subsection \<open>Configuration (config.go)\<close>

record Config =
  Allowlist :: "string list"
  DefaultTimeoutMs :: int
  MaxTimeoutMs :: int
  DefaultCwd :: string
  EnvWhitelist :: "string list"
  MaxArgs :: int
  MaxArgLen :: int
  MaxOutputBytes :: int
  DenyRoot :: bool

subsection \<open>Capped output (cappedwriter.go)\<close>

record CappedWriter =
  cw_buf :: bytes
  cw_cap :: int
  Truncated :: bool

text \<open>\<^verbatim>\<open>make([]byte, 0, cap)\<close> panics when \<^verbatim>\<open>cap\<close> is negative: \<open>None\<close>.\<close>

definition NewCappedWriter :: "int \<Rightarrow> CappedWriter option" where
  "NewCappedWriter c =
     (if c < 0 then None else Some \<lparr>cw_buf = [], cw_cap = c, Truncated = False\<rparr>)"

definition Write :: "CappedWriter \<Rightarrow> bytes \<Rightarrow> nat \<times> CappedWriter" where
  "Write cw p =
     (let n = length p in
      if cw_cap cw = 0 then
        (n, if n > 0 then cw\<lparr>Truncated := True\<rparr> else cw)
      else
        let remaining = cw_cap cw - int (length (cw_buf cw)) in
        if remaining \<le> 0 then (n, if n > 0 then cw\<lparr>Truncated := True\<rparr> else cw)
        else if int (length p) > remaining then
          (n, cw\<lparr>cw_buf := cw_buf cw @ take (nat remaining) p, Truncated := True\<rparr>)
        else (n, cw\<lparr>cw_buf := cw_buf cw @ p\<rparr>))"

definition Bytes :: "CappedWriter \<Rightarrow> bytes" where
  "Bytes cw = cw_buf cw"

definition write_all :: "CappedWriter \<Rightarrow> bytes list \<Rightarrow> CappedWriter" where
  "write_all cw ps = foldl (\<lambda>w p. snd (Write w p)) cw ps"

subsection \<open>Process groups (sysproc_unix.go, sysproc_linux.go)\<close>

record process =
  p_pid :: int
  p_pgid :: int
  p_alive :: bool

text \<open>\<^verbatim>\<open>kill(-pgid, SIGKILL)\<close> on the table of processes; its error is \<^verbatim>\<open>ESRCH\<close>.\<close>

definition killGroup :: "int \<Rightarrow> process list \<Rightarrow> bool \<times> process list" where
  "killGroup pgid ps =
     (list_ex (\<lambda>p. p_pgid p = pgid \<and> p_alive p) ps,
      map (\<lambda>p. if p_pgid p = pgid then p\<lparr>p_alive := False\<rparr> else p) ps)"

definition waitDelay :: duration where "waitDelay = 5 * 1000000000"

definition reapGroupTimeout :: duration where "reapGroupTimeout = 200 * 1000000"

definition reapGroupPollInterval :: duration where "reapGroupPollInterval = 1000000"

text \<open>\<^verbatim>\<open>time.Sleep\<close>: the instant after a pause that began at \<open>t\<close>, without the delay of the scheduler.\<close>

definition time_Sleep :: "gotime \<Rightarrow> duration \<Rightarrow> gotime" where
  "time_Sleep t d = t + max 0 d"

text \<open>
  The loop of \<^verbatim>\<open>reapGroupOrphans\<close>. The previous turn ended at \<open>t\<close>; \<open>lag i\<close> is the time that
  passes from then to the reading of the clock in the \<open>i\<close>-th turn, and \<open>wait4 i\<close> is what \<^verbatim>\<open>wait4\<close>
  returns in it. The result is the list of what the calls of \<^verbatim>\<open>wait4\<close> returned.
\<close>

partial_function (option) reap_loop ::
  "(nat \<Rightarrow> duration) \<Rightarrow> (nat \<Rightarrow> int) \<Rightarrow> gotime \<Rightarrow> gotime \<Rightarrow> nat \<Rightarrow> int list option" where
  "reap_loop lag wait4 deadline t i =
     (let now = t + lag i; pid = wait4 i in
      if \<not> now < deadline then Some []
      else if pid > 0 then
        Option.bind (reap_loop lag wait4 deadline now (Suc i)) (\<lambda>ps. Some (pid # ps))
      else if pid = 0 then
        Option.bind (reap_loop lag wait4 deadline (time_Sleep now reapGroupPollInterval) (Suc i)) (\<lambda>ps. Some (pid # ps))
      else Some [pid])"

definition reapGroupOrphans :: "gotime \<Rightarrow> (nat \<Rightarrow> duration) \<Rightarrow> (nat \<Rightarrow> int) \<Rightarrow> int list option" where
  "reapGroupOrphans now lag wait4 = reap_loop lag wait4 (now + reapGroupTimeout) now 0"

subsection \<open>Running a command (exec.go)\<close>

record exec_input =
  Command :: string
  Args :: "string list"
  Cwd :: string

record exec_result =
  Stdout :: bytes
  Stderr :: bytes
  ExitCode :: int
  Duration :: duration
  TimedOut :: bool
  StdoutTruncated :: bool
  StderrTruncated :: bool

datatype exec_error =
    ErrNotAllowed string
  | ErrBadCwd string
  | ErrNotDir string
  | CommandNotFound string
  | RelativePath
  | StartFailed

datatype look_result = LookFound string | LookDot | LookNotFound

text \<open>What \<^verbatim>\<open>exec.Cmd\<close> is given: program, arguments, environment, directory, own group.\<close>

record spawned =
  sp_bin :: string
  sp_args :: "string list"
  sp_env :: "string list"
  sp_dir :: string
  sp_setpgid :: bool

datatype wait_error = WaitOk | WaitExit int | WaitOther

record child =
  ch_stdout :: "bytes list"
  ch_stderr :: "bytes list"
  ch_wait :: wait_error
  ch_ctx_done :: bool
  ch_duration :: duration

text \<open>\<open>os_stat\<close>: \<open>None\<close> on an error, otherwise whether it is a directory. \<open>os_start\<close>: \<open>None\<close>
  when the process cannot be started.\<close>

record exec_env =
  os_stat :: "string \<Rightarrow> bool option"
  look_path :: "string \<Rightarrow> look_result"
  os_getenv :: "string \<Rightarrow> string"
  ctx_done :: bool
  os_start :: "spawned \<Rightarrow> child option"

definition allowed :: "Config \<Rightarrow> string \<Rightarrow> bool" where
  "allowed cfg cmd \<longleftrightarrow> Allowlist cfg = [] \<or> list_ex (\<lambda>entry. entry = cmd) (Allowlist cfg)"

definition validateCwd :: "exec_env \<Rightarrow> string \<Rightarrow> exec_error option" where
  "validateCwd env p =
     (case os_stat env p of
        None \<Rightarrow> Some (ErrBadCwd p)
      | Some isDir \<Rightarrow> if \<not> isDir then Some (ErrNotDir p) else None)"

definition lookupBinary :: "exec_env \<Rightarrow> string \<Rightarrow> exec_error + string" where
  "lookupBinary env cmd =
     (if HasPrefix cmd ''/'' then
        (if os_stat env cmd = None then Inl (CommandNotFound cmd) else Inr cmd)
      else case look_path env cmd of
             LookDot \<Rightarrow> Inl RelativePath
           | LookNotFound \<Rightarrow> Inl (CommandNotFound cmd)
           | LookFound bin \<Rightarrow> if \<not> HasPrefix bin ''/'' then Inl RelativePath else Inr bin)"

definition buildEnv :: "exec_env \<Rightarrow> string list \<Rightarrow> string list" where
  "buildEnv env whitelist =
     concat (map (\<lambda>key. let val = os_getenv env key in
                        if val \<noteq> [] then [key @ ''='' @ val] else []) whitelist)"

definition applyProcessGroup :: "spawned \<Rightarrow> spawned" where
  "applyProcessGroup c = c\<lparr>sp_setpgid := True\<rparr>"

text \<open>Section 11 of \<^verbatim>\<open>Run\<close>: the exit code and the timeout flag.\<close>

definition analyse :: "child \<Rightarrow> int \<times> bool" where
  "analyse ch =
     (case ch_wait ch of
        WaitOk \<Rightarrow> (0, False)
      | w \<Rightarrow>
          (let exitCode = (case w of WaitExit c \<Rightarrow> c | _ \<Rightarrow> 0) in
           if ch_ctx_done ch then (-1, True) else (exitCode, False)))"

datatype 'a exec_outcome = ExecOk 'a | ExecErr exec_error | ExecPanic

definition Run :: "exec_env \<Rightarrow> Config \<Rightarrow> exec_input \<Rightarrow> exec_result exec_outcome \<times> spawned list" where
  "Run env cfg inp =
     (if \<not> allowed cfg (Command inp) then (ExecErr (ErrNotAllowed (Command inp)), [])
      else
        let cwd = (if Cwd inp = [] then DefaultCwd cfg else Cwd inp) in
        case validateCwd env cwd of
          Some e \<Rightarrow> (ExecErr e, [])
        | None \<Rightarrow>
        (case lookupBinary env (Command inp) of
          Inl e \<Rightarrow> (ExecErr e, [])
        | Inr bin \<Rightarrow>
        (let cmd = applyProcessGroup
               \<lparr>sp_bin = bin, sp_args = Args inp, sp_env = buildEnv env (EnvWhitelist cfg),
                sp_dir = cwd, sp_setpgid = False\<rparr>
         in case (NewCappedWriter (MaxOutputBytes cfg), NewCappedWriter (MaxOutputBytes cfg)) of
              (Some stdoutW, Some stderrW) \<Rightarrow>
                if ctx_done env then (ExecErr StartFailed, [])
                else (case os_start env cmd of
                        None \<Rightarrow> (ExecErr StartFailed, [])
                      | Some ch \<Rightarrow>
                          (let out = write_all stdoutW (ch_stdout ch);
                               err = write_all stderrW (ch_stderr ch);
                               (exitCode, timedOut) = analyse ch
                           in (ExecOk \<lparr>Stdout = Bytes out, Stderr = Bytes err, ExitCode = exitCode,
                                       Duration = ch_duration ch, TimedOut = timedOut,
                                       StdoutTruncated = Truncated out, StderrTruncated = Truncated err\<rparr>,
                               [cmd])))
            | _ \<Rightarrow> (ExecPanic, []))))"

subsection \<open>The writer\<close>

text \<open>\<open>cw_of c s\<close> is the writer with capacity \<open>c\<close> after the stream \<open>s\<close>.\<close>

definition cw_of :: "nat \<Rightarrow> bytes \<Rightarrow> CappedWriter" where
  "cw_of c s = \<lparr>cw_buf = take c s, cw_cap = int c, Truncated = (c < length s)\<rparr>"

lemma Write_cw_of: "Write (cw_of c s) p = (length p, cw_of c (s @ p))"
proof (cases "length s < c")
  case True
  then have "take c s = s" "nat (int c - int (length s)) = c - length s" by (simp_all add: nat_minus_as_int)
  then show ?thesis using True by (auto simp: Write_def cw_of_def Let_def)
next
  case False
  then show ?thesis by (cases p) (auto simp: Write_def cw_of_def Let_def)
qed

lemma write_all_cw_of: "write_all (cw_of c s) ps = cw_of c (s @ concat ps)"
  by (induction ps arbitrary: s) (simp_all add: write_all_def Write_cw_of)

lemma NewCappedWriter_cw_of: "0 \<le> c \<Longrightarrow> NewCappedWriter c = Some (cw_of (nat c) [])"
  by (simp add: NewCappedWriter_def cw_of_def)

text \<open>
  C40. The capped writer is transparent up to its capacity: after any sequence of writes it
  holds the first \<open>cap\<close> bytes of the stream, it is marked truncated exactly when the stream
  is longer, and every write reports its full length, so a pipe is never blocked by it.
\<close>

theorem capped_writer_correct:
  assumes "0 \<le> c" and "NewCappedWriter c = Some w"
  shows "Bytes (write_all w ps) = take (nat c) (concat ps) \<and>
    (Truncated (write_all w ps) \<longleftrightarrow> int (length (concat ps)) > c) \<and>
    fst (Write (write_all w ps) p) = length p"
proof -
  have "w = cw_of (nat c) []" using assms NewCappedWriter_cw_of by simp
  then have "write_all w ps = cw_of (nat c) (concat ps)" by (simp add: write_all_cw_of)
  then show ?thesis using assms(1) by (auto simp: Write_cw_of) (auto simp: cw_of_def Bytes_def)
qed

theorem capped_writer_correct_witness:
  "\<exists>w. NewCappedWriter 4 = Some w \<and> Bytes (write_all w [''ab'', ''cde'']) = ''abcd'' \<and>
     Truncated (write_all w [''ab'', ''cde''])"
proof -
  obtain w where w: "NewCappedWriter 4 = Some w" by (simp add: NewCappedWriter_def)
  then show ?thesis using capped_writer_correct [OF _ w, of "[''ab'', ''cde'']"] by simp
qed

subsection \<open>Process groups\<close>

text \<open>
  Cancelling a command kills the whole process group of its head process and nothing
  else: afterwards no member of the group is alive and every other process is as it was.
\<close>

theorem killGroup_exact:
  "list_all2 (\<lambda>p p'. p_pid p' = p_pid p \<and> p_pgid p' = p_pgid p \<and>
       p_alive p' = (p_alive p \<and> p_pgid p \<noteq> pgid)) ps (snd (killGroup pgid ps))"
  by (simp add: killGroup_def list_all2_conv_all_nth)

text \<open>
  A turn that sleeps moves the clock by the pause, and a turn that reaps uses up one of the
  processes; so \<open>m\<close> processes and \<open>z\<close> pauses to the deadline bound the turns.
\<close>

lemma reap_loop_returns:
  assumes lag: "\<And>i. 0 \<le> lag i"
  shows "finite {j. i \<le> j \<and> 0 < wait4 j} \<Longrightarrow> card {j. i \<le> j \<and> 0 < wait4 j} \<le> m \<Longrightarrow>
    deadline \<le> t + int z * reapGroupPollInterval \<Longrightarrow>
    \<exists>ps. reap_loop lag wait4 deadline t i = Some ps \<and> length ps \<le> m + z + 1 \<and> ps = map wait4 [i..<i + length ps]"
proof (induction "m + z" arbitrary: m z t i rule: less_induct)
  case less
  let ?now = "t + lag i"
  have step: "\<exists>ps. Option.bind (reap_loop lag wait4 deadline t' (Suc i)) (\<lambda>ps. Some (wait4 i # ps)) = Some ps \<and>
      length ps \<le> m + z + 1 \<and> ps = map wait4 [i..<i + length ps]"
    if "m' + z' < m + z" "card {j. Suc i \<le> j \<and> 0 < wait4 j} \<le> m'" "deadline \<le> t' + int z' * reapGroupPollInterval" for m' z' t'
  proof -
    have "{j. Suc i \<le> j \<and> 0 < wait4 j} \<subseteq> {j. i \<le> j \<and> 0 < wait4 j}" by auto
    then have "finite {j. Suc i \<le> j \<and> 0 < wait4 j}" using less.prems(1) finite_subset by blast
    from less.hyps [OF that(1) this that(2,3)] obtain ps where "reap_loop lag wait4 deadline t' (Suc i) = Some ps"
      "length ps \<le> m' + z' + 1" "ps = map wait4 [Suc i..<Suc i + length ps]" by blast
    then show ?thesis using that(1) by (intro exI [of _ "wait4 i # ps"]) (simp add: upt_conv_Cons del: upt_Suc)
  qed
  consider "deadline \<le> ?now" | "?now < deadline" "wait4 i < 0" | "?now < deadline" "0 < wait4 i" | "?now < deadline" "wait4 i = 0"
    by linarith
  then show ?case
  proof cases
    case 3
    have "{j. i \<le> j \<and> 0 < wait4 j} = insert i {j. Suc i \<le> j \<and> 0 < wait4 j}"
      using 3(2) by (auto simp: Suc_le_eq le_less)
    moreover have "finite {j. Suc i \<le> j \<and> 0 < wait4 j}" using less.prems(1) by (rule rev_finite_subset) auto
    ultimately have "card {j. Suc i \<le> j \<and> 0 < wait4 j} \<le> m - 1" "m - 1 + z < m + z"
      using less.prems(2) by auto
    moreover have "deadline \<le> ?now + int z * reapGroupPollInterval" using less.prems(3) lag [of i] by simp
    ultimately show ?thesis using 3 step [of "m - 1" z ?now] by (simp add: reap_loop.simps [of lag wait4 deadline t i] Let_def)
  next
    case 4
    then have "0 < z" using less.prems(3) lag [of i] by (cases z) auto
    then have "m + (z - 1) < m + z" "deadline \<le> time_Sleep ?now reapGroupPollInterval + int (z - 1) * reapGroupPollInterval"
      using less.prems(3) lag [of i] by (simp_all add: time_Sleep_def reapGroupPollInterval_def of_nat_diff algebra_simps)
    moreover have "card {j. Suc i \<le> j \<and> 0 < wait4 j} \<le> m"
      by (rule le_trans [OF card_mono [OF less.prems(1)] less.prems(2)]) auto
    ultimately show ?thesis using 4 step [of m "z - 1" "time_Sleep ?now reapGroupPollInterval"]
      by (simp add: reap_loop.simps [of lag wait4 deadline t i] Let_def)
  qed (simp_all add: reap_loop.simps [of lag wait4 deadline t i] Let_def)
qed

text \<open>
  C33. Reaping the orphans of a command ends by itself. If time does not run backwards between
  the turns and \<^verbatim>\<open>wait4\<close> reaps at most \<open>m\<close> processes, the loop returns after at most \<open>m + 201\<close>
  calls of \<^verbatim>\<open>wait4\<close>, one in every turn, whatever else \<^verbatim>\<open>wait4\<close> reports and also when processes
  of the group stay alive for ever: the pause of 1 ms that the loop makes when nothing was
  reaped brings it to the deadline.
\<close>

theorem reapGroupOrphans_ends:
  assumes "\<And>i. 0 \<le> lag i" and "finite {i. wait4 i > 0}" and "card {i. wait4 i > 0} \<le> m"
  shows "\<exists>ps. reapGroupOrphans now lag wait4 = Some ps \<and> length ps \<le> m + 201 \<and> ps = map wait4 [0..<length ps]"
  using reap_loop_returns [of lag 0 wait4 m "now + reapGroupTimeout" now 200] assms
  by (simp add: reapGroupOrphans_def reapGroupTimeout_def reapGroupPollInterval_def ac_simps)

theorem reapGroupOrphans_ends_witness:
  "\<exists>ps. reapGroupOrphans 0 (\<lambda>i. 10) (\<lambda>i. if i = 0 then 7 else 0) = Some ps \<and> length ps \<le> 202"
proof -
  have "{i::nat. (if i = 0 then 7 else (0::int)) > 0} = {0}" by (auto split: if_splits)
  then show ?thesis
    using reapGroupOrphans_ends [of "\<lambda>i. 10" "\<lambda>i. if i = 0 then 7 else 0" 1 0] by auto
qed

subsection \<open>Run\<close>

lemma buildEnv_mem:
  "e \<in> set (buildEnv env wl) \<longleftrightarrow>
     (\<exists>key \<in> set wl. os_getenv env key \<noteq> [] \<and> e = key @ ''='' @ os_getenv env key)"
  by (auto simp: buildEnv_def Let_def split: if_splits)

lemma lookupBinary_abs: "lookupBinary env cmd = Inr bin \<Longrightarrow> HasPrefix bin ''/''"
  by (auto simp: lookupBinary_def split: look_result.splits if_splits)

text \<open>
  C19. At most one process is started, and only after every check passed: the requested
  command is in the allowlist if there is one, the working directory exists and is a
  directory, the program is an absolute path, the arguments are the client's own, each
  environment entry is a whitelisted variable with the daemon's non-empty value, and the
  process leads its own group.
\<close>

theorem run_spawns_checked:
  assumes "sp \<in> set (snd (Run env cfg inp))"
  shows "snd (Run env cfg inp) = [sp] \<and>
    (Allowlist cfg = [] \<or> Command inp \<in> set (Allowlist cfg)) \<and>
    os_stat env (sp_dir sp) = Some True \<and> sp_dir sp = (if Cwd inp = [] then DefaultCwd cfg else Cwd inp) \<and>
    HasPrefix (sp_bin sp) ''/'' \<and> sp_args sp = Args inp \<and> sp_setpgid sp \<and>
    (\<forall>e \<in> set (sp_env sp). \<exists>key \<in> set (EnvWhitelist cfg).
       os_getenv env key \<noteq> [] \<and> e = key @ ''='' @ os_getenv env key)"
  using assms lookupBinary_abs
  by (auto simp: Run_def Let_def allowed_def list_ex_iff validateCwd_def applyProcessGroup_def buildEnv_mem
      split: if_splits option.splits sum.splits prod.splits)

definition demo_cfg :: Config where
  "demo_cfg = \<lparr>Allowlist = [''ls''], DefaultTimeoutMs = 30000, MaxTimeoutMs = 300000, DefaultCwd = ''/tmp'',
     EnvWhitelist = [''PATH'', ''LANG''], MaxArgs = 256, MaxArgLen = 131072, MaxOutputBytes = 4, DenyRoot = False\<rparr>"

definition demo_child :: child where
  "demo_child = \<lparr>ch_stdout = [''file'', ''s''], ch_stderr = [], ch_wait = WaitExit 2, ch_ctx_done = False,
     ch_duration = 1000\<rparr>"

definition demo_exec_env :: exec_env where
  "demo_exec_env = \<lparr>os_stat = (\<lambda>p. if p = ''/tmp'' then Some True else None),
     look_path = (\<lambda>c. LookFound (''/bin/'' @ c)),
     os_getenv = (\<lambda>k. if k = ''PATH'' then ''/bin'' else []), ctx_done = False,
     os_start = (\<lambda>_. Some demo_child)\<rparr>"

definition demo_input :: exec_input where
  "demo_input = \<lparr>Command = ''ls'', Args = [''-l''], Cwd = []\<rparr>"

lemmas demo_run_defs = demo_cfg_def demo_child_def demo_exec_env_def demo_input_def

lemma demo_run:
  "Run demo_exec_env demo_cfg demo_input =
     (ExecOk \<lparr>Stdout = ''file'', Stderr = [], ExitCode = 2, Duration = 1000, TimedOut = False,
              StdoutTruncated = True, StderrTruncated = False\<rparr>,
      [\<lparr>sp_bin = ''/bin/ls'', sp_args = [''-l''], sp_env = [''PATH=/bin''], sp_dir = ''/tmp'', sp_setpgid = True\<rparr>])"
  by (simp add: Run_def allowed_def validateCwd_def lookupBinary_def applyProcessGroup_def
      NewCappedWriter_def write_all_def Write_def Bytes_def analyse_def buildEnv_def demo_run_defs)

theorem run_spawns_checked_witness:
  "\<exists>sp. snd (Run demo_exec_env demo_cfg demo_input) = [sp] \<and> HasPrefix (sp_bin sp) ''/'' \<and> sp_setpgid sp"
proof -
  obtain sp where "sp \<in> set (snd (Run demo_exec_env demo_cfg demo_input))" by (simp add: demo_run)
  from run_spawns_checked [OF this] show ?thesis by blast
qed

text \<open>
  A command outside the allowlist is refused by comparing names only: the answer and
  the absence of a process do not depend on the file system, the search path, the
  environment or the context, so the refusal reveals nothing about them.
\<close>

theorem run_allowlist_first:
  assumes "Allowlist cfg \<noteq> []" and "Command inp \<notin> set (Allowlist cfg)"
  shows "Run env cfg inp = (ExecErr (ErrNotAllowed (Command inp)), [])"
  using assms by (auto simp: Run_def allowed_def list_ex_iff)

theorem run_allowlist_first_witness:
  "Run demo_exec_env demo_cfg (demo_input\<lparr>Command := ''rm''\<rparr>) = (ExecErr (ErrNotAllowed ''rm''), [])"
  using run_allowlist_first [of demo_cfg "demo_input\<lparr>Command := ''rm''\<rparr>"] by (simp add: demo_run_defs)

text \<open>
  C20. The result of a command that was started: the output streams are cut at the limit and
  marked exactly when they were longer; a process that ended by itself keeps its exit code
  and is not a timeout; a failing wait after the end of the context is a timeout with code
  -1; and the runner does not panic.
\<close>

theorem run_result:
  assumes "allowed cfg (Command inp)" and "os_stat env (if Cwd inp = [] then DefaultCwd cfg else Cwd inp) = Some True"
    and "lookupBinary env (Command inp) = Inr bin" and "0 \<le> MaxOutputBytes cfg" and "\<not> ctx_done env"
    and "\<And>sp. os_start env sp = Some ch"
  shows "\<exists>r. fst (Run env cfg inp) = ExecOk r \<and>
    Stdout r = take (nat (MaxOutputBytes cfg)) (concat (ch_stdout ch)) \<and>
    Stderr r = take (nat (MaxOutputBytes cfg)) (concat (ch_stderr ch)) \<and>
    (StdoutTruncated r \<longleftrightarrow> MaxOutputBytes cfg < int (length (concat (ch_stdout ch)))) \<and>
    (StderrTruncated r \<longleftrightarrow> MaxOutputBytes cfg < int (length (concat (ch_stderr ch)))) \<and>
    (TimedOut r \<longleftrightarrow> ch_wait ch \<noteq> WaitOk \<and> ch_ctx_done ch) \<and>
    (ch_wait ch = WaitOk \<longrightarrow> ExitCode r = 0) \<and>
    (\<forall>c. ch_wait ch = WaitExit c \<longrightarrow> ExitCode r = (if ch_ctx_done ch then -1 else c)) \<and>
    Duration r = ch_duration ch"
proof -
  let ?w = "\<lambda>ps. cw_of (nat (MaxOutputBytes cfg)) (concat ps)"
  have w: "write_all (cw_of (nat (MaxOutputBytes cfg)) []) ps = ?w ps" for ps
    by (simp add: write_all_cw_of)
  have "fst (Run env cfg inp) = ExecOk
      \<lparr>Stdout = Bytes (?w (ch_stdout ch)), Stderr = Bytes (?w (ch_stderr ch)), ExitCode = fst (analyse ch),
       Duration = ch_duration ch, TimedOut = snd (analyse ch), StdoutTruncated = Truncated (?w (ch_stdout ch)),
       StderrTruncated = Truncated (?w (ch_stderr ch))\<rparr>"
    using assms by (simp add: Run_def validateCwd_def NewCappedWriter_cw_of w Let_def case_prod_beta)
  then show ?thesis using assms(4)
    by (auto simp: cw_of_def Bytes_def analyse_def Let_def split: wait_error.splits)
qed

theorem run_result_witness:
  "\<exists>r. fst (Run demo_exec_env demo_cfg demo_input) = ExecOk r \<and> Stdout r = ''file'' \<and> StdoutTruncated r \<and>
     \<not> TimedOut r \<and> ExitCode r = 2"
proof -
  have "allowed demo_cfg (Command demo_input)" "lookupBinary demo_exec_env (Command demo_input) = Inr ''/bin/ls''"
    "\<And>sp. os_start demo_exec_env sp = Some demo_child" "\<not> ctx_done demo_exec_env"
    "os_stat demo_exec_env (if Cwd demo_input = [] then DefaultCwd demo_cfg else Cwd demo_input) = Some True"
    "MaxOutputBytes demo_cfg = 4"
    by (simp_all add: allowed_def lookupBinary_def demo_run_defs)
  note pre = this
  show ?thesis using run_result [OF pre(1,5,2) _ pre(4,3)] pre(6) by (auto simp: demo_child_def)
qed

text \<open>
  A context that is already done when the process is to be started gives an error, not a
  result with the timeout flag, for every command that passed the checks.
\<close>

theorem run_expired_context_is_error:
  assumes "allowed cfg (Command inp)" and "os_stat env (if Cwd inp = [] then DefaultCwd cfg else Cwd inp) = Some True"
    and "lookupBinary env (Command inp) = Inr bin" and "0 \<le> MaxOutputBytes cfg" and "ctx_done env"
  shows "Run env cfg inp = (ExecErr StartFailed, [])"
  using assms by (simp add: Run_def validateCwd_def NewCappedWriter_cw_of Let_def)

theorem run_expired_context_is_error_witness:
  "Run (demo_exec_env\<lparr>ctx_done := True\<rparr>) demo_cfg demo_input = (ExecErr StartFailed, [])"
  by (rule run_expired_context_is_error [where bin = "''/bin/ls''"])
    (simp_all add: allowed_def lookupBinary_def demo_run_defs)

end
