(* ===== verification/GoPath.thy ===== *)
theory GoPath
  imports GoStd
begin

section \<open>path/filepath on Unix, and net.SplitHostPort\<close>

text \<open>
  \<^verbatim>\<open>filepath.Clean\<close> resolves a path lexically: empty elements and single dots go, a double
  dot takes the element before it, except at the start of a relative path. The model works
  on the list of elements between slashes. \<^verbatim>\<open>filepath.IsLocal\<close> is the lexical test the
  upload code makes before it touches the file system.
\<close>

abbreviation slash :: char where "slash \<equiv> CHR ''/''"

fun clean_elems :: "bool \<Rightarrow> string list \<Rightarrow> string list \<Rightarrow> string list" where
  "clean_elems rooted stack [] = rev stack"
| "clean_elems rooted stack (e # es) =
     (if e = '''' \<or> e = ''.'' then clean_elems rooted stack es
      else if e = ''..'' then
        (case stack of
           [] \<Rightarrow> clean_elems rooted (if rooted then [] else [''..'']) es
         | t # ts \<Rightarrow> if t = ''..'' then clean_elems rooted (''..'' # stack) es
                    else clean_elems rooted ts es)
      else clean_elems rooted (e # stack) es)"

definition Clean :: "string \<Rightarrow> string" where
  "Clean p =
     (let rooted = prefix ''/'' p; es = clean_elems rooted [] (Split p slash) in
      if rooted then slash # Join_sep es ''/''
      else if es = [] then ''.'' else Join_sep es ''/'')"

definition IsAbs :: "string \<Rightarrow> bool" where
  "IsAbs p = prefix ''/'' p"

definition IsLocal :: "string \<Rightarrow> bool" where
  "IsLocal p =
     (if IsAbs p \<or> p = '''' then False
      else let hasDots = (\<exists>e \<in> set (Split p slash). e = ''.'' \<or> e = ''..'');
               q = (if hasDots then Clean p else p) in
           \<not> (q = ''..'' \<or> prefix ''../'' q))"

definition Dir :: "string \<Rightarrow> string" where
  "Dir p = Clean (rev (dropWhile (\<lambda>c. c \<noteq> slash) (rev p)))"

definition Join :: "string list \<Rightarrow> string" where
  "Join es = (case dropWhile (\<lambda>e. e = '''') es of [] \<Rightarrow> '''' | fs \<Rightarrow> Clean (Join_sep fs ''/''))"

text \<open>\<^verbatim>\<open>net.SplitHostPort\<close>: \<open>None\<close> is any of its address errors.\<close>

definition SplitHostPort :: "string \<Rightarrow> (string \<times> string) option" where
  "SplitHostPort hp =
     (if CHR '':'' \<notin> set hp then None
      else let port = rev (takeWhile (\<lambda>c. c \<noteq> CHR '':'') (rev hp));
               i = length hp - length port - 1 in
        if hd hp = CHR ''['' then
          (if CHR '']'' \<notin> set hp then None
           else let ed = length (takeWhile (\<lambda>c. c \<noteq> CHR '']'') hp) in
             if ed + 1 \<noteq> i then None
             else if CHR ''['' \<in> set (drop 1 hp) \<or> CHR '']'' \<in> set (drop (ed + 1) hp) then None
             else Some (take (ed - 1) (drop 1 hp), port))
        else if CHR '':'' \<in> set (take i hp) then None
        else if CHR ''['' \<in> set hp \<or> CHR '']'' \<in> set hp then None
        else Some (take i hp, port))"

subsection \<open>Splitting and joining\<close>

lemma Split_not_Nil [simp]: "Split s c \<noteq> []"
  by (cases s) (auto split: list.splits)

lemma Split_elem_no_sep: "w \<in> set (Split s c) \<Longrightarrow> c \<notin> set w"
  by (induction s arbitrary: w) (auto split: if_splits list.splits)

lemma Join_Split [simp]: "Join_sep (Split s c) [c] = s"
proof (induction s)
  case (Cons a s)
  obtain w ws where "Split s c = w # ws" by (cases "Split s c") auto
  with Cons show ?case by (cases ws) auto
qed simp

lemma Split_no_sep: "c \<notin> set s \<Longrightarrow> Split s c = [s]"
  by (induction s) auto

lemma Split_append_sep: "c \<notin> set w \<Longrightarrow> Split (w @ c # s) c = w # Split s c"
  by (induction w) auto

lemma Split_Join:
  "ws \<noteq> [] \<Longrightarrow> \<forall>w \<in> set ws. c \<notin> set w \<Longrightarrow> Split (Join_sep ws [c]) c = ws"
proof (induction ws "[c]" rule: Join_sep.induct)
  case (3 w v ws)
  then show ?case by (simp add: Split_append_sep)
qed (auto simp: Split_no_sep)

subsection \<open>Cleaning\<close>

text \<open>
  The elements of a clean path: no empty element, no single dot, and double dots only at
  the front of a relative path.
\<close>

definition plain_elem :: "string \<Rightarrow> bool" where
  "plain_elem e \<longleftrightarrow> e \<noteq> '''' \<and> e \<noteq> ''.'' \<and> e \<noteq> ''..'' \<and> slash \<notin> set e"

definition clean_list :: "bool \<Rightarrow> string list \<Rightarrow> bool" where
  "clean_list rooted es \<longleftrightarrow>
     (\<exists>n qs. es = replicate n ''..'' @ qs \<and> list_all plain_elem qs \<and> (rooted \<longrightarrow> n = 0))"

lemma clean_list_snoc:
  "clean_list r es \<Longrightarrow> plain_elem e \<Longrightarrow> clean_list r (es @ [e])"
  unfolding clean_list_def
proof (elim exE conjE)
  fix n qs
  assume "es = replicate n ''..'' @ qs" "list_all plain_elem qs" "r \<longrightarrow> n = 0" "plain_elem e"
  then show "\<exists>n qs. es @ [e] = replicate n ''..'' @ qs \<and> list_all plain_elem qs \<and> (r \<longrightarrow> n = 0)"
    by (intro exI [of _ n] exI [of _ "qs @ [e]"]) simp
qed

lemma clean_list_pop:
  assumes "clean_list r (es @ [e])" "e \<noteq> ''..''"
  shows "clean_list r es"
proof -
  from assms obtain n qs where es: "es @ [e] = replicate n ''..'' @ qs"
    "list_all plain_elem qs" "r \<longrightarrow> n = 0"
    by (auto simp: clean_list_def)
  show ?thesis
  proof (cases qs rule: rev_cases)
    case Nil
    with es(1) have "es @ [e] = replicate n ''..''" by simp
    then have "e \<in> set (replicate n ''..'')" by (metis in_set_conv_decomp)
    with assms(2) show ?thesis by (auto simp: set_replicate_conv_if split: if_splits)
  next
    case (snoc qs' q)
    with es(1) have "es = replicate n ''..'' @ qs'" by simp
    with snoc es(2,3) show ?thesis unfolding clean_list_def by force
  qed
qed

lemma clean_list_dots:
  assumes "clean_list False es" "es = [] \<or> last es = ''..''"
  shows "clean_list False (es @ [''..''])"
proof -
  from assms(1) obtain n qs where es: "es = replicate n ''..'' @ qs" "list_all plain_elem qs"
    by (auto simp: clean_list_def)
  have "qs = []"
  proof (rule ccontr)
    assume "qs \<noteq> []"
    with es assms(2) have "last qs = ''..''" by auto
    moreover from \<open>qs \<noteq> []\<close> es(2) have "plain_elem (last qs)" by (simp add: list_all_iff)
    ultimately show False by (simp add: plain_elem_def)
  qed
  with es have "es @ [''..''] = replicate (Suc n) ''..'' @ []"
    by (simp add: replicate_append_same)
  then show ?thesis unfolding clean_list_def
    by (intro exI [of _ "Suc n"] exI [of _ "[]"]) simp
qed

lemma clean_list_rooted: "clean_list True es \<Longrightarrow> ''..'' \<notin> set es"
  by (auto simp: clean_list_def list_all_iff plain_elem_def)

lemma clean_elems_clean_list:
  "clean_list r (rev stack) \<Longrightarrow> \<forall>e \<in> set es. slash \<notin> set e \<Longrightarrow>
   clean_list r (clean_elems r stack es)"
proof (induction r stack es rule: clean_elems.induct)
  case (2 r stack e es)
  show ?case
  proof (cases "e = '''' \<or> e = ''.''")
    case True
    with 2 show ?thesis by simp
  next
    case plain: False
    show ?thesis
    proof (cases "e = ''..''")
      case False
      with plain 2 show ?thesis by (simp add: clean_list_snoc plain_elem_def)
    next
      case dd: True
      show ?thesis
      proof (cases stack)
        case Nil
        have "clean_list False [''..'']"
          using clean_list_dots [of "[]"] by (simp add: clean_list_def)
        with 2 dd Nil show ?thesis by (cases r) auto
      next
        case (Cons t ts)
        show ?thesis
        proof (cases "t = ''..''")
          case True
          with Cons "2.prems"(1) have "\<not> r" by (cases r) (auto dest: clean_list_rooted)
          with True Cons "2.prems"(1) have "clean_list r (rev stack @ [''..''])"
            using clean_list_dots [of "rev stack"] by auto
          with True Cons dd 2 show ?thesis by simp
        next
          case False
          with Cons "2.prems"(1) have "clean_list r (rev ts)" by (auto intro: clean_list_pop)
          with False Cons dd 2 show ?thesis by simp
        qed
      qed
    qed
  qed
qed simp

lemma clean_elems_id_dots:
  "clean_elems False (replicate m ''..'') (replicate n ''..'' @ es) =
   clean_elems False (replicate (m + n) ''..'') es"
proof (induction n arbitrary: m)
  case (Suc n)
  have "clean_elems False (replicate m ''..'') (''..'' # fs) =
        clean_elems False (replicate (Suc m) ''..'') fs" for fs
    by (cases m) simp_all
  with Suc [of "Suc m"] show ?case by simp
qed simp

lemma clean_elems_id_plain:
  "list_all plain_elem qs \<Longrightarrow> clean_elems r stack qs = rev stack @ qs"
  by (induction qs arbitrary: stack) (auto simp: plain_elem_def)

lemma clean_elems_fixpoint:
  assumes "clean_list r es"
  shows "clean_elems r [] es = es"
proof -
  from assms obtain n qs where es: "es = replicate n ''..'' @ qs" "list_all plain_elem qs"
    "r \<longrightarrow> n = 0" by (auto simp: clean_list_def)
  show ?thesis
  proof (cases r)
    case True
    with es show ?thesis by (simp add: clean_elems_id_plain)
  next
    case False
    with es clean_elems_id_dots [of 0 n qs] show ?thesis
      by (simp add: clean_elems_id_plain)
  qed
qed

lemma clean_list_elem:
  assumes "clean_list r es" "e \<in> set es"
  shows "e = ''..'' \<or> plain_elem e"
proof -
  from assms(1) obtain n qs where es: "es = replicate n ''..'' @ qs" "list_all plain_elem qs"
    by (auto simp: clean_list_def)
  with assms(2) show ?thesis
    by (cases n) (auto simp: list_all_iff)
qed

lemma clean_list_no_slash: "clean_list r es \<Longrightarrow> \<forall>e \<in> set es. slash \<notin> set e"
proof
  fix e assume "clean_list r es" "e \<in> set es"
  then have "e = ''..'' \<or> plain_elem e" by (rule clean_list_elem)
  then show "slash \<notin> set e" by (elim disjE) (simp_all add: plain_elem_def)
qed

abbreviation path_elems :: "string \<Rightarrow> string list" where
  "path_elems p \<equiv> clean_elems (prefix ''/'' p) [] (Split p slash)"

lemma path_elems_clean_list: "clean_list (prefix ''/'' p) (path_elems p)"
  by (rule clean_elems_clean_list) (auto simp: clean_list_def dest: Split_elem_no_sep)

lemma prefix_slash_Join [simp]:
  "es \<noteq> [] \<Longrightarrow> clean_list r es \<Longrightarrow> \<not> prefix ''/'' (Join_sep es ''/'')"
proof -
  assume ne: "es \<noteq> []" and cl: "clean_list r es"
  obtain e fs where es: "es = e # fs" using ne by (cases es) auto
  with clean_list_elem [OF cl, of e] have "e \<noteq> ''''" by (auto simp: plain_elem_def)
  moreover from es clean_list_no_slash [OF cl] have "slash \<notin> set e" by simp
  ultimately show ?thesis using es by (cases fs; cases e) auto
qed

text \<open>Cleaning twice is cleaning once, so a path is clean exactly when it is some \<open>Clean q\<close>.\<close>

lemma Clean_elems:
  "Clean p = (if prefix ''/'' p then slash # Join_sep (path_elems p) ''/''
              else if path_elems p = [] then ''.'' else Join_sep (path_elems p) ''/'')"
  by (simp add: Clean_def Let_def)

lemma path_elems_Clean: "path_elems (Clean p) = path_elems p"
proof -
  have cl: "clean_list (prefix ''/'' p) (path_elems p)" by (rule path_elems_clean_list)
  have ns: "\<forall>e \<in> set (path_elems p). slash \<notin> set e" using cl by (rule clean_list_no_slash)
  have dot: "path_elems ''.'' = []" by simp
  show ?thesis
  proof (cases "path_elems p = []")
    case True
    show ?thesis
    proof (cases "prefix ''/'' p")
      case r: True
      with True have "Clean p = ''/''" by (simp add: Clean_elems)
      with True show ?thesis by simp
    next
      case False
      with True have "Clean p = ''.''" by (simp add: Clean_elems)
      with True dot show ?thesis by metis
    qed
  next
    case ne: False
    then have sp: "Split (Join_sep (path_elems p) ''/'') slash = path_elems p"
      using ns by (rule Split_Join)
    show ?thesis
    proof (cases "prefix ''/'' p")
      case r: True
      then have "Clean p = slash # Join_sep (path_elems p) ''/''" by (simp add: Clean_elems)
      then have "path_elems (Clean p) = clean_elems True [] ([] # path_elems p)"
        by (simp add: sp)
      with r cl show ?thesis by (simp add: clean_elems_fixpoint)
    next
      case r: False
      with ne have "Clean p = Join_sep (path_elems p) ''/''" by (simp add: Clean_elems)
      then have "path_elems (Clean p) = clean_elems False [] (path_elems p)"
        using ne cl by (simp add: sp)
      with r cl show ?thesis by (simp add: clean_elems_fixpoint)
    qed
  qed
qed

lemma prefix_slash_Clean: "prefix ''/'' (Clean p) \<longleftrightarrow> prefix ''/'' p"
proof (cases "prefix ''/'' p \<or> path_elems p = []")
  case True
  then show ?thesis by (auto simp: Clean_elems)
next
  case False
  then show ?thesis using path_elems_clean_list [of p] by (simp add: Clean_elems)
qed

lemma Clean_idem: "Clean (Clean p) = Clean p"
proof -
  have "Clean (Clean p) = (if prefix ''/'' p then slash # Join_sep (path_elems p) ''/''
              else if path_elems p = [] then ''.'' else Join_sep (path_elems p) ''/'')"
    unfolding Clean_elems [of "Clean p"] path_elems_Clean by (simp only: prefix_slash_Clean)
  then show ?thesis by (simp only: Clean_elems [of p])
qed

subsection \<open>Joined paths and parents\<close>

lemma Split_snoc_sep: "c \<notin> set w \<Longrightarrow> Split (s @ c # w) c = Split s c @ [w]"
proof (induction s)
  case (Cons a s)
  then show ?case by (cases "Split s c") auto
qed (simp add: Split_no_sep)

lemma clean_elems_snoc: "plain_elem e \<Longrightarrow> clean_elems r st (es @ [e]) = clean_elems r st es @ [e]"
  by (induction r st es rule: clean_elems.induct) (auto simp: plain_elem_def split: list.splits)

lemma Join_two: "base \<noteq> [] \<Longrightarrow> Join [base, e] = Clean (base @ slash # e)"
  by (simp add: Join_def)

lemma path_elems_child: "base \<noteq> [] \<Longrightarrow> plain_elem e \<Longrightarrow> path_elems (Join [base, e]) = path_elems base @ [e]"
proof -
  assume b: "base \<noteq> []" and e: "plain_elem e"
  have p: "prefix ''/'' (base @ slash # e) = prefix ''/'' base" using b by (cases base) auto
  have "path_elems (Join [base, e]) = path_elems (base @ slash # e)" using b by (simp add: Join_two path_elems_Clean)
  also have "\<dots> = clean_elems (prefix ''/'' base) [] (Split base slash @ [e])"
    using e by (simp add: p Split_snoc_sep plain_elem_def)
  finally show ?thesis using e by (simp add: clean_elems_snoc)
qed

lemma Clean_not_Nil: "Clean p \<noteq> []"
proof (cases "path_elems p")
  case (Cons e es)
  then have "e \<noteq> []" using clean_list_elem [OF path_elems_clean_list, of e p] by (auto simp: plain_elem_def)
  then show ?thesis using Cons by (cases es) (auto simp: Clean_elems)
qed (auto simp: Clean_elems)

lemma Join_not_Nil: "base \<noteq> [] \<Longrightarrow> Join [base, e] \<noteq> []"
  by (simp add: Join_two Clean_not_Nil)

lemma Clean_Join: "base \<noteq> [] \<Longrightarrow> Clean (Join [base, e]) = Join [base, e]"
  by (simp add: Join_two Clean_idem)

lemma clean_elems_snoc_Nil: "clean_elems r st (es @ [[]]) = clean_elems r st es"
  by (induction r st es rule: clean_elems.induct) (auto split: list.splits)

lemma Dir_snoc: "slash \<notin> set w \<Longrightarrow> Dir (y @ slash # w) = Clean (y @ [slash])"
  by (simp add: Dir_def) (subst dropWhile_append2; auto)

text \<open>The parent of a clean absolute path, joined with its last element, is the path.\<close>

lemma Join_Dir:
  assumes "IsAbs d" and "Clean d = d" and "d = y @ slash # w" and "plain_elem w"
  shows "Join [Dir d, w] = d"
proof -
  have w: "slash \<notin> set w" using assms(4) by (simp add: plain_elem_def)
  have rooted: "prefix ''/'' d" using assms(1) by (simp add: IsAbs_def)
  have y: "prefix ''/'' (y @ [slash])" using rooted assms(3) by (cases y) auto
  have d: "Dir d = Clean (y @ [slash])" using assms(3) w by (simp add: Dir_snoc)
  have pd: "prefix ''/'' (Dir d)" using d y by (simp add: prefix_slash_Clean)
  have "path_elems (Dir d) = clean_elems True [] (Split y slash)"
    using d y by (simp add: path_elems_Clean Split_snoc_sep clean_elems_snoc_Nil)
  moreover have "path_elems d = clean_elems True [] (Split y slash) @ [w]"
    using rooted assms(3,4) w by (simp add: Split_snoc_sep clean_elems_snoc)
  ultimately have "path_elems (Join [Dir d, w]) = path_elems d"
    using path_elems_child [OF _ assms(4), of "Dir d"] d by (simp add: Clean_not_Nil)
  moreover have "prefix ''/'' (Join [Dir d, w])"
    using pd d by (simp add: Join_two Clean_not_Nil prefix_slash_Clean)
  moreover have "Join [Dir d, w] = Clean (Join [Dir d, w])" using d by (simp add: Clean_Join Clean_not_Nil)
  ultimately have "Join [Dir d, w] = Clean d" using rooted Clean_elems [of d] Clean_elems [of "Join [Dir d, w]"] by simp
  then show ?thesis using assms(2) by simp
qed

end
