(* ===== verification/FileUpload.thy ===== *)
theory FileUpload
  imports GoStd GoPath OsFile
begin

section \<open>File uploads (\<open>internal/fileupload\<close>)\<close>

text \<open>
  The upload root is a finite tree: an association list from paths, as lists of components
  below the root, to entries. Every access goes through \<^verbatim>\<open>os.Root\<close>, whose resolution of a
  path is \<open>root_walk\<close>: component by component, symbolic links replaced by their targets, with
  an error for a link or a \<^verbatim>\<open>..\<close> that leaves the root. Faults come from \<open>osenv\<close>: opening
  the root is \<open>SysOpen\<close>, the traversal for the quota \<open>SysRead\<close>, and the steps of the write
  have their own.
\<close>

unbundle bit_operations_syntax

subsection \<open>Modes (mode.go)\<close>

datatype mode_error = ModeEmpty | ModeSyntax | ModeNegative | ModeForbidden | ModeWorldWritable

definition ParseMode :: "string \<Rightarrow> mode_error + filemode" where
  "ParseMode s =
     (if s = [] then Inl ModeEmpty
      else case ParseInt s 8 32 of
             None \<Rightarrow> Inl ModeSyntax
           | Some val \<Rightarrow>
               if val < 0 then Inl ModeNegative
               else let mode = (word_of_int val :: filemode) in
                    if mode AND NOT 0x1FF \<noteq> 0 then Inl ModeForbidden
                    else if mode AND 2 \<noteq> 0 then Inl ModeWorldWritable
                    else Inr mode)"

subsection \<open>The tree under the root\<close>

datatype entry = EReg bytes filemode | EDir | ELink string | EOther

type_synonym loc = "string list"
type_synonym tree = "(loc \<times> entry) list"

definition lookup :: "tree \<Rightarrow> loc \<Rightarrow> entry option" where
  "lookup t l = (if l = [] then Some EDir else map_of t l)"

text \<open>\<^verbatim>\<open>splitPathInRoot\<close>: empty components and dots are dropped.\<close>

definition root_parts :: "string \<Rightarrow> string list" where
  "root_parts p = filter (\<lambda>e. e \<noteq> '''' \<and> e \<noteq> ''.'') (Split p slash)"

datatype walk_error = WEscapes | WNotExist | WNotDir | WLoop

definition rootMaxSymlinks :: nat where "rootMaxSymlinks = 8"

text \<open>
  \<open>root_walk follow t n cur parts\<close>: at the directory \<open>cur\<close>, with \<open>parts\<close> left and \<open>n\<close> more
  links allowed. With \<open>follow\<close> a link in the last place is followed too and the entry has to
  exist, as for \<^verbatim>\<open>Stat\<close>; without it the location of the last component is the result, as
  for creating, renaming and removing.
\<close>

function root_walk :: "bool \<Rightarrow> tree \<Rightarrow> nat \<Rightarrow> loc \<Rightarrow> string list \<Rightarrow> walk_error + loc" where
  "root_walk follow t n cur [] = Inr cur"
| "root_walk follow t n cur (c # rest) =
     (if c = ''..'' then
        (if cur = [] then Inl WEscapes else root_walk follow t n (butlast cur) rest)
      else if rest = [] \<and> \<not> follow then Inr (cur @ [c])
      else case lookup t (cur @ [c]) of
             None \<Rightarrow> Inl WNotExist
           | Some EDir \<Rightarrow> root_walk follow t n (cur @ [c]) rest
           | Some (ELink target) \<Rightarrow>
               (case n of
                  0 \<Rightarrow> Inl WLoop
                | Suc m \<Rightarrow> if IsAbs target then Inl WEscapes
                           else root_walk follow t m cur (root_parts target @ rest))
           | Some _ \<Rightarrow> if rest = [] then Inr (cur @ [c]) else Inl WNotDir)"
  by pat_completeness auto
termination
  by (relation "measures [\<lambda>(f, t, n, cur, parts). n, \<lambda>(f, t, n, cur, parts). length parts]") auto

declare root_walk.simps [simp del]

definition root_resolve :: "bool \<Rightarrow> tree \<Rightarrow> string \<Rightarrow> walk_error + loc" where
  "root_resolve follow t p = root_walk follow t rootMaxSymlinks [] (root_parts p)"

definition trailing_slash :: "string \<Rightarrow> bool" where
  "trailing_slash p \<longleftrightarrow> p \<noteq> [] \<and> last p = slash"

definition root_Stat :: "tree \<Rightarrow> string \<Rightarrow> entry option" where
  "root_Stat t p =
     (case root_resolve True t p of
        Inl _ \<Rightarrow> None
      | Inr l \<Rightarrow> (case lookup t l of
                   Some EDir \<Rightarrow> Some EDir
                 | e \<Rightarrow> if trailing_slash p then None else e))"

text \<open>\<^verbatim>\<open>Root.MkdirAll\<close>: missing directories are made on the way, links are followed.\<close>

function mkdir_walk :: "tree \<Rightarrow> nat \<Rightarrow> loc \<Rightarrow> string list \<Rightarrow> bool \<times> tree" where
  "mkdir_walk t n cur [] = (True, t)"
| "mkdir_walk t n cur (c # rest) =
     (if c = ''..'' then (if cur = [] then (False, t) else mkdir_walk t n (butlast cur) rest)
      else case lookup t (cur @ [c]) of
             None \<Rightarrow> mkdir_walk (AList.update (cur @ [c]) EDir t) n (cur @ [c]) rest
           | Some EDir \<Rightarrow> mkdir_walk t n (cur @ [c]) rest
           | Some (ELink target) \<Rightarrow>
               (case n of
                  0 \<Rightarrow> (False, t)
                | Suc m \<Rightarrow> if IsAbs target then (False, t)
                           else mkdir_walk t m cur (root_parts target @ rest))
           | Some _ \<Rightarrow> (False, t))"
  by pat_completeness auto
termination
  by (relation "measures [\<lambda>(t, n, cur, parts). n, \<lambda>(t, n, cur, parts). length parts]") auto

declare mkdir_walk.simps [simp del]

definition root_MkdirAll :: "osenv \<Rightarrow> string \<Rightarrow> tree \<Rightarrow> bool \<times> tree" where
  "root_MkdirAll env p t =
     (if fails env SysMkdir then (False, t)
      else mkdir_walk t rootMaxSymlinks [] (root_parts p))"

text \<open>\<^verbatim>\<open>renameat\<close> replaces anything but a directory, a symbolic link included.\<close>

definition root_Rename :: "osenv \<Rightarrow> string \<Rightarrow> string \<Rightarrow> tree \<Rightarrow> tree option" where
  "root_Rename env a b t =
     (if fails env SysRename \<or> trailing_slash b then None
      else case (root_resolve False t a, root_resolve False t b) of
             (Inr la, Inr lb) \<Rightarrow>
               (case (lookup t la, lookup t lb) of
                  (None, _) \<Rightarrow> None
                | (_, Some EDir) \<Rightarrow> None
                | (Some e, _) \<Rightarrow> Some (AList.update lb e (AList.delete la t)))
           | _ \<Rightarrow> None)"

definition root_Remove :: "osenv \<Rightarrow> loc \<Rightarrow> tree \<Rightarrow> tree" where
  "root_Remove env l t = (if fails env SysRemove then t else AList.delete l t)"

subsection \<open>Configuration and quota (config.go, quota.go)\<close>

record UploadConfig =
  UploadRoot :: string
  MaxFileBytes :: int
  MaxTotalBytes :: int
  DefaultMode :: filemode
  UploadDenyRoot :: bool

fun entry_size :: "entry \<Rightarrow> int" where
  "entry_size (EReg data _) = int (length data)"
| "entry_size _ = 0"

text \<open>
  \<^verbatim>\<open>fs.WalkDir\<close> visits every entry of the tree once and does not follow links; only
  regular files count. An error of the traversal is \<open>None\<close>.
\<close>

definition currentBytes :: "osenv \<Rightarrow> tree \<Rightarrow> int option" where
  "currentBytes env t = (if fails env SysRead then None else Some (wrap64 (asum entry_size t)))"

subsection \<open>Writing a file (upload.go)\<close>

record UploadInput =
  RelPath :: string
  Data :: bytes
  Overwrite :: bool
  Mode :: filemode

record UploadResult =
  ur_RelPath :: string
  ur_Size :: int
  ur_Overwritten :: bool
  ur_Mode :: filemode

datatype upload_error =
    ErrTraversal | ErrExists | ErrIsDir | ErrTooLarge | ErrQuotaExceeded | UploadIO string

definition randomTmpName :: "osenv \<Rightarrow> bytes \<Rightarrow> string option" where
  "randomTmpName env ent =
     (if fails env SysRand \<or> length ent < 8 then None
      else Some (''.raxd-upload-'' @ EncodeToString_hex (take 8 ent)))"

definition doWrite ::
  "osenv \<Rightarrow> bytes \<Rightarrow> string \<Rightarrow> UploadInput \<Rightarrow> bool \<Rightarrow> tree \<Rightarrow> (upload_error + UploadResult) \<times> tree" where
  "doWrite env ent dir inp overwritten t =
     (case randomTmpName env ent of
        None \<Rightarrow> (Inl (UploadIO ''generate temp name''), t)
      | Some tmpName \<Rightarrow>
      (let tmpRel = (if dir \<noteq> ''.'' \<and> dir \<noteq> '''' then dir @ ''/'' @ tmpName else tmpName) in
       case root_resolve False t tmpRel of
         Inl _ \<Rightarrow> (Inl (UploadIO ''create temp file''), t)
       | Inr lt \<Rightarrow>
         if fails env SysCreateTemp \<or> lookup t lt \<noteq> None then (Inl (UploadIO ''create temp file''), t)
         else
           let t1 = AList.update lt (EReg [] 0x180) t in
           if fails env SysChmod then (Inl (UploadIO ''chmod''), root_Remove env lt t1)
           else if fails env SysWrite then
             (Inl (UploadIO ''write''),
              root_Remove env lt (AList.update lt (EReg (take (written_before_fail env) (Data inp)) (Mode inp)) t1))
           else
             let t2 = AList.update lt (EReg (Data inp) (Mode inp)) t1 in
             if fails env SysSync then (Inl (UploadIO ''sync''), root_Remove env lt t2)
             else if fails env SysClose then (Inl (UploadIO ''close''), root_Remove env lt t2)
             else (case root_Rename env tmpRel (RelPath inp) t2 of
                    None \<Rightarrow> (Inl (UploadIO ''rename''), root_Remove env lt t2)
                  | Some t3 \<Rightarrow>
                      (Inr \<lparr>ur_RelPath = RelPath inp, ur_Size = int (length (Data inp)),
                            ur_Overwritten = overwritten, ur_Mode = Mode inp\<rparr>, t3))))"

text \<open>The existing target: an error, or whether it is replaced and the size that this frees.\<close>

definition checkTarget :: "UploadInput \<Rightarrow> tree \<Rightarrow> upload_error + bool \<times> int" where
  "checkTarget inp t =
     (case root_Stat t (RelPath inp) of
        None \<Rightarrow> Inr (False, 0)
      | Some fi \<Rightarrow>
          if fi = EDir then Inl ErrIsDir
          else if \<not> Overwrite inp then Inl ErrExists
          else Inr (True, entry_size fi))"

definition writeWithQuota ::
  "osenv \<Rightarrow> bytes \<Rightarrow> UploadConfig \<Rightarrow> UploadInput \<Rightarrow> tree \<Rightarrow> (upload_error + UploadResult) \<times> tree" where
  "writeWithQuota env ent cfg inp t =
     (if fails env SysOpen then (Inl (UploadIO ''open upload root''), t)
      else
        let dir = Dir (RelPath inp) in
        case checkTarget inp t of
          Inl e \<Rightarrow> (Inl e, t)
        | Inr (overwritten, replaced) \<Rightarrow>
        (case currentBytes env t of
          None \<Rightarrow> (Inl (UploadIO ''quota: walk upload root''), t)
        | Some current \<Rightarrow>
          if wrap64 (wrap64 (current - replaced) + int (length (Data inp))) > MaxTotalBytes cfg then
            (Inl ErrQuotaExceeded, t)
          else
            let (ok, t1) = (if dir \<noteq> ''.'' \<and> dir \<noteq> '''' then root_MkdirAll env dir t else (True, t)) in
            if \<not> ok then (Inl (UploadIO ''create directories''), t1)
            else doWrite env ent dir inp overwritten t1))"

definition writeUnderRoot ::
  "osenv \<Rightarrow> bytes \<Rightarrow> UploadConfig \<Rightarrow> UploadInput \<Rightarrow> tree \<Rightarrow> (upload_error + UploadResult) \<times> tree" where
  "writeUnderRoot env ent cfg inp t =
     (if fails env SysOpen then (Inl (UploadIO ''open upload root''), t)
      else
        let dir = Dir (RelPath inp);
            (ok, t1) = (if dir \<noteq> ''.'' \<and> dir \<noteq> '''' then root_MkdirAll env dir t else (True, t)) in
        if \<not> ok then (Inl (UploadIO ''create directories''), t1)
        else case checkTarget inp t1 of
               Inl e \<Rightarrow> (Inl e, t1)
             | Inr (overwritten, _) \<Rightarrow> doWrite env ent dir inp overwritten t1)"

definition Upload_Write ::
  "osenv \<Rightarrow> bytes \<Rightarrow> UploadConfig \<Rightarrow> UploadInput \<Rightarrow> tree \<Rightarrow> (upload_error + UploadResult) \<times> tree" where
  "Upload_Write env ent cfg inp t =
     (if int (length (Data inp)) > MaxFileBytes cfg then (Inl ErrTooLarge, t)
      else if \<not> IsLocal (RelPath inp) then (Inl ErrTraversal, t)
      else if MaxTotalBytes cfg = 0 then writeUnderRoot env ent cfg inp t
      else writeWithQuota env ent cfg inp t)"

end
