(* ===== verification/FileUploadProofs.thy ===== *)
theory FileUploadProofs
  imports FileUpload
begin

section \<open>Uploads are confined, atomic and within the quota\<close>

text \<open>
  The lemmas compare the tree at the time of the checks with the tree at the time of the
  rename. \<open>extends_tree\<close> says that the later tree has every entry of the earlier one; path
  resolution is stable under it, so what \<^verbatim>\<open>Stat\<close> saw is what \<^verbatim>\<open>Rename\<close> replaces.
\<close>

definition wf_tree :: "tree \<Rightarrow> bool" where
  "wf_tree t \<longleftrightarrow> distinct (map fst t) \<and> [] \<notin> set (map fst t)"

definition total :: "tree \<Rightarrow> int" where
  "total t = asum entry_size t"

definition extends_tree :: "tree \<Rightarrow> tree \<Rightarrow> bool" where
  "extends_tree t t' \<longleftrightarrow> (\<forall>l e. lookup t l = Some e \<longrightarrow> lookup t' l = Some e)"

text \<open>Directories may be added, nothing else changes.\<close>

definition only_dirs :: "tree \<Rightarrow> tree \<Rightarrow> bool" where
  "only_dirs t t' \<longleftrightarrow> (\<forall>l. lookup t' l = lookup t l \<or> lookup t l = None \<and> lookup t' l = Some EDir)"

lemma lookup_Nil [simp]: "lookup t [] = Some EDir"
  by (simp add: lookup_def)

lemma lookup_update [simp]: "l \<noteq> [] \<Longrightarrow> lookup (AList.update l e t) l' = (if l' = l then Some e else lookup t l')"
  by (simp add: lookup_def)

lemma lookup_delete [simp]: "l \<noteq> [] \<Longrightarrow> lookup (AList.delete l t) l' = (if l' = l then None else lookup t l')"
  by (simp add: lookup_def)

lemma wf_tree_update [simp]: "wf_tree t \<Longrightarrow> l \<noteq> [] \<Longrightarrow> wf_tree (AList.update l e t)"
  by (auto simp: wf_tree_def dom_update)

lemma wf_tree_delete [simp]: "wf_tree t \<Longrightarrow> wf_tree (AList.delete l t)"
  by (auto simp: wf_tree_def AList.delete_eq distinct_map_filter)

lemma total_update:
  "wf_tree t \<Longrightarrow> l \<noteq> [] \<Longrightarrow> total (AList.update l e t) = total t - aweight entry_size (lookup t l) + entry_size e"
  by (simp add: total_def wf_tree_def asum_update lookup_def)

lemma total_delete:
  "wf_tree t \<Longrightarrow> l \<noteq> [] \<Longrightarrow> total (AList.delete l t) = total t - aweight entry_size (lookup t l)"
  by (simp add: total_def wf_tree_def asum_delete lookup_def)

lemma entry_size_nonneg [simp]: "0 \<le> entry_size e"
  by (cases e) auto

lemma total_nonneg: "0 \<le> total t"
  by (simp add: total_def asum_nonneg)

lemma extends_tree_refl [simp]: "extends_tree t t"
  by (simp add: extends_tree_def)

lemma extends_tree_trans: "extends_tree a b \<Longrightarrow> extends_tree b c \<Longrightarrow> extends_tree a c"
  by (simp add: extends_tree_def)

lemma extends_tree_update: "lookup t l = None \<Longrightarrow> extends_tree t (AList.update l e t)"
  unfolding extends_tree_def by (cases "l = []") auto

lemma only_dirs_extends: "only_dirs t t' \<Longrightarrow> extends_tree t t'"
  unfolding only_dirs_def extends_tree_def by (metis option.distinct(1))

lemma only_dirs_refl [simp]: "only_dirs t t"
  by (simp add: only_dirs_def)

lemma only_dirs_trans: "only_dirs a b \<Longrightarrow> only_dirs b c \<Longrightarrow> only_dirs a c"
  unfolding only_dirs_def by (metis option.distinct(1))

subsection \<open>Path resolution\<close>

lemma root_walk_extends:
  "root_walk fl t n cur parts = Inr l \<Longrightarrow> extends_tree t t' \<Longrightarrow> root_walk fl t' n cur parts = Inr l"
proof (induction fl t n cur parts rule: root_walk.induct)
  case (2 fl t n cur c rest)
  show ?case
  proof (cases "c = ''..'' \<or> rest = [] \<and> \<not> fl")
    case True
    then show ?thesis using 2 by (auto simp: root_walk.simps split: if_splits)
  next
    case False
    then obtain e where e: "lookup t (cur @ [c]) = Some e"
      using 2(4) by (auto simp: root_walk.simps split: option.splits)
    then have e': "lookup t' (cur @ [c]) = Some e" using 2(5) by (simp add: extends_tree_def)
    show ?thesis using 2 False e e'
      by (cases e; cases n) (auto simp: root_walk.simps split: if_splits)
  qed
qed (simp add: root_walk.simps)

lemma root_walk_last:
  "root_walk True t n cur parts = Inr l \<Longrightarrow> root_walk False t n cur parts = Inr l' \<Longrightarrow>
   l' = l \<or> (\<exists>target. lookup t l' = Some (ELink target))"
proof (induction "False" t n cur parts arbitrary: rule: root_walk.induct)
  case (2 t n cur c rest)
  show ?case
  proof (cases "c = ''..''")
    case True
    then show ?thesis using 2 by (auto simp: root_walk.simps split: if_splits)
  next
    case False
    then obtain e where e: "lookup t (cur @ [c]) = Some e"
      using 2(4) by (auto simp: root_walk.simps split: option.splits)
    show ?thesis
    proof (cases rest)
      case Nil
      then show ?thesis using 2(4,5) False e
        by (cases e) (auto simp: root_walk.simps)
    next
      case (Cons a list)
      then show ?thesis using 2 False e
        by (cases e; cases n) (auto simp: root_walk.simps split: if_splits)
    qed
  qed
qed (simp add: root_walk.simps)

lemma root_walk_no_dotdot:
  "root_walk fl t n cur parts = Inr l \<Longrightarrow> ''..'' \<notin> set cur \<Longrightarrow> ''..'' \<notin> set l"
proof (induction fl t n cur parts rule: root_walk.induct)
  case (2 fl t n cur c rest)
  have "''..'' \<notin> set (butlast cur)" using 2(5) by (meson in_set_butlastD)
  then show ?case
    using 2 by (auto simp: root_walk.simps split: if_splits option.splits entry.splits nat.splits)
qed (simp add: root_walk.simps)

lemma root_walk_skip_reg:
  "root_walk False (AList.update l (EReg x m) t) n cur parts = Inr lb \<Longrightarrow> l \<noteq> [] \<Longrightarrow>
   root_walk False t n cur parts = Inr lb"
proof (induction "False" t n cur parts rule: root_walk.induct)
  case (2 t n cur c rest)
  show ?case
  proof (cases "c = ''..'' \<or> rest = []")
    case True
    then show ?thesis using 2 by (auto simp: root_walk.simps split: if_splits)
  next
    case False
    then have ne: "cur @ [c] \<noteq> l" using 2(4,5) by (auto simp: root_walk.simps)
    then obtain e where e: "lookup t (cur @ [c]) = Some e"
      using False 2(4,5) by (auto simp: root_walk.simps split: option.splits)
    then show ?thesis using 2 False ne
      by (cases e; cases n) (auto simp: root_walk.simps split: if_splits)
  qed
qed (simp add: root_walk.simps)

lemma mkdir_walk_effect:
  "mkdir_walk t n cur parts = (ok, t') \<Longrightarrow> wf_tree t \<Longrightarrow> wf_tree t' \<and> total t' = total t \<and> only_dirs t t'"
proof (induction t n cur parts rule: mkdir_walk.induct)
  case (2 t n cur c rest)
  show ?case
  proof (cases "c = ''..''")
    case True
    then show ?thesis using 2 by (auto simp: mkdir_walk.simps split: if_splits)
  next
    case False
    show ?thesis
    proof (cases "lookup t (cur @ [c])")
      case None
      let ?t = "AList.update (cur @ [c]) EDir t"
      have "wf_tree ?t" "total ?t = total t" "only_dirs t ?t"
        using 2(6) None by (auto simp: total_update only_dirs_def)
      moreover have "mkdir_walk ?t n (cur @ [c]) rest = (ok, t')"
        using 2(5) False None by (simp add: mkdir_walk.simps)
      ultimately show ?thesis using 2(2) [OF False None] only_dirs_trans by auto
    next
      case (Some e)
      then show ?thesis using 2 False
        by (cases e; cases n) (auto simp: mkdir_walk.simps split: if_splits)
    qed
  qed
qed (simp add: mkdir_walk.simps)

lemma root_MkdirAll_effect:
  "root_MkdirAll env p t = (ok, t') \<Longrightarrow> wf_tree t \<Longrightarrow> wf_tree t' \<and> total t' = total t \<and> only_dirs t t'"
  using mkdir_walk_effect by (auto simp: root_MkdirAll_def split: if_splits)

subsection \<open>The write\<close>

lemma doWrite_error:
  assumes "doWrite env ent dir inp ov t = (Inl e, t')" "wf_tree t" "\<not> fails env SysRemove"
  shows "wf_tree t' \<and> total t' = total t \<and> (\<forall>l. lookup t' l = lookup t l)"
proof (cases "t' = t")
  case False
  then obtain lt x m where lt: "lookup t lt = None"
    "t' = AList.delete lt (AList.update lt (EReg x m) t) \<or>
     t' = AList.delete lt (AList.update lt (EReg x m) (AList.update lt (EReg [] 0x180) t))"
    using assms(1,3)
    by (auto simp: doWrite_def Let_def root_Remove_def split: option.splits sum.splits if_splits)
  then have "lt \<noteq> []" by auto
  then show ?thesis using lt assms(2) by (auto simp: total_delete total_update)
qed (use assms in simp)

lemma doWrite_ok:
  assumes "doWrite env ent dir inp ov t = (Inr r, t')" "wf_tree t"
  shows "\<exists>lb. root_resolve False t (RelPath inp) = Inr lb \<and> lb \<noteq> [] \<and>
      (\<forall>l. lookup t' l = (if l = lb then Some (EReg (Data inp) (Mode inp)) else lookup t l)) \<and>
      wf_tree t' \<and> total t' = total t - aweight entry_size (lookup t lb) + int (length (Data inp)) \<and>
      r = \<lparr>ur_RelPath = RelPath inp, ur_Size = int (length (Data inp)), ur_Overwritten = ov, ur_Mode = Mode inp\<rparr>"
proof -
  obtain tmpRel lt where lt: "root_resolve False t tmpRel = Inr lt" "lookup t lt = None"
    and ren: "root_Rename env tmpRel (RelPath inp)
      (AList.update lt (EReg (Data inp) (Mode inp)) (AList.update lt (EReg [] 0x180) t)) = Some t'"
    and r: "r = \<lparr>ur_RelPath = RelPath inp, ur_Size = int (length (Data inp)), ur_Overwritten = ov, ur_Mode = Mode inp\<rparr>"
    using assms(1) by (auto simp: doWrite_def Let_def split: option.splits sum.splits if_splits)
  define t1 where "t1 = AList.update lt (EReg [] 0x180) t"
  define t2 where "t2 = AList.update lt (EReg (Data inp) (Mode inp)) t1"
  have ne: "lt \<noteq> []" using lt by auto
  have wf2: "wf_tree t2" and lk2: "\<And>l. lookup t2 l = (if l = lt then Some (EReg (Data inp) (Mode inp)) else lookup t l)"
    and tot2: "total t2 = total t + int (length (Data inp))"
    using ne assms(2) lt by (auto simp: t1_def t2_def total_update)
  have "extends_tree t t2" using lt ne by (auto simp: extends_tree_def lk2)
  then have la: "root_resolve False t2 tmpRel = Inr lt"
    using lt(1) root_walk_extends unfolding root_resolve_def by blast
  obtain lb where lb: "root_resolve False t2 (RelPath inp) = Inr lb" "lookup t2 lb \<noteq> Some EDir"
    "t' = AList.update lb (EReg (Data inp) (Mode inp)) (AList.delete lt t2)"
    using ren la lk2 unfolding t2_def [symmetric] t1_def [symmetric]
    by (auto simp: root_Rename_def split: if_splits sum.splits option.splits entry.splits)
  have lbne: "lb \<noteq> []" using lb(2) by auto
  have "root_resolve False t (RelPath inp) = Inr lb"
    using lb(1) ne root_walk_skip_reg unfolding root_resolve_def t2_def t1_def by blast
  moreover have "lookup t' l = (if l = lb then Some (EReg (Data inp) (Mode inp)) else lookup t l)" for l
    using ne lbne lt(2) by (simp add: lb(3) lk2)
  moreover have "total t' = total t - aweight entry_size (lookup t lb) + int (length (Data inp))"
    using ne lbne lt(2) wf2 tot2 by (auto simp: lb(3) total_update total_delete lk2)
  moreover have "wf_tree t'" using lbne wf2 by (simp add: lb(3))
  ultimately show ?thesis using r lbne by blast
qed

lemma checkTarget_replaced:
  assumes "checkTarget inp t = Inr (ov, replaced)" "extends_tree t t1"
    and "root_resolve False t1 (RelPath inp) = Inr lb"
    and "\<And>target. lookup t1 lb \<noteq> Some (ELink target)"
  shows "replaced \<le> aweight entry_size (lookup t1 lb)"
proof (cases "root_Stat t (RelPath inp)")
  case None
  then have "replaced = 0" using assms(1) by (simp add: checkTarget_def)
  then show ?thesis by (cases "lookup t1 lb") auto
next
  case (Some fi)
  then have r: "replaced = entry_size fi"
    using assms(1) by (auto simp: checkTarget_def split: if_splits)
  obtain l where l: "root_resolve True t (RelPath inp) = Inr l" "lookup t l = Some fi"
    using Some by (auto simp: root_Stat_def split: sum.splits option.splits entry.splits if_splits)
  have "root_resolve True t1 (RelPath inp) = Inr l"
    using l(1) root_walk_extends [OF _ assms(2)] unfolding root_resolve_def by blast
  then have "lb = l" using root_walk_last assms(3,4) unfolding root_resolve_def by blast
  moreover have "lookup t1 l = Some fi" using l(2) assms(2) by (simp add: extends_tree_def)
  ultimately show ?thesis using r by simp
qed

text \<open>The directories made on the way to the write.\<close>

lemma dirs_effect:
  assumes "(if dir \<noteq> ''.'' \<and> dir \<noteq> '''' then root_MkdirAll env dir t else (True, t)) = (ok, t1)" "wf_tree t"
  shows "wf_tree t1 \<and> total t1 = total t \<and> only_dirs t t1"
  using assms root_MkdirAll_effect by (auto split: if_splits)

lemma Upload_Write_ok:
  assumes "Upload_Write env ent cfg inp t = (Inr r, t')" "wf_tree t"
  obtains t1 ov where "only_dirs t t1" "wf_tree t1" "total t1 = total t"
    "doWrite env ent (Dir (RelPath inp)) inp ov t1 = (Inr r, t')"
    "IsLocal (RelPath inp)" "int (length (Data inp)) \<le> MaxFileBytes cfg"
    "MaxTotalBytes cfg \<noteq> 0 \<Longrightarrow> \<exists>replaced. checkTarget inp t = Inr (ov, replaced) \<and>
       \<not> wrap64 (wrap64 (wrap64 (total t) - replaced) + int (length (Data inp))) > MaxTotalBytes cfg"
    "MaxTotalBytes cfg = 0 \<Longrightarrow> \<exists>replaced. checkTarget inp t1 = Inr (ov, replaced)"
proof -
  obtain ok t1 where d: "(if Dir (RelPath inp) \<noteq> ''.'' \<and> Dir (RelPath inp) \<noteq> ''''
      then root_MkdirAll env (Dir (RelPath inp)) t else (True, t)) = (ok, t1)" by fastforce
  note eff = dirs_effect [OF d assms(2)]
  have g: "IsLocal (RelPath inp)" "int (length (Data inp)) \<le> MaxFileBytes cfg"
    using assms(1) by (auto simp: Upload_Write_def split: if_splits)
  show ?thesis
  proof (cases "MaxTotalBytes cfg = 0")
    case True
    then have "writeUnderRoot env ent cfg inp t = (Inr r, t')" using assms(1) g by (simp add: Upload_Write_def)
    then obtain ov replaced where "ok" "checkTarget inp t1 = Inr (ov, replaced)"
      "doWrite env ent (Dir (RelPath inp)) inp ov t1 = (Inr r, t')"
      unfolding writeUnderRoot_def Let_def d by (auto split: if_splits sum.splits)
    then show ?thesis using that eff g True by blast
  next
    case False
    then have "writeWithQuota env ent cfg inp t = (Inr r, t')" using assms(1) g by (simp add: Upload_Write_def)
    then obtain ov replaced where "checkTarget inp t = Inr (ov, replaced)"
      "\<not> wrap64 (wrap64 (wrap64 (total t) - replaced) + int (length (Data inp))) > MaxTotalBytes cfg"
      "doWrite env ent (Dir (RelPath inp)) inp ov t1 = (Inr r, t')"
      unfolding writeWithQuota_def Let_def d
      by (auto simp: currentBytes_def total_def split: if_splits sum.splits option.splits)
    then show ?thesis using that eff g False by blast
  qed
qed

lemma Upload_Write_error:
  assumes "Upload_Write env ent cfg inp t = (Inl e, t')" "wf_tree t" "\<not> fails env SysRemove"
  shows "wf_tree t' \<and> total t' = total t \<and> only_dirs t t'"
proof -
  obtain ok t1 where d: "(if Dir (RelPath inp) \<noteq> ''.'' \<and> Dir (RelPath inp) \<noteq> ''''
      then root_MkdirAll env (Dir (RelPath inp)) t else (True, t)) = (ok, t1)" by fastforce
  note eff = dirs_effect [OF d assms(2)]
  have dw: "wf_tree t' \<and> total t' = total t \<and> only_dirs t t'"
    if "doWrite env ent (Dir (RelPath inp)) inp ov t1 = (Inl e, t')" for ov
    using doWrite_error [OF that _ assms(3)] eff by (simp add: only_dirs_def)
  have "t' = t \<or> t' = t1 \<or> (\<exists>ov. doWrite env ent (Dir (RelPath inp)) inp ov t1 = (Inl e, t'))"
    using assms(1) unfolding Upload_Write_def writeUnderRoot_def writeWithQuota_def Let_def d
    by (auto split: if_splits sum.splits option.splits)
  then show ?thesis using dw eff assms(2) by auto
qed

lemma wrap64_quota:
  assumes "0 \<le> replaced" "replaced \<le> cur" "0 \<le> len" "cur + len < 2 ^ 63"
  shows "wrap64 (wrap64 (wrap64 cur - replaced) + len) = cur - replaced + len"
proof -
  have "is_int64 cur" "is_int64 (cur - replaced)" "is_int64 (cur - replaced + len)"
    using assms by (auto simp: is_int64_def)
  then show ?thesis by simp
qed

lemma aweight_le_total: "wf_tree t \<Longrightarrow> aweight entry_size (lookup t l) \<le> total t"
  using total_delete [of t l] total_nonneg [of "AList.delete l t"] total_nonneg [of t]
  by (cases "l = []") auto

lemma checkTarget_replaced_bounds:
  assumes "checkTarget inp t = Inr (ov, replaced)" "wf_tree t"
  shows "0 \<le> replaced \<and> replaced \<le> total t"
proof (cases "root_Stat t (RelPath inp)")
  case None
  then show ?thesis using assms total_nonneg by (auto simp: checkTarget_def)
next
  case (Some fi)
  then obtain l where "lookup t l = Some fi"
    by (auto simp: root_Stat_def split: sum.splits option.splits entry.splits if_splits)
  then have "entry_size fi \<le> total t" using aweight_le_total [OF assms(2), of l] by simp
  then show ?thesis using assms(1) Some by (auto simp: checkTarget_def split: if_splits)
qed

end
