(* ===== verification/FileUploadProps.thy ===== *)
theory FileUploadProps
  imports FileUploadProofs
begin

section \<open>Properties of file uploads\<close>

text \<open>
  The properties of \<open>internal/fileupload\<close>, with the runs that satisfy their hypotheses, and
  the two behaviours that a symbolic link in the upload root causes.
\<close>

definition up_env :: osenv where
  "up_env = \<lparr>fails = (\<lambda>_. False), tmp_name = '''', written_before_fail = 0\<rparr>"

definition up_cfg :: UploadConfig where
  "up_cfg = \<lparr>UploadRoot = ''/srv/up'', MaxFileBytes = 4, MaxTotalBytes = 5, DefaultMode = 0x180,
     UploadDenyRoot = False\<rparr>"

definition up_tree :: tree where
  "up_tree = [([''a''], EReg ''xx'' 0x180)]"

definition up_input :: UploadInput where
  "up_input = \<lparr>RelPath = ''d/b'', Data = ''yyy'', Overwrite = False, Mode = 0x180\<rparr>"

lemma up_tree_wf: "wf_tree up_tree" "total up_tree = 2"
  by (simp_all add: wf_tree_def up_tree_def total_def)

lemma up_run:
  "fst (Upload_Write up_env ''abcdefgh'' up_cfg up_input up_tree) =
     Inr \<lparr>ur_RelPath = ''d/b'', ur_Size = 3, ur_Overwritten = False, ur_Mode = 0x180\<rparr>"
  by code_simp

subsection \<open>Quota\<close>

lemma root_walk_True_False: "root_walk True t n cur parts = Inr l \<Longrightarrow> \<exists>l'. root_walk False t n cur parts = Inr l'"
proof (induction "True" t n cur parts rule: root_walk.induct)
  case (2 t n cur c rest)
  show ?case
  proof (cases "c = ''..'' \<or> rest = []")
    case True
    then show ?thesis using 2 by (auto simp: root_walk.simps split: if_splits)
  next
    case False
    then obtain e where "lookup t (cur @ [c]) = Some e"
      using 2(4) by (auto simp: root_walk.simps split: option.splits)
    then show ?thesis using 2 False
      by (cases e; cases n) (auto simp: root_walk.simps split: if_splits)
  qed
qed (simp add: root_walk.simps)

definition target_is_link :: "UploadInput \<Rightarrow> tree \<Rightarrow> bool" where
  "target_is_link inp t \<longleftrightarrow>
     (case root_resolve False t (RelPath inp) of
        Inl _ \<Rightarrow> False
      | Inr l \<Rightarrow> (case lookup t l of Some (ELink _) \<Rightarrow> True | _ \<Rightarrow> False))"

lemma replaced_le:
  assumes "checkTarget inp t = Inr (ov, replaced)" "only_dirs t t1" "\<not> target_is_link inp t"
    and lb: "root_resolve False t1 (RelPath inp) = Inr lb"
  shows "replaced \<le> aweight entry_size (lookup t1 lb)"
proof (cases "root_Stat t (RelPath inp)")
  case None
  then have "replaced = 0" using assms(1) by (simp add: checkTarget_def)
  then show ?thesis by (cases "lookup t1 lb") auto
next
  case (Some fi)
  have ext: "extends_tree t t1" using only_dirs_extends [OF assms(2)] .
  obtain l' where l': "root_resolve False t (RelPath inp) = Inr l'"
    using Some root_walk_True_False unfolding root_Stat_def root_resolve_def by (fastforce split: sum.splits)
  then have "lb = l'" using root_walk_extends [OF _ ext] lb unfolding root_resolve_def by fastforce
  then have "\<And>target. lookup t lb \<noteq> Some (ELink target)"
    using assms(3) l' by (auto simp: target_is_link_def)
  then have "\<And>target. lookup t1 lb \<noteq> Some (ELink target)"
    using assms(2) unfolding only_dirs_def by (metis entry.distinct(7) option.inject)
  then show ?thesis using checkTarget_replaced [OF assms(1) ext lb] by blast
qed

text \<open>
  The quota is an invariant. If the regular files under the upload root are within
  \<open>MaxTotalBytes\<close> and the target is not a symbolic link, they are within it after the call,
  whether it succeeds or fails at any step, provided that the temporary file of a failed
  write can be removed. The sizes are assumed to add up in 64 bits.
\<close>

theorem upload_quota_invariant:
  assumes "wf_tree t" and "0 < MaxTotalBytes cfg" and "total t \<le> MaxTotalBytes cfg"
    and "total t + int (length (Data inp)) < 2 ^ 63"
    and "\<not> fails env SysRemove" and "\<not> target_is_link inp t"
  shows "wf_tree (snd (Upload_Write env ent cfg inp t)) \<and>
    total (snd (Upload_Write env ent cfg inp t)) \<le> MaxTotalBytes cfg"
proof -
  obtain res t' where w: "Upload_Write env ent cfg inp t = (res, t')" by fastforce
  show ?thesis
  proof (cases res)
    case (Inl e)
    then show ?thesis using Upload_Write_error [of env ent cfg inp t e t'] w assms by simp
  next
    case (Inr r)
    then obtain t1 ov replaced where t1: "only_dirs t t1" "wf_tree t1" "total t1 = total t"
      "doWrite env ent (Dir (RelPath inp)) inp ov t1 = (Inr r, t')" "checkTarget inp t = Inr (ov, replaced)"
      "\<not> wrap64 (wrap64 (wrap64 (total t) - replaced) + int (length (Data inp))) > MaxTotalBytes cfg"
      using Upload_Write_ok [OF _ assms(1)] w assms(2) by (metis less_irrefl)
    have b: "0 \<le> replaced" "replaced \<le> total t" using checkTarget_replaced_bounds [OF t1(5) assms(1)] by auto
    then have q: "total t - replaced + int (length (Data inp)) \<le> MaxTotalBytes cfg"
      using t1(6) wrap64_quota [OF b _ assms(4)] by simp
    obtain lb where "root_resolve False t1 (RelPath inp) = Inr lb" "wf_tree t'"
      "total t' = total t1 - aweight entry_size (lookup t1 lb) + int (length (Data inp))"
      using doWrite_ok [OF t1(4,2)] by blast
    then show ?thesis using replaced_le [OF t1(5,1) assms(6)] q t1(3) w by fastforce
  qed
qed

theorem upload_quota_invariant_witness:
  "total (snd (Upload_Write up_env ''abcdefgh'' up_cfg up_input up_tree)) \<le> 5"
proof -
  have "\<not> target_is_link up_input up_tree" by code_simp
  then show ?thesis
    using upload_quota_invariant [of up_tree up_cfg up_input up_env "''abcdefgh''"] up_tree_wf
    by (simp add: up_cfg_def up_env_def up_input_def)
qed

text \<open>
  Without the condition on links the quota can be exceeded. The link \<^verbatim>\<open>l\<close> points to the
  file \<^verbatim>\<open>a\<close> of five bytes; overwriting \<^verbatim>\<open>l\<close> is charged as if it freed \<^verbatim>\<open>a\<close>, but the
  rename replaces the link and \<^verbatim>\<open>a\<close> stays: the root holds nine bytes under a quota of five.
\<close>

definition link_tree :: tree where
  "link_tree = [([''a''], EReg ''xxxxx'' 0x180), ([''l''], ELink ''a'')]"

definition link_input :: UploadInput where
  "link_input = \<lparr>RelPath = ''l'', Data = ''yyyy'', Overwrite = True, Mode = 0x180\<rparr>"

theorem upload_link_exceeds_quota:
  "total link_tree = MaxTotalBytes up_cfg \<and>
   Upload_Write up_env ''abcdefgh'' up_cfg link_input link_tree =
     (Inr \<lparr>ur_RelPath = ''l'', ur_Size = 4, ur_Overwritten = True, ur_Mode = 0x180\<rparr>,
      [([''a''], EReg ''xxxxx'' 0x180), ([''l''], EReg ''yyyy'' 0x180)]) \<and>
   total [([''a''], EReg ''xxxxx'' 0x180), ([''l''], EReg ''yyyy'' 0x180)] = 9"
proof (intro conjI)
  show "total link_tree = MaxTotalBytes up_cfg" by (simp add: total_def link_tree_def up_cfg_def)
  show "Upload_Write up_env ''abcdefgh'' up_cfg link_input link_tree =
     (Inr \<lparr>ur_RelPath = ''l'', ur_Size = 4, ur_Overwritten = True, ur_Mode = 0x180\<rparr>,
      [([''a''], EReg ''xxxxx'' 0x180), ([''l''], EReg ''yyyy'' 0x180)])" by code_simp
  show "total [([''a''], EReg ''xxxxx'' 0x180), ([''l''], EReg ''yyyy'' 0x180)] = 9" by (simp add: total_def)
qed

subsection \<open>Effect\<close>

text \<open>
  C16. A successful upload does exactly what it reports. Up to directories made on the way,
  one location changes: the one the path names, inside the root and free of \<^verbatim>\<open>..\<close>; it then
  holds the data with the requested mode. The path is lexically local and the data within
  \<open>MaxFileBytes\<close>.
\<close>

theorem upload_effect:
  assumes "Upload_Write env ent cfg inp t = (Inr r, t')" and "wf_tree t"
  shows "\<exists>t1 lb. only_dirs t t1 \<and> root_resolve False t1 (RelPath inp) = Inr lb \<and> ''..'' \<notin> set lb \<and>
    lookup t' lb = Some (EReg (Data inp) (Mode inp)) \<and> (\<forall>l. l \<noteq> lb \<longrightarrow> lookup t' l = lookup t1 l) \<and>
    IsLocal (RelPath inp) \<and> ur_Size r = int (length (Data inp)) \<and> ur_Size r \<le> MaxFileBytes cfg \<and>
    ur_RelPath r = RelPath inp \<and> ur_Mode r = Mode inp"
proof -
  obtain t1 ov where t1: "only_dirs t t1" "wf_tree t1"
    "doWrite env ent (Dir (RelPath inp)) inp ov t1 = (Inr r, t')"
    "IsLocal (RelPath inp)" "int (length (Data inp)) \<le> MaxFileBytes cfg"
    using Upload_Write_ok [OF assms] by metis
  obtain lb where lb: "root_resolve False t1 (RelPath inp) = Inr lb"
    "\<And>l. lookup t' l = (if l = lb then Some (EReg (Data inp) (Mode inp)) else lookup t1 l)"
    "r = \<lparr>ur_RelPath = RelPath inp, ur_Size = int (length (Data inp)), ur_Overwritten = ov, ur_Mode = Mode inp\<rparr>"
    using doWrite_ok [OF t1(3,2)] by blast
  have "''..'' \<notin> set lb" using lb(1) root_walk_no_dotdot unfolding root_resolve_def by fastforce
  then show ?thesis using t1 lb by (intro exI [of _ t1] exI [of _ lb]) auto
qed

theorem upload_effect_witness:
  "\<exists>t1 lb. only_dirs up_tree t1 \<and> root_resolve False t1 ''d/b'' = Inr lb \<and>
     lookup (snd (Upload_Write up_env ''abcdefgh'' up_cfg up_input up_tree)) lb = Some (EReg ''yyy'' 0x180)"
proof -
  obtain r t' where w: "Upload_Write up_env ''abcdefgh'' up_cfg up_input up_tree = (Inr r, t')"
    using up_run by (metis prod.collapse)
  have "RelPath up_input = ''d/b''" "Data up_input = ''yyy''" "Mode up_input = 0x180" by (simp_all add: up_input_def)
  then show ?thesis using upload_effect [OF w up_tree_wf(1)] by (auto simp: w)
qed

text \<open>
  C17. A failed upload leaves every existing entry as it was and adds at most directories,
  whichever check refused it and whichever step failed, provided that the temporary file can
  be removed. Refusals for the path, the size or the quota change nothing at all.
\<close>

theorem upload_error_leaves_files:
  assumes "Upload_Write env ent cfg inp t = (Inl e, t')" and "wf_tree t" and "\<not> fails env SysRemove"
  shows "(\<forall>l. lookup t' l = lookup t l \<or> lookup t l = None \<and> lookup t' l = Some EDir) \<and>
    (e \<in> {ErrTraversal, ErrTooLarge, ErrQuotaExceeded} \<longrightarrow> t' = t)"
proof
  show "\<forall>l. lookup t' l = lookup t l \<or> lookup t l = None \<and> lookup t' l = Some EDir"
    using Upload_Write_error [OF assms] by (simp add: only_dirs_def)
  have "e' \<notin> {ErrTraversal, ErrTooLarge, ErrQuotaExceeded}"
    if "doWrite env ent dir inp ov s = (Inl e', s')" for e' dir ov s s'
    using that by (auto simp: doWrite_def Let_def split: option.splits sum.splits if_splits)
  moreover have "e' \<notin> {ErrTraversal, ErrTooLarge, ErrQuotaExceeded}"
    if "checkTarget inp s = Inl e'" for e' s
    using that by (auto simp: checkTarget_def split: option.splits if_splits)
  ultimately show "e \<in> {ErrTraversal, ErrTooLarge, ErrQuotaExceeded} \<longrightarrow> t' = t"
    using assms(1)
    by (auto simp: Upload_Write_def writeUnderRoot_def writeWithQuota_def Let_def
        split: if_splits sum.splits option.splits prod.splits)
qed

theorem upload_error_leaves_files_witness:
  "Upload_Write up_env ''abcdefgh'' up_cfg (up_input\<lparr>RelPath := ''../b''\<rparr>) up_tree = (Inl ErrTraversal, up_tree)"
proof -
  let ?r = "Upload_Write up_env ''abcdefgh'' up_cfg (up_input\<lparr>RelPath := ''../b''\<rparr>) up_tree"
  have "fst ?r = Inl ErrTraversal" by code_simp
  then have w: "?r = (Inl ErrTraversal, snd ?r)" by (simp add: prod_eq_iff)
  have "\<not> fails up_env SysRemove" by (simp add: up_env_def)
  then have "snd ?r = up_tree" using upload_error_leaves_files [OF w up_tree_wf(1)] by blast
  then show ?thesis using w by simp
qed

text \<open>
  Without \<open>Overwrite\<close> an entry that \<^verbatim>\<open>Stat\<close> finds is never replaced: the upload is
  refused and the tree is unchanged when the quota is on.
\<close>

theorem upload_no_overwrite:
  assumes "root_Stat t (RelPath inp) = Some fi" and "\<not> Overwrite inp" and "MaxTotalBytes cfg \<noteq> 0"
  shows "(\<exists>e. fst (Upload_Write env ent cfg inp t) = Inl e) \<and> snd (Upload_Write env ent cfg inp t) = t"
  using assms by (auto simp: Upload_Write_def writeWithQuota_def checkTarget_def Let_def)

theorem upload_no_overwrite_witness:
  "snd (Upload_Write up_env ''abcdefgh'' up_cfg (up_input\<lparr>RelPath := ''a''\<rparr>) up_tree) = up_tree"
proof -
  have "root_Stat up_tree (RelPath (up_input\<lparr>RelPath := ''a''\<rparr>)) = Some (EReg ''xx'' 0x180)" by code_simp
  then show ?thesis using upload_no_overwrite [of up_tree "up_input\<lparr>RelPath := ''a''\<rparr>"]
    by (simp add: up_input_def up_cfg_def)
qed

text \<open>
  An existing symbolic link whose target is missing or outside the root is invisible to
  that check, because \<^verbatim>\<open>Stat\<close> follows it and fails: it is replaced although \<open>Overwrite\<close> is
  off, and the result reports that nothing was overwritten.
\<close>

theorem upload_replaces_dangling_link:
  "Upload_Write up_env ''abcdefgh'' up_cfg (link_input\<lparr>Overwrite := False\<rparr>) [([''l''], ELink ''/etc/passwd'')] =
     (Inr \<lparr>ur_RelPath = ''l'', ur_Size = 4, ur_Overwritten = False, ur_Mode = 0x180\<rparr>,
      [([''l''], EReg ''yyyy'' 0x180)])"
  by code_simp

subsection \<open>Modes\<close>

lemma and_not_mask_eq_0: "w AND NOT (0x1FF :: filemode) = 0 \<longleftrightarrow> unat w < 512"
proof -
  have m: "(0x1FF :: filemode) = mask 9" by (simp add: mask_eq_exp_minus_1)
  have "w AND NOT (mask 9) = 0 \<longleftrightarrow> take_bit 9 w = w"
  proof
    assume z: "w AND NOT (mask 9) = 0"
    have "w = (w AND mask 9) OR (w AND NOT (mask 9))" by (simp flip: bit.conj_disj_distrib)
    then show "take_bit 9 w = w" using z by (simp add: take_bit_eq_mask)
  next
    assume "take_bit 9 w = w"
    then have "w = w AND mask 9" by (simp add: take_bit_eq_mask)
    then have "w AND NOT (mask 9) = w AND (mask 9 AND NOT (mask 9))" by (metis and.assoc)
    then show "w AND NOT (mask 9) = 0" by simp
  qed
  also have "\<dots> \<longleftrightarrow> take_bit 9 (unat w) = unat w"
    by (metis unsigned_take_bit_eq word_unat_eq_iff)
  also have "\<dots> \<longleftrightarrow> unat w < 512" by (simp add: take_bit_nat_eq_self_iff)
  finally show ?thesis by (simp only: m)
qed

lemma and_minus_512_eq_0: "w AND (- 512 :: filemode) = 0 \<longleftrightarrow> unat w < 512"
  using and_not_mask_eq_0 [of w] by simp

lemma and_2_eq_0: "w AND (2 :: filemode) = 0 \<longleftrightarrow> even (unat w div 2)"
proof -
  have "w AND 2 ^ 1 = 0 \<longleftrightarrow> \<not> bit w 1" by (rule and_exp_eq_0_iff_not_bit)
  also have "bit w 1 \<longleftrightarrow> bit (unat w) 1" by (simp add: bit_unsigned_iff)
  also have "bit (unat w) 1 \<longleftrightarrow> odd (unat w div 2)" by (simp add: bit_iff_odd)
  finally show ?thesis by simp
qed

lemma ParseInt_bound: "ParseInt s 8 32 = Some v \<Longrightarrow> 0 \<le> v \<Longrightarrow> unat (word_of_int v :: filemode) = nat v"
proof -
  assume "ParseInt s 8 32 = Some v" "0 \<le> v"
  then have "v < 2 ^ 31" by (auto simp: ParseInt_def Let_def split: option.splits if_splits)
  then show ?thesis using \<open>0 \<le> v\<close> by (simp add: unat_eq_nat_uint uint_word_of_int)
qed

lemma ParseMode_Inr:
  "ParseMode s = Inr m \<longleftrightarrow>
     (\<exists>v. ParseInt s 8 32 = Some v \<and> 0 \<le> v \<and> v \<le> 511 \<and> even (v div 2) \<and> unat m = nat v)"
proof (cases "ParseInt s 8 32")
  case None
  then show ?thesis by (simp add: ParseMode_def)
next
  case (Some v)
  then have "s \<noteq> []" by (auto simp: ParseInt_def)
  show ?thesis
  proof (cases "0 \<le> v")
    case False
    then show ?thesis using Some \<open>s \<noteq> []\<close> by (simp add: ParseMode_def)
  next
    case True
    note u = ParseInt_bound [OF Some True]
    have "even (nat v div 2) \<longleftrightarrow> even (v div 2)"
      using True by (metis even_nat_iff nat_div_distrib nat_numeral pos_imp_zdiv_nonneg_iff zero_less_numeral)
    moreover have "m = word_of_int v \<longleftrightarrow> unat m = nat v" using u by (metis word_unat_eq_iff)
    ultimately show ?thesis
      using Some \<open>s \<noteq> []\<close> True u by (auto simp: ParseMode_def Let_def and_minus_512_eq_0 and_2_eq_0)
  qed
qed

text \<open>
  \<open>ParseMode\<close> accepts a string exactly when it is an octal number between 0 and 0777
  without the world-writable bit, and returns that number: no setuid, setgid, sticky or
  higher bit and no world-writable file can be requested, and no other mode is refused.
\<close>

theorem parseMode_exact:
  "ParseMode s = Inr m \<longleftrightarrow>
     (\<exists>v. ParseInt s 8 32 = Some v \<and> 0 \<le> v \<and> v \<le> 511 \<and> even (v div 2) \<and> unat m = nat v)"
  by (rule ParseMode_Inr)

lemma digits_val_append:
  "digits_val b a (xs @ ys) = Option.bind (digits_val b a xs) (\<lambda>a'. digits_val b a' ys)"
  by (induction b a xs rule: digits_val.induct) (auto split: option.splits)

lemma digit_val_octal: "n < 8 \<Longrightarrow> digit_val (char_of (48 + n)) = Some n"
  by (simp add: digit_val_def of_char_of)

lemma digits_val_of: "digits_val 8 0 (digits_of 8 n) = Some n"
proof (induction "8 :: nat" n rule: digits_of.induct)
  case (1 n)
  then show ?case
    by (cases "n < 8") (auto simp: digits_of.simps [of 8 n] digits_val_append digit_val_octal)
qed

lemma digits_val_zeros: "digits_val 8 0 (replicate k CHR ''0'' @ s) = digits_val 8 0 s"
  by (induction k) (auto simp: digit_val_def)

text \<open>
  Printing a permitted mode with \<^verbatim>\<open>%04o\<close> and parsing it again gives the same mode.
\<close>

theorem parseMode_fmt_roundtrip:
  assumes "unat m < 512" and "even (unat m div 2)"
  shows "ParseMode (fmt_04o m) = Inr m"
proof -
  define ds where "ds = fmt_04o m"
  have v: "digits_val 8 0 ds = Some (unat m)"
    by (simp add: ds_def fmt_04o_def Let_def digits_val_zeros digits_val_of)
  have "ds \<noteq> []" by (simp add: ds_def fmt_04o_def Let_def digits_of.simps [of 8 "unat m"])
  then obtain c cs where c: "ds = c # cs" by (cases ds) auto
  have "c \<noteq> CHR ''-''" "c \<noteq> CHR ''+''" using v by (auto simp: c digit_val_def)
  moreover have "uint m < 512" unfolding uint_nat using assms(1) by linarith
  ultimately have "ParseInt ds 8 32 = Some (int (unat m))"
    using v assms by (simp add: ParseInt_def c)
  moreover have "even (int (unat m) div 2)" using assms(2) by (metis even_of_nat of_nat_div of_nat_numeral)
  moreover have "int (unat m) \<le> 511" using assms(1) by linarith
  ultimately have "ParseMode ds = Inr m"
    using ParseMode_Inr [of ds m] by (metis nat_int of_nat_0_le_iff)
  then show ?thesis by (simp add: ds_def)
qed

theorem parseMode_fmt_roundtrip_witness: "ParseMode (fmt_04o 0x1A4) = Inr 0x1A4"
  by (rule parseMode_fmt_roundtrip) simp_all

end
