(* ===== verification/UploadLock.thy ===== *)
theory UploadLock
  imports FileUploadProps
begin

section \<open>Concurrent uploads (\<open>internal/fileupload/quota.go\<close>, \<open>upload.go\<close>)\<close>

text \<open>
  \<open>FileUpload\<close> runs one call of \<^verbatim>\<open>Write\<close> at a time. Requests overlap, and with a total limit
  every call takes the mutex of its upload root before it opens the root and keeps it until it
  returns. Here any number of calls interleave: the registry of mutexes is the state that
  \<^verbatim>\<open>rootMutex\<close> works on, and a call takes one step per access to the tree under the root. A call
  is the configuration, the faults, the entropy and the input it is made with.

  Shown are that every interleaving is equivalent to the same calls one after another, in the
  order in which they gave the mutex back, that no call waits for ever, and that the limit
  holds whenever no call is in the middle of its work.
\<close>

type_synonym upload_result = "upload_error + UploadResult"

record ujob =
  uj_env :: osenv
  uj_ent :: bytes
  uj_inp :: UploadInput

datatype upc =
    UStart
  | UWaiting nat
  | ULocked nat
  | UChecked nat bool int
  | UMeasured nat bool
  | UMade nat bool
  | UFinished nat upload_result
  | UDone upload_result

text \<open>
  \<open>uw_registry\<close> is \<^verbatim>\<open>rootLocks\<close>, which maps a root to its mutex; mutexes are numbered. \<open>uw_log\<close>
  lists the calls that returned, in the order in which they did.
\<close>

record uworld =
  uw_tree :: tree
  uw_registry :: "string \<Rightarrow> nat option"
  uw_fresh :: nat
  uw_held :: "nat \<Rightarrow> nat option"
  uw_pc :: "nat \<Rightarrow> upc"
  uw_log :: "(nat \<times> upload_result) list"

definition rootMutex :: "string \<Rightarrow> uworld \<Rightarrow> nat \<times> uworld" where
  "rootMutex absRoot w =
     (case uw_registry w absRoot of
        Some mu \<Rightarrow> (mu, w)
      | None \<Rightarrow> (uw_fresh w, w\<lparr>uw_registry := (uw_registry w)(absRoot \<mapsto> uw_fresh w), uw_fresh := Suc (uw_fresh w)\<rparr>))"

definition at_pc :: "nat \<Rightarrow> upc \<Rightarrow> uworld \<Rightarrow> uworld" where
  "at_pc p c w = w\<lparr>uw_pc := (uw_pc w)(p := c)\<rparr>"

definition returns :: "nat \<Rightarrow> upload_result \<Rightarrow> uworld \<Rightarrow> uworld" where
  "returns p r w = (at_pc p (UDone r) w)\<lparr>uw_log := uw_log w @ [(p, r)]\<rparr>"

definition makeDirs :: "osenv \<Rightarrow> UploadInput \<Rightarrow> tree \<Rightarrow> bool \<times> tree" where
  "makeDirs env inp t =
     (let dir = Dir (RelPath inp) in if dir \<noteq> ''.'' \<and> dir \<noteq> '''' then root_MkdirAll env dir t else (True, t))"

text \<open>One step of the call \<open>p\<close>; \<open>None\<close> while it waits for the mutex and when it has returned.\<close>

definition ustep :: "UploadConfig \<Rightarrow> (nat \<Rightarrow> ujob) \<Rightarrow> nat \<Rightarrow> uworld \<Rightarrow> uworld option" where
  "ustep cfg jobs p w =
     (let env = uj_env (jobs p); inp = uj_inp (jobs p); t = uw_tree w in
      case uw_pc w p of
        UStart \<Rightarrow>
          Some (if int (length (Data inp)) > MaxFileBytes cfg then returns p (Inl ErrTooLarge) w
                else if \<not> IsLocal (RelPath inp) then returns p (Inl ErrTraversal) w
                else let (mu, w1) = rootMutex (UploadRoot cfg) w in at_pc p (UWaiting mu) w1)
      | UWaiting mu \<Rightarrow>
          (case uw_held w mu of
             Some _ \<Rightarrow> None
           | None \<Rightarrow> Some ((at_pc p (ULocked mu) w)\<lparr>uw_held := (uw_held w)(mu \<mapsto> p)\<rparr>))
      | ULocked mu \<Rightarrow>
          Some (at_pc p (if fails env SysOpen then UFinished mu (Inl (UploadIO ''open upload root''))
                         else case checkTarget inp t of
                                Inl e \<Rightarrow> UFinished mu (Inl e)
                              | Inr (overwritten, replaced) \<Rightarrow> UChecked mu overwritten replaced) w)
      | UChecked mu overwritten replaced \<Rightarrow>
          Some (at_pc p (case currentBytes env t of
                           None \<Rightarrow> UFinished mu (Inl (UploadIO ''quota: walk upload root''))
                         | Some current \<Rightarrow>
                             if wrap64 (wrap64 (current - replaced) + int (length (Data inp))) > MaxTotalBytes cfg
                             then UFinished mu (Inl ErrQuotaExceeded) else UMeasured mu overwritten) w)
      | UMeasured mu overwritten \<Rightarrow>
          (let (ok, t1) = makeDirs env inp t in
           Some ((at_pc p (if ok then UMade mu overwritten else UFinished mu (Inl (UploadIO ''create directories''))) w)
                 \<lparr>uw_tree := t1\<rparr>))
      | UMade mu overwritten \<Rightarrow>
          (let (r, t1) = doWrite env (uj_ent (jobs p)) (Dir (RelPath inp)) inp overwritten t in
           Some ((at_pc p (UFinished mu r) w)\<lparr>uw_tree := t1\<rparr>))
      | UFinished mu r \<Rightarrow> Some ((returns p r w)\<lparr>uw_held := (uw_held w)(mu := None)\<rparr>)
      | UDone r \<Rightarrow> None)"

definition ustart :: "tree \<Rightarrow> uworld" where
  "ustart t0 = \<lparr>uw_tree = t0, uw_registry = (\<lambda>_. None), uw_fresh = 0, uw_held = (\<lambda>_. None),
     uw_pc = (\<lambda>_. UStart), uw_log = []\<rparr>"

inductive ureach :: "UploadConfig \<Rightarrow> (nat \<Rightarrow> ujob) \<Rightarrow> tree \<Rightarrow> uworld \<Rightarrow> bool" for cfg jobs t0 where
  ureach_start: "ureach cfg jobs t0 (ustart t0)"
| ureach_step: "ureach cfg jobs t0 w \<Longrightarrow> ustep cfg jobs p w = Some w' \<Longrightarrow> ureach cfg jobs t0 w'"

fun urun :: "UploadConfig \<Rightarrow> (nat \<Rightarrow> ujob) \<Rightarrow> nat list \<Rightarrow> uworld \<Rightarrow> uworld option" where
  "urun cfg jobs [] w = Some w"
| "urun cfg jobs (p # ps) w = (case ustep cfg jobs p w of None \<Rightarrow> None | Some w' \<Rightarrow> urun cfg jobs ps w')"

lemma urun_ureach: "urun cfg jobs ps w = Some w' \<Longrightarrow> ureach cfg jobs t0 w \<Longrightarrow> ureach cfg jobs t0 w'"
  by (induction cfg jobs ps w rule: urun.induct) (auto split: option.splits intro: ureach_step)

subsection \<open>The same calls one after another\<close>

definition write_job :: "UploadConfig \<Rightarrow> ujob \<Rightarrow> tree \<Rightarrow> upload_result \<times> tree" where
  "write_job cfg j t = Upload_Write (uj_env j) (uj_ent j) cfg (uj_inp j) t"

fun serial :: "UploadConfig \<Rightarrow> (nat \<Rightarrow> ujob) \<Rightarrow> nat list \<Rightarrow> tree \<Rightarrow> upload_result list \<times> tree" where
  "serial cfg jobs [] t = ([], t)"
| "serial cfg jobs (p # ps) t =
     (let (r, t1) = write_job cfg (jobs p) t; (rs, t2) = serial cfg jobs ps t1 in (r # rs, t2))"

lemma serial_snoc:
  "serial cfg jobs ps t = (rs, t1) \<Longrightarrow> write_job cfg (jobs p) t1 = (r, t2) \<Longrightarrow>
   serial cfg jobs (ps @ [p]) t = (rs @ [r], t2)"
  by (induction ps arbitrary: t rs) (auto simp: Let_def split: prod.splits)

text \<open>What is left to do of a call, run without interruption on the tree as it is.\<close>

definition restMeasured :: "ujob \<Rightarrow> bool \<Rightarrow> tree \<Rightarrow> upload_result \<times> tree" where
  "restMeasured j ov t =
     (let (ok, t1) = makeDirs (uj_env j) (uj_inp j) t in
      if ok then doWrite (uj_env j) (uj_ent j) (Dir (RelPath (uj_inp j))) (uj_inp j) ov t1
      else (Inl (UploadIO ''create directories''), t1))"

definition restChecked :: "UploadConfig \<Rightarrow> ujob \<Rightarrow> bool \<Rightarrow> int \<Rightarrow> tree \<Rightarrow> upload_result \<times> tree" where
  "restChecked cfg j ov replaced t =
     (case currentBytes (uj_env j) t of
        None \<Rightarrow> (Inl (UploadIO ''quota: walk upload root''), t)
      | Some current \<Rightarrow>
          if wrap64 (wrap64 (current - replaced) + int (length (Data (uj_inp j)))) > MaxTotalBytes cfg
          then (Inl ErrQuotaExceeded, t) else restMeasured j ov t)"

fun rest :: "UploadConfig \<Rightarrow> ujob \<Rightarrow> upc \<Rightarrow> tree \<Rightarrow> upload_result \<times> tree" where
  "rest cfg j (UChecked mu ov replaced) t = restChecked cfg j ov replaced t"
| "rest cfg j (UMeasured mu ov) t = restMeasured j ov t"
| "rest cfg j (UMade mu ov) t = doWrite (uj_env j) (uj_ent j) (Dir (RelPath (uj_inp j))) (uj_inp j) ov t"
| "rest cfg j (UFinished mu r) t = (r, t)"
| "rest cfg j c t = write_job cfg j t"

definition accepted_job :: "UploadConfig \<Rightarrow> ujob \<Rightarrow> bool" where
  "accepted_job cfg j \<longleftrightarrow> int (length (Data (uj_inp j))) \<le> MaxFileBytes cfg \<and> IsLocal (RelPath (uj_inp j))"

lemma write_job_rejected:
  "\<not> accepted_job cfg j \<Longrightarrow>
   write_job cfg j t = (Inl (if int (length (Data (uj_inp j))) > MaxFileBytes cfg then ErrTooLarge else ErrTraversal), t)"
  by (auto simp: accepted_job_def write_job_def Upload_Write_def)

lemma write_job_accepted:
  assumes "accepted_job cfg j" and "MaxTotalBytes cfg \<noteq> 0"
  shows "write_job cfg j t =
    (if fails (uj_env j) SysOpen then (Inl (UploadIO ''open upload root''), t)
     else case checkTarget (uj_inp j) t of
            Inl e \<Rightarrow> (Inl e, t)
          | Inr (ov, replaced) \<Rightarrow> restChecked cfg j ov replaced t)"
  using assms
  by (auto simp: write_job_def accepted_job_def Upload_Write_def writeWithQuota_def makeDirs_def restChecked_def
      restMeasured_def Let_def split: sum.splits option.splits prod.splits)

subsection \<open>The invariant\<close>

fun mutex_of :: "upc \<Rightarrow> nat option" where
  "mutex_of (ULocked mu) = Some mu"
| "mutex_of (UChecked mu _ _) = Some mu"
| "mutex_of (UMeasured mu _) = Some mu"
| "mutex_of (UMade mu _) = Some mu"
| "mutex_of (UFinished mu _) = Some mu"
| "mutex_of _ = None"

fun wanted :: "upc \<Rightarrow> nat option" where
  "wanted (UWaiting mu) = Some mu"
| "wanted c = mutex_of c"

lemma mutex_of_wanted: "mutex_of c = Some mu \<Longrightarrow> wanted c = Some mu"
  by (cases c) auto

lemmas world_simps = at_pc_def returns_def

lemma at_pc_tree [simp]: "(at_pc p c w)\<lparr>uw_tree := uw_tree w\<rparr> = at_pc p c w"
  by (simp add: at_pc_def)

text \<open>The steps of a call, by what it does with the mutex.\<close>

lemma ustep_cases:
  assumes "ustep cfg jobs p w = Some w'" and "MaxTotalBytes cfg \<noteq> 0"
  obtains (rejected) e where "uw_pc w p = UStart" "\<not> accepted_job cfg (jobs p)" "w' = returns p (Inl e) w"
      "\<And>t. write_job cfg (jobs p) t = (Inl e, t)"
  | (registers) mu w1 where "uw_pc w p = UStart" "accepted_job cfg (jobs p)"
      "rootMutex (UploadRoot cfg) w = (mu, w1)" "w' = at_pc p (UWaiting mu) w1"
  | (locks) mu where "uw_pc w p = UWaiting mu" "uw_held w mu = None"
      "w' = (at_pc p (ULocked mu) w)\<lparr>uw_held := (uw_held w)(mu \<mapsto> p)\<rparr>"
  | (works) mu c t where "mutex_of (uw_pc w p) = Some mu" "mutex_of c = Some mu"
      "w' = (at_pc p c w)\<lparr>uw_tree := t\<rparr>"
      "accepted_job cfg (jobs p) \<Longrightarrow> rest cfg (jobs p) c t = rest cfg (jobs p) (uw_pc w p) (uw_tree w)"
  | (unlocks) mu r where "uw_pc w p = UFinished mu r" "w' = (returns p r w)\<lparr>uw_held := (uw_held w)(mu := None)\<rparr>"
proof (cases "uw_pc w p")
  case UStart
  show ?thesis
  proof (cases "accepted_job cfg (jobs p)")
    case True
    then show ?thesis using assms(1) UStart registers
      by (cases "rootMutex (UploadRoot cfg) w") (auto simp: ustep_def Let_def accepted_job_def)
  next
    case False
    then show ?thesis
      using assms(1) UStart rejected write_job_rejected [OF False]
      by (fastforce simp: ustep_def Let_def accepted_job_def split: if_splits)
  qed
next
  case (UWaiting mu)
  then show ?thesis using assms(1) locks by (auto simp: ustep_def Let_def split: option.splits)
next
  case (ULocked mu)
  define c where "c = (if fails (uj_env (jobs p)) SysOpen then UFinished mu (Inl (UploadIO ''open upload root''))
    else case checkTarget (uj_inp (jobs p)) (uw_tree w) of
      Inl e \<Rightarrow> UFinished mu (Inl e) | Inr (ov, replaced) \<Rightarrow> UChecked mu ov replaced)"
  have "w' = at_pc p c w"
    using assms(1) ULocked by (simp add: ustep_def Let_def c_def)
  moreover have "mutex_of c = Some mu" by (simp add: c_def split: sum.split)
  moreover have "rest cfg (jobs p) c (uw_tree w) = write_job cfg (jobs p) (uw_tree w)"
    if "accepted_job cfg (jobs p)"
    using write_job_accepted [OF that assms(2)] by (simp add: c_def split: sum.split)
  ultimately show ?thesis using ULocked works [of mu c "uw_tree w"] by simp
next
  case (UChecked mu ov replaced)
  define c where "c = (case currentBytes (uj_env (jobs p)) (uw_tree w) of
      None \<Rightarrow> UFinished mu (Inl (UploadIO ''quota: walk upload root''))
    | Some current \<Rightarrow>
        if wrap64 (wrap64 (current - replaced) + int (length (Data (uj_inp (jobs p))))) > MaxTotalBytes cfg
        then UFinished mu (Inl ErrQuotaExceeded) else UMeasured mu ov)"
  have "w' = at_pc p c w"
    using assms(1) UChecked by (simp add: ustep_def Let_def c_def)
  moreover have "mutex_of c = Some mu" by (simp add: c_def split: option.split)
  moreover have "rest cfg (jobs p) c (uw_tree w) = restChecked cfg (jobs p) ov replaced (uw_tree w)"
    by (simp add: c_def restChecked_def split: option.split)
  ultimately show ?thesis using UChecked works [of mu c "uw_tree w"] by simp
next
  case (UMeasured mu ov)
  then show ?thesis
    using assms(1) works [of mu "UMade mu ov"] works [of mu "UFinished mu (Inl (UploadIO ''create directories''))"]
    by (auto simp: ustep_def Let_def restMeasured_def split: prod.splits if_splits)
next
  case (UMade mu ov)
  then show ?thesis using assms(1) works [of mu "UFinished mu _"]
    by (auto simp: ustep_def Let_def split: prod.splits)
next
  case (UFinished mu r)
  then show ?thesis using assms(1) unlocks by (auto simp: ustep_def Let_def)
next
  case (UDone r)
  then show ?thesis using assms(1) by (simp add: ustep_def Let_def)
qed

definition ulock :: "UploadConfig \<Rightarrow> (nat \<Rightarrow> ujob) \<Rightarrow> uworld \<Rightarrow> bool" where
  "ulock cfg jobs w \<longleftrightarrow>
     (\<forall>mu p. uw_held w mu = Some p \<longleftrightarrow> mutex_of (uw_pc w p) = Some mu) \<and>
     (\<forall>p mu. wanted (uw_pc w p) = Some mu \<longrightarrow>
        uw_registry w (UploadRoot cfg) = Some mu \<and> accepted_job cfg (jobs p))"

definition useq :: "UploadConfig \<Rightarrow> (nat \<Rightarrow> ujob) \<Rightarrow> tree \<Rightarrow> tree \<Rightarrow> uworld \<Rightarrow> bool" where
  "useq cfg jobs t0 base w \<longleftrightarrow>
     distinct (map fst (uw_log w)) \<and> (\<forall>p r. (p, r) \<in> set (uw_log w) \<longleftrightarrow> uw_pc w p = UDone r) \<and>
     serial cfg jobs (map fst (uw_log w)) t0 = (map snd (uw_log w), base) \<and>
     (\<forall>p. mutex_of (uw_pc w p) \<noteq> None \<longrightarrow>
        rest cfg (jobs p) (uw_pc w p) (uw_tree w) = write_job cfg (jobs p) base) \<and>
     ((\<forall>p. mutex_of (uw_pc w p) = None) \<longrightarrow> uw_tree w = base)"

lemma ulock_held: "ulock cfg jobs w \<Longrightarrow> mutex_of (uw_pc w p) = Some mu \<Longrightarrow> uw_held w mu = Some p"
  by (simp add: ulock_def)

lemma ulock_one:
  assumes "ulock cfg jobs w" and "mutex_of (uw_pc w p) \<noteq> None" and "mutex_of (uw_pc w q) \<noteq> None"
  shows "p = q"
proof -
  obtain m n where mn: "mutex_of (uw_pc w p) = Some m" "mutex_of (uw_pc w q) = Some n" using assms by blast
  then have "m = n" using assms(1) mutex_of_wanted unfolding ulock_def by (metis option.inject)
  then show ?thesis using mn ulock_held [OF assms(1)] by (metis option.inject)
qed

lemma ulock_step:
  assumes "ulock cfg jobs w" and "ustep cfg jobs p w = Some w'" and "MaxTotalBytes cfg \<noteq> 0"
  shows "ulock cfg jobs w'"
  using assms(2,3)
proof (cases rule: ustep_cases)
  case (rejected e)
  then show ?thesis using assms(1) by (auto simp: ulock_def world_simps)
next
  case (registers mu w1)
  show ?thesis
  proof (cases "uw_registry w (UploadRoot cfg)")
    case None
    then have "\<And>q. wanted (uw_pc w q) = None" using assms(1) unfolding ulock_def by (metis not_Some_eq)
    then show ?thesis using registers assms(1) None by (auto simp: ulock_def world_simps rootMutex_def)
  next
    case (Some m)
    then show ?thesis using registers assms(1) by (auto simp: ulock_def world_simps rootMutex_def)
  qed
next
  case (locks mu)
  then have "wanted (uw_pc w p) = Some mu" by simp
  then have reg: "uw_registry w (UploadRoot cfg) = Some mu" "accepted_job cfg (jobs p)"
    using assms(1) unfolding ulock_def by blast+
  have free: "mutex_of (uw_pc w q) \<noteq> Some mu" for q using locks(2) ulock_held [OF assms(1)] by fastforce
  have "mutex_of (uw_pc w p) = None" using locks(1) by simp
  then show ?thesis using reg free assms(1) unfolding locks(3) ulock_def world_simps by auto
next
  case (works mu c t)
  then have "wanted (uw_pc w p) = Some mu" "wanted c = Some mu" using mutex_of_wanted by auto
  then show ?thesis using works(1,2) assms(1) unfolding works(3) ulock_def world_simps
    by auto (metis option.inject)
next
  case (unlocks mu r)
  then have "uw_held w mu = Some p" using ulock_held [OF assms(1)] by simp
  then have "mutex_of (uw_pc w q) \<noteq> Some mu" if "q \<noteq> p" for q
    using ulock_held [OF assms(1)] that by fastforce
  then show ?thesis using unlocks(1) assms(1) unfolding unlocks(2) ulock_def world_simps by auto
qed

lemma useq_returns:
  assumes "useq cfg jobs t0 base w" and "\<And>r. uw_pc w p \<noteq> UDone r"
  shows "p \<notin> set (map fst (uw_log w))"
  using assms unfolding useq_def by auto

lemma useq_idle:
  "useq cfg jobs t0 base w \<Longrightarrow> mutex_of (uw_pc w p) = None \<Longrightarrow>
   \<forall>q. q \<noteq> p \<longrightarrow> mutex_of (uw_pc w q) = None \<Longrightarrow> uw_tree w = base"
  unfolding useq_def by metis

lemma useq_step:
  assumes lock: "ulock cfg jobs w" and seq: "useq cfg jobs t0 base w"
    and "ustep cfg jobs p w = Some w'" and "MaxTotalBytes cfg \<noteq> 0"
  shows "\<exists>base'. useq cfg jobs t0 base' w'"
  using assms(3,4)
proof (cases rule: ustep_cases)
  case (rejected e)
  then have "p \<notin> set (map fst (uw_log w))" using useq_returns [OF seq] by simp
  moreover have "serial cfg jobs (map fst (uw_log w) @ [p]) t0 = (map snd (uw_log w) @ [Inl e], base)"
    using seq rejected(4) by (intro serial_snoc) (auto simp: useq_def)
  moreover note idle = useq_idle [OF seq, of p]
  ultimately have "useq cfg jobs t0 base w'"
    using seq rejected(1) unfolding rejected(3) useq_def world_simps by auto
  then show ?thesis ..
next
  case (registers mu w1)
  then have "useq cfg jobs t0 base w'"
    using seq useq_idle [OF seq, of p] by (auto simp: useq_def world_simps rootMutex_def split: option.splits)
  then show ?thesis ..
next
  case (locks mu)
  then have "wanted (uw_pc w p) = Some mu" by simp
  then have free: "mutex_of (uw_pc w q) = None" for q
    using lock locks(2) mutex_of_wanted unfolding ulock_def by (metis not_Some_eq option.inject)
  then have "useq cfg jobs t0 base w'" using seq locks(1,3) by (auto simp: useq_def world_simps)
  then show ?thesis ..
next
  case (works mu c t)
  have "accepted_job cfg (jobs p)"
    using lock mutex_of_wanted [OF works(1)] unfolding ulock_def by blast
  then have r: "rest cfg (jobs p) c t = write_job cfg (jobs p) base"
    using works(1,4) seq unfolding useq_def by simp
  have one: "mutex_of (uw_pc w q) = None" if "q \<noteq> p" for q
    using ulock_one [OF lock, of p q] works(1) that by (cases "mutex_of (uw_pc w q)") auto
  have nd: "c \<noteq> UDone r" "uw_pc w p \<noteq> UDone r" for r using works(1,2) by auto
  have "useq cfg jobs t0 base w'"
    using seq r one nd works(2) unfolding works(3) useq_def world_simps by auto
  then show ?thesis ..
next
  case (unlocks mu r)
  have one: "mutex_of (uw_pc w q) = None" if "q \<noteq> p" for q
    using ulock_one [OF lock, of p q] unlocks(1) that by (cases "mutex_of (uw_pc w q)") auto
  have "p \<notin> set (map fst (uw_log w))" using useq_returns [OF seq] unlocks(1) by simp
  moreover have "rest cfg (jobs p) (uw_pc w p) (uw_tree w) = write_job cfg (jobs p) base"
    using seq unlocks(1) unfolding useq_def by (metis mutex_of.simps(5) option.distinct(1))
  then have "serial cfg jobs (map fst (uw_log w) @ [p]) t0 = (map snd (uw_log w) @ [r], uw_tree w)"
    using seq unlocks(1) by (intro serial_snoc) (auto simp: useq_def)
  ultimately have "useq cfg jobs t0 (uw_tree w) w'"
    using seq one unlocks unfolding useq_def world_simps by auto
  then show ?thesis ..
qed

lemma ureach_inv:
  assumes "ureach cfg jobs t0 w" and "MaxTotalBytes cfg \<noteq> 0"
  shows "ulock cfg jobs w \<and> (\<exists>base. useq cfg jobs t0 base w)"
  using assms(1)
proof (induction rule: ureach.induct)
  case ureach_start
  then show ?case by (auto simp: ulock_def useq_def ustart_def)
next
  case (ureach_step w p w')
  then show ?case using ulock_step useq_step assms(2) by metis
qed

subsection \<open>Every interleaving is a sequence of whole calls\<close>

text \<open>
  C14. Uploads that overlap behave as if they ran one after another. In every state that an
  interleaving of calls under a total limit reaches while no call holds the mutex, the
  results returned so far and the tree under the root are those of the same calls run as
  a whole, in the order in which they returned, each of them once.
\<close>

theorem concurrent_uploads_serial:
  assumes "ureach cfg jobs t0 w" and "MaxTotalBytes cfg \<noteq> 0" and "\<And>p. mutex_of (uw_pc w p) = None"
  shows "serial cfg jobs (map fst (uw_log w)) t0 = (map snd (uw_log w), uw_tree w) \<and>
    distinct (map fst (uw_log w)) \<and> (\<forall>p r. uw_pc w p = UDone r \<longleftrightarrow> (p, r) \<in> set (uw_log w))"
  using ureach_inv [OF assms(1,2)] assms(3) by (auto simp: useq_def)

subsection \<open>No call waits for ever\<close>

fun steps_left :: "upc \<Rightarrow> nat" where
  "steps_left UStart = 7"
| "steps_left (UWaiting _) = 6"
| "steps_left (ULocked _) = 5"
| "steps_left (UChecked _ _ _) = 4"
| "steps_left (UMeasured _ _) = 3"
| "steps_left (UMade _ _) = 2"
| "steps_left (UFinished _ _) = 1"
| "steps_left (UDone _) = 0"

text \<open>A call can step unless it has returned or waits for a mutex that is held.\<close>

lemma ustep_enabled:
  "(\<exists>w'. ustep cfg jobs p w = Some w') \<longleftrightarrow>
   (case uw_pc w p of UDone _ \<Rightarrow> False | UWaiting mu \<Rightarrow> uw_held w mu = None | _ \<Rightarrow> True)"
  by (auto simp: ustep_def Let_def split: upc.splits option.splits prod.splits)

lemma ustep_progress:
  assumes "ustep cfg jobs p w = Some w'"
  shows "steps_left (uw_pc w' p) < steps_left (uw_pc w p)" and "q \<noteq> p \<Longrightarrow> uw_pc w' q = uw_pc w q"
  using assms
  by (auto simp: ustep_def Let_def world_simps rootMutex_def
      split: upc.splits option.splits prod.splits sum.splits if_splits)

lemma urun_append:
  "urun cfg jobs (ps @ qs) w = Option.bind (urun cfg jobs ps w) (urun cfg jobs qs)"
  by (induction cfg jobs ps w rule: urun.induct) (auto split: option.splits)

lemma run_alone:
  assumes "ureach cfg jobs t0 w" and "MaxTotalBytes cfg \<noteq> 0" and "\<And>q. q \<noteq> p \<Longrightarrow> mutex_of (uw_pc w q) = None"
  shows "\<exists>n w' r. n \<le> steps_left (uw_pc w p) \<and> urun cfg jobs (replicate n p) w = Some w' \<and>
    uw_pc w' p = UDone r \<and> (\<forall>q. q \<noteq> p \<longrightarrow> uw_pc w' q = uw_pc w q)"
  using assms(1,3)
proof (induction "steps_left (uw_pc w p)" arbitrary: w rule: less_induct)
  case less
  show ?case
  proof (cases "ustep cfg jobs p w")
    case None
    have "uw_held w mu = None" if "uw_pc w p = UWaiting mu" for mu
    proof (rule ccontr)
      assume "uw_held w mu \<noteq> None"
      then obtain q where "mutex_of (uw_pc w q) = Some mu"
        using ureach_inv [OF less.prems(1) assms(2)] unfolding ulock_def by blast
      then show False using less.prems(2) [of q] that by (cases "q = p") auto
    qed
    then obtain r where "uw_pc w p = UDone r"
      using None ustep_enabled [of cfg jobs p w] by (auto split: upc.splits)
    then show ?thesis by (intro exI [of _ 0] exI [of _ w]) simp
  next
    case (Some w1)
    note st = ustep_progress [OF Some]
    have "ureach cfg jobs t0 w1" using less.prems(1) Some by (rule ureach_step)
    moreover have "mutex_of (uw_pc w1 q) = None" if "q \<noteq> p" for q using st(2) less.prems(2) that by simp
    ultimately obtain n w' r where n: "n \<le> steps_left (uw_pc w1 p)" "urun cfg jobs (replicate n p) w1 = Some w'"
      "uw_pc w' p = UDone r" "\<forall>q. q \<noteq> p \<longrightarrow> uw_pc w' q = uw_pc w1 q"
      using less.hyps [OF st(1)] by blast
    have "urun cfg jobs (replicate (Suc n) p) w = Some w'" using Some n(2) by simp
    moreover have "Suc n \<le> steps_left (uw_pc w p)" using n(1) st(1) by simp
    ultimately show ?thesis using n(3,4) st(2) by metis
  qed
qed

lemma holder_steps_left: "mutex_of c \<noteq> None \<Longrightarrow> steps_left c \<le> 5"
  by (cases c) auto

text \<open>
  C15. No upload waits for ever. From every state that an interleaving reaches, every call
  returns within twelve steps of a suitable schedule: the holder of the mutex, if there is
  one, can always finish and gives it back, and then the call runs to its end. Every step
  brings the call that takes it closer to its end, so every schedule is finite.
\<close>

theorem uploads_never_stuck:
  assumes "ureach cfg jobs t0 w" and "MaxTotalBytes cfg \<noteq> 0"
  shows "(\<exists>ps w' r. length ps \<le> 12 \<and> urun cfg jobs ps w = Some w' \<and> uw_pc w' p = UDone r) \<and>
    (\<forall>q w'. ustep cfg jobs q w = Some w' \<longrightarrow> steps_left (uw_pc w' q) < steps_left (uw_pc w q))"
proof (intro conjI allI impI)
  have ul: "ulock cfg jobs w" using ureach_inv [OF assms] by blast
  show "\<exists>ps w' r. length ps \<le> 12 \<and> urun cfg jobs ps w = Some w' \<and> uw_pc w' p = UDone r"
  proof (cases "\<exists>h. h \<noteq> p \<and> mutex_of (uw_pc w h) \<noteq> None")
    case True
    then obtain h where h: "h \<noteq> p" "mutex_of (uw_pc w h) \<noteq> None" by blast
    have one: "mutex_of (uw_pc w q) = None" if "q \<noteq> h" for q using ulock_one [OF ul, of q h] h(2) that by blast
    obtain n w1 r1 where n: "n \<le> steps_left (uw_pc w h)" "urun cfg jobs (replicate n h) w = Some w1"
      "uw_pc w1 h = UDone r1" "\<forall>q. q \<noteq> h \<longrightarrow> uw_pc w1 q = uw_pc w q"
      using run_alone [OF assms one] by blast
    have "ureach cfg jobs t0 w1" using urun_ureach [OF n(2) assms(1)] .
    moreover have "mutex_of (uw_pc w1 q) = None" if "q \<noteq> p" for q
      using n(3,4) one by (cases "q = h") auto
    ultimately obtain m w' r where m: "m \<le> steps_left (uw_pc w1 p)" "urun cfg jobs (replicate m p) w1 = Some w'"
      "uw_pc w' p = UDone r"
      using run_alone [OF _ assms(2)] by meson
    have "n \<le> 5" using n(1) holder_steps_left [OF h(2)] by simp
    moreover have "m \<le> 7" using m(1) by (cases "uw_pc w1 p") auto
    moreover have "urun cfg jobs (replicate n h @ replicate m p) w = Some w'"
      using n(2) m(2) by (simp add: urun_append)
    ultimately show ?thesis using m(3) by (intro exI [of _ "replicate n h @ replicate m p"]) auto
  next
    case False
    then obtain m w' r where m: "m \<le> steps_left (uw_pc w p)" "urun cfg jobs (replicate m p) w = Some w'"
      "uw_pc w' p = UDone r"
      using run_alone [OF assms] by meson
    have "m \<le> 7" using m(1) by (cases "uw_pc w p") auto
    then show ?thesis using m(2,3) by (intro exI [of _ "replicate m p"]) auto
  qed
qed (rule ustep_progress(1))

subsection \<open>The limit under concurrency\<close>

definition no_links :: "tree \<Rightarrow> bool" where
  "no_links t \<longleftrightarrow> (\<forall>l target. lookup t l \<noteq> Some (ELink target))"

lemma no_links_only_dirs:
  assumes "no_links t" and "only_dirs t t'"
  shows "no_links t'"
  unfolding no_links_def
proof (intro allI)
  fix l target
  have "lookup t' l = lookup t l \<or> lookup t' l = Some EDir" using assms(2) unfolding only_dirs_def by blast
  then show "lookup t' l \<noteq> Some (ELink target)" using assms(1) by (auto simp: no_links_def)
qed

lemma no_links_target: "no_links t \<Longrightarrow> \<not> target_is_link inp t"
  by (auto simp: no_links_def target_is_link_def split: sum.splits option.splits entry.splits)

lemma Upload_Write_no_links:
  assumes "Upload_Write env ent cfg inp t = (res, t')" and "wf_tree t" and "no_links t" and "\<not> fails env SysRemove"
  shows "no_links t'"
proof (cases res)
  case (Inl e)
  then show ?thesis using Upload_Write_error [of env ent cfg inp t e t'] assms no_links_only_dirs by blast
next
  case (Inr r)
  then obtain t1 ov where t1: "only_dirs t t1" "wf_tree t1"
    "doWrite env ent (Dir (RelPath inp)) inp ov t1 = (Inr r, t')"
    using Upload_Write_ok assms(1,2) by metis
  have "no_links t1" using no_links_only_dirs [OF assms(3) t1(1)] .
  then show ?thesis using doWrite_ok [OF t1(3,2)] unfolding no_links_def by (metis entry.distinct(3) option.inject)
qed

definition within_limit :: "UploadConfig \<Rightarrow> tree \<Rightarrow> bool" where
  "within_limit cfg t \<longleftrightarrow> wf_tree t \<and> no_links t \<and> total t \<le> MaxTotalBytes cfg"

lemma write_job_limit:
  assumes "within_limit cfg t" and "0 < MaxTotalBytes cfg" and "MaxTotalBytes cfg + MaxFileBytes cfg < 2 ^ 63"
    and "\<not> fails (uj_env j) SysRemove"
  shows "within_limit cfg (snd (write_job cfg j t))"
proof (cases "accepted_job cfg j")
  case True
  then have "total t + int (length (Data (uj_inp j))) < 2 ^ 63"
    using assms(1,3) by (simp add: accepted_job_def within_limit_def)
  moreover have "\<not> target_is_link (uj_inp j) t" using assms(1) no_links_target by (simp add: within_limit_def)
  ultimately have "wf_tree (snd (write_job cfg j t)) \<and> total (snd (write_job cfg j t)) \<le> MaxTotalBytes cfg"
    using upload_quota_invariant assms(1,2,4) unfolding within_limit_def write_job_def by blast
  moreover have "no_links (snd (write_job cfg j t))"
    using Upload_Write_no_links [OF prod.collapse [symmetric]] assms(1,4) unfolding within_limit_def write_job_def by blast
  ultimately show ?thesis by (simp add: within_limit_def)
next
  case False
  then show ?thesis using assms(1) by (simp add: write_job_rejected)
qed

lemma serial_limit:
  assumes "within_limit cfg t" and "0 < MaxTotalBytes cfg" and "MaxTotalBytes cfg + MaxFileBytes cfg < 2 ^ 63"
    and "\<And>p. \<not> fails (uj_env (jobs p)) SysRemove"
  shows "within_limit cfg (snd (serial cfg jobs ps t))"
  using assms(1)
proof (induction ps arbitrary: t)
  case (Cons p ps)
  then show ?case using write_job_limit [OF Cons.prems assms(2,3,4)] by (simp add: Let_def case_prod_unfold)
qed simp

text \<open>
  C13. The quota is an invariant, also of uploads that overlap. If the regular files under the
  root are within \<open>MaxTotalBytes\<close> and the root has no symbolic links, then after every
  interleaving of any calls, whether they succeed or fail at any step, they are within it
  whenever no call holds the mutex, provided that the temporary file of a failed write can
  be removed. The two limits are assumed to add up in 64 bits.
\<close>

theorem concurrent_quota:
  assumes "ureach cfg jobs t0 w" and "\<And>p. mutex_of (uw_pc w p) = None"
    and "wf_tree t0" and "no_links t0" and "total t0 \<le> MaxTotalBytes cfg"
    and "0 < MaxTotalBytes cfg" and "MaxTotalBytes cfg + MaxFileBytes cfg < 2 ^ 63"
    and "\<And>p. \<not> fails (uj_env (jobs p)) SysRemove"
  shows "wf_tree (uw_tree w) \<and> no_links (uw_tree w) \<and> total (uw_tree w) \<le> MaxTotalBytes cfg"
proof -
  obtain base where base: "useq cfg jobs t0 base w" using ureach_inv [OF assms(1)] assms(6) by auto
  then have "uw_tree w = snd (serial cfg jobs (map fst (uw_log w)) t0)" using assms(2) by (simp add: useq_def)
  moreover have "within_limit cfg t0" using assms(3-5) by (simp add: within_limit_def)
  ultimately show ?thesis using serial_limit [OF _ assms(6-8)] by (simp add: within_limit_def)
qed

subsection \<open>Two uploads that overlap\<close>

text \<open>
  The root of \<open>FileUploadProps\<close> holds two bytes and may hold five. Two calls bring three
  bytes each to different paths. Both pass the early checks before either has the mutex; the
  second one waits, and then finds the root full.
\<close>

definition two_jobs :: "nat \<Rightarrow> ujob" where
  "two_jobs p = \<lparr>uj_env = up_env, uj_ent = ''abcdefgh'',
     uj_inp = up_input\<lparr>RelPath := (if p = 0 then ''d/b'' else ''c'')\<rparr>\<rparr>"

definition overlap :: "nat list" where
  "overlap = [0, 1, 1, 1, 1, 1, 1, 1, 0, 0, 0, 0]"

lemma urun_others: "urun cfg jobs ps w = Some w' \<Longrightarrow> q \<notin> set ps \<Longrightarrow> uw_pc w' q = uw_pc w q"
  by (induction cfg jobs ps w rule: urun.induct) (auto split: option.splits dest: ustep_progress(2))

lemma overlap_calc:
  "case urun up_cfg two_jobs overlap (ustart up_tree) of
     None \<Rightarrow> False
   | Some w \<Rightarrow> uw_log w =
       [(1, Inr \<lparr>ur_RelPath = ''c'', ur_Size = 3, ur_Overwritten = False, ur_Mode = 0x180\<rparr>),
        (0, Inl ErrQuotaExceeded)] \<and>
       uw_tree w = [([''a''], EReg ''xx'' 0x180), ([''c''], EReg ''yyy'' 0x180)] \<and>
       mutex_of (uw_pc w 0) = None \<and> mutex_of (uw_pc w 1) = None"
  by code_simp

lemma overlap_run:
  obtains w where "ureach up_cfg two_jobs up_tree w" "urun up_cfg two_jobs overlap (ustart up_tree) = Some w"
    "uw_log w = [(1, Inr \<lparr>ur_RelPath = ''c'', ur_Size = 3, ur_Overwritten = False, ur_Mode = 0x180\<rparr>),
       (0, Inl ErrQuotaExceeded)]"
    "\<And>p. mutex_of (uw_pc w p) = None"
proof -
  obtain w where w: "urun up_cfg two_jobs overlap (ustart up_tree) = Some w"
    "uw_log w = [(1, Inr \<lparr>ur_RelPath = ''c'', ur_Size = 3, ur_Overwritten = False, ur_Mode = 0x180\<rparr>),
       (0, Inl ErrQuotaExceeded)]"
    "mutex_of (uw_pc w 0) = None" "mutex_of (uw_pc w 1) = None"
    using overlap_calc by (cases "urun up_cfg two_jobs overlap (ustart up_tree)") auto
  have "mutex_of (uw_pc w p) = None" for p
  proof (cases "p \<in> set overlap")
    case True
    then have "p = 0 \<or> p = 1" by (auto simp: overlap_def)
    then show ?thesis using w(3,4) by blast
  next
    case False
    then show ?thesis using urun_others [OF w(1)] by (simp add: ustart_def)
  qed
  then show thesis using that urun_ureach [OF w(1) ureach_start] w(1,2) by blast
qed

theorem concurrent_uploads_serial_witness:
  "\<exists>w. urun up_cfg two_jobs overlap (ustart up_tree) = Some w \<and>
     serial up_cfg two_jobs [1, 0] up_tree =
       ([Inr \<lparr>ur_RelPath = ''c'', ur_Size = 3, ur_Overwritten = False, ur_Mode = 0x180\<rparr>, Inl ErrQuotaExceeded],
        uw_tree w)"
proof -
  obtain w where w: "ureach up_cfg two_jobs up_tree w" "urun up_cfg two_jobs overlap (ustart up_tree) = Some w"
    "uw_log w = [(1, Inr \<lparr>ur_RelPath = ''c'', ur_Size = 3, ur_Overwritten = False, ur_Mode = 0x180\<rparr>),
       (0, Inl ErrQuotaExceeded)]" "\<And>p. mutex_of (uw_pc w p) = None"
    by (rule overlap_run) blast
  have "MaxTotalBytes up_cfg \<noteq> 0" by (simp add: up_cfg_def)
  then have "serial up_cfg two_jobs (map fst (uw_log w)) up_tree = (map snd (uw_log w), uw_tree w)"
    using concurrent_uploads_serial [OF w(1) _ w(4)] by blast
  then show ?thesis using w(2) by (intro exI [of _ w]) (simp add: w(3) del: serial.simps)
qed

theorem uploads_never_stuck_witness:
  "\<exists>w ps w' r. urun up_cfg two_jobs [0, 1, 1, 1] (ustart up_tree) = Some w \<and>
     urun up_cfg two_jobs ps w = Some w' \<and> uw_pc w' 0 = UDone r"
proof -
  have "urun up_cfg two_jobs [0, 1, 1, 1] (ustart up_tree) \<noteq> None" by code_simp
  then obtain w where w: "urun up_cfg two_jobs [0, 1, 1, 1] (ustart up_tree) = Some w" by blast
  have "MaxTotalBytes up_cfg \<noteq> 0" by (simp add: up_cfg_def)
  then show ?thesis
    using uploads_never_stuck [OF urun_ureach [OF w ureach_start], of 0] w by blast
qed

theorem concurrent_quota_witness:
  "\<exists>w. urun up_cfg two_jobs overlap (ustart up_tree) = Some w \<and> total (uw_tree w) \<le> 5"
proof -
  obtain w where w: "ureach up_cfg two_jobs up_tree w" "urun up_cfg two_jobs overlap (ustart up_tree) = Some w"
    "\<And>p. mutex_of (uw_pc w p) = None"
    by (rule overlap_run) blast
  have "no_links up_tree" by (simp add: no_links_def up_tree_def lookup_def)
  moreover have "\<not> fails (uj_env (two_jobs p)) SysRemove" for p by (simp add: two_jobs_def up_env_def)
  ultimately show ?thesis
    using concurrent_quota [OF w(1,3) up_tree_wf(1)] up_tree_wf(2) w(2) by (simp add: up_cfg_def)
qed

end
