(* ===== verification/AuditLog.thy ===== *)
theory AuditLog
  imports GoStd
begin

section \<open>The audit log (\<open>internal/server/audit.go\<close>)\<close>

text \<open>
  An audit record and the line that \<^verbatim>\<open>writeAudit\<close> logs for it: a level, a label and a list
  of named fields. The line is the value; the logger that prints it is a library.
\<close>

record AuditRecord =
  a_TS :: gotime
  a_Fingerprint :: string
  a_RemoteAddr :: string
  a_Result :: string
  a_Reason :: string
  a_Tool :: string
  a_Command :: string
  a_Args :: "string list"
  a_ExitCode :: "int option"
  a_Duration :: duration
  a_TimedOut :: bool
  a_Path :: string
  a_Size :: int

definition emptyAudit :: AuditRecord where
  "emptyAudit = \<lparr>a_TS = 0, a_Fingerprint = [], a_RemoteAddr = [], a_Result = [], a_Reason = [], a_Tool = [],
     a_Command = [], a_Args = [], a_ExitCode = None, a_Duration = 0, a_TimedOut = False, a_Path = [], a_Size = 0\<rparr>"

datatype log_val = LStr string | LInt int | LDur duration | LBool bool

datatype log_level = LInfo | LWarn

record log_line =
  ll_level :: log_level
  ll_msg :: string
  ll_fields :: "(string \<times> log_val) list"

definition joinStrings :: "string list \<Rightarrow> string \<Rightarrow> string" where
  "joinStrings ss sep = snd (foldl (\<lambda>(first, res) s. (False, if first then res @ s else res @ sep @ s)) (True, []) ss)"

definition formatArgs :: "string list \<Rightarrow> string" where
  "formatArgs args = (if args = [] then ''[]'' else ''['' @ joinStrings args '','' @ '']'')"

definition logger_Info :: "string \<Rightarrow> (string \<times> log_val) list \<Rightarrow> log_line" where
  "logger_Info msg fs = \<lparr>ll_level = LInfo, ll_msg = msg, ll_fields = fs\<rparr>"

definition logger_Warn :: "string \<Rightarrow> (string \<times> log_val) list \<Rightarrow> log_line" where
  "logger_Warn msg fs = \<lparr>ll_level = LWarn, ll_msg = msg, ll_fields = fs\<rparr>"

text \<open>
  The cases \<^verbatim>\<open>warn\<close>, \<^verbatim>\<open>fail\<close> and \<^verbatim>\<open>deny\<close> of the switch have the same branches and
  differ in the label only; \<open>writeRefusal\<close> is that shared body.
\<close>

definition writeRefusal :: "string \<Rightarrow> string \<Rightarrow> AuditRecord \<Rightarrow> log_line" where
  "writeRefusal label fp rec =
     (let isExec = (a_Tool rec = ''execute_command''); isUpload = (a_Tool rec = ''upload_file'') in
      if isExec then
        logger_Warn label
          [(''fp'', LStr fp), (''remote'', LStr (a_RemoteAddr rec)), (''tool'', LStr (a_Tool rec)),
           (''reason'', LStr (a_Reason rec)), (''command'', LStr (a_Command rec)),
           (''args'', LStr (formatArgs (a_Args rec)))]
      else if isUpload then
        (if a_Path rec \<noteq> [] then
           logger_Warn label
             [(''fp'', LStr fp), (''remote'', LStr (a_RemoteAddr rec)), (''tool'', LStr (a_Tool rec)),
              (''reason'', LStr (a_Reason rec)), (''path'', LStr (a_Path rec))]
         else
           logger_Warn label
             [(''fp'', LStr fp), (''remote'', LStr (a_RemoteAddr rec)), (''tool'', LStr (a_Tool rec)),
              (''reason'', LStr (a_Reason rec))])
      else
        logger_Warn label
          [(''fp'', LStr fp), (''remote'', LStr (a_RemoteAddr rec)), (''reason'', LStr (a_Reason rec))])"

definition writeAudit :: "AuditRecord \<Rightarrow> log_line" where
  "writeAudit rec =
     (let fp = (if a_Fingerprint rec = [] then ''-'' else a_Fingerprint rec);
          isExec = (a_Tool rec = ''execute_command''); isUpload = (a_Tool rec = ''upload_file'') in
      if a_Result rec = ''success'' then
        if a_Tool rec \<noteq> [] then
          if isExec then
            let exitCode = (case a_ExitCode rec of Some c \<Rightarrow> c | None \<Rightarrow> 0) in
            logger_Info ''MCP''
              [(''fp'', LStr fp), (''remote'', LStr (a_RemoteAddr rec)), (''tool'', LStr (a_Tool rec)),
               (''result'', LStr ''ok''), (''command'', LStr (a_Command rec)),
               (''args'', LStr (formatArgs (a_Args rec))), (''exit_code'', LInt exitCode),
               (''duration'', LDur (a_Duration rec)), (''timed_out'', LBool (a_TimedOut rec))]
          else if isUpload then
            logger_Info ''MCP''
              [(''fp'', LStr fp), (''remote'', LStr (a_RemoteAddr rec)), (''tool'', LStr (a_Tool rec)),
               (''result'', LStr ''ok''), (''path'', LStr (a_Path rec)), (''size'', LInt (a_Size rec))]
          else
            logger_Info ''MCP''
              [(''fp'', LStr fp), (''remote'', LStr (a_RemoteAddr rec)), (''tool'', LStr (a_Tool rec)),
               (''result'', LStr ''ok'')]
        else logger_Info ''AUTH'' [(''fp'', LStr fp), (''remote'', LStr (a_RemoteAddr rec))]
      else if a_Result rec = ''warn'' then writeRefusal ''WARN'' fp rec
      else if a_Result rec = ''fail'' then writeRefusal ''FAIL'' fp rec
      else if a_Result rec = ''deny'' then writeRefusal ''DENY'' fp rec
      else if a_Result rec = ''rate-limited'' then
        logger_Warn ''RATE''
          [(''fp'', LStr fp), (''remote'', LStr (a_RemoteAddr rec)), (''reason'', LStr (a_Reason rec))]
      else
        logger_Warn ''DENY''
          [(''fp'', LStr fp), (''remote'', LStr (a_RemoteAddr rec)), (''reason'', LStr (a_Reason rec))])"

lemmas log_defs [audit_ops] = logger_Info_def logger_Warn_def writeRefusal_def

lemma joinStrings_Join: "joinStrings ss sep = Join_sep ss sep"
proof (cases ss)
  case (Cons w ws)
  have "snd (foldl (\<lambda>(first, res) s. (False, if first then res @ s else res @ sep @ s)) (False, acc) ws) =
      acc @ concat (map (\<lambda>s. sep @ s) ws)" for acc
    by (induction ws arbitrary: acc) auto
  moreover have "Join_sep (w # ws) sep = w @ concat (map (\<lambda>s. sep @ s) ws)"
    by (induction ws arbitrary: w) auto
  ultimately show ?thesis by (simp only: joinStrings_def Cons) simp
qed (simp add: joinStrings_def)

text \<open>
  A log line names its client and says no more than its kind of event allows: the first
  two fields are always the fingerprint (\<^verbatim>\<open>-\<close> when there is none) and the address; command
  fields appear only for \<^verbatim>\<open>execute_command\<close> and file fields only for \<^verbatim>\<open>upload_file\<close>; a line
  is at level INFO exactly for a success, and the label follows the result.
\<close>

theorem writeAudit_line:
  "\<exists>more. ll_fields (writeAudit rec) =
       (''fp'', LStr (if a_Fingerprint rec = [] then ''-'' else a_Fingerprint rec)) #
       (''remote'', LStr (a_RemoteAddr rec)) # more \<and>
     (\<forall>k \<in> set (map fst more).
        k \<in> {''tool'', ''result'', ''reason''} \<or>
        k \<in> {''command'', ''args'', ''exit_code'', ''duration'', ''timed_out''} \<and> a_Tool rec = ''execute_command'' \<or>
        k \<in> {''path'', ''size''} \<and> a_Tool rec = ''upload_file'') \<and>
     (ll_level (writeAudit rec) = LInfo \<longleftrightarrow> a_Result rec = ''success'') \<and>
     ll_msg (writeAudit rec) =
       (if a_Result rec = ''success'' then (if a_Tool rec = [] then ''AUTH'' else ''MCP'')
        else if a_Result rec = ''warn'' then ''WARN'' else if a_Result rec = ''fail'' then ''FAIL''
        else if a_Result rec = ''rate-limited'' then ''RATE'' else ''DENY'')"
  by (simp add: writeAudit_def log_defs Let_def)

theorem writeAudit_line_witness:
  "ll_msg (writeAudit (emptyAudit\<lparr>a_Result := ''warn''\<rparr>)) = ''WARN''"
  using writeAudit_line [of "emptyAudit\<lparr>a_Result := ''warn''\<rparr>"] by auto

end
