(* ===== verification/GoFloat.thy ===== *)
theory GoFloat
  imports Complex_Main "HOL-Library.Log_Nat" Prelude
begin

section \<open>Go's \<open>float64\<close>\<close>

text \<open>
  A \<^verbatim>\<open>float64\<close> is the rational number it stands for, and an operation is the exact operation
  followed by \<open>fl64\<close>, which rounds to the nearest number with 53 significant bits, to the
  even one of two nearest, and to a multiple of \<open>2 ^ -1074\<close> below the normal numbers. Go
  prescribes this for every operation that it does not fuse with another one. Overflow is not cut
  off at the largest finite number: where \<^verbatim>\<open>ratelimit.go\<close> and \<^verbatim>\<open>rate.go\<close> can meet an infinite
  intermediate value, they compare it with a bound that the unbounded value exceeds too.
\<close>

subsection \<open>Rounding\<close>

definition round_half_even :: "rat \<Rightarrow> int" where
  "round_half_even y =
     (let f = \<lfloor>y\<rfloor>; d = y - of_int f in
      if d < 1 / 2 then f else if 1 / 2 < d then f + 1 else if even f then f else f + 1)"

definition fl64_exp :: "rat \<Rightarrow> int" where
  "fl64_exp x =
     (let (a, b) = quotient_of x; e = bitlen \<bar>a\<bar> - bitlen b - 53 in
      max (- 1074) (if 2 ^ 53 \<le> \<bar>x\<bar> / 2 powi e then e + 1 else e))"

definition fl64 :: "rat \<Rightarrow> rat" where
  "fl64 x = (let u = 2 powi fl64_exp x in of_int (round_half_even (x / u)) * u)"

text \<open>
  Conversion to \<^verbatim>\<open>int64\<close> truncates. Out of range Go leaves the value to the implementation;
  this is amd64's.
\<close>

definition int64_of_fl64 :: "rat \<Rightarrow> int" where
  "int64_of_fl64 x = (if - (2 ^ 63) \<le> x \<and> x < 2 ^ 63 then (if 0 \<le> x then \<lfloor>x\<rfloor> else \<lceil>x\<rceil>) else - (2 ^ 63))"

subsection \<open>The rounding error\<close>

lemma round_half_even_err: "\<bar>of_int (round_half_even y) - y\<bar> \<le> 1 / 2"
proof -
  have "of_int \<lfloor>y\<rfloor> \<le> y" "y < of_int \<lfloor>y\<rfloor> + 1" by linarith+
  then show ?thesis unfolding round_half_even_def Let_def abs_le_iff by (simp split: if_split) linarith
qed

lemma round_half_even_int [simp]: "round_half_even (of_int n) = n"
  by (simp add: round_half_even_def)

lemma pow2_powi: "(2 :: rat) ^ nat k = 2 powi k" if "0 \<le> k"
  using that by (simp add: power_int_def)

lemma bitlen_powi: "0 < a \<Longrightarrow> 2 powi (bitlen a - 1) \<le> (of_int a :: rat) \<and> (of_int a :: rat) < 2 powi bitlen a"
proof -
  assume a: "0 < a"
  then have "1 \<le> bitlen a" using compute_bitlen [of a] bitlen_nonneg [of "a div 2"] by simp
  moreover have "(of_int (2 ^ nat (bitlen a - 1)) :: rat) \<le> of_int a" "(of_int a :: rat) < of_int (2 ^ nat (bitlen a))"
    using bitlen_bounds [OF a] by (simp_all only: of_int_le_iff of_int_less_iff)
  ultimately show ?thesis using pow2_powi [of "bitlen a - 1"] pow2_powi [of "bitlen a"] by simp
qed

text \<open>The scaled significand has 53 bits: the quotient of the two lengths is off by at most one.\<close>

lemma fl64_exp_low:
  assumes "x \<noteq> 0" and "quotient_of x = (a, b)"
  shows "2 ^ 52 \<le> \<bar>x\<bar> / 2 powi (bitlen \<bar>a\<bar> - bitlen b - 53)"
proof -
  have b: "0 < b" and x: "x = of_int a / of_int b"
    using assms(2) by (simp_all add: quotient_of_denom_pos quotient_of_div)
  then have a: "0 < \<bar>a\<bar>" using assms(1) by auto
  note A = bitlen_powi [OF a] and B = bitlen_powi [OF b]
  have "2 powi (bitlen \<bar>a\<bar> - 1) / 2 powi bitlen b \<le> of_int \<bar>a\<bar> / (of_int b :: rat)"
    using A B b by (intro frac_le) (auto simp del: of_int_abs)
  then have "2 powi (bitlen \<bar>a\<bar> - 1 - bitlen b) \<le> \<bar>x\<bar>"
    using b by (simp add: x power_int_diff)
  moreover have "2 powi (bitlen \<bar>a\<bar> - 1 - bitlen b) = 2 ^ 52 * (2 :: rat) powi (bitlen \<bar>a\<bar> - bitlen b - 53)"
    by (simp add: power_int_diff)
  ultimately show ?thesis by (simp add: field_simps)
qed

lemma fl64_exp_small:
  assumes "x \<noteq> 0"
  shows "fl64_exp x = - 1074 \<or> 2 powi fl64_exp x \<le> \<bar>x\<bar> / 2 ^ 52"
proof -
  obtain a b where q: "quotient_of x = (a, b)" by fastforce
  define e where "e = bitlen \<bar>a\<bar> - bitlen b - 53"
  have low: "2 ^ 52 \<le> \<bar>x\<bar> / 2 powi e" using fl64_exp_low [OF assms q] by (simp add: e_def)
  have f: "fl64_exp x = max (- 1074) (if 2 ^ 53 \<le> \<bar>x\<bar> / 2 powi e then e + 1 else e)"
    by (simp add: fl64_exp_def q e_def Let_def)
  have pos: "(0 :: rat) < 2 powi e" "(2 :: rat) powi (e + 1) = 2 * 2 powi e" by (simp_all add: power_int_add)
  have "2 powi (if 2 ^ 53 \<le> \<bar>x\<bar> / 2 powi e then e + 1 else e) \<le> \<bar>x\<bar> / 2 ^ 52"
    using low pos(1) by (simp add: pos(2) pos_le_divide_eq split: if_split)
  then show ?thesis by (auto simp: f max_def)
qed

lemma fl64_0 [simp]: "fl64 0 = 0"
  by (simp add: fl64_def round_half_even_def)

lemma fl64_err: "\<bar>fl64 x - x\<bar> \<le> \<bar>x\<bar> / 2 ^ 53 + 1 / 2 ^ 1075"
proof (cases "x = 0")
  case False
  define u :: rat where "u = 2 powi fl64_exp x"
  have u: "0 < u" by (simp add: u_def)
  have "fl64 x - x = (of_int (round_half_even (x / u)) - x / u) * u"
    using u by (simp add: fl64_def u_def Let_def field_simps)
  then have "\<bar>fl64 x - x\<bar> = \<bar>of_int (round_half_even (x / u)) - x / u\<bar> * u"
    using u by (simp add: abs_mult)
  also have "\<dots> \<le> 1 / 2 * u"
    using u by (intro mult_right_mono round_half_even_err) simp
  also have "\<dots> \<le> \<bar>x\<bar> / 2 ^ 53 + 1 / 2 ^ 1075"
    using fl64_exp_small [OF False]
  proof
    assume "fl64_exp x = - 1074"
    then have "1 / 2 * u = 1 / 2 ^ 1075" by (simp add: u_def power_int_minus inverse_eq_divide)
    moreover have "0 \<le> \<bar>x\<bar> / 2 ^ 53" by simp
    ultimately show ?thesis by linarith
  next
    assume "2 powi fl64_exp x \<le> \<bar>x\<bar> / 2 ^ 52"
    then have "1 / 2 * u \<le> \<bar>x\<bar> / 2 ^ 53" by (simp add: u_def)
    moreover have "(0 :: rat) \<le> 1 / 2 ^ 1075" by simp
    ultimately show ?thesis by linarith
  qed
  finally show ?thesis .
qed simp

lemma fl64_of_int:
  assumes "\<bar>n\<bar> < 2 ^ 53"
  shows "fl64 (of_int n) = of_int n"
proof (cases "n = 0")
  case False
  then have n: "0 < \<bar>n\<bar>" by simp
  define e where "e = bitlen \<bar>n\<bar> - 54"
  have b1: "bitlen (1 :: int) = 1" by (simp add: bitlen_def floorlog_def)
  have "2 ^ 53 \<le> \<bar>of_int n\<bar> / (2 :: rat) powi e"
    using bitlen_powi [OF n] by (simp add: e_def power_int_diff field_simps)
  moreover have "bitlen \<bar>n\<bar> \<le> 53" using assms by (simp add: bitlen_le_iff_power)
  moreover have "0 \<le> bitlen \<bar>n\<bar>" by (rule bitlen_nonneg)
  ultimately have f: "fl64_exp (of_int n) = e + 1" "e + 1 \<le> 0"
    by (simp_all add: fl64_exp_def quotient_of_int e_def b1)
  define k where "k = nat (- (e + 1))"
  have "(2 :: rat) powi fl64_exp (of_int n) = 1 / 2 ^ k"
    using f by (simp add: k_def power_int_def inverse_eq_divide power_one_over)
  then show ?thesis using round_half_even_int [of "n * 2 ^ k"] by (simp add: fl64_def)
qed simp

subsection \<open>Evaluation\<close>

text \<open>The same on the numerator and the denominator, for the evaluation of concrete limiters.\<close>

definition div_half_even :: "int \<Rightarrow> int \<Rightarrow> int" where
  "div_half_even n m =
     (let f = n div m; d = 2 * (n mod m) in if d < m then f else if m < d then f + 1 else if even f then f else f + 1)"

lemma round_half_even_div:
  assumes "0 < m"
  shows "round_half_even (of_int n / of_int m) = div_half_even n m"
proof -
  have f: "\<lfloor>of_int n / (of_int m :: rat)\<rfloor> = n div m" by (rule floor_divide_of_int_eq)
  have "of_int n / of_int m - of_int (n div m) = (of_int (n mod m) / of_int m :: rat)"
    using assms by (simp add: field_simps flip: of_int_mult of_int_add)
  moreover have "2 * (of_int k :: rat) < of_int m \<longleftrightarrow> 2 * k < m" "(of_int m :: rat) < 2 * of_int k \<longleftrightarrow> m < 2 * k" for k
    by (metis of_int_less_iff of_int_mult of_int_numeral)+
  moreover have "y / of_int m < 1 / 2 \<longleftrightarrow> 2 * y < of_int m" "1 / 2 < y / of_int m \<longleftrightarrow> of_int m < 2 * y" for y :: rat
    using assms by (auto simp: field_simps)
  ultimately have "(of_int (n mod m) / of_int m < (1 / 2 :: rat)) = (2 * (n mod m) < m)"
    "((1 / 2 :: rat) < of_int (n mod m) / of_int m) = (m < 2 * (n mod m))"
    by (simp_all only:)
  moreover note \<open>of_int n / of_int m - of_int (n div m) = (of_int (n mod m) / of_int m :: rat)\<close>
  ultimately show ?thesis unfolding round_half_even_def div_half_even_def Let_def f by simp
qed

lemma fl64_exp_code [code]:
  "fl64_exp x =
     (let (a, b) = quotient_of x; e = bitlen \<bar>a\<bar> - bitlen b - 53 in
      max (- 1074) (if 2 ^ 53 * b * 2 ^ nat e \<le> \<bar>a\<bar> * 2 ^ nat (- e) then e + 1 else e))"
proof -
  obtain a b where q: "quotient_of x = (a, b)" by fastforce
  define e where "e = bitlen \<bar>a\<bar> - bitlen b - 53"
  have b: "0 < b" and x: "x = of_int a / of_int b"
    using q by (simp_all add: quotient_of_denom_pos quotient_of_div)
  have p: "(2 :: rat) powi e = 2 ^ nat e / 2 ^ nat (- e)" by (simp add: power_int_def inverse_eq_divide power_one_over)
  have "2 ^ 53 \<le> \<bar>x\<bar> / 2 powi e \<longleftrightarrow> (of_int (2 ^ 53 * b * 2 ^ nat e) :: rat) \<le> of_int (\<bar>a\<bar> * 2 ^ nat (- e))"
    using b by (simp add: x p field_simps)
  also have "\<dots> \<longleftrightarrow> 2 ^ 53 * b * 2 ^ nat e \<le> \<bar>a\<bar> * 2 ^ nat (- e)" by (simp only: of_int_le_iff)
  finally show ?thesis by (simp add: fl64_exp_def q e_def Let_def)
qed

lemma fl64_code [code]:
  "fl64 x =
     (let (a, b) = quotient_of x; e = fl64_exp x in
      if 0 \<le> e then of_int (div_half_even a (b * 2 ^ nat e) * 2 ^ nat e)
      else Fract (div_half_even (a * 2 ^ nat (- e)) b) (2 ^ nat (- e)))"
proof -
  obtain a b where q: "quotient_of x = (a, b)" by fastforce
  have b: "0 < b" and x: "x = of_int a / of_int b"
    using q by (simp_all add: quotient_of_denom_pos quotient_of_div)
  show ?thesis
  proof (cases "0 \<le> fl64_exp x")
    case True
    then show ?thesis using b round_half_even_div [of "b * 2 ^ nat (fl64_exp x)" a]
      by (simp add: fl64_def q Let_def power_int_def x [symmetric] flip: divide_divide_eq_left)
  next
    case False
    then show ?thesis using round_half_even_div [OF b, of "a * 2 ^ nat (- fl64_exp x)"]
      by (simp add: fl64_def q Let_def power_int_def Fract_of_int_quotient inverse_eq_divide power_one_over) (simp add: x)
  qed
qed

subsection \<open>The error as the clients use it\<close>

definition fl64_tiny :: rat where "fl64_tiny = 1 / 2 ^ 1075"

lemma fl64_tiny: "0 < fl64_tiny" "fl64_tiny \<le> 1 / 2 ^ 200"
  by (simp_all add: fl64_tiny_def)

lemma fl64_near: "fl64 x \<le> x + \<bar>x\<bar> / 2 ^ 53 + fl64_tiny" "x - \<bar>x\<bar> / 2 ^ 53 - fl64_tiny \<le> fl64 x"
  using fl64_err [of x] unfolding fl64_tiny_def by linarith+

lemma fl64_nonneg: "0 \<le> x \<Longrightarrow> 0 \<le> fl64 x"
proof -
  assume x: "0 \<le> x"
  have "0 \<le> round_half_even y" if "0 \<le> y" for y
  proof -
    have "0 \<le> \<lfloor>y\<rfloor>" using that by simp
    then show ?thesis by (simp add: round_half_even_def Let_def)
  qed
  then have "0 \<le> round_half_even (x / 2 powi fl64_exp x)" using x by simp
  then show ?thesis by (simp add: fl64_def Let_def)
qed

text \<open>Away from the smallest numbers the error is relative.\<close>

lemma fl64_rel:
  assumes "x = 0 \<or> 1 / 2 ^ 100 \<le> x"
  shows "fl64 x \<le> x * (1 + 1 / 2 ^ 52)"
  using assms
proof
  assume x: "1 / 2 ^ 100 \<le> x"
  have "fl64 x \<le> x + \<bar>x\<bar> / 2 ^ 53 + 1 / 2 ^ 200" using fl64_near(1) [of x] fl64_tiny(2) by linarith
  moreover have "(0 :: rat) < 1 / 2 ^ 100" by simp
  then have "\<bar>x\<bar> = x" using x by linarith
  moreover have "1 / 2 ^ 200 \<le> x / 2 ^ 53" using x by simp
  ultimately show ?thesis by (simp add: algebra_simps)
qed simp

end
