(* ===== verification/RateLimit.thy ===== *)
theory RateLimit
  imports GoFloat
begin

section \<open>Rate limiting (\<open>internal/server/ratelimit.go\<close>)\<close>

text \<open>
  The token bucket of \<^verbatim>\<open>golang.org/x/time/rate\<close> as far as \<^verbatim>\<open>Allow\<close> uses it, and the
  per-key and per-address limiters over it. Token counts are \<^verbatim>\<open>float64\<close>: every operation on
  them is rounded by \<open>fl64\<close> as the code's own is. Instants and durations are integers of
  nanoseconds, and \<^verbatim>\<open>Sub\<close> saturates.

  The interface \<open>metered\<close> says what a limiter promises: a credit that is capped, that time
  raises at a bounded rate and that every accepted event lowers by a price. It gives the bound
  on accepted events once, for the bucket alone and for the limiters of the server with the
  ticks of the garbage collection among the requests. The credit of the bucket is exact; what
  rounding adds to it goes into the rate and into the price of an event, a little below one.
\<close>

subsection \<open>The token bucket\<close>

record Limiter =
  lim_limit :: rat
  lim_burst :: int
  lim_tokens :: rat
  lim_last :: gotime

definition second :: rat where "second = 1000000000"

definition rate_Inf :: rat where "rate_Inf = (2 ^ 53 - 1) * 2 ^ 971"

definition maxDuration :: int where "maxDuration = 2 ^ 63 - 1"

definition time_Sub :: "gotime \<Rightarrow> gotime \<Rightarrow> duration" where
  "time_Sub t u = max (- (2 ^ 63)) (min maxDuration (t - u))"

definition NewLimiter :: "rat \<Rightarrow> int \<Rightarrow> Limiter" where
  "NewLimiter r b = \<lparr>lim_limit = r, lim_burst = b, lim_tokens = fl64 (of_int b), lim_last = 0\<rparr>"

text \<open>\<^verbatim>\<open>Duration.Seconds\<close>.\<close>

definition duration_Seconds :: "duration \<Rightarrow> rat" where
  "duration_Seconds d =
     (let sec = go_div d 1000000000; nsec = d - sec * 1000000000 in
      fl64 (fl64 (of_int sec) + fl64 (fl64 (of_int nsec) / second)))"

definition tokensFromDuration :: "rat \<Rightarrow> duration \<Rightarrow> rat" where
  "tokensFromDuration limit d = (if limit \<le> 0 then 0 else fl64 (duration_Seconds d * limit))"

text \<open>\<^verbatim>\<open>float64(math.MaxInt64)\<close> is \<open>2 ^ 63\<close>.\<close>

definition durationFromTokens :: "rat \<Rightarrow> rat \<Rightarrow> duration" where
  "durationFromTokens limit tokens =
     (if limit \<le> 0 then maxDuration
      else let d = fl64 (fl64 (tokens / limit) * second) in
           if d > 2 ^ 63 then maxDuration else int64_of_fl64 d)"

definition advance :: "gotime \<Rightarrow> Limiter \<Rightarrow> rat" where
  "advance t lm =
     (let last = (if t < lim_last lm then t else lim_last lm);
          elapsed = time_Sub t last;
          delta = tokensFromDuration (lim_limit lm) elapsed;
          tokens = fl64 (lim_tokens lm + delta);
          burst = fl64 (of_int (lim_burst lm)) in
      if tokens > burst then burst else tokens)"

text \<open>\<^verbatim>\<open>reserveN(t, 1, 0)\<close>.\<close>

definition AllowN :: "gotime \<Rightarrow> Limiter \<Rightarrow> bool \<times> Limiter" where
  "AllowN t lm =
     (if lim_limit lm = rate_Inf then (True, lm)
      else
        let tokens = fl64 (advance t lm - 1);
            waitDuration = (if tokens < 0 then durationFromTokens (lim_limit lm) (- tokens) else 0);
            ok = (1 \<le> lim_burst lm \<and> waitDuration \<le> 0) in
        if ok then (True, lm\<lparr>lim_last := t, lim_tokens := tokens\<rparr>) else (False, lm))"

subsection \<open>Limiters per key and per address\<close>

record limiterEntry =
  le_limiter :: Limiter
  le_lastSeen :: gotime

record Limiters =
  perKey :: "string \<Rightarrow> limiterEntry option"
  perIP :: "string \<Rightarrow> limiterEntry option"
  ratePerSec :: rat
  burst :: int
  ttl :: duration

definition NewLimiters :: "rat \<Rightarrow> int \<Rightarrow> duration \<Rightarrow> Limiters" where
  "NewLimiters r b d = \<lparr>perKey = (\<lambda>_. None), perIP = (\<lambda>_. None), ratePerSec = r, burst = b, ttl = d\<rparr>"

definition getOrCreate :: "Limiters \<Rightarrow> (string \<Rightarrow> limiterEntry option) \<Rightarrow> string \<Rightarrow> gotime \<Rightarrow> limiterEntry" where
  "getOrCreate l m key now =
     (case m key of
        None \<Rightarrow> \<lparr>le_limiter = NewLimiter (ratePerSec l) (burst l), le_lastSeen = now\<rparr>
      | Some e \<Rightarrow> e\<lparr>le_lastSeen := now\<rparr>)"

text \<open>\<open>now\<close>, \<open>t1\<close> and \<open>t2\<close> are the readings of the clock by \<^verbatim>\<open>Allow\<close> and by the two limiters.\<close>

definition Allow :: "gotime \<Rightarrow> gotime \<Rightarrow> gotime \<Rightarrow> string \<Rightarrow> string \<Rightarrow> Limiters \<Rightarrow> bool \<times> Limiters" where
  "Allow now t1 t2 fp ip l =
     (let keyEntry = getOrCreate l (perKey l) fp now;
          (ok1, lim1) = AllowN t1 (le_limiter keyEntry);
          l1 = l\<lparr>perKey := (perKey l)(fp \<mapsto> keyEntry\<lparr>le_limiter := lim1\<rparr>)\<rparr> in
      if \<not> ok1 then (False, l1)
      else
        let ipEntry = getOrCreate l1 (perIP l1) ip now;
            (ok2, lim2) = AllowN t2 (le_limiter ipEntry);
            l2 = l1\<lparr>perIP := (perIP l1)(ip \<mapsto> ipEntry\<lparr>le_limiter := lim2\<rparr>)\<rparr> in
        if \<not> ok2 then (False, l2) else (True, l2))"

definition gc_map :: "gotime \<Rightarrow> duration \<Rightarrow> (string \<Rightarrow> limiterEntry option) \<Rightarrow> (string \<Rightarrow> limiterEntry option)" where
  "gc_map now d m = (\<lambda>k. case m k of None \<Rightarrow> None
                         | Some e \<Rightarrow> if time_Sub now (le_lastSeen e) > d then None else Some e)"

definition gc :: "gotime \<Rightarrow> Limiters \<Rightarrow> Limiters" where
  "gc now l = l\<lparr>perKey := gc_map now (ttl l) (perKey l), perIP := gc_map now (ttl l) (perIP l)\<rparr>"

subsection \<open>What a limiter promises\<close>

text \<open>\<open>inv t s\<close>: the state is sound and nothing in it is later than \<open>t\<close>; \<open>fair\<close> events are those the promise is about.\<close>

locale metered =
  fixes step :: "'e \<Rightarrow> 's \<Rightarrow> bool \<times> 's"
    and etime :: "'e \<Rightarrow> gotime"
    and fair :: "'e \<Rightarrow> bool"
    and credit :: "gotime \<Rightarrow> 's \<Rightarrow> rat"
    and inv :: "gotime \<Rightarrow> 's \<Rightarrow> bool"
    and r :: rat and b :: rat and slack :: rat and price :: rat
  assumes inv_step: "inv t s \<Longrightarrow> t \<le> etime e \<Longrightarrow> fair e \<Longrightarrow> inv (etime e) (snd (step e s))"
    and credit_cap: "inv t s \<Longrightarrow> credit u s \<le> b"
    and credit_low: "inv t s \<Longrightarrow> - slack \<le> credit u s"
    and credit_grow: "inv t s \<Longrightarrow> u \<le> u' \<Longrightarrow> credit u' s \<le> credit u s + r * of_int (u' - u)"
    and credit_pay: "inv t s \<Longrightarrow> t \<le> etime e \<Longrightarrow> fair e \<Longrightarrow>
      credit (etime e) (snd (step e s)) + (if fst (step e s) then price else 0) \<le> credit (etime e) s"
begin

primrec accepted :: "'e list \<Rightarrow> 's \<Rightarrow> nat" where
  "accepted [] s = 0"
| "accepted (e # es) s = (if fst (step e s) then 1 else 0) + accepted es (snd (step e s))"

lemma accepted_credit:
  "inv t s \<Longrightarrow> t \<le> etime e \<Longrightarrow> sorted (map etime (e # es)) \<Longrightarrow> list_all fair (e # es) \<Longrightarrow>
   of_nat (accepted (e # es) s) * price \<le> credit (etime e) s + slack + r * of_int (etime (last (e # es)) - etime e)"
proof (induction es arbitrary: e s t)
  case Nil
  then show ?case using credit_pay [of t s e] credit_low [of "etime e" "snd (step e s)" "etime e"] inv_step [of t s e]
    by (simp split: if_splits)
next
  case (Cons e' es)
  let ?s = "snd (step e s)"
  have inv': "inv (etime e) ?s" using Cons.prems inv_step by simp
  have le: "etime e \<le> etime e'" using Cons.prems(3) by simp
  have "of_nat (accepted (e' # es) ?s) * price \<le> credit (etime e') ?s + slack + r * of_int (etime (last (e' # es)) - etime e')"
    using Cons.IH [OF inv' le] Cons.prems(3,4) by simp
  also have "\<dots> \<le> credit (etime e) ?s + r * of_int (etime e' - etime e) + slack + r * of_int (etime (last (e' # es)) - etime e')"
    using credit_grow [OF inv' le] by simp
  also have "\<dots> = credit (etime e) ?s + slack + r * of_int (etime (last (e # e' # es)) - etime e)"
    by (simp add: algebra_simps)
  finally have "of_nat (accepted (e' # es) ?s) * price + (if fst (step e s) then price else 0) \<le>
      credit (etime e) s + slack + r * of_int (etime (last (e # e' # es)) - etime e)"
    using credit_pay [OF Cons.prems(1,2)] Cons.prems(4) by simp
  moreover have "of_nat (accepted (e # e' # es) s) * price =
      of_nat (accepted (e' # es) ?s) * price + (if fst (step e s) then price else 0)"
    by (simp add: algebra_simps)
  ultimately show ?case by (simp only:)
qed

lemma accepted_bound:
  assumes "inv (etime (hd es)) s" "sorted (map etime es)" "list_all fair es" "es \<noteq> []"
  shows "of_nat (accepted es s) * price \<le> b + slack + r * of_int (etime (last es) - etime (hd es))"
proof -
  obtain e es' where es: "es = e # es'" using assms(4) by (cases es) auto
  then have "of_nat (accepted es s) * price \<le> credit (etime e) s + slack + r * of_int (etime (last es) - etime e)"
    using accepted_credit [of "etime e" s e es'] assms by simp
  then show ?thesis using credit_cap [OF assms(1), of "etime e"] es by simp
qed

end

subsection \<open>The bucket keeps the promise\<close>

text \<open>
  Tokens per nanosecond; that rate with the rounding of three operations; the price of an event,
  with the rounding of the two additions to the tokens. A limiter of at least
  \<open>2 ^ -61\<close> tokens per nanosecond gains a token in 73 years, so no waiting time overflows.
\<close>

definition per_ns :: "rat \<Rightarrow> rat" where
  "per_ns r = r / second"

definition rate_up :: "rat \<Rightarrow> rat" where
  "rate_up r = per_ns r * (1 + 1 / 2 ^ 50)"

definition event_price :: "rat \<Rightarrow> int \<Rightarrow> rat" where
  "event_price r b = 1 - (of_int b + 3 * per_ns r + 1) / 2 ^ 52"

definition good_lim :: "rat \<Rightarrow> int \<Rightarrow> Limiter \<Rightarrow> bool" where
  "good_lim r b lm \<longleftrightarrow> lim_limit lm = r \<and> lim_burst lm = b \<and> r \<noteq> rate_Inf \<and> 1 / 2 ^ 61 \<le> per_ns r \<and>
     0 \<le> b \<and> b < 2 ^ 53 \<and> - (2 * per_ns r) \<le> lim_tokens lm"

definition elapsed :: "gotime \<Rightarrow> Limiter \<Rightarrow> duration" where
  "elapsed t lm = time_Sub t (min t (lim_last lm))"

definition lim_credit :: "gotime \<Rightarrow> Limiter \<Rightarrow> rat" where
  "lim_credit t lm = min (of_int (lim_burst lm)) (lim_tokens lm + rate_up (lim_limit lm) * of_int (elapsed t lm))"

lemma per_ns_pos: "1 / 2 ^ 61 \<le> per_ns r \<Longrightarrow> 0 < per_ns r"
  by (rule less_le_trans [of _ "1 / 2 ^ 61"]) simp_all

lemma rate_up_ge: "1 / 2 ^ 61 \<le> per_ns r \<Longrightarrow> per_ns r \<le> rate_up r"
  using per_ns_pos [of r] by (simp add: rate_up_def)

lemma time_Sub_self: "u \<le> t \<Longrightarrow> 0 \<le> time_Sub t u" "time_Sub u u = 0"
  by (simp_all add: time_Sub_def maxDuration_def)

lemma elapsed_bounds: "0 \<le> elapsed t lm" "elapsed t lm < 2 ^ 63"
  by (simp_all add: elapsed_def time_Sub_def maxDuration_def)

lemma duration_Seconds_le:
  assumes "0 \<le> d" and "d < 2 ^ 63"
  shows "duration_Seconds d \<le> of_int d / second * (1 + 1 / 2 ^ 52) ^ 2" and "0 \<le> duration_Seconds d"
proof -
  define sec nsec where "sec = d div 1000000000" and "nsec = d mod 1000000000"
  have d: "d = sec * 1000000000 + nsec" "0 \<le> sec" "sec < 2 ^ 53" "0 \<le> nsec" "nsec < 2 ^ 53"
    using assms by (simp_all add: sec_def nsec_def pos_imp_zdiv_nonneg_iff)
  define n :: rat where "n = of_int nsec / second"
  have s: "duration_Seconds d = fl64 (of_int sec + fl64 n)"
  proof -
    have "go_div d 1000000000 = sec" using assms(1) by (simp add: go_div_nonneg sec_def)
    moreover have "d - sec * 1000000000 = nsec" using d(1) by linarith
    ultimately show ?thesis using d(2-5) by (simp add: duration_Seconds_def fl64_of_int n_def Let_def del: of_int_diff of_int_mult)
  qed
  have n: "0 \<le> n" "n = 0 \<or> 1 / 2 ^ 100 \<le> n"
  proof -
    show "0 \<le> n" using d(4) by (simp add: n_def second_def)
    have "1 / second \<le> n" if "nsec \<noteq> 0" using that d(4) by (simp add: n_def second_def)
    moreover have "1 / 2 ^ 100 \<le> 1 / second" by (simp add: second_def)
    ultimately show "n = 0 \<or> 1 / 2 ^ 100 \<le> n" by (metis n_def div_0 of_int_0 order_trans)
  qed
  have sn: "0 \<le> of_int sec + fl64 n" using d(2) fl64_nonneg [OF n(1)] by simp
  then show "0 \<le> duration_Seconds d" unfolding s by (rule fl64_nonneg)
  have "fl64 n = 0 \<and> n = 0 \<or> 1 / 2 ^ 100 \<le> fl64 n"
  proof (cases "nsec = 0")
    case False
    then have "1 / second \<le> n" using d(4) by (simp add: n_def second_def)
    moreover have "n - n / 2 ^ 53 - 1 / 2 ^ 200 \<le> fl64 n" using fl64_near(2) [of n] fl64_tiny n(1) by simp
    moreover have "1 / 2 ^ 100 \<le> 1 / second / 2 - 1 / 2 ^ 200" by (simp add: second_def)
    moreover have "n / 2 ^ 53 \<le> n / 2" using n(1) by simp
    moreover have "1 / second / 2 \<le> n / 2" using calculation(1) by simp
    ultimately show ?thesis by linarith
  qed (simp add: n_def)
  then have "of_int sec + fl64 n = 0 \<or> 1 / 2 ^ 100 \<le> of_int sec + fl64 n"
    using d(2) by (cases "sec = 0") (auto intro: add_increasing order_trans [of _ 1])
  then have "duration_Seconds d \<le> (of_int sec + fl64 n) * (1 + 1 / 2 ^ 52)"
    unfolding s by (rule fl64_rel)
  also have "\<dots> \<le> ((of_int sec + n) * (1 + 1 / 2 ^ 52)) * (1 + 1 / 2 ^ 52)"
  proof (rule mult_right_mono)
    show "of_int sec + fl64 n \<le> (of_int sec + n) * (1 + 1 / 2 ^ 52)"
      using fl64_rel [OF n(2)] d(2) by (simp add: algebra_simps)
  qed simp
  also have "of_int sec + n = of_int d / second"
    by (simp add: n_def d(1) second_def)
  finally show "duration_Seconds d \<le> of_int d / second * (1 + 1 / 2 ^ 52) ^ 2"
    by (simp only: power2_eq_square mult.assoc)
qed

lemma tokens_le:
  assumes "0 \<le> d" and "d < 2 ^ 63" and p: "1 / 2 ^ 61 \<le> per_ns r"
  shows "tokensFromDuration r d \<le> rate_up r * of_int d" and "0 \<le> tokensFromDuration r d"
proof -
  note pp = per_ns_pos [OF p]
  then have r: "0 < r" by (simp add: per_ns_def second_def)
  have t: "tokensFromDuration r d = fl64 (duration_Seconds d * r)"
    using r by (simp add: tokensFromDuration_def)
  have x: "0 \<le> duration_Seconds d * r" using duration_Seconds_le(2) [OF assms(1,2)] r by simp
  then show "0 \<le> tokensFromDuration r d" unfolding t by (rule fl64_nonneg)
  show "tokensFromDuration r d \<le> rate_up r * of_int d"
  proof (cases "d = 0")
    case True
    then show ?thesis by (simp add: tokensFromDuration_def duration_Seconds_def go_div_def)
  next
    case False
    then have "(1 :: rat) \<le> of_int d" using assms(1) by (simp add: int_one_le_iff_zero_less)
    then have pd: "per_ns r \<le> per_ns r * of_int d" using pp by simp
    have y: "duration_Seconds d * r \<le> per_ns r * of_int d * (1 + 1 / 2 ^ 52) ^ 2"
      using mult_right_mono [OF duration_Seconds_le(1) [OF assms(1,2)], of r] r by (simp add: per_ns_def algebra_simps)
    have "tokensFromDuration r d \<le> duration_Seconds d * r * (1 + 1 / 2 ^ 53) + 1 / 2 ^ 200"
      unfolding t using fl64_near(1) [of "duration_Seconds d * r"] fl64_tiny(2) x by (simp add: algebra_simps)
    also have "\<dots> \<le> per_ns r * of_int d * (1 + 1 / 2 ^ 52) ^ 2 * (1 + 1 / 2 ^ 53) + 1 / 2 ^ 200"
      using mult_right_mono [OF y, of "1 + 1 / 2 ^ 53"] by simp
    also have "\<dots> \<le> per_ns r * of_int d * ((1 + 1 / 2 ^ 52) ^ 2 * (1 + 1 / 2 ^ 53) + 1 / 2 ^ 139)"
    proof -
      have "1 / 2 ^ 200 = 1 / 2 ^ 61 * (1 / 2 ^ 139 :: rat)" by simp
      also have "\<dots> \<le> per_ns r * of_int d * (1 / 2 ^ 139)" using order_trans [OF p pd] by (rule mult_right_mono) simp
      finally show ?thesis by (simp only: distrib_left mult.assoc add_le_cancel_left)
    qed
    also have "\<dots> \<le> per_ns r * of_int d * (1 + 1 / 2 ^ 50)"
      using pp assms(1) by (intro mult_left_mono) (simp_all add: power2_eq_square)
    finally show ?thesis by (simp add: rate_up_def algebra_simps)
  qed
qed

text \<open>An accepted event leaves at most two nanoseconds' worth of tokens owed.\<close>

lemma wait_short:
  assumes p: "1 / 2 ^ 61 \<le> per_ns r" and x: "0 < x" "x \<le> 2 + 4 * per_ns r" and w: "durationFromTokens r x \<le> 0"
  shows "x \<le> 2 * per_ns r"
proof -
  note pp = per_ns_pos [OF p]
  then have r: "0 < r" by (simp add: per_ns_def second_def)
  define q where "q = x / r"
  define y where "y = fl64 q * second"
  define d where "d = fl64 y"
  have q: "0 \<le> q" "q * second = x / per_ns r" using x r by (simp_all add: q_def per_ns_def second_def)
  have y: "0 \<le> y" using fl64_nonneg [OF q(1)] by (simp add: y_def second_def)
  have d0: "0 \<le> d" unfolding d_def by (rule fl64_nonneg [OF y])
  have Q: "fl64 q \<le> q * (1 + 1 / 2 ^ 53) + 1 / 2 ^ 200" "q * (1 - 1 / 2 ^ 53) - 1 / 2 ^ 200 \<le> fl64 q"
    using fl64_near [of q] fl64_tiny(2) q(1) by (simp_all add: algebra_simps)
  have D: "d \<le> y * (1 + 1 / 2 ^ 53) + 1 / 2 ^ 200" "y * (1 - 1 / 2 ^ 53) - 1 / 2 ^ 200 \<le> d"
    using fl64_near [of y] fl64_tiny(2) y by (simp_all add: d_def algebra_simps)
  have "x / per_ns r \<le> (2 + 4 * per_ns r) / per_ns r" using x(2) pp by (intro divide_right_mono) simp_all
  also have "\<dots> = 2 / per_ns r + 4" using pp by (simp add: field_simps)
  also have "\<dots> \<le> 2 ^ 62 + 4" using p pp by (simp add: field_simps)
  finally have "q * second \<le> 2 ^ 62 + 4" by (simp only: q(2))
  then have "d < 2 ^ 63" using Q(1) D(1) by (simp add: y_def second_def)
  then have "\<lfloor>d\<rfloor> \<le> 0"
    using w r d0 by (simp add: durationFromTokens_def int64_of_fl64_def maxDuration_def y_def q_def d_def Let_def split: if_splits)
  then have "d < 1" by linarith
  then have "q * second \<le> 2" using Q(2) D(2) by (simp add: y_def second_def)
  then have "x / per_ns r \<le> 2" by (simp only: q(2))
  then show ?thesis using pp by (simp add: pos_divide_le_eq)
qed

lemma lim_credit_cap: "lim_credit t lm \<le> of_int (lim_burst lm)"
  by (simp add: lim_credit_def)

lemma lim_credit_low:
  assumes "good_lim r b lm"
  shows "- (2 * per_ns r) \<le> lim_credit t lm"
proof -
  have p: "0 < per_ns r" "per_ns r \<le> rate_up r" using assms per_ns_pos rate_up_ge by (auto simp: good_lim_def)
  then have "0 \<le> rate_up r * of_int (elapsed t lm)" using elapsed_bounds(1) [of t lm] by simp
  moreover have "(0 :: rat) \<le> of_int b" using assms by (simp add: good_lim_def)
  ultimately show ?thesis using assms p(1) unfolding lim_credit_def good_lim_def min_def by auto
qed

lemma lim_credit_grow:
  assumes "good_lim r b lm" "t \<le> t'"
  shows "lim_credit t' lm \<le> lim_credit t lm + rate_up r * of_int (t' - t)"
proof -
  have p: "0 \<le> rate_up r" using assms per_ns_pos [of r] rate_up_ge [of r] by (auto simp: good_lim_def)
  have "elapsed t' lm \<le> elapsed t lm + (t' - t)"
    using assms(2) by (auto simp: elapsed_def min_def time_Sub_def maxDuration_def)
  then have "of_int (elapsed t' lm) \<le> (of_int (elapsed t lm + (t' - t)) :: rat)" by (simp only: of_int_le_iff)
  then have "rate_up r * of_int (elapsed t' lm) \<le> rate_up r * of_int (elapsed t lm + (t' - t))"
    using p by (rule mult_left_mono)
  moreover have "0 \<le> rate_up r * of_int (t' - t)" using assms(2) p by simp
  ultimately show ?thesis
    using assms(1) by (simp add: lim_credit_def good_lim_def algebra_simps min_def)
qed

lemma advance_eq:
  assumes "good_lim r b lm"
  shows "advance t lm = min (of_int b) (fl64 (lim_tokens lm + tokensFromDuration r (elapsed t lm)))"
proof -
  have "(if t < lim_last lm then t else lim_last lm) = min t (lim_last lm)" by simp
  then show ?thesis using assms fl64_of_int [of b]
    by (simp add: advance_def elapsed_def good_lim_def Let_def min_def)
qed

text \<open>What the code computes is at most the credit, up to one rounding.\<close>

lemma advance_bounds:
  assumes g: "good_lim r b lm"
  shows "advance t lm \<le> lim_credit t lm + (of_int b + 2 * per_ns r) / 2 ^ 53 + fl64_tiny"
    and "- (3 * per_ns r) \<le> advance t lm" and "advance t lm \<le> of_int b"
proof -
  define x where "x = lim_tokens lm + tokensFromDuration r (elapsed t lm)"
  have p: "1 / 2 ^ 61 \<le> per_ns r" and b: "0 \<le> (of_int b :: rat)" "lim_burst lm = b" "lim_limit lm = r"
    and t: "- (2 * per_ns r) \<le> lim_tokens lm"
    using g by (simp_all add: good_lim_def)
  note pp = per_ns_pos [OF p] and tl = tokens_le [OF elapsed_bounds p, of t lm]
  have tiny: "fl64_tiny \<le> per_ns r / 4" using fl64_tiny(2) p by (simp add: field_simps)
  have x: "- (2 * per_ns r) \<le> x" "x \<le> lim_tokens lm + rate_up r * of_int (elapsed t lm)"
    using t tl by (simp_all add: x_def)
  have a: "advance t lm = min (of_int b) (fl64 x)" using advance_eq [OF g] by (simp add: x_def)
  show "advance t lm \<le> of_int b" by (simp add: a)
  show "- (3 * per_ns r) \<le> advance t lm"
  proof (cases "0 \<le> x")
    case True
    then show ?thesis using fl64_nonneg [of x] pp b(1) unfolding a min_def by (simp split: if_split)
  next
    case False
    then have "\<bar>x\<bar> / 2 ^ 53 \<le> per_ns r / 4" using x(1) pp by simp
    then have "- (3 * per_ns r) \<le> fl64 x" using fl64_near(2) [of x] tiny x(1) pp by linarith
    then show ?thesis using pp b(1) unfolding a by simp
  qed
  show "advance t lm \<le> lim_credit t lm + (of_int b + 2 * per_ns r) / 2 ^ 53 + fl64_tiny"
  proof (cases "of_int b \<le> lim_tokens lm + rate_up r * of_int (elapsed t lm)")
    case True
    then have "lim_credit t lm = of_int b" by (simp add: lim_credit_def b)
    moreover have "0 \<le> (of_int b + 2 * per_ns r) / 2 ^ 53" using pp b(1) by simp
    ultimately show ?thesis using fl64_tiny(1) unfolding a by linarith
  next
    case False
    then have c: "x \<le> lim_credit t lm" "x \<le> of_int b" using x(2) by (simp_all add: lim_credit_def b)
    have "\<bar>x\<bar> / 2 ^ 53 \<le> (of_int b + 2 * per_ns r) / 2 ^ 53"
      using c(2) x(1) pp b(1) by (intro divide_right_mono) auto
    then have "fl64 x \<le> lim_credit t lm + (of_int b + 2 * per_ns r) / 2 ^ 53 + fl64_tiny"
      using fl64_near(1) [of x] c(1) by linarith
    then show ?thesis unfolding a by simp
  qed
qed

lemma AllowN_ok:
  assumes "AllowN t lm = (True, lm')" and g: "good_lim r b lm"
  shows "good_lim r b lm' \<and> lim_credit t lm' + event_price r b \<le> lim_credit t lm"
proof -
  define tk where "tk = fl64 (advance t lm - 1)"
  have r: "lim_limit lm = r" "r \<noteq> rate_Inf" and p: "1 / 2 ^ 61 \<le> per_ns r" and b: "0 \<le> (of_int b :: rat)"
    using g by (auto simp: good_lim_def)
  note pp = per_ns_pos [OF p] and A = advance_bounds [OF g, of t]
  have lm': "lm' = lm\<lparr>lim_last := t, lim_tokens := tk\<rparr>" and w: "tk < 0 \<Longrightarrow> durationFromTokens r (- tk) \<le> 0"
    using assms(1) r by (auto simp: AllowN_def tk_def Let_def split: if_splits)
  have tiny: "fl64_tiny \<le> 1 / 2 ^ 60" using fl64_tiny(2) by (rule order_trans) simp
  then have "fl64_tiny \<le> 1 / 4" by (rule order_trans) simp
  have "- (2 * per_ns r) \<le> tk"
  proof (cases "tk < 0")
    case True
    then have "advance t lm - 1 < 0" using fl64_nonneg [of "advance t lm - 1"] unfolding tk_def by linarith
    then have a: "\<bar>advance t lm - 1\<bar> \<le> 1 + 3 * per_ns r" using A(2) by linarith
    then have "\<bar>advance t lm - 1\<bar> / 2 ^ 53 \<le> 1 / 2 + per_ns r" using pp by simp
    then have "- tk \<le> 2 + 4 * per_ns r"
      using fl64_near(2) [of "advance t lm - 1"] a pp \<open>fl64_tiny \<le> 1 / 4\<close> unfolding tk_def by linarith
    then show ?thesis using wait_short [OF p, of "- tk"] w True by simp
  qed (use pp in simp)
  then have good: "good_lim r b lm'" using g by (simp add: good_lim_def lm')
  have "\<bar>advance t lm - 1\<bar> / 2 ^ 53 \<le> (of_int b + 1 + 3 * per_ns r) / 2 ^ 53"
    using A(2,3) pp b by (intro divide_right_mono) auto
  then have "tk \<le> advance t lm - 1 + (of_int b + 1 + 3 * per_ns r) / 2 ^ 53 + fl64_tiny"
    using fl64_near(1) [of "advance t lm - 1"] unfolding tk_def by linarith
  then have "tk + event_price r b \<le> lim_credit t lm"
    using A(1) tiny pp b by (simp add: event_price_def add_divide_distrib)
  moreover have "lim_credit t lm' \<le> tk" by (simp add: lim_credit_def elapsed_def lm' time_Sub_self)
  ultimately show ?thesis using good by linarith
qed

lemma AllowN_no: "AllowN t lm = (False, lm') \<Longrightarrow> lm' = lm"
  by (auto simp: AllowN_def Let_def split: if_splits)

lemma AllowN_good:
  assumes "good_lim r b lm"
  shows "good_lim r b (snd (AllowN t lm)) \<and>
    lim_credit t (snd (AllowN t lm)) + (if fst (AllowN t lm) then event_price r b else 0) \<le> lim_credit t lm"
proof (cases "AllowN t lm")
  case (Pair ok lm')
  then show ?thesis using AllowN_ok [of t lm lm'] AllowN_no [of t lm lm'] assms by (cases ok) auto
qed

interpretation bucket: metered AllowN "\<lambda>t. t" "\<lambda>_. True" lim_credit "\<lambda>_. good_lim r b" "rate_up r" "of_int b" "2 * per_ns r"
  "event_price r b" for r b
proof
  show "lim_credit t s \<le> of_int b" if "good_lim r b s" for s t
    using that lim_credit_cap [of t s] by (simp add: good_lim_def)
qed (use AllowN_good lim_credit_low lim_credit_grow in auto)

lemma good_NewLimiter:
  assumes "r \<noteq> rate_Inf" and "1 / 2 ^ 61 \<le> per_ns r" and "0 \<le> b" and "b < 2 ^ 53"
  shows "good_lim r b (NewLimiter r b)"
proof -
  have "- (2 * per_ns r) \<le> 0" using per_ns_pos [OF assms(2)] by simp
  also have "0 \<le> (of_int b :: rat)" using assms(3) by simp
  finally show ?thesis using assms fl64_of_int [of b] by (simp add: good_lim_def NewLimiter_def)
qed

lemma lim_credit_NewLimiter:
  assumes "1 / 2 ^ 61 \<le> per_ns r" and "0 \<le> b" and "b < 2 ^ 53"
  shows "lim_credit t (NewLimiter r b) = of_int b"
proof -
  have "0 \<le> rate_up r * of_int (elapsed t (NewLimiter r b))"
    using per_ns_pos [OF assms(1)] rate_up_ge [OF assms(1)] elapsed_bounds(1) by simp
  then show ?thesis using assms(2,3) fl64_of_int [of b] by (simp add: lim_credit_def NewLimiter_def)
qed

subsection \<open>The limiters keep it per key and per address\<close>

record rl_event =
  ev_now :: gotime
  ev_t1 :: gotime
  ev_t2 :: gotime
  ev_fp :: string
  ev_ip :: string

definition ev_Allow :: "rl_event \<Rightarrow> Limiters \<Rightarrow> bool \<times> Limiters" where
  "ev_Allow e l = Allow (ev_now e) (ev_t1 e) (ev_t2 e) (ev_fp e) (ev_ip e) l"

definition good_map :: "rat \<Rightarrow> int \<Rightarrow> (string \<Rightarrow> limiterEntry option) \<Rightarrow> bool" where
  "good_map r b m \<longleftrightarrow> (\<forall>k e. m k = Some e \<longrightarrow> good_lim r b (le_limiter e))"

definition good_limiters :: "rat \<Rightarrow> int \<Rightarrow> Limiters \<Rightarrow> bool" where
  "good_limiters r b l \<longleftrightarrow> ratePerSec l = r \<and> burst l = b \<and> r \<noteq> rate_Inf \<and> 1 / 2 ^ 61 \<le> per_ns r \<and>
     0 \<le> b \<and> b < 2 ^ 53 \<and> 0 \<le> event_price r b \<and> good_map r b (perKey l) \<and> good_map r b (perIP l)"

definition entry_credit :: "int \<Rightarrow> gotime \<Rightarrow> limiterEntry option \<Rightarrow> rat" where
  "entry_credit b t oe = (case oe of None \<Rightarrow> of_int b | Some e \<Rightarrow> lim_credit t (le_limiter e))"

lemma entry_credit_laws:
  assumes "0 \<le> b" and p: "1 / 2 ^ 61 \<le> per_ns r" and "\<And>e. oe = Some e \<Longrightarrow> good_lim r b (le_limiter e)"
  shows "entry_credit b t oe \<le> of_int b" "- (2 * per_ns r) \<le> entry_credit b t oe"
    "t \<le> t' \<Longrightarrow> entry_credit b t' oe \<le> entry_credit b t oe + rate_up r * of_int (t' - t)"
proof -
  note pp = per_ns_pos [OF p] rate_up_ge [OF p]
  have "- (2 * per_ns r) \<le> 0" using pp by simp
  also have "0 \<le> (of_int b :: rat)" using assms(1) by simp
  finally show "- (2 * per_ns r) \<le> entry_credit b t oe"
    using assms(3) lim_credit_low by (cases oe) (auto simp: entry_credit_def)
  show "entry_credit b t oe \<le> of_int b"
    using assms(3) bucket.credit_cap by (cases oe) (auto simp: entry_credit_def)
  show "t \<le> t' \<Longrightarrow> entry_credit b t' oe \<le> entry_credit b t oe + rate_up r * of_int (t' - t)"
    using assms(3) lim_credit_grow pp by (cases oe) (auto simp: entry_credit_def)
qed

lemma getOrCreate_good:
  assumes "good_map (ratePerSec l) (burst l) m" "ratePerSec l \<noteq> rate_Inf" "1 / 2 ^ 61 \<le> per_ns (ratePerSec l)"
    "0 \<le> burst l" "burst l < 2 ^ 53"
  shows "good_lim (ratePerSec l) (burst l) (le_limiter (getOrCreate l m k now))"
    and "lim_credit t (le_limiter (getOrCreate l m k now)) = entry_credit (burst l) t (m k)"
  using assms good_NewLimiter lim_credit_NewLimiter
  by (auto simp: getOrCreate_def good_map_def entry_credit_def split: option.splits)

text \<open>One call of \<open>Allow\<close> through the two limiters that it consults.\<close>

lemma Allow_effect:
  assumes "good_limiters r b l"
  shows "good_limiters r b (snd (Allow now t1 t2 fp ip l))"
    and "entry_credit b t1 (perKey (snd (Allow now t1 t2 fp ip l)) fp) +
           (if fst (Allow now t1 t2 fp ip l) then event_price r b else 0) \<le> entry_credit b t1 (perKey l fp)"
    and "entry_credit b t2 (perIP (snd (Allow now t1 t2 fp ip l)) ip) +
           (if fst (Allow now t1 t2 fp ip l) then event_price r b else 0) \<le> entry_credit b t2 (perIP l ip)"
    and "k \<noteq> fp \<Longrightarrow> perKey (snd (Allow now t1 t2 fp ip l)) k = perKey l k"
    and "i \<noteq> ip \<Longrightarrow> perIP (snd (Allow now t1 t2 fp ip l)) i = perIP l i"
proof -
  let ?ke = "getOrCreate l (perKey l) fp now"
  obtain ok1 lim1 where a1: "AllowN t1 (le_limiter ?ke) = (ok1, lim1)" by fastforce
  define l1 where "l1 = l\<lparr>perKey := (perKey l)(fp \<mapsto> ?ke\<lparr>le_limiter := lim1\<rparr>)\<rparr>"
  let ?ie = "getOrCreate l1 (perIP l) ip now"
  obtain ok2 lim2 where a2: "AllowN t2 (le_limiter ?ie) = (ok2, lim2)" by fastforce
  define l2 where "l2 = l1\<lparr>perIP := (perIP l)(ip \<mapsto> ?ie\<lparr>le_limiter := lim2\<rparr>)\<rparr>"
  have price: "0 \<le> event_price r b" using assms by (simp add: good_limiters_def)
  have res: "Allow now t1 t2 fp ip l = (if ok1 then (ok2, l2) else (False, l1))"
    using a1 a2 unfolding l2_def l1_def by (simp add: Allow_def Let_def)
  have k: "good_lim r b lim1" "lim_credit t1 lim1 + (if ok1 then event_price r b else 0) \<le> entry_credit b t1 (perKey l fp)"
    using getOrCreate_good [of l "perKey l"] AllowN_good [of r b "le_limiter ?ke" t1] assms a1
    by (auto simp: good_limiters_def)
  have i: "good_lim r b lim2" "lim_credit t2 lim2 + (if ok2 then event_price r b else 0) \<le> entry_credit b t2 (perIP l ip)"
    using getOrCreate_good [of l1 "perIP l"] AllowN_good [of r b "le_limiter ?ie" t2] assms a2
    by (auto simp: good_limiters_def l1_def)
  show "good_limiters r b (snd (Allow now t1 t2 fp ip l))"
    using assms k(1) i(1) by (auto simp: res l2_def l1_def good_limiters_def good_map_def)
  show "entry_credit b t1 (perKey (snd (Allow now t1 t2 fp ip l)) fp) +
      (if fst (Allow now t1 t2 fp ip l) then event_price r b else 0) \<le> entry_credit b t1 (perKey l fp)"
    using k(2) price by (auto simp: res l2_def l1_def entry_credit_def split: if_splits)
  show "entry_credit b t2 (perIP (snd (Allow now t1 t2 fp ip l)) ip) +
      (if fst (Allow now t1 t2 fp ip l) then event_price r b else 0) \<le> entry_credit b t2 (perIP l ip)"
    using i(2) price by (auto simp: res l2_def l1_def entry_credit_def split: if_splits)
  show "k \<noteq> fp \<Longrightarrow> perKey (snd (Allow now t1 t2 fp ip l)) k = perKey l k"
    and "i \<noteq> ip \<Longrightarrow> perIP (snd (Allow now t1 t2 fp ip l)) i = perIP l i"
    by (auto simp: res l2_def l1_def)
qed

text \<open>
  A request, or a tick of the timer that \<^verbatim>\<open>StartGC\<close> runs. The clock is read when \<^verbatim>\<open>Allow\<close> is
  entered and again by each limiter, after the lock was taken; \<open>delay\<close> bounds what lies between.
\<close>

datatype rl_op = Req rl_event | Tick gotime

fun rl_step :: "rl_op \<Rightarrow> Limiters \<Rightarrow> bool \<times> Limiters" where
  "rl_step (Req e) l = ev_Allow e l"
| "rl_step (Tick now) l = (False, gc now l)"

fun op_time :: "(rl_event \<Rightarrow> gotime) \<Rightarrow> rl_op \<Rightarrow> gotime" where
  "op_time f (Req e) = f e"
| "op_time f (Tick now) = now"

fun prompt :: "duration \<Rightarrow> rl_op \<Rightarrow> bool" where
  "prompt delay (Req e) \<longleftrightarrow> (\<forall>t \<in> {ev_t1 e, ev_t2 e}. 0 \<le> t \<and> t \<le> ev_now e + delay)"
| "prompt delay (Tick now) \<longleftrightarrow> True"

fun of_key :: "string \<Rightarrow> rl_op \<Rightarrow> bool" where
  "of_key k (Req e) \<longleftrightarrow> ev_fp e = k"
| "of_key k (Tick now) \<longleftrightarrow> False"

fun of_ip :: "string \<Rightarrow> rl_op \<Rightarrow> bool" where
  "of_ip i (Req e) \<longleftrightarrow> ev_ip e = i"
| "of_ip i (Tick now) \<longleftrightarrow> False"

definition count_step :: "(rl_op \<Rightarrow> bool) \<Rightarrow> rl_op \<Rightarrow> Limiters \<Rightarrow> bool \<times> Limiters" where
  "count_step P e l = (fst (rl_step e l) \<and> P e, snd (rl_step e l))"

text \<open>
  No limiter was used after \<open>t\<close>, nor much later than its entry was last seen. An entry that is
  idle for the time to live is then full again, if this time is long enough to fill it.
\<close>

definition timely :: "duration \<Rightarrow> gotime \<Rightarrow> (string \<Rightarrow> limiterEntry option) \<Rightarrow> bool" where
  "timely delay t m \<longleftrightarrow>
     (\<forall>k e. m k = Some e \<longrightarrow> lim_last (le_limiter e) \<le> t \<and> lim_last (le_limiter e) \<le> le_lastSeen e + delay)"

definition refills :: "rat \<Rightarrow> int \<Rightarrow> duration \<Rightarrow> duration \<Rightarrow> bool" where
  "refills r b d delay \<longleftrightarrow> 0 \<le> delay \<and> delay < d \<and> d < 2 ^ 61 \<and> max 1 (of_int b) \<le> per_ns r * of_int (d - delay - 1)"

lemma refills_per_ns:
  assumes "refills r b d delay"
  shows "1 / 2 ^ 61 \<le> per_ns r"
proof -
  have k: "0 \<le> d - delay - 1" "d - delay - 1 < 2 ^ 61" and one: "1 \<le> per_ns r * of_int (d - delay - 1)"
    using assms by (auto simp: refills_def)
  have "per_ns r * of_int (d - delay - 1) \<le> 0" if "per_ns r \<le> 0"
    using that k(1) by (intro mult_nonpos_nonneg) (simp_all only: of_int_0_le_iff)
  then have "0 < per_ns r" using one by fastforce
  moreover have "of_int (d - delay - 1) \<le> (of_int (2 ^ 61) :: rat)" using k(2) by (simp only: of_int_le_iff)
  ultimately have "per_ns r * of_int (d - delay - 1) \<le> per_ns r * of_int (2 ^ 61)" by simp
  then show ?thesis using one by simp
qed

lemma idle_full:
  assumes "refills r b d delay" and "good_lim r b (le_limiter e)"
    and "lim_last (le_limiter e) \<le> now" and "lim_last (le_limiter e) \<le> le_lastSeen e + delay"
    and "time_Sub now (le_lastSeen e) > d"
  shows "lim_credit now (le_limiter e) = of_int b"
proof -
  let ?l = "le_limiter e"
  have p: "0 < per_ns r" "per_ns r \<le> rate_up r" using refills_per_ns [OF assms(1)] per_ns_pos rate_up_ge by auto
  have "d - delay + 1 \<le> elapsed now ?l"
    using assms(1,3-5) by (auto simp: elapsed_def time_Sub_def refills_def maxDuration_def)
  then have "per_ns r * of_int (d - delay + 1) \<le> per_ns r * of_int (elapsed now ?l)"
    using p(1) by (intro mult_left_mono) (simp_all only: of_int_le_iff less_imp_le)
  also have "\<dots> \<le> rate_up r * of_int (elapsed now ?l)"
    using p(2) elapsed_bounds(1) by (intro mult_right_mono) simp_all
  finally have "per_ns r * of_int (d - delay + 1) \<le> rate_up r * of_int (elapsed now ?l)" .
  moreover have "- (2 * per_ns r) \<le> lim_tokens ?l" "lim_burst ?l = b" "lim_limit ?l = r" using assms(2) by (auto simp: good_lim_def)
  moreover have "of_int b \<le> per_ns r * of_int (d - delay + 1) - 2 * per_ns r"
    using assms(1) by (auto simp: refills_def algebra_simps max_def split: if_splits)
  ultimately show ?thesis by (simp add: lim_credit_def)
qed

lemma gc_map_credit:
  assumes "refills r b d delay" and "good_map r b m" and "timely delay now m"
  shows "good_map r b (gc_map now d m)" and "timely delay now (gc_map now d m)"
    and "entry_credit b now (gc_map now d m k) = entry_credit b now (m k)"
proof -
  show "good_map r b (gc_map now d m)" "timely delay now (gc_map now d m)"
    using assms(2,3) by (auto simp: good_map_def timely_def gc_map_def split: option.splits if_splits)
  show "entry_credit b now (gc_map now d m k) = entry_credit b now (m k)"
  proof (cases "m k")
    case (Some e)
    then have "time_Sub now (le_lastSeen e) > d \<Longrightarrow> lim_credit now (le_limiter e) = of_int b"
      using assms by (intro idle_full) (auto simp: good_map_def timely_def)
    then show ?thesis using Some by (simp add: gc_map_def entry_credit_def)
  qed (simp add: gc_map_def)
qed

lemma timely_mono: "timely delay t m \<Longrightarrow> t \<le> t' \<Longrightarrow> timely delay t' m"
  unfolding timely_def by fastforce

lemma AllowN_last: "lim_last (snd (AllowN t lm)) = lim_last lm \<or> lim_last (snd (AllowN t lm)) = t"
  by (auto simp: AllowN_def Let_def)

lemma timely_entry:
  assumes "timely delay t0 m" and "t0 \<le> t" and "0 \<le> t" and "t \<le> now + delay"
  shows "timely delay t (m(k \<mapsto> (getOrCreate l m k now)\<lparr>le_limiter := snd (AllowN t (le_limiter (getOrCreate l m k now)))\<rparr>))"
proof -
  let ?e = "getOrCreate l m k now"
  have "lim_last (le_limiter ?e) \<le> t" "le_lastSeen ?e = now"
    using timely_mono [OF assms(1,2)] assms(3)
    by (auto simp: getOrCreate_def timely_def NewLimiter_def split: option.splits)
  then have "lim_last (snd (AllowN t (le_limiter ?e))) \<le> t" using AllowN_last [of t "le_limiter ?e"] by auto
  then show ?thesis using timely_mono [OF assms(1,2)] assms(4) \<open>le_lastSeen ?e = now\<close>
    by (auto simp: timely_def)
qed

lemma Allow_timely:
  assumes "prompt delay (Req e)"
  shows "timely delay t (perKey l) \<Longrightarrow> t \<le> ev_t1 e \<Longrightarrow> timely delay (ev_t1 e) (perKey (snd (ev_Allow e l)))"
    and "timely delay t (perIP l) \<Longrightarrow> t \<le> ev_t2 e \<Longrightarrow> timely delay (ev_t2 e) (perIP (snd (ev_Allow e l)))"
    and "ttl (snd (ev_Allow e l)) = ttl l"
  using assms by (auto simp: ev_Allow_def Allow_def Let_def case_prod_beta intro: timely_entry timely_mono)

text \<open>The state of the limiters at time \<open>t\<close>, as one of the two maps \<open>m\<close> sees it.\<close>

definition sound :: "(Limiters \<Rightarrow> string \<Rightarrow> limiterEntry option) \<Rightarrow> rat \<Rightarrow> int \<Rightarrow> duration \<Rightarrow> duration \<Rightarrow> gotime \<Rightarrow> Limiters \<Rightarrow> bool" where
  "sound m r b d delay t l \<longleftrightarrow> good_limiters r b l \<and> ttl l = d \<and> refills r b d delay \<and> timely delay t (m l)"

lemma gc_good: "good_limiters r b l \<Longrightarrow> good_limiters r b (gc now l)"
  by (auto simp: good_limiters_def gc_def good_map_def gc_map_def split: option.splits if_splits)

lemma gc_sound:
  assumes "sound m r b d delay t l" and "t \<le> now" and "m (gc now l) = gc_map now d (m l)" and "good_map r b (m l)"
  shows "sound m r b d delay now (gc now l)"
    and "entry_credit b now (m (gc now l) k) = entry_credit b now (m l k)"
  using assms gc_good gc_map_credit(2,3) [of r b d delay "m l" now] timely_mono [of delay t "m l" now]
  by (auto simp: sound_def gc_def)

lemma sound_laws:
  assumes "sound m r b d delay t l" and "good_map r b (m l)"
  shows "entry_credit b u (m l k) \<le> of_int b" and "- (2 * per_ns r) \<le> entry_credit b u (m l k)"
    and "u \<le> u' \<Longrightarrow> entry_credit b u' (m l k) \<le> entry_credit b u (m l k) + rate_up r * of_int (u' - u)"
  using assms entry_credit_laws [of b r "m l k"] by (auto simp: sound_def good_limiters_def good_map_def)

lemma sound_good_map:
  "sound m r b d delay t l \<Longrightarrow> good_map r b (perKey l)" "sound m r b d delay t l \<Longrightarrow> good_map r b (perIP l)"
  by (auto simp: sound_def good_limiters_def)

interpretation per_key: metered "count_step (of_key k)" "op_time ev_t1" "prompt delay" "\<lambda>t l. entry_credit b t (perKey l k)"
  "sound perKey r b d delay" "rate_up r" "of_int b" "2 * per_ns r" "event_price r b" for k r b d delay
proof
  fix t l e assume g: "sound perKey r b d delay t l" and le: "t \<le> op_time ev_t1 e" and f: "prompt delay e"
  have gl: "good_limiters r b l" using g by (simp add: sound_def)
  show "sound perKey r b d delay (op_time ev_t1 e) (snd (count_step (of_key k) e l))"
  proof (cases e)
    case (Req x)
    then show ?thesis using g le f Allow_effect(1) [OF gl] Allow_timely(1) [of delay x t l] Allow_timely(3) [of delay x l]
      by (simp add: sound_def count_step_def ev_Allow_def)
  next
    case (Tick now)
    then show ?thesis using gc_sound(1) [OF g, of now] le sound_good_map(1) [OF g] g
      by (simp add: count_step_def gc_def sound_def)
  qed
  show "entry_credit b (op_time ev_t1 e) (perKey (snd (count_step (of_key k) e l)) k) +
      (if fst (count_step (of_key k) e l) then event_price r b else 0) \<le> entry_credit b (op_time ev_t1 e) (perKey l k)"
  proof (cases e)
    case (Req x)
    then show ?thesis using Allow_effect(2,4) [OF gl]
      by (cases "ev_fp x = k") (auto simp: count_step_def ev_Allow_def)
  next
    case (Tick now)
    then show ?thesis using gc_sound(2) [OF g, where now = now] le sound_good_map(1) [OF g] g
      by (simp add: count_step_def gc_def sound_def)
  qed
qed (blast intro: sound_laws [where m = perKey] sound_good_map)+

interpretation per_ip: metered "count_step (of_ip i)" "op_time ev_t2" "prompt delay" "\<lambda>t l. entry_credit b t (perIP l i)"
  "sound perIP r b d delay" "rate_up r" "of_int b" "2 * per_ns r" "event_price r b" for i r b d delay
proof
  fix t l e assume g: "sound perIP r b d delay t l" and le: "t \<le> op_time ev_t2 e" and f: "prompt delay e"
  have gl: "good_limiters r b l" using g by (simp add: sound_def)
  show "sound perIP r b d delay (op_time ev_t2 e) (snd (count_step (of_ip i) e l))"
  proof (cases e)
    case (Req x)
    then show ?thesis using g le f Allow_effect(1) [OF gl] Allow_timely(2) [of delay x t l] Allow_timely(3) [of delay x l]
      by (simp add: sound_def count_step_def ev_Allow_def)
  next
    case (Tick now)
    then show ?thesis using gc_sound(1) [OF g, of now] le sound_good_map(2) [OF g] g
      by (simp add: count_step_def gc_def sound_def)
  qed
  show "entry_credit b (op_time ev_t2 e) (perIP (snd (count_step (of_ip i) e l)) i) +
      (if fst (count_step (of_ip i) e l) then event_price r b else 0) \<le> entry_credit b (op_time ev_t2 e) (perIP l i)"
  proof (cases e)
    case (Req x)
    then show ?thesis using Allow_effect(3,5) [OF gl]
      by (cases "ev_ip x = i") (auto simp: count_step_def ev_Allow_def)
  next
    case (Tick now)
    then show ?thesis using gc_sound(2) [OF g, where now = now] le sound_good_map(2) [OF g] g
      by (simp add: count_step_def gc_def sound_def)
  qed
qed (blast intro: sound_laws [where m = perIP] sound_good_map)+

text \<open>The number of calls of \<open>Allow\<close> that were let through, of those that satisfy \<open>P\<close>.\<close>

primrec allow_count :: "(rl_op \<Rightarrow> bool) \<Rightarrow> rl_op list \<Rightarrow> Limiters \<Rightarrow> nat" where
  "allow_count P [] l = 0"
| "allow_count P (e # es) l =
     (if fst (rl_step e l) \<and> P e then 1 else 0) + allow_count P es (snd (rl_step e l))"

lemma allow_count_key: "allow_count (of_key k) es l = per_key.accepted k es l"
  by (induction es arbitrary: l) (simp_all add: count_step_def)

lemma allow_count_ip: "allow_count (of_ip i) es l = per_ip.accepted i es l"
  by (induction es arbitrary: l) (simp_all add: count_step_def)

lemma burst_small:
  assumes "1 / 2 ^ 61 \<le> per_ns r" and "of_int b + 3 * per_ns r + 1 \<le> 2 ^ 52"
  shows "b < 2 ^ 53"
proof -
  have "(of_int b :: rat) < of_int (2 ^ 53)" using assms per_ns_pos [OF assms(1)] by simp
  then show ?thesis by (simp only: of_int_less_iff)
qed

lemma sound_NewLimiters:
  "r \<noteq> rate_Inf \<Longrightarrow> 0 \<le> b \<Longrightarrow> of_int b + 3 * per_ns r + 1 \<le> 2 ^ 52 \<Longrightarrow> refills r b d delay \<Longrightarrow> m (NewLimiters r b d) = (\<lambda>_. None) \<Longrightarrow>
   sound m r b d delay t (NewLimiters r b d)"
  using refills_per_ns [of r b d delay] burst_small [of r b]
  by (simp add: sound_def good_limiters_def NewLimiters_def good_map_def timely_def event_price_def)

text \<open>
  C23. Rate limiting bounds the accepted requests of every key and of every address, with the
  tokens in \<^verbatim>\<open>float64\<close> as the code keeps them: from the first to the last of any sequence of
  requests and of garbage collections, whatever other keys and addresses do in between, the
  number let through, less its share of the rounding, is at most \<open>burst\<close> plus the rate times the
  elapsed time and two nanoseconds. The two nanoseconds come from truncating the waiting time.
  Rounding takes at most \<open>(burst + 1 + 3 rate\<close> per nanosecond\<open>) / 2 ^ 52\<close> of a token off the price
  of a request and adds at most \<open>1 / 2 ^ 50\<close> of itself to the rate. A collection may forget
  a limiter, which gives its key a full bucket; this gains nothing as long as the time to live,
  less the delay between the two readings of the clock in a request, is long enough to fill the
  bucket (\<open>refills\<close>).
\<close>

theorem rate_limit_bound:
  assumes "r \<noteq> rate_Inf" and "0 \<le> b" and "of_int b + 3 * (r / second) + 1 \<le> 2 ^ 52" and "es \<noteq> []"
    and "refills r b d delay" and "list_all (prompt delay) es"
  shows "(sorted (map (op_time ev_t1) es) \<longrightarrow>
      of_nat (allow_count (of_key k) es (NewLimiters r b d)) * (1 - (of_int b + 3 * (r / second) + 1) / 2 ^ 52) \<le>
        of_int b + r / second * (1 + 1 / 2 ^ 50) * of_int (op_time ev_t1 (last es) - op_time ev_t1 (hd es) + 2)) \<and>
    (sorted (map (op_time ev_t2) es) \<longrightarrow>
      of_nat (allow_count (of_ip i) es (NewLimiters r b d)) * (1 - (of_int b + 3 * (r / second) + 1) / 2 ^ 52) \<le>
        of_int b + r / second * (1 + 1 / 2 ^ 50) * of_int (op_time ev_t2 (last es) - op_time ev_t2 (hd es) + 2))"
proof -
  have p: "per_ns r = r / second" by (simp add: per_ns_def)
  have up: "2 * per_ns r \<le> rate_up r * 2" using refills_per_ns [OF assms(5)] rate_up_ge by simp
  note g = sound_NewLimiters [OF assms(1,2) assms(3) [folded p] assms(5)]
  have split: "rate_up r * of_int (u + 2) = rate_up r * of_int u + rate_up r * 2" for u by (simp add: algebra_simps)
  show ?thesis
    using per_key.accepted_bound [OF g [of perKey] _ assms(6,4), of k] per_ip.accepted_bound [OF g [of perIP] _ assms(6,4), of i] up
    unfolding p [symmetric] rate_up_def [symmetric] event_price_def [symmetric] split allow_count_key allow_count_ip
    by (auto simp: NewLimiters_def simp del: of_int_diff)
qed

definition demo_req :: "gotime \<Rightarrow> rl_op" where
  "demo_req t = Req \<lparr>ev_now = t, ev_t1 = t, ev_t2 = t, ev_fp = ''f'', ev_ip = ''i''\<rparr>"

definition demo_events :: "rl_op list" where
  "demo_events = [demo_req 5, demo_req 5, demo_req 5, Tick 6000000005, demo_req 6000000005]"

theorem rate_limit_bound_witness:
  "allow_count (of_key ''f'') demo_events (NewLimiters 1 2 5000000000) \<le> 8 \<and>
   allow_count (of_ip ''i'') demo_events (NewLimiters 1 2 5000000000) \<le> 8"
proof -
  have "(1 :: rat) \<noteq> rate_Inf" by (simp add: rate_Inf_def)
  moreover have "refills 1 2 5000000000 0" by (simp add: refills_def per_ns_def second_def)
  ultimately have "of_nat (allow_count (of_key ''f'') demo_events (NewLimiters 1 2 5000000000)) < (of_nat 9 :: rat)"
    "of_nat (allow_count (of_ip ''i'') demo_events (NewLimiters 1 2 5000000000)) < (of_nat 9 :: rat)"
    using rate_limit_bound [of 1 2 demo_events 5000000000 0 "''f''" "''i''"]
    by (simp_all add: demo_events_def demo_req_def second_def)
  then have "allow_count (of_key ''f'') demo_events (NewLimiters 1 2 5000000000) < 9"
    "allow_count (of_ip ''i'') demo_events (NewLimiters 1 2 5000000000) < 9"
    by (simp_all only: of_nat_less_iff)
  then show ?thesis by simp
qed

text \<open>
  The time to live has to be that long. With one request in 1024 seconds, a burst of one and
  the default time to live of ten minutes, a second request is let through after 601 seconds,
  because a collection has forgotten the empty bucket; without the collection it is refused.
\<close>

lemma slow_floats:
  "fl64 1 = 1" "fl64 (601 / 1024) = 601 / 1024" "fl64 (- (423 / 1024)) = - (423 / 1024)" "fl64 (1625 / 1024) = 1625 / 1024"
  "tokensFromDuration (1 / 1024) 0 = 0" "tokensFromDuration (1 / 1024) 601000000000 = 601 / 1024"
  "durationFromTokens (1 / 1024) (423 / 1024) = 423000000000"
  by code_simp+

lemma slow_AllowN:
  "NewLimiter (1 / 1024) 1 = \<lparr>lim_limit = 1 / 1024, lim_burst = 1, lim_tokens = 1, lim_last = 0\<rparr>"
  "AllowN 0 \<lparr>lim_limit = 1 / 1024, lim_burst = 1, lim_tokens = 1, lim_last = 0\<rparr> =
     (True, \<lparr>lim_limit = 1 / 1024, lim_burst = 1, lim_tokens = 0, lim_last = 0\<rparr>)"
  "AllowN 601000000000 \<lparr>lim_limit = 1 / 1024, lim_burst = 1, lim_tokens = 0, lim_last = 0\<rparr> =
     (False, \<lparr>lim_limit = 1 / 1024, lim_burst = 1, lim_tokens = 0, lim_last = 0\<rparr>)"
  "AllowN 601000000000 \<lparr>lim_limit = 1 / 1024, lim_burst = 1, lim_tokens = 1, lim_last = 0\<rparr> =
     (True, \<lparr>lim_limit = 1 / 1024, lim_burst = 1, lim_tokens = 0, lim_last = 601000000000\<rparr>)"
proof -
  have "1 + 601 / 1024 = (1625 / 1024 :: rat)" by simp
  moreover have "(1 / 1024 :: rat) \<noteq> rate_Inf" by (simp add: rate_Inf_def)
  moreover have "601 / 1024 - 1 = (- (423 / 1024) :: rat)" by simp
  ultimately show "NewLimiter (1 / 1024) 1 = \<lparr>lim_limit = 1 / 1024, lim_burst = 1, lim_tokens = 1, lim_last = 0\<rparr>"
    "AllowN 0 \<lparr>lim_limit = 1 / 1024, lim_burst = 1, lim_tokens = 1, lim_last = 0\<rparr> =
     (True, \<lparr>lim_limit = 1 / 1024, lim_burst = 1, lim_tokens = 0, lim_last = 0\<rparr>)"
    "AllowN 601000000000 \<lparr>lim_limit = 1 / 1024, lim_burst = 1, lim_tokens = 0, lim_last = 0\<rparr> =
     (False, \<lparr>lim_limit = 1 / 1024, lim_burst = 1, lim_tokens = 0, lim_last = 0\<rparr>)"
  "AllowN 601000000000 \<lparr>lim_limit = 1 / 1024, lim_burst = 1, lim_tokens = 1, lim_last = 0\<rparr> =
     (True, \<lparr>lim_limit = 1 / 1024, lim_burst = 1, lim_tokens = 0, lim_last = 601000000000\<rparr>)"
    by (simp_all add: NewLimiter_def AllowN_def advance_def time_Sub_def maxDuration_def slow_floats)
qed

lemma gc_restores_burst:
  "allow_count (of_key ''f'') [demo_req 0, Tick 601000000000, demo_req 601000000000]
     (NewLimiters (1 / 1024) 1 600000000000) = 2"
  "allow_count (of_key ''f'') [demo_req 0, demo_req 601000000000] (NewLimiters (1 / 1024) 1 600000000000) = 1"
  by (simp_all add: slow_AllowN demo_req_def ev_Allow_def Allow_def getOrCreate_def NewLimiters_def
      time_Sub_def maxDuration_def gc_def gc_map_def)

end
