(* ===== verification/Tls.thy ===== *)
theory Tls
  imports GoBase64 GoPath OsFile
begin

section \<open>The TLS certificate (\<open>internal/server/tls.go\<close>)\<close>

text \<open>
  Loading the certificate pair or generating it on the first start. Key generation, random
  numbers, the DER encodings and the parsing of a pair are \<^verbatim>\<open>crypto/ecdsa\<close>, \<^verbatim>\<open>crypto/rand\<close>,
  \<^verbatim>\<open>crypto/x509\<close> and \<^verbatim>\<open>crypto/tls\<close>, the functions of \<open>x509_lib\<close>, each of which may fail;
  \<open>x_now\<close> is the reading of the clock. A private key is an opaque list of bytes. Each
  \<^verbatim>\<open>writePEM\<close> has its own environment, with its own temporary name.
\<close>

datatype key_usage = KeyUsageDigitalSignature | KeyUsageCertSign | ExtKeyUsageServerAuth

record x509_Certificate =
  SerialNumber :: int
  CommonName :: string
  Organization :: "string list"
  NotBefore :: gotime
  NotAfter :: gotime
  KeyUsage :: "key_usage list"
  ExtKeyUsage :: "key_usage list"
  BasicConstraintsValid :: bool
  IsCA :: bool
  IPAddresses :: "string list"
  DNSNames :: "string list"

record 'c x509_lib =
  GenerateKey :: "bytes option"
  rand_Int :: "int \<Rightarrow> int option"
  x_now :: gotime
  CreateCertificate :: "x509_Certificate \<Rightarrow> bytes \<Rightarrow> bytes option"
  MarshalPKCS8PrivateKey :: "bytes \<Rightarrow> bytes option"
  LoadX509 :: "bytes \<Rightarrow> bytes \<Rightarrow> 'c option"

datatype tls_error = ErrTLSCert | ErrGenerate

definition certFile :: string where "certFile = ''cert.pem''"
definition keyFile :: string where "keyFile = ''key.pem''"

function pem_lines :: "string \<Rightarrow> string" where
  "pem_lines s = (if s = [] then [] else take 64 s @ [CHR 0x0A] @ pem_lines (drop 64 s))"
  by pat_completeness auto
termination
  by (relation "measure length") auto

declare pem_lines.simps [simp del]

definition pem_Encode :: "string \<Rightarrow> bytes \<Rightarrow> bytes" where
  "pem_Encode ty data =
     ''-----BEGIN '' @ ty @ ''-----'' @ [CHR 0x0A] @ pem_lines (StdEncoding_EncodeToString data) @
     ''-----END '' @ ty @ ''-----'' @ [CHR 0x0A]"

definition write_tmp_rename :: "filemode \<Rightarrow> osenv \<Rightarrow> string \<Rightarrow> bytes \<Rightarrow> disk \<Rightarrow> bool \<times> disk" where
  "write_tmp_rename perm env p data d =
     (let tmp = tmp_name env in
      case os_create_temp env d of
        None \<Rightarrow> (False, d)
      | Some d1 \<Rightarrow>
      (case os_chmod env tmp perm d1 of
        None \<Rightarrow> (False, os_remove env tmp d1)
      | Some d2 \<Rightarrow>
      (let (ok, d3) = os_write env tmp data d2 in
       if \<not> ok then (False, os_remove env tmp d3)
       else if fails env SysSync then (False, os_remove env tmp d3)
       else if fails env SysClose then (False, os_remove env tmp d3)
       else (case os_rename env tmp p d3 of
               None \<Rightarrow> (False, d3)
             | Some d4 \<Rightarrow> (True, d4)))))"

definition writePEM :: "osenv \<Rightarrow> string \<Rightarrow> string \<Rightarrow> bytes \<Rightarrow> filemode \<Rightarrow> disk \<Rightarrow> bool \<times> disk" where
  "writePEM env p blockType data perm d = write_tmp_rename perm env p (pem_Encode blockType data) d"

text \<open>An empty file counts as absent.\<close>

definition fileExists :: "osenv \<Rightarrow> string \<Rightarrow> disk \<Rightarrow> bool" where
  "fileExists env p d =
     (case files d p of
        None \<Rightarrow> False
      | Some fl \<Rightarrow> \<not> fails env SysStat \<and> fcontent fl \<noteq> [])"

definition LoadX509KeyPair :: "'c x509_lib \<Rightarrow> osenv \<Rightarrow> string \<Rightarrow> string \<Rightarrow> disk \<Rightarrow> 'c option" where
  "LoadX509KeyPair lib env cp kp d =
     (case (files d cp, files d kp) of
        (Some c, Some k) \<Rightarrow> if fails env SysRead then None else LoadX509 lib (fcontent c) (fcontent k)
      | _ \<Rightarrow> None)"

definition certTemplate :: "int \<Rightarrow> gotime \<Rightarrow> x509_Certificate" where
  "certTemplate serial now =
     \<lparr>SerialNumber = serial, CommonName = ''raxd'', Organization = [''raxd''],
      NotBefore = now - 60 * 1000000000, NotAfter = now + 10 * 365 * 24 * (3600 * 1000000000),
      KeyUsage = [KeyUsageDigitalSignature, KeyUsageCertSign], ExtKeyUsage = [ExtKeyUsageServerAuth],
      BasicConstraintsValid = True, IsCA = True, IPAddresses = [''127.0.0.1''], DNSNames = [''localhost'']\<rparr>"

text \<open>The steps of \<^verbatim>\<open>generateSelfSigned\<close> that touch no file: the two DER encodings.\<close>

definition generate :: "'c x509_lib \<Rightarrow> (bytes \<times> bytes) option" where
  "generate lib =
     (case GenerateKey lib of
        None \<Rightarrow> None
      | Some priv \<Rightarrow>
      (case rand_Int lib (2 ^ 128) of
        None \<Rightarrow> None
      | Some serial \<Rightarrow>
      (case CreateCertificate lib (certTemplate serial (x_now lib)) priv of
        None \<Rightarrow> None
      | Some certDER \<Rightarrow>
      (case MarshalPKCS8PrivateKey lib priv of
        None \<Rightarrow> None
      | Some privDER \<Rightarrow> Some (certDER, privDER)))))"

definition generateSelfSigned ::
  "'c x509_lib \<Rightarrow> osenv \<Rightarrow> osenv \<Rightarrow> string \<Rightarrow> string \<Rightarrow> disk \<Rightarrow> (tls_error + 'c) \<times> disk" where
  "generateSelfSigned lib envK envC certPath keyPath d =
     (case generate lib of
        None \<Rightarrow> (Inl ErrGenerate, d)
      | Some (certDER, privDER) \<Rightarrow>
      (case writePEM envK keyPath ''PRIVATE KEY'' privDER 0x180 d of
        (False, d1) \<Rightarrow> (Inl ErrGenerate, d1)
      | (True, d1) \<Rightarrow>
      (case writePEM envC certPath ''CERTIFICATE'' certDER 0x1A4 d1 of
        (False, d2) \<Rightarrow> (Inl ErrGenerate, os_remove envC keyPath d2)
      | (True, d2) \<Rightarrow>
      (case LoadX509KeyPair lib envC certPath keyPath d2 of
        None \<Rightarrow> (Inl ErrGenerate, d2)
      | Some cert \<Rightarrow> (Inr cert, d2)))))"

text \<open>The result has the certificate and whether it was generated.\<close>

definition loadOrCreateCert ::
  "'c x509_lib \<Rightarrow> osenv \<Rightarrow> osenv \<Rightarrow> string \<Rightarrow> disk \<Rightarrow> (tls_error + 'c \<times> bool) \<times> disk" where
  "loadOrCreateCert lib envK envC tlsDir d =
     (let certPath = Join [tlsDir, certFile];
          keyPath = Join [tlsDir, keyFile];
          certExists = fileExists envK certPath d;
          keyExists = fileExists envK keyPath d in
      if certExists \<and> keyExists then
        (case LoadX509KeyPair lib envK certPath keyPath d of
           None \<Rightarrow> (Inl ErrTLSCert, d)
         | Some cert \<Rightarrow> (Inr (cert, False), d))
      else if certExists \<or> keyExists then (Inl ErrTLSCert, d)
      else (case generateSelfSigned lib envK envC certPath keyPath d of
              (Inl e, d1) \<Rightarrow> (Inl e, d1)
            | (Inr cert, d1) \<Rightarrow> (Inr (cert, True), d1)))"

subsection \<open>The writes are atomic replacements\<close>

lemma write_tmp_rename_states:
  assumes c: "write_tmp_rename perm env p data d = (r, d')" and ne: "tmp_name env \<noteq> p"
  shows "always (\<lambda>f. (f p = files d p \<or> f p = Some \<lparr>fcontent = data, fperm = perm\<rparr>) \<and>
      (\<forall>q. q \<noteq> p \<longrightarrow> q \<noteq> tmp_name env \<longrightarrow> f q = files d q)) d d' \<and>
    files d' p = (if r then Some \<lparr>fcontent = data, fperm = perm\<rparr> else files d p)"
proof -
  let ?t = "tmp_name env"
  let ?P = "\<lambda>f. (f p = files d p \<or> f p = Some \<lparr>fcontent = data, fperm = perm\<rparr>) \<and>
      (\<forall>q. q \<noteq> p \<longrightarrow> q \<noteq> ?t \<longrightarrow> f q = files d q)"
  have P0: "always ?P d d" by (rule always_refl) simp
  have tmp: "always ?P d (set_files ((files dx)(?t := v)) dx)"
    if "always ?P d dx" "files dx p = files d p" for dx v
    using that(1) by (rule always_set_files) (use always_files [OF that(1)] that(2) ne in auto)
  have rem: "always ?P d (os_remove env ?t dx) \<and> files (os_remove env ?t dx) p = files d p"
    if "always ?P d dx" "files dx p = files d p" for dx
    using tmp [OF that, of None] that ne by (auto simp: os_remove_def)
  show ?thesis
  proof (cases "os_create_temp env d")
    case None
    then show ?thesis using c P0 by (auto simp: write_tmp_rename_def Let_def)
  next
    case (Some d1)
    then have d1: "always ?P d d1" "files d1 p = files d p" "files d1 ?t = Some \<lparr>fcontent = [], fperm = 0x180\<rparr>"
      using tmp [OF P0, of "Some \<lparr>fcontent = [], fperm = 0x180\<rparr>"] ne
      by (auto simp: os_create_temp_def split: if_splits)
    show ?thesis
    proof (cases "os_chmod env ?t perm d1")
      case None
      then show ?thesis using c Some rem [OF d1(1,2)] by (auto simp: write_tmp_rename_def Let_def)
    next
      case chm: (Some d2)
      then have d2: "always ?P d d2" "files d2 p = files d p" "files d2 ?t = Some \<lparr>fcontent = [], fperm = perm\<rparr>"
        using tmp [OF d1(1,2)] d1 ne by (auto simp: os_chmod_def split: if_splits)
      obtain ok d3 where w: "os_write env ?t data d2 = (ok, d3)" by fastforce
      then have d3: "always ?P d d3" "files d3 p = files d p"
        "ok \<Longrightarrow> files d3 ?t = Some \<lparr>fcontent = data, fperm = perm\<rparr>"
        using tmp [OF d2(1,2)] d2 ne by (auto simp: os_write_def split: if_splits)
      show ?thesis
      proof (cases "ok \<and> \<not> fails env SysSync \<and> \<not> fails env SysClose")
        case False
        then show ?thesis using c Some chm w rem [OF d3(1,2)]
          by (auto simp: write_tmp_rename_def Let_def split: if_splits)
      next
        case True
        then have c': "(case os_rename env ?t p d3 of None \<Rightarrow> (False, d3) | Some d4 \<Rightarrow> (True, d4)) = (r, d')"
          using c Some chm w by (simp add: write_tmp_rename_def)
        show ?thesis
        proof (cases "os_rename env ?t p d3")
          case None
          then show ?thesis using c' d3 by simp
        next
          case (Some d4)
          then have d4: "d4 = set_files ((files d3)(?t := None, p \<mapsto> \<lparr>fcontent = data, fperm = perm\<rparr>)) d3"
            using True d3(3) by (auto simp: os_rename_def split: if_splits)
          have "always ?P d d4" unfolding d4 using d3(1)
            by (rule always_set_files) (use always_files [OF d3(1)] in auto)
          then show ?thesis using c' Some d4 by auto
        qed
      qed
    qed
  qed
qed

interpretation pem_file: atomic_commit "write_tmp_rename perm" perm for perm
proof
  fix env p data d ok d' q assume c: "write_tmp_rename perm env p data d = (ok, d')"
  show "tmp_name env \<noteq> p \<Longrightarrow> always (\<lambda>f. f p = files d p \<or> f p = Some \<lparr>fcontent = data, fperm = perm\<rparr>) d d'"
    using write_tmp_rename_states [OF c] by (auto elim!: always_mono)
  show "tmp_name env \<noteq> p \<Longrightarrow> files d' p = (if ok then Some \<lparr>fcontent = data, fperm = perm\<rparr> else files d p)"
    using write_tmp_rename_states [OF c] by simp
  show "files d' q = files d q" if "q \<noteq> p" "q \<noteq> tmp_name env"
    using c that by (auto simp: write_tmp_rename_def os_defs Let_def split: option.splits prod.splits if_splits)
qed

subsection \<open>Properties\<close>

lemma Join_dir_file: "plain_elem w \<Longrightarrow> last (path_elems (Join [dir, w])) = w"
proof -
  assume w: "plain_elem w"
  then have ns: "slash \<notin> set w" "w \<noteq> []" by (auto simp: plain_elem_def)
  show ?thesis
  proof (cases "dir = []")
    case True
    then have "Join [dir, w] = Clean w" using ns by (simp add: Join_def)
    then show ?thesis using w ns clean_elems_id_plain [of "[w]"]
      by (simp add: path_elems_Clean Split_no_sep)
  next
    case False
    then have "Join [dir, w] = Clean (dir @ slash # w)" by (simp add: Join_def)
    then show ?thesis by (simp add: path_elems_Clean Split_snoc_sep ns clean_elems_snoc w)
  qed
qed

lemma cert_ne_key: "Join [dir, certFile] \<noteq> Join [dir, keyFile]"
proof
  assume "Join [dir, certFile] = Join [dir, keyFile]"
  then have "last (path_elems (Join [dir, certFile])) = last (path_elems (Join [dir, keyFile]))" by simp
  moreover have "plain_elem certFile" "plain_elem keyFile"
    by (simp_all add: plain_elem_def certFile_def keyFile_def)
  ultimately have "certFile = keyFile" using Join_dir_file by metis
  then show False by (simp add: certFile_def keyFile_def)
qed

lemma pem_Encode_not_Nil [simp]: "pem_Encode ty data \<noteq> []"
  by (simp add: pem_Encode_def)

text \<open>
  An existing certificate or key is never overwritten: if either file is there and not
  empty, the call changes no file, and it either loads the pair or reports it as unusable.
\<close>

theorem cert_never_overwritten:
  assumes "fileExists envK (Join [tlsDir, certFile]) d \<or> fileExists envK (Join [tlsDir, keyFile]) d"
  shows "snd (loadOrCreateCert lib envK envC tlsDir d) = d \<and>
    (\<forall>r. fst (loadOrCreateCert lib envK envC tlsDir d) = Inr r \<longrightarrow>
       LoadX509KeyPair lib envK (Join [tlsDir, certFile]) (Join [tlsDir, keyFile]) d = Some (fst r) \<and> \<not> snd r) \<and>
    (\<forall>e. fst (loadOrCreateCert lib envK envC tlsDir d) = Inl e \<longrightarrow> e = ErrTLSCert)"
  using assms by (auto simp: loadOrCreateCert_def Let_def split: option.splits)

definition tls_env :: osenv where
  "tls_env = \<lparr>fails = (\<lambda>_. False), tmp_name = ''/etc/tls/.raxd-tls-1.tmp'', written_before_fail = 0\<rparr>"

definition tls_lib :: "string x509_lib" where
  "tls_lib =
     \<lparr>GenerateKey = Some ''key'', rand_Int = (\<lambda>n. Some 7), x_now = 0,
      CreateCertificate = (\<lambda>tmpl priv. Some ''cert''), MarshalPKCS8PrivateKey = (\<lambda>priv. Some ''priv''),
      LoadX509 = (\<lambda>c k. Some ''pair'')\<rparr>"

lemma LoadX509_tls_lib: "LoadX509 tls_lib c k = Some ''pair''"
  by (simp add: tls_lib_def)

lemma tls_lib_generate: "generate tls_lib = Some (''cert'', ''priv'')"
  by (simp add: generate_def tls_lib_def)

definition half_tls :: disk where
  "half_tls = \<lparr>files = [''/etc/tls/cert.pem'' \<mapsto> \<lparr>fcontent = ''x'', fperm = 0x1A4\<rparr>], hist = []\<rparr>"

lemma tls_paths: "Join [''/etc/tls'', certFile] = ''/etc/tls/cert.pem''" "Join [''/etc/tls'', keyFile] = ''/etc/tls/key.pem''"
  by (simp_all add: certFile_def keyFile_def Join_def Clean_def Let_def)

theorem cert_never_overwritten_witness:
  "snd (loadOrCreateCert tls_lib tls_env tls_env ''/etc/tls'' half_tls) = half_tls"
proof -
  have "fileExists tls_env (Join [''/etc/tls'', certFile]) half_tls"
    by (simp add: fileExists_def tls_paths half_tls_def tls_env_def)
  then show ?thesis using cert_never_overwritten [of tls_env "''/etc/tls''" half_tls] by blast
qed

text \<open>
  C39. A generated pair is durable: the certificate file has mode 0644 and holds the encoding
  of a certificate for localhost and 127.0.0.1 over a new key, the key file has mode 0600 and
  holds that key, and the next start loads the same pair without generating or writing anything.
\<close>

theorem cert_generate_then_load:
  assumes "loadOrCreateCert lib envK envC tlsDir d = (Inr (cert, True), d')"
    and "tmp_name envK \<noteq> Join [tlsDir, keyFile]" and "tmp_name envC \<noteq> Join [tlsDir, keyFile]"
    and "tmp_name envC \<noteq> Join [tlsDir, certFile]"
    and "\<not> fails env SysStat" and "\<not> fails env SysRead"
  shows "(\<exists>serial priv certDER privDER tmpl.
      GenerateKey lib = Some priv \<and> rand_Int lib (2 ^ 128) = Some serial \<and> tmpl = certTemplate serial (x_now lib) \<and>
      DNSNames tmpl = [''localhost''] \<and> IPAddresses tmpl = [''127.0.0.1''] \<and> NotBefore tmpl < x_now lib \<and> x_now lib < NotAfter tmpl \<and>
      CreateCertificate lib tmpl priv = Some certDER \<and> MarshalPKCS8PrivateKey lib priv = Some privDER \<and>
      files d' (Join [tlsDir, certFile]) = Some \<lparr>fcontent = pem_Encode ''CERTIFICATE'' certDER, fperm = 0x1A4\<rparr> \<and>
      files d' (Join [tlsDir, keyFile]) = Some \<lparr>fcontent = pem_Encode ''PRIVATE KEY'' privDER, fperm = 0x180\<rparr>) \<and>
    loadOrCreateCert lib env env2 tlsDir d' = (Inr (cert, False), d')"
proof -
  let ?c = "Join [tlsDir, certFile]" and ?k = "Join [tlsDir, keyFile]"
  obtain certDER privDER d1 where g: "generate lib = Some (certDER, privDER)"
    "writePEM envK ?k ''PRIVATE KEY'' privDER 0x180 d = (True, d1)"
    "writePEM envC ?c ''CERTIFICATE'' certDER 0x1A4 d1 = (True, d')"
    "LoadX509KeyPair lib envC ?c ?k d' = Some cert"
    using assms(1)
    by (auto simp: loadOrCreateCert_def generateSelfSigned_def Let_def
        split: if_splits option.splits sum.splits prod.splits bool.splits)
  have k1: "files d1 ?k = Some \<lparr>fcontent = pem_Encode ''PRIVATE KEY'' privDER, fperm = 0x180\<rparr>"
    using pem_file.commit_result [OF g(2) [unfolded writePEM_def] assms(2)] by simp
  have c: "files d' ?c = Some \<lparr>fcontent = pem_Encode ''CERTIFICATE'' certDER, fperm = 0x1A4\<rparr>"
    using pem_file.commit_result [OF g(3) [unfolded writePEM_def] assms(4)] by simp
  have k: "files d' ?k = files d1 ?k"
    using pem_file.commit_frame [OF g(3) [unfolded writePEM_def]] cert_ne_key assms(3) by metis
  have "loadOrCreateCert lib env env2 tlsDir d' = (Inr (cert, False), d')"
    using g(4) k1 c k assms(5,6)
    by (auto simp: loadOrCreateCert_def Let_def fileExists_def LoadX509KeyPair_def split: if_splits)
  moreover obtain priv serial where "GenerateKey lib = Some priv" "rand_Int lib (2 ^ 128) = Some serial"
    "CreateCertificate lib (certTemplate serial (x_now lib)) priv = Some certDER"
    "MarshalPKCS8PrivateKey lib priv = Some privDER"
    using g(1) by (auto simp: generate_def split: option.splits)
  ultimately show ?thesis using k1 c k by (auto simp: certTemplate_def)
qed

definition tls_env2 :: osenv where
  "tls_env2 = tls_env\<lparr>tmp_name := ''/etc/tls/.raxd-tls-2.tmp''\<rparr>"

definition empty_tls :: disk where
  "empty_tls = \<lparr>files = [''/etc/tls/cert.pem'' \<mapsto> \<lparr>fcontent = [], fperm = 0x1A4\<rparr>,
     ''/etc/tls/key.pem'' \<mapsto> \<lparr>fcontent = [], fperm = 0x180\<rparr>], hist = []\<rparr>"

lemma empty_tls_run: "fst (loadOrCreateCert tls_lib tls_env tls_env2 ''/etc/tls'' empty_tls) = Inr (''pair'', True)"
  by (simp add: loadOrCreateCert_def tls_paths fileExists_def generateSelfSigned_def writePEM_def
      write_tmp_rename_def os_defs LoadX509KeyPair_def empty_tls_def tls_env_def tls_env2_def tls_lib_generate LoadX509_tls_lib Let_def)

theorem cert_generate_then_load_witness:
  "fst (loadOrCreateCert tls_lib tls_env tls_env ''/etc/tls''
      (snd (loadOrCreateCert tls_lib tls_env tls_env2 ''/etc/tls'' empty_tls))) = Inr (''pair'', False)"
proof -
  let ?r = "loadOrCreateCert tls_lib tls_env tls_env2 ''/etc/tls'' empty_tls"
  have r: "?r = (Inr (''pair'', True), snd ?r)" using empty_tls_run by (simp add: prod_eq_iff)
  have "tmp_name tls_env \<noteq> Join [''/etc/tls'', keyFile]" "tmp_name tls_env2 \<noteq> Join [''/etc/tls'', keyFile]"
    "tmp_name tls_env2 \<noteq> Join [''/etc/tls'', certFile]" "\<not> fails tls_env SysStat" "\<not> fails tls_env SysRead"
    by (simp_all add: tls_paths tls_env_def tls_env2_def)
  from cert_generate_then_load [OF r this, of tls_env] show ?thesis by simp
qed

text \<open>
  Two empty files are not reported as corrupt: they count as absent, a new pair is
  generated and both files are overwritten.
\<close>

theorem cert_empty_files_overwritten:
  "fst (loadOrCreateCert tls_lib tls_env tls_env2 ''/etc/tls'' empty_tls) = Inr (''pair'', True) \<and>
   files (snd (loadOrCreateCert tls_lib tls_env tls_env2 ''/etc/tls'' empty_tls)) ''/etc/tls/key.pem'' \<noteq>
     files empty_tls ''/etc/tls/key.pem''"
proof
  show "fst (loadOrCreateCert tls_lib tls_env tls_env2 ''/etc/tls'' empty_tls) = Inr (''pair'', True)"
    by (rule empty_tls_run)
  show "files (snd (loadOrCreateCert tls_lib tls_env tls_env2 ''/etc/tls'' empty_tls)) ''/etc/tls/key.pem'' \<noteq>
     files empty_tls ''/etc/tls/key.pem''"
    by (simp add: loadOrCreateCert_def tls_paths fileExists_def generateSelfSigned_def writePEM_def
      write_tmp_rename_def os_defs LoadX509KeyPair_def empty_tls_def tls_env_def tls_env2_def tls_lib_generate LoadX509_tls_lib Let_def)
qed

end
