(* ===== verification/Server.thy ===== *)
theory Server
  imports Keystore AuditLog RateLimit GoPath Tls
begin

section \<open>The HTTP server (\<open>internal/server\<close>)\<close>

text \<open>
  The middleware chain and the routes. A handler takes a request, the values
  that the middleware put into the context, and the server's state (key store, limiters,
  audit records written so far, and the state \<open>st_ext\<close> of whatever the MCP handler works
  on), and returns a response or a panic with the new state. The middleware functions wrap
  handlers as in the code, and \<open>serve\<close> is the handler that \<^verbatim>\<open>New\<close> installs. Of an answer the
  status and the body are modelled; the body of a redirect, a link to the cleaned path, is not.

  From outside come the clock, the disk and its faults, the Unicode case tables for host
  names that are not ASCII, and \<^verbatim>\<open>url.Parse\<close> followed by \<^verbatim>\<open>Hostname\<close> for the \<^verbatim>\<open>Origin\<close> header.
\<close>

record request =
  rq_Host :: string
  rq_Header :: "string \<Rightarrow> string"
  rq_RemoteAddr :: string
  rq_Method :: string
  rq_Path :: string
  rq_Body :: bytes
  rq_Limit :: "int option"

record ctx =
  cx_fp :: "string option"
  cx_keyID :: "string option"
  cx_remote :: "string option"

record 'x sstate =
  st_store :: Store
  st_limiters :: Limiters
  st_audit :: "AuditRecord list"
  st_ext :: 'x

record server_env =
  se_json :: json
  se_os :: osenv
  se_disk :: disk
  se_now :: gotime
  se_t1 :: gotime
  se_t2 :: gotime
  se_uni :: "string \<Rightarrow> string"
  se_hostname :: "string \<Rightarrow> string option"

datatype outcome = Resp nat string | Panicked

type_synonym 'x handler = "request \<Rightarrow> ctx \<Rightarrow> 'x sstate \<Rightarrow> outcome \<times> 'x sstate"

definition http_Error :: "nat \<Rightarrow> outcome" where
  "http_Error code = Resp code [CHR 0x0A]"

definition auditFn :: "AuditRecord \<Rightarrow> 'x sstate \<Rightarrow> 'x sstate" where
  "auditFn rec s = s\<lparr>st_audit := st_audit s @ [rec]\<rparr>"

subsection \<open>Context (auth.go)\<close>

definition fingerprintFromCtx :: "ctx \<Rightarrow> string" where
  "fingerprintFromCtx c = (case cx_fp c of Some fp \<Rightarrow> if fp \<noteq> [] then fp else ''-'' | None \<Rightarrow> ''-'')"

definition remoteAddrFromCtx :: "ctx \<Rightarrow> string" where
  "remoteAddrFromCtx c = (case cx_remote c of Some a \<Rightarrow> if a \<noteq> [] then a else ''-'' | None \<Rightarrow> ''-'')"

definition bearerToken :: "request \<Rightarrow> string option" where
  "bearerToken r =
     (let auth = rq_Header r ''Authorization'' in
      if auth = [] then None
      else if \<not> HasPrefix auth ''Bearer '' then None
      else let token = TrimSpace (TrimPrefix auth ''Bearer '') in
           if token = [] then None else Some token)"

subsection \<open>Host, origin and addresses (middleware.go)\<close>

definition contains :: "(string \<Rightarrow> string) \<Rightarrow> string list \<Rightarrow> string \<Rightarrow> bool" where
  "contains uni entries s = list_ex (\<lambda>v. ToLower uni v = ToLower uni s) entries"

definition originAllowed :: "server_env \<Rightarrow> string \<Rightarrow> string list \<Rightarrow> bool" where
  "originAllowed env origin allow =
     (case se_hostname env origin of
        None \<Rightarrow> False
      | Some h \<Rightarrow>
          let hostname = ToLower (se_uni env) h in
          if hostname = [] then False else contains (se_uni env) allow hostname)"

definition remoteIP :: "request \<Rightarrow> string" where
  "remoteIP r = rq_RemoteAddr r"

definition ipOnly :: "string \<Rightarrow> string" where
  "ipOnly addr = (case SplitHostPort addr of None \<Rightarrow> addr | Some (host, _) \<Rightarrow> host)"

definition hostOnly :: "request \<Rightarrow> string" where
  "hostOnly r =
     (let host = (if rq_Host r = [] then rq_Header r ''Host'' else rq_Host r) in
      case SplitHostPort host of None \<Rightarrow> host | Some (h, _) \<Rightarrow> h)"

definition hostOriginMiddleware ::
  "server_env \<Rightarrow> string list \<Rightarrow> string list \<Rightarrow> 'x handler \<Rightarrow> 'x handler" where
  "hostOriginMiddleware env hostAllow originAllow next r c s =
     (let remote = remoteIP r in
      if \<not> contains (se_uni env) hostAllow (hostOnly r) then
        (http_Error 403,
         auditFn (emptyAudit\<lparr>a_Fingerprint := ''-'', a_RemoteAddr := remote, a_Result := ''deny'',
                            a_Reason := ''invalid host header''\<rparr>) s)
      else
        let origin = rq_Header r ''Origin'' in
        if origin \<noteq> [] \<and> \<not> originAllowed env origin originAllow then
          (http_Error 403,
           auditFn (emptyAudit\<lparr>a_Fingerprint := ''-'', a_RemoteAddr := remote, a_Result := ''deny'',
                              a_Reason := ''invalid origin header''\<rparr>) s)
        else next r c s)"

definition bodyLimitMiddleware :: "int \<Rightarrow> 'x handler \<Rightarrow> 'x handler" where
  "bodyLimitMiddleware limit next r c s = next (r\<lparr>rq_Limit := Some limit\<rparr>) c s"

text \<open>
  Reading the body through \<^verbatim>\<open>http.MaxBytesReader\<close>: an error after \<open>limit\<close> bytes; a negative
  limit counts as zero.
\<close>

definition readBody :: "request \<Rightarrow> bytes + bytes" where
  "readBody r =
     (case rq_Limit r of
        None \<Rightarrow> Inr (rq_Body r)
      | Some limit \<Rightarrow>
          if max 0 limit < int (length (rq_Body r)) then Inl (take (nat limit) (rq_Body r)) else Inr (rq_Body r))"

definition recoverMiddleware :: "'x handler \<Rightarrow> 'x handler" where
  "recoverMiddleware next r c s =
     (case next r c s of
        (Panicked, s') \<Rightarrow> (http_Error 500, s')
      | res \<Rightarrow> res)"

subsection \<open>Authentication (auth.go)\<close>

definition authMiddleware :: "server_env \<Rightarrow> 'x handler \<Rightarrow> 'x handler" where
  "authMiddleware env next r c s =
     (let remote = remoteIP r in
      case bearerToken r of
        None \<Rightarrow>
          (http_Error 401,
           auditFn (emptyAudit\<lparr>a_Fingerprint := ''-'', a_RemoteAddr := remote, a_Result := ''fail'',
                              a_Reason := ''no authorization header''\<rparr>) s)
      | Some token \<Rightarrow>
      (case Verify (se_json env) (se_os env) (se_now env) (st_store s) token (se_disk env) of
        (Inl err, store') \<Rightarrow>
          (let s1 = s\<lparr>st_store := store'\<rparr>;
               fp = (if Is_ErrCorrupt err then ''-'' else Fingerprint token) in
           (http_Error 403,
            auditFn (emptyAudit\<lparr>a_Fingerprint := fp, a_RemoteAddr := remote, a_Result := ''deny'',
                               a_Reason := ''key store unavailable''\<rparr>) s1))
      | (Inr None, store') \<Rightarrow>
          (http_Error 401,
           auditFn (emptyAudit\<lparr>a_Fingerprint := Fingerprint token, a_RemoteAddr := remote, a_Result := ''fail'',
                              a_Reason := ''authentication failed''\<rparr>) (s\<lparr>st_store := store'\<rparr>))
      | (Inr (Some rec), store') \<Rightarrow>
          (let fp = (if r_Fingerprint rec = [] then Fingerprint token else r_Fingerprint rec) in
           next r (c\<lparr>cx_fp := Some fp, cx_keyID := Some (r_ID rec), cx_remote := Some remote\<rparr>)
             (s\<lparr>st_store := store'\<rparr>))))"

definition authSuccessAuditMiddleware :: "'x handler \<Rightarrow> 'x handler" where
  "authSuccessAuditMiddleware next r c s =
     next r c (auditFn (emptyAudit\<lparr>a_Fingerprint := fingerprintFromCtx c, a_RemoteAddr := remoteIP r,
                                  a_Result := ''success''\<rparr>) s)"

definition rateLimitMiddleware :: "server_env \<Rightarrow> 'x handler \<Rightarrow> 'x handler" where
  "rateLimitMiddleware env next r c s =
     (let remote = remoteIP r; fp = fingerprintFromCtx c; ip = ipOnly remote in
      case Allow (se_now env) (se_t1 env) (se_t2 env) fp ip (st_limiters s) of
        (False, l) \<Rightarrow>
          (let reason = (if fp \<noteq> ''-'' then ''rate limit exceeded (key)'' else ''rate limit exceeded (ip)'') in
           (http_Error 429,
            auditFn (emptyAudit\<lparr>a_Fingerprint := fp, a_RemoteAddr := remote, a_Result := ''rate-limited'',
                               a_Reason := reason\<rparr>) (s\<lparr>st_limiters := l\<rparr>)))
      | (True, l) \<Rightarrow> next r c (s\<lparr>st_limiters := l\<rparr>))"

subsection \<open>Routes (handlers.go, server.go)\<close>

definition healthHandler :: "'x handler" where
  "healthHandler r c s = (Resp 200 ''pong'', s)"

definition dispatchHandler :: "'x handler" where
  "dispatchHandler r c s = (Resp 501 ''not implemented'', s)"

text \<open>\<^verbatim>\<open>http.ServeMux\<close>: paths are cleaned with a redirect, \<^verbatim>\<open>GET\<close> patterns match \<^verbatim>\<open>HEAD\<close> too.\<close>

definition cleanPath :: "string \<Rightarrow> string" where
  "cleanPath p =
     (if p = [] then ''/''
      else let p1 = (if HasPrefix p ''/'' then p else slash # p); np = Clean p1 in
           if last p1 = slash \<and> np \<noteq> ''/'' then np @ ''/'' else np)"

definition mux :: "'x handler option \<Rightarrow> 'x handler" where
  "mux mcpHandler r c s =
     (if rq_Method r \<noteq> ''CONNECT'' \<and> cleanPath (rq_Path r) \<noteq> rq_Path r then (Resp 301 [], s)
      else if rq_Path r = ''/healthz'' \<and> (rq_Method r = ''GET'' \<or> rq_Method r = ''HEAD'') then healthHandler r c s
      else case mcpHandler of
             Some h \<Rightarrow> if rq_Path r = ''/mcp'' then h r c s else dispatchHandler r c s
           | None \<Rightarrow> dispatchHandler r c s)"

record server_cfg =
  BindAddr :: string
  Port :: int
  HostAllow :: "string list"
  OriginAllow :: "string list"
  MaxBodyBytes :: int

definition serve :: "server_env \<Rightarrow> server_cfg \<Rightarrow> 'x handler option \<Rightarrow> 'x handler" where
  "serve env cfg mcpHandler =
     bodyLimitMiddleware (MaxBodyBytes cfg)
       (recoverMiddleware
         (hostOriginMiddleware env (HostAllow cfg) (OriginAllow cfg)
           (authMiddleware env
             (rateLimitMiddleware env
               (authSuccessAuditMiddleware (mux mcpHandler))))))"

definition no_ctx :: ctx where
  "no_ctx = \<lparr>cx_fp = None, cx_keyID = None, cx_remote = None\<rparr>"

end
