(* ===== verification/ServerProofs.thy ===== *)
theory ServerProofs
  imports Server KeystoreProofs
begin

section \<open>The request path is correct\<close>

text \<open>
  Each checking middleware is a gate: it either answers by itself, with one audit record and
  without looking at the handler behind it, or it passes the request on without a record.
  The locale \<open>audited_gate\<close> is this contract, \<open>two_gates\<close> says that gates compose, and the
  host, authentication and rate-limit middlewares are interpreted as gates.
\<close>

definition refuses :: "('x handler \<Rightarrow> 'x handler) \<Rightarrow> nat set \<Rightarrow> request \<Rightarrow> ctx \<Rightarrow> 'x sstate \<Rightarrow> bool" where
  "refuses mw codes r c s \<longleftrightarrow>
     (\<exists>code s' rec. code \<in> codes \<and> st_audit s' = st_audit s @ [rec] \<and> a_Result rec \<noteq> ''success'' \<and>
        st_ext s' = st_ext s \<and> (\<forall>next. mw next r c s = (http_Error code, s')))"

definition passes :: "('x handler \<Rightarrow> 'x handler) \<Rightarrow> request \<Rightarrow> ctx \<Rightarrow> 'x sstate \<Rightarrow> ctx \<Rightarrow> 'x sstate \<Rightarrow> bool" where
  "passes mw r c s c' s' \<longleftrightarrow>
     st_audit s' = st_audit s \<and> st_ext s' = st_ext s \<and> (\<forall>next. mw next r c s = next r c' s')"

lemma refuses_audit:
  "(\<And>next. mw next r c s = (http_Error code, auditFn rec s0)) \<Longrightarrow> code \<in> codes \<Longrightarrow>
   st_audit s0 = st_audit s \<Longrightarrow> st_ext s0 = st_ext s \<Longrightarrow> a_Result rec \<noteq> ''success'' \<Longrightarrow>
   refuses mw codes r c s"
  unfolding refuses_def
  by (intro exI [of _ code] exI [of _ "auditFn rec s0"] exI [of _ rec]) (simp add: auditFn_def)

lemma passes_next:
  "(\<And>next. mw next r c s = next r c' s') \<Longrightarrow> st_audit s' = st_audit s \<Longrightarrow> st_ext s' = st_ext s \<Longrightarrow>
   \<exists>c' s'. passes mw r c s c' s'"
  unfolding passes_def by blast

locale audited_gate =
  fixes mw :: "'x handler \<Rightarrow> 'x handler"
    and codes :: "nat set"
  assumes gate: "refuses mw codes r c s \<or> (\<exists>c' s'. passes mw r c s c' s')"
begin

lemma gate_cases:
  obtains (refused) code s' rec where "code \<in> codes" "st_audit s' = st_audit s @ [rec]"
      "a_Result rec \<noteq> ''success''" "st_ext s' = st_ext s" "\<And>next. mw next r c s = (http_Error code, s')"
  | (passed) c' s' where "passes mw r c s c' s'"
  using gate [of r c s] unfolding refuses_def by blast

lemma depends_only_if_passed: "mw h1 r c s \<noteq> mw h2 r c s \<Longrightarrow> \<exists>c' s'. passes mw r c s c' s'"
  by (rule gate_cases [of s r c]) auto

end

locale two_gates = outer: audited_gate mw1 codes1 + inner: audited_gate mw2 codes2
  for mw1 mw2 :: "'x handler \<Rightarrow> 'x handler" and codes1 codes2
begin

lemma composed: "refuses (\<lambda>next. mw1 (mw2 next)) (codes1 \<union> codes2) r c s \<or>
    (\<exists>c' s'. passes (\<lambda>next. mw1 (mw2 next)) r c s c' s')"
proof (rule outer.gate_cases [of s r c])
  fix code s' rec
  assume "code \<in> codes1" "st_audit s' = st_audit s @ [rec]" "a_Result rec \<noteq> ''success''" "st_ext s' = st_ext s"
    "\<And>next. mw1 next r c s = (http_Error code, s')"
  then show ?thesis unfolding refuses_def by blast
next
  fix c1 s1 assume p: "passes mw1 r c s c1 s1"
  show ?thesis
  proof (rule inner.gate_cases [of s1 r c1])
    fix code s' rec
    assume "code \<in> codes2" "st_audit s' = st_audit s1 @ [rec]" "a_Result rec \<noteq> ''success''" "st_ext s' = st_ext s1"
      "\<And>next. mw2 next r c1 s1 = (http_Error code, s')"
    then have "refuses (\<lambda>next. mw1 (mw2 next)) (codes1 \<union> codes2) r c s"
      using p unfolding refuses_def passes_def
      by (intro exI [of _ code] exI [of _ s'] exI [of _ rec]) simp
    then show ?thesis by blast
  next
    fix c2 s2 assume "passes mw2 r c1 s1 c2 s2"
    then have "passes (\<lambda>next. mw1 (mw2 next)) r c s c2 s2" using p unfolding passes_def by simp
    then show ?thesis by blast
  qed
qed

end

sublocale two_gates \<subseteq> both: audited_gate "\<lambda>next. mw1 (mw2 next)" "codes1 \<union> codes2"
  by unfold_locales (rule composed)

interpretation host_gate: audited_gate "hostOriginMiddleware env hosts origins" "{403}" for env hosts origins
proof
  fix r c and s :: "'a sstate"
  consider "\<not> contains (se_uni env) hosts (hostOnly r)"
    | "contains (se_uni env) hosts (hostOnly r)" "rq_Header r ''Origin'' \<noteq> []" "\<not> originAllowed env (rq_Header r ''Origin'') origins"
    | "contains (se_uni env) hosts (hostOnly r)" "rq_Header r ''Origin'' = [] \<or> originAllowed env (rq_Header r ''Origin'') origins"
    by blast
  then show "refuses (hostOriginMiddleware env hosts origins) {403} r c s \<or>
      (\<exists>c' s'. passes (hostOriginMiddleware env hosts origins) r c s c' s')"
  proof cases
    case 1
    have "hostOriginMiddleware env hosts origins nxt r c s = (http_Error 403, auditFn (emptyAudit\<lparr>a_Fingerprint := ''-'', a_RemoteAddr := remoteIP r, a_Result := ''deny'',
        a_Reason := ''invalid host header''\<rparr>) s)" for nxt
      using 1 by (simp add: hostOriginMiddleware_def)
    then have "refuses (hostOriginMiddleware env hosts origins) {403} r c s" by (rule refuses_audit) simp_all
    then show ?thesis by blast
  next
    case 2
    have "hostOriginMiddleware env hosts origins nxt r c s = (http_Error 403, auditFn (emptyAudit\<lparr>a_Fingerprint := ''-'', a_RemoteAddr := remoteIP r, a_Result := ''deny'',
        a_Reason := ''invalid origin header''\<rparr>) s)" for nxt
      using 2 by (simp add: hostOriginMiddleware_def)
    then have "refuses (hostOriginMiddleware env hosts origins) {403} r c s" by (rule refuses_audit) simp_all
    then show ?thesis by blast
  next
    case 3
    have "hostOriginMiddleware env hosts origins nxt r c s = nxt r c s" for nxt
      using 3 by (auto simp: hostOriginMiddleware_def)
    then have "\<exists>c' s'. passes (hostOriginMiddleware env hosts origins) r c s c' s'" by (rule passes_next) simp_all
    then show ?thesis by blast
  qed
qed

interpretation auth_gate: audited_gate "authMiddleware env" "{401, 403}" for env
proof
  fix r c and s :: "'a sstate"
  show "refuses (authMiddleware env) {401, 403} r c s \<or> (\<exists>c' s'. passes (authMiddleware env) r c s c' s')"
  proof (cases "bearerToken r")
    case None
    have "authMiddleware env nxt r c s = (http_Error 401, auditFn (emptyAudit\<lparr>a_Fingerprint := ''-'', a_RemoteAddr := remoteIP r, a_Result := ''fail'',
        a_Reason := ''no authorization header''\<rparr>) s)" for nxt
      using None by (simp add: authMiddleware_def)
    then have "refuses (authMiddleware env) {401, 403} r c s" by (rule refuses_audit) simp_all
    then show ?thesis by blast
  next
    case tok: (Some token)
    obtain res st where v: "Verify (se_json env) (se_os env) (se_now env) (st_store s) token (se_disk env) = (res, st)"
      by fastforce
    show ?thesis
    proof (cases res)
      case (Inl err)
    have "authMiddleware env nxt r c s = (http_Error 403, auditFn (emptyAudit\<lparr>a_Fingerprint := (if Is_ErrCorrupt err then ''-'' else Fingerprint token), a_RemoteAddr := remoteIP r, a_Result := ''deny'',
        a_Reason := ''key store unavailable''\<rparr>) (s\<lparr>st_store := st\<rparr>))" for nxt
      using tok v Inl by (simp add: authMiddleware_def Let_def)
    then have "refuses (authMiddleware env) {401, 403} r c s" by (rule refuses_audit) simp_all
    then show ?thesis by blast
    next
      case (Inr found)
      show ?thesis
      proof (cases found)
        case None
    have "authMiddleware env nxt r c s = (http_Error 401, auditFn (emptyAudit\<lparr>a_Fingerprint := Fingerprint token, a_RemoteAddr := remoteIP r, a_Result := ''fail'',
        a_Reason := ''authentication failed''\<rparr>) (s\<lparr>st_store := st\<rparr>))" for nxt
      using tok v Inr None by (simp add: authMiddleware_def)
    then have "refuses (authMiddleware env) {401, 403} r c s" by (rule refuses_audit) simp_all
    then show ?thesis by blast
      next
        case (Some rec)
    have "authMiddleware env nxt r c s = nxt r (c\<lparr>cx_fp := Some (if r_Fingerprint rec = [] then Fingerprint token else r_Fingerprint rec),
        cx_keyID := Some (r_ID rec), cx_remote := Some (remoteIP r)\<rparr>) (s\<lparr>st_store := st\<rparr>)" for nxt
      using tok v Inr Some by (auto simp: authMiddleware_def Let_def)
    then have "\<exists>c' s'. passes (authMiddleware env) r c s c' s'" by (rule passes_next) simp_all
    then show ?thesis by blast
      qed
    qed
  qed
qed

interpretation rate_gate: audited_gate "rateLimitMiddleware env" "{429}" for env
proof
  fix r c and s :: "'a sstate"
  obtain ok l where a: "Allow (se_now env) (se_t1 env) (se_t2 env) (fingerprintFromCtx c) (ipOnly (remoteIP r)) (st_limiters s) = (ok, l)"
    by fastforce
  show "refuses (rateLimitMiddleware env) {429} r c s \<or> (\<exists>c' s'. passes (rateLimitMiddleware env) r c s c' s')"
  proof (cases ok)
    case True
    have "rateLimitMiddleware env nxt r c s = nxt r c (s\<lparr>st_limiters := l\<rparr>)" for nxt
      using a True by (auto simp: rateLimitMiddleware_def)
    then have "\<exists>c' s'. passes (rateLimitMiddleware env) r c s c' s'" by (rule passes_next) simp_all
    then show ?thesis by blast
  next
    case False
    have "rateLimitMiddleware env nxt r c s = (http_Error 429, auditFn (emptyAudit\<lparr>a_Fingerprint := fingerprintFromCtx c, a_RemoteAddr := remoteIP r, a_Result := ''rate-limited'',
        a_Reason := (if fingerprintFromCtx c \<noteq> ''-'' then ''rate limit exceeded (key)'' else ''rate limit exceeded (ip)'')\<rparr>) (s\<lparr>st_limiters := l\<rparr>))" for nxt
      using a False by (simp add: rateLimitMiddleware_def Let_def)
    then have "refuses (rateLimitMiddleware env) {429} r c s" by (rule refuses_audit) simp_all
    then show ?thesis by blast
  qed
qed

interpretation auth_rate: two_gates "authMiddleware env" "rateLimitMiddleware env" "{401, 403}" "{429}" for env
  ..

interpretation chain: two_gates "hostOriginMiddleware env hosts origins"
  "\<lambda>next. authMiddleware env (rateLimitMiddleware env next)" "{403}" "{401, 403} \<union> {429}" for env hosts origins
  ..

definition gates :: "server_env \<Rightarrow> server_cfg \<Rightarrow> 'x handler \<Rightarrow> 'x handler" where
  "gates env cfg next =
     hostOriginMiddleware env (HostAllow cfg) (OriginAllow cfg)
       (authMiddleware env (rateLimitMiddleware env next))"

lemma serve_gates:
  "serve env cfg h r c s =
     recoverMiddleware (gates env cfg (authSuccessAuditMiddleware (mux h))) (r\<lparr>rq_Limit := Some (MaxBodyBytes cfg)\<rparr>) c s"
  by (simp add: serve_def bodyLimitMiddleware_def gates_def [abs_def] recoverMiddleware_def)

lemma gates_cases:
  obtains (refused) code s' rec where "code \<in> {401, 403, 429}" "st_audit s' = st_audit s @ [rec]"
      "a_Result rec \<noteq> ''success''" "st_ext s' = st_ext s" "\<And>next. gates env cfg next r c s = (http_Error code, s')"
  | (passed) c' s' where "st_audit s' = st_audit s" "st_ext s' = st_ext s" "\<And>next. gates env cfg next r c s = next r c' s'"
  by (rule chain.both.gate_cases [of s env "HostAllow cfg" "OriginAllow cfg" r c])
    (auto simp: gates_def passes_def)

end
