(* ===== verification/ServerProps.thy ===== *)
theory ServerProps
  imports ServerProofs KeystoreProps
begin

section \<open>Properties of the server\<close>

text \<open>
  The properties of the request path: one audit record per request, no handler before the
  checks, the answers to refused requests, and which limit a rate refusal names.
\<close>

lemma mux_appends:
  assumes "\<And>h r c s. mcp = Some h \<Longrightarrow> \<exists>more. st_audit (snd (h r c s)) = st_audit s @ more"
  shows "\<exists>more. st_audit (snd (mux mcp r c s)) = st_audit s @ more \<and>
    (more \<noteq> [] \<longrightarrow> mcp \<noteq> None \<and> rq_Path r = ''/mcp'')"
proof (cases "\<exists>h. mcp = Some h \<and> mux mcp r c s = h r c s \<and> rq_Path r = ''/mcp''")
  case True
  then show ?thesis using assms by (metis option.distinct(1))
next
  case False
  then have "st_audit (snd (mux mcp r c s)) = st_audit s"
    by (auto simp: mux_def healthHandler_def dispatchHandler_def split: option.splits)
  then show ?thesis by simp
qed

lemma recover_snd: "snd (recoverMiddleware next r c s) = snd (next r c s)"
  by (auto simp: recoverMiddleware_def split: prod.splits outcome.splits)

lemma recover_no_panic: "fst (recoverMiddleware next r c s) \<noteq> Panicked"
  by (auto simp: recoverMiddleware_def http_Error_def split: prod.splits outcome.splits)

text \<open>
  What the checks ask of a request, without the order of the gates: the host is allowed, a given
  origin is allowed, the bearer token is the one of an active key, and both rate limits have a token.
\<close>

definition checks_pass :: "server_env \<Rightarrow> server_cfg \<Rightarrow> request \<Rightarrow> 'x sstate \<Rightarrow> bool" where
  "checks_pass env cfg r s \<longleftrightarrow>
     contains (se_uni env) (HostAllow cfg) (hostOnly r) \<and>
     (rq_Header r ''Origin'' = [] \<or> originAllowed env (rq_Header r ''Origin'') (OriginAllow cfg)) \<and>
     (case bearerToken r of
        None \<Rightarrow> False
      | Some token \<Rightarrow>
          (case fst (Verify (se_json env) (se_os env) (se_now env) (st_store s) token (se_disk env)) of
             Inr (Some k) \<Rightarrow>
               fst (Allow (se_now env) (se_t1 env) (se_t2 env)
                 (fingerprintFromCtx \<lparr>cx_fp = Some (if r_Fingerprint k = [] then Fingerprint token else r_Fingerprint k),
                    cx_keyID = Some (r_ID k), cx_remote = Some (rq_RemoteAddr r)\<rparr>)
                 (ipOnly (rq_RemoteAddr r)) (st_limiters s))
           | _ \<Rightarrow> False))"

lemma checks_pass_limit [simp]: "checks_pass env cfg (r\<lparr>rq_Limit := l\<rparr>) s = checks_pass env cfg r s"
proof -
  have "hostOnly (r\<lparr>rq_Limit := l\<rparr>) = hostOnly r" "bearerToken (r\<lparr>rq_Limit := l\<rparr>) = bearerToken r"
    by (simp_all add: hostOnly_def bearerToken_def)
  moreover have "rq_Header (r\<lparr>rq_Limit := l\<rparr>) = rq_Header r" "rq_RemoteAddr (r\<lparr>rq_Limit := l\<rparr>) = rq_RemoteAddr r"
    by simp_all
  ultimately show ?thesis by (simp only: checks_pass_def)
qed

lemma gates_open:
  assumes "checks_pass env cfg r s"
  shows "\<exists>c' s'. \<forall>next. gates env cfg next r c s = next r c' s'"
proof -
  obtain token k where t: "bearerToken r = Some token"
      "fst (Verify (se_json env) (se_os env) (se_now env) (st_store s) token (se_disk env)) = Inr (Some k)"
    using assms by (auto simp: checks_pass_def split: option.splits sum.splits)
  then obtain st where v: "Verify (se_json env) (se_os env) (se_now env) (st_store s) token (se_disk env) = (Inr (Some k), st)"
    by (metis prod.collapse)
  let ?c = "c\<lparr>cx_fp := Some (if r_Fingerprint k = [] then Fingerprint token else r_Fingerprint k),
    cx_keyID := Some (r_ID k), cx_remote := Some (rq_RemoteAddr r)\<rparr>"
  obtain l where l: "Allow (se_now env) (se_t1 env) (se_t2 env) (fingerprintFromCtx ?c) (ipOnly (rq_RemoteAddr r)) (st_limiters s) = (True, l)"
    using assms t by (auto simp: checks_pass_def fingerprintFromCtx_def prod_eq_iff)
  have "gates env cfg nxt r c s = authMiddleware env (rateLimitMiddleware env nxt) r c s" for nxt
    using assms by (auto simp: checks_pass_def gates_def hostOriginMiddleware_def Let_def)
  then have "gates env cfg nxt r c s = nxt r ?c (s\<lparr>st_store := st, st_limiters := l\<rparr>)" for nxt
    using t(1) v l by (simp add: authMiddleware_def rateLimitMiddleware_def remoteIP_def Let_def)
  then show ?thesis by blast
qed

lemma gates_closed:
  assumes "\<not> checks_pass env cfg r s"
  shows "gates env cfg n1 r c s = gates env cfg n2 r c s"
proof (cases "contains (se_uni env) (HostAllow cfg) (hostOnly r) \<and>
    (rq_Header r ''Origin'' = [] \<or> originAllowed env (rq_Header r ''Origin'') (OriginAllow cfg))")
  case True
  have "rateLimitMiddleware env n1 r (c\<lparr>cx_fp := Some (if r_Fingerprint k = [] then Fingerprint token else r_Fingerprint k),
      cx_keyID := Some (r_ID k), cx_remote := Some (rq_RemoteAddr r)\<rparr>) (s\<lparr>st_store := st\<rparr>) =
    rateLimitMiddleware env n2 r (c\<lparr>cx_fp := Some (if r_Fingerprint k = [] then Fingerprint token else r_Fingerprint k),
      cx_keyID := Some (r_ID k), cx_remote := Some (rq_RemoteAddr r)\<rparr>) (s\<lparr>st_store := st\<rparr>)"
    if "bearerToken r = Some token"
      "Verify (se_json env) (se_os env) (se_now env) (st_store s) token (se_disk env) = (Inr (Some k), st)" for token k st
    using assms True that
    by (auto simp: checks_pass_def rateLimitMiddleware_def remoteIP_def fingerprintFromCtx_def Let_def split: prod.splits bool.splits)
  then show ?thesis using True
    by (auto simp: gates_def hostOriginMiddleware_def authMiddleware_def remoteIP_def Let_def
        split: option.splits sum.splits prod.splits)
qed (auto simp: gates_def hostOriginMiddleware_def Let_def)

text \<open>
  C11. Every request leaves exactly one transport record in the audit log, before whatever
  the MCP handler adds: a success record if and only if the request passes every check, and
  more than one record only for a request to \<^verbatim>\<open>/mcp\<close> that passes. A request that does not pass
  is answered 401, 403 or 429 and has no effect behind the gates. A panic of a handler is
  answered, it does not escape.
\<close>

theorem one_transport_record:
  assumes "\<And>h r c s. mcp = Some h \<Longrightarrow> \<exists>more. st_audit (snd (h r c s)) = st_audit s @ more"
  shows "\<exists>rec more. st_audit (snd (serve env cfg mcp r c s)) = st_audit s @ rec # more \<and>
    (a_Result rec = ''success'' \<longleftrightarrow> checks_pass env cfg r s) \<and>
    (more \<noteq> [] \<longrightarrow> mcp \<noteq> None \<and> rq_Path r = ''/mcp'' \<and> a_Result rec = ''success'') \<and>
    (a_Result rec \<noteq> ''success'' \<longrightarrow>
       fst (serve env cfg mcp r c s) \<in> http_Error ` {401, 403, 429} \<and>
       st_ext (snd (serve env cfg mcp r c s)) = st_ext s) \<and>
    fst (serve env cfg mcp r c s) \<noteq> Panicked"
proof -
  let ?r = "r\<lparr>rq_Limit := Some (MaxBodyBytes cfg)\<rparr>"
  let ?inner = "authSuccessAuditMiddleware (mux mcp)"
  have sv: "serve env cfg mcp r c s = recoverMiddleware (gates env cfg ?inner) ?r c s" by (rule serve_gates)
  show ?thesis
  proof (rule gates_cases [of s env cfg ?r c])
    fix code s' rec
    assume a: "code \<in> {401, 403, 429}" "st_audit s' = st_audit s @ [rec]" "a_Result rec \<noteq> ''success''"
      "st_ext s' = st_ext s" "\<And>next. gates env cfg next ?r c s = (http_Error code, s')"
    then have "serve env cfg mcp r c s = (http_Error code, s')"
      by (simp add: sv recoverMiddleware_def http_Error_def)
    moreover have "http_Error code \<noteq> Panicked" by (simp add: http_Error_def)
    moreover have "\<not> checks_pass env cfg r s"
      using gates_open [of env cfg ?r s c] a(5) by (auto simp: http_Error_def dest: spec [of _ "\<lambda>r c s. (Panicked, s)"])
    ultimately show ?thesis using a by (intro exI [of _ rec] exI [of _ "[]"]) auto
  next
    fix c' s' assume p: "st_audit s' = st_audit s" "\<And>next. gates env cfg next ?r c s = next ?r c' s'"
    let ?rec = "emptyAudit\<lparr>a_Fingerprint := fingerprintFromCtx c', a_RemoteAddr := remoteIP ?r, a_Result := ''success''\<rparr>"
    have "snd (serve env cfg mcp r c s) = snd (mux mcp ?r c' (auditFn ?rec s'))"
      by (simp add: sv recover_snd p(2) authSuccessAuditMiddleware_def)
    moreover have "\<exists>more. st_audit (snd (mux mcp ?r c' (auditFn ?rec s'))) = st_audit (auditFn ?rec s') @ more \<and>
        (more \<noteq> [] \<longrightarrow> mcp \<noteq> None \<and> rq_Path ?r = ''/mcp'')"
      by (rule mux_appends) (rule assms)
    ultimately obtain more where "st_audit (snd (serve env cfg mcp r c s)) = st_audit s @ ?rec # more"
      "more \<noteq> [] \<longrightarrow> mcp \<noteq> None \<and> rq_Path r = ''/mcp''"
      using p(1) by (auto simp: auditFn_def)
    moreover have "checks_pass env cfg r s"
      using gates_closed [of env cfg ?r s "\<lambda>r c s. (Panicked, s)" c "\<lambda>r c s. (Resp 200 [], s)"] p(2) by auto
    ultimately show ?thesis using recover_no_panic sv
      by (intro exI [of _ ?rec] exI [of _ more]) auto
  qed
qed

definition srv_env :: server_env where
  "srv_env = \<lparr>se_json = demo_json, se_os = ok_env, se_disk = demo_disk, se_now = 5, se_t1 = 5, se_t2 = 5,
     se_uni = (\<lambda>s. s), se_hostname = (\<lambda>_. None)\<rparr>"

definition srv_cfg :: server_cfg where
  "srv_cfg = \<lparr>BindAddr = ''127.0.0.1'', Port = 7822, HostAllow = [''localhost''], OriginAllow = [],
     MaxBodyBytes = 1048576\<rparr>"

definition srv_state :: "nat sstate" where
  "srv_state = \<lparr>st_store = demo_store, st_limiters = NewLimiters 1 1 0,
     st_audit = [], st_ext = 0\<rparr>"

definition srv_request :: request where
  "srv_request = \<lparr>rq_Host = ''localhost:7822'', rq_Header = (\<lambda>k. if k = ''Authorization'' then ''Bearer secret'' else []),
     rq_RemoteAddr = ''127.0.0.1:5'', rq_Method = ''POST'', rq_Path = ''/mcp'', rq_Body = [], rq_Limit = None\<rparr>"

definition count_handler :: "nat handler" where
  "count_handler r c s = (Resp 200 [], s\<lparr>st_ext := Suc (st_ext s)\<rparr>)"

theorem one_transport_record_witness:
  "\<exists>rec more. st_audit (snd (serve srv_env srv_cfg (Some count_handler) srv_request no_ctx srv_state)) = rec # more"
  using one_transport_record [of "Some count_handler" srv_env srv_cfg srv_request no_ctx srv_state]
  by (auto simp: count_handler_def srv_state_def)

text \<open>
  C10. Nothing an MCP handler does can matter before the checks: if two handlers make any
  difference to the answer or to the state, then the host is allowed, a given origin is
  allowed, the bearer token verifies to an active key, both rate limits pass, and the path
  is \<^verbatim>\<open>/mcp\<close>.
\<close>

theorem mcp_only_after_checks:
  assumes "serve env cfg (Some h1) r c s \<noteq> serve env cfg (Some h2) r c s"
  shows "contains (se_uni env) (HostAllow cfg) (hostOnly r) \<and>
    (rq_Header r ''Origin'' = [] \<or> originAllowed env (rq_Header r ''Origin'') (OriginAllow cfg)) \<and>
    (\<exists>token k. bearerToken r = Some token \<and>
       fst (Verify (se_json env) (se_os env) (se_now env) (st_store s) token (se_disk env)) = Inr (Some k) \<and>
       fst (Allow (se_now env) (se_t1 env) (se_t2 env)
              (fingerprintFromCtx (c\<lparr>cx_fp := Some (if r_Fingerprint k = [] then Fingerprint token else r_Fingerprint k)\<rparr>))
              (ipOnly (rq_RemoteAddr r)) (st_limiters s))) \<and>
    rq_Path r = ''/mcp''"
proof -
  let ?r = "r\<lparr>rq_Limit := Some (MaxBodyBytes cfg)\<rparr>"
  let ?i = "\<lambda>h. authSuccessAuditMiddleware (mux (Some h))"
  have ne: "gates env cfg (?i h1) ?r c s \<noteq> gates env cfg (?i h2) ?r c s"
    using assms by (auto simp: serve_gates recoverMiddleware_def)
  have same [simp]: "hostOnly ?r = hostOnly r" "bearerToken ?r = bearerToken r" "remoteIP ?r = rq_RemoteAddr r"
    by (simp_all add: hostOnly_def bearerToken_def remoteIP_def)
  have host: "contains (se_uni env) (HostAllow cfg) (hostOnly r)"
    "rq_Header r ''Origin'' = [] \<or> originAllowed env (rq_Header r ''Origin'') (OriginAllow cfg)"
    using ne by (auto simp: gates_def hostOriginMiddleware_def Let_def split: if_splits)
  have ne2: "authMiddleware env (rateLimitMiddleware env (?i h1)) ?r c s \<noteq>
      authMiddleware env (rateLimitMiddleware env (?i h2)) ?r c s"
    using ne by (auto simp: gates_def hostOriginMiddleware_def Let_def split: if_splits)
  then obtain token k st where v: "bearerToken r = Some token"
    "Verify (se_json env) (se_os env) (se_now env) (st_store s) token (se_disk env) = (Inr (Some k), st)"
    by (fastforce simp: authMiddleware_def Let_def split: option.splits sum.splits prod.splits)
  let ?fp = "if r_Fingerprint k = [] then Fingerprint token else r_Fingerprint k"
  let ?c = "c\<lparr>cx_fp := Some ?fp, cx_keyID := Some (r_ID k), cx_remote := Some (rq_RemoteAddr r)\<rparr>"
  have ne3: "rateLimitMiddleware env (?i h1) ?r ?c (s\<lparr>st_store := st\<rparr>) \<noteq>
      rateLimitMiddleware env (?i h2) ?r ?c (s\<lparr>st_store := st\<rparr>)"
    using ne2 v by (simp add: authMiddleware_def Let_def)
  then obtain l where l: "Allow (se_now env) (se_t1 env) (se_t2 env) (fingerprintFromCtx ?c)
      (ipOnly (rq_RemoteAddr r)) (st_limiters s) = (True, l)"
    by (auto simp: rateLimitMiddleware_def Let_def split: prod.splits bool.splits)
  have "rq_Path r = ''/mcp''"
  proof (rule ccontr)
    assume "rq_Path r \<noteq> ''/mcp''"
    then have "mux (Some h1) ?r c s = mux (Some h2) ?r c s" for c s by (auto simp: mux_def)
    then show False using ne3 l by (simp add: rateLimitMiddleware_def authSuccessAuditMiddleware_def)
  qed
  moreover have "fingerprintFromCtx ?c = fingerprintFromCtx (c\<lparr>cx_fp := Some ?fp\<rparr>)"
    by (simp add: fingerprintFromCtx_def)
  ultimately show ?thesis using host v l by auto
qed

lemma srv_checks:
  "contains (se_uni srv_env) (HostAllow srv_cfg) (hostOnly srv_request)"
  "rq_Header srv_request ''Origin'' = []" "bearerToken srv_request = Some ''secret''"
  "cleanPath (rq_Path srv_request) = rq_Path srv_request"
proof -
  have "hostOnly srv_request = ''localhost''" by code_simp
  moreover have "contains (\<lambda>s. s) [''localhost''] ''localhost''" by code_simp
  ultimately show "contains (se_uni srv_env) (HostAllow srv_cfg) (hostOnly srv_request)"
    by (simp add: srv_env_def srv_cfg_def)
  show "rq_Header srv_request ''Origin'' = []" by (simp add: srv_request_def)
  show "bearerToken srv_request = Some ''secret''" by code_simp
  show "cleanPath (rq_Path srv_request) = rq_Path srv_request" by code_simp
qed

lemma srv_verify:
  "Verify (se_json srv_env) (se_os srv_env) (se_now srv_env) (st_store srv_state) ''secret'' (se_disk srv_env) =
     (Inr (Some ((fromDBRecord demo_key)\<lparr>r_LastUsed := 5\<rparr>)), demo_store\<lparr>usageBuf := [(''0a'', 5)]\<rparr>)"
proof -
  have "verifyScan ''secret'' (Keys demo_db) = Some (fromDBRecord demo_key)"
    by (simp add: demo_db_def verifyScan_def) (simp add: demo_key_def)
  moreover have "r_ID (fromDBRecord demo_key) = ''0a''" by (simp add: fromDBRecord_def demo_key_def)
  moreover have "readDB demo_json ok_env demo_store demo_disk = Inr demo_db"
    using demo_db_at(1) by (simp add: readDB_db_at)
  moreover have "acquireLock ok_env (path demo_store) lockShared demo_disk = (Inr True, demo_disk)"
    by (simp add: acquireLock_def demo_defs)
  moreover have "usageBuf demo_store = []" by (simp add: demo_store_def)
  ultimately show ?thesis by (simp add: Verify_def srv_env_def srv_state_def)
qed

lemma full_AllowN:
  "AllowN 5 (NewLimiter 1 1) = (True, \<lparr>lim_limit = 1, lim_burst = 1, lim_tokens = 0, lim_last = 5\<rparr>)"
  "AllowN 5 \<lparr>lim_limit = 1, lim_burst = 1, lim_tokens = 0, lim_last = 5\<rparr> =
     (False, \<lparr>lim_limit = 1, lim_burst = 1, lim_tokens = 0, lim_last = 5\<rparr>)"
proof -
  have "fl64 1 = 1" "fl64 (- 1) = - 1" "tokensFromDuration 1 0 = 0" "durationFromTokens 1 1 = 1000000000"
    "1 < fl64 (1 + tokensFromDuration 1 5)"
    by code_simp+
  moreover have "(1 :: rat) \<noteq> rate_Inf" by (simp add: rate_Inf_def)
  ultimately show "AllowN 5 (NewLimiter 1 1) = (True, \<lparr>lim_limit = 1, lim_burst = 1, lim_tokens = 0, lim_last = 5\<rparr>)"
    "AllowN 5 \<lparr>lim_limit = 1, lim_burst = 1, lim_tokens = 0, lim_last = 5\<rparr> =
      (False, \<lparr>lim_limit = 1, lim_burst = 1, lim_tokens = 0, lim_last = 5\<rparr>)"
    by (simp_all add: NewLimiter_def AllowN_def advance_def time_Sub_def maxDuration_def)
qed

lemma srv_allow: "fst (Allow 5 5 5 fp ip (NewLimiters 1 1 0))"
  by (auto simp: full_AllowN Allow_def NewLimiters_def getOrCreate_def Let_def split: prod.splits)

lemma srv_served:
  assumes s: "st_store s = demo_store" "st_limiters s = NewLimiters 1 1 0"
  shows "st_ext (snd (serve srv_env srv_cfg (Some h) srv_request no_ctx s)) =
   st_ext (snd (h (srv_request\<lparr>rq_Limit := Some (MaxBodyBytes srv_cfg)\<rparr>)
     (no_ctx\<lparr>cx_fp := Some ''0b'', cx_keyID := Some ''0a'', cx_remote := Some ''127.0.0.1:5''\<rparr>)
     (auditFn (emptyAudit\<lparr>a_Fingerprint := ''0b'', a_RemoteAddr := ''127.0.0.1:5'', a_Result := ''success''\<rparr>)
       (s\<lparr>st_store := demo_store\<lparr>usageBuf := [(''0a'', 5)]\<rparr>,
          st_limiters := snd (Allow 5 5 5 ''0b'' (ipOnly ''127.0.0.1:5'') (NewLimiters 1 1 0))\<rparr>))))"
proof -
  let ?r = "srv_request\<lparr>rq_Limit := Some (MaxBodyBytes srv_cfg)\<rparr>"
  have r: "hostOnly ?r = hostOnly srv_request" "bearerToken ?r = bearerToken srv_request"
    "remoteIP ?r = ''127.0.0.1:5''" "rq_Header ?r ''Origin'' = []"
    by (simp_all add: hostOnly_def bearerToken_def remoteIP_def srv_request_def)
  have fp: "r_Fingerprint (fromDBRecord demo_key) = ''0b''" "r_ID (fromDBRecord demo_key) = ''0a''"
    by (simp_all add: fromDBRecord_def demo_key_def)
  obtain l where l: "Allow 5 5 5 ''0b'' (ipOnly ''127.0.0.1:5'') (NewLimiters 1 1 0) = (True, l)"
    using srv_allow by (metis prod.collapse)
  have m: "mux (Some h) ?r c s' = h ?r c s'" for c s'
    using srv_checks(4) by (simp add: mux_def srv_request_def)
  have t: "se_now srv_env = 5" "se_t1 srv_env = 5" "se_t2 srv_env = 5"
    by (simp_all add: srv_env_def)
  have v: "Verify (se_json srv_env) (se_os srv_env) 5 demo_store ''secret'' (se_disk srv_env) =
     (Inr (Some ((fromDBRecord demo_key)\<lparr>r_LastUsed := 5\<rparr>)), demo_store\<lparr>usageBuf := [(''0a'', 5)]\<rparr>)"
    using srv_verify by (simp add: srv_state_def t)
  show ?thesis
    using srv_checks(1-3)
    by (simp add: s v serve_gates recover_snd gates_def hostOriginMiddleware_def authMiddleware_def
        rateLimitMiddleware_def authSuccessAuditMiddleware_def r fp m t l fingerprintFromCtx_def Let_def)
qed

theorem mcp_only_after_checks_witness:
  "contains (se_uni srv_env) (HostAllow srv_cfg) (hostOnly srv_request) \<and> rq_Path srv_request = ''/mcp''"
proof -
  have "serve srv_env srv_cfg (Some count_handler) srv_request no_ctx srv_state \<noteq>
      serve srv_env srv_cfg (Some (\<lambda>r c s. (Resp 200 [], s))) srv_request no_ctx srv_state"
    using srv_served [of srv_state count_handler] srv_served [of srv_state "\<lambda>r c s. (Resp 200 [], s)"]
    by (auto simp: count_handler_def auditFn_def srv_state_def)
  from mcp_only_after_checks [OF this] show ?thesis by blast
qed

text \<open>
  What a client without valid credentials gets, when its host and origin are allowed: no
  usable header is 401, an unknown or revoked key is 401, and a key store that cannot be
  read is 403. The record never has the token: its fingerprint is \<^verbatim>\<open>-\<close> or the 48-bit
  fingerprint, and the state behind the handlers is untouched.
\<close>

theorem unauthenticated_answers:
  assumes "contains (se_uni env) (HostAllow cfg) (hostOnly r)"
    and "rq_Header r ''Origin'' = [] \<or> originAllowed env (rq_Header r ''Origin'') (OriginAllow cfg)"
  shows "(bearerToken r = None \<longrightarrow>
       serve env cfg mcp r c s = (http_Error 401, auditFn (emptyAudit\<lparr>a_Fingerprint := ''-'',
         a_RemoteAddr := rq_RemoteAddr r, a_Result := ''fail'', a_Reason := ''no authorization header''\<rparr>) s)) \<and>
    (\<forall>token st. bearerToken r = Some token \<longrightarrow>
       Verify (se_json env) (se_os env) (se_now env) (st_store s) token (se_disk env) = (Inr None, st) \<longrightarrow>
       serve env cfg mcp r c s = (http_Error 401, auditFn (emptyAudit\<lparr>a_Fingerprint := Fingerprint token,
         a_RemoteAddr := rq_RemoteAddr r, a_Result := ''fail'', a_Reason := ''authentication failed''\<rparr>)
           (s\<lparr>st_store := st\<rparr>))) \<and>
    (\<forall>token err st. bearerToken r = Some token \<longrightarrow>
       Verify (se_json env) (se_os env) (se_now env) (st_store s) token (se_disk env) = (Inl err, st) \<longrightarrow>
       serve env cfg mcp r c s = (http_Error 403, auditFn (emptyAudit\<lparr>
         a_Fingerprint := (if Is_ErrCorrupt err then ''-'' else Fingerprint token),
         a_RemoteAddr := rq_RemoteAddr r, a_Result := ''deny'', a_Reason := ''key store unavailable''\<rparr>)
           (s\<lparr>st_store := st\<rparr>)))"
proof -
  let ?r = "r\<lparr>rq_Limit := Some (MaxBodyBytes cfg)\<rparr>"
  have same: "hostOnly ?r = hostOnly r" "bearerToken ?r = bearerToken r" "remoteIP ?r = rq_RemoteAddr r"
    "rq_Header ?r ''Origin'' = rq_Header r ''Origin''"
    by (simp_all add: hostOnly_def bearerToken_def remoteIP_def)
  have "serve env cfg mcp r c s = recoverMiddleware
      (authMiddleware env (rateLimitMiddleware env (authSuccessAuditMiddleware (mux mcp)))) ?r c s"
    using assms by (auto simp: serve_gates gates_def hostOriginMiddleware_def recoverMiddleware_def same Let_def)
  then show ?thesis
    by (simp add: recoverMiddleware_def authMiddleware_def http_Error_def same Let_def)
qed

theorem unauthenticated_answers_witness:
  "fst (serve srv_env srv_cfg (Some count_handler) (srv_request\<lparr>rq_Header := (\<lambda>_. [])\<rparr>) no_ctx srv_state) = http_Error 401"
proof -
  let ?r = "srv_request\<lparr>rq_Header := (\<lambda>_. [])\<rparr>"
  have "hostOnly ?r = hostOnly srv_request" by (simp add: hostOnly_def srv_request_def)
  then have "contains (se_uni srv_env) (HostAllow srv_cfg) (hostOnly ?r)" using srv_checks(1) by simp
  moreover have "bearerToken ?r = None" by (simp add: bearerToken_def)
  ultimately show ?thesis
    using unauthenticated_answers [of srv_env srv_cfg ?r "Some count_handler" no_ctx srv_state] by simp
qed

text \<open>
  The reason of a rate refusal does not say which limit was hit. A client whose key
  still has all its tokens, on an address that has none left, is refused because of the
  address, and the record says that the limit of the key was exceeded.
\<close>

definition busy_ip :: "nat sstate" where
  "busy_ip = srv_state\<lparr>st_limiters := snd (Allow 5 5 5 ''other'' ''127.0.0.1'' (NewLimiters 1 1 0))\<rparr>"

theorem rate_reason_names_key:
  "perKey (st_limiters busy_ip) ''0b'' = None \<and>
   fst (AllowN 5 (NewLimiter (ratePerSec (st_limiters busy_ip)) (burst (st_limiters busy_ip)))) \<and>
   fst (rateLimitMiddleware srv_env count_handler srv_request (no_ctx\<lparr>cx_fp := Some ''0b''\<rparr>) busy_ip) = http_Error 429 \<and>
   map a_Reason (st_audit (snd (rateLimitMiddleware srv_env count_handler srv_request (no_ctx\<lparr>cx_fp := Some ''0b''\<rparr>) busy_ip))) =
     [''rate limit exceeded (key)'']"
proof -
  have ip: "ipOnly ''127.0.0.1:5'' = ''127.0.0.1''" by code_simp
  show ?thesis
    by (simp add: busy_ip_def srv_state_def srv_env_def srv_request_def rateLimitMiddleware_def Allow_def NewLimiters_def
        getOrCreate_def full_AllowN ip remoteIP_def fingerprintFromCtx_def auditFn_def Let_def)
qed

end
