(* ===== verification/Mcp.thy ===== *)
theory Mcp
  imports Server CmdExec FileUpload
begin

section \<open>The MCP tools (\<open>internal/mcp\<close>)\<close>

text \<open>
  The four tool handlers. A handler takes the context values of the authenticated request
  and its input, and returns the tool result with the audit records it wrote, in order;
  \<open>execHandler\<close> also returns the processes started and \<open>uploadHandler\<close> the new tree of the
  upload root. The protocol library that decodes the call and encodes the answer is not
  modelled.

  The environment has the clock at the root warning and at the main record, the effective
  user, the entropy and the faults of the upload, the Unicode tables of \<^verbatim>\<open>%q\<close>, and for the
  command runner the world as it is under a context with the given timeout.
\<close>

record mcp_env =
  me_warn_now :: gotime
  me_now :: gotime
  me_euid :: int
  me_exec :: "duration \<Rightarrow> exec_env"
  me_os :: osenv
  me_ent :: bytes
  me_uni :: "string \<Rightarrow> string"

datatype 'o tool_result = ToolOk string 'o | ToolErr string | ToolPanic

subsection \<open>Generic audit, ping, server info (audit.go, tools.go)\<close>

definition withAudit ::
  "string \<Rightarrow> ('i \<Rightarrow> 'o tool_result) \<Rightarrow> mcp_env \<Rightarrow> ctx \<Rightarrow> 'i \<Rightarrow> 'o tool_result \<times> AuditRecord list" where
  "withAudit name h env c inp =
     (case h inp of
        ToolPanic \<Rightarrow> (ToolPanic, [])
      | ToolOk txt out \<Rightarrow>
          (ToolOk txt out,
           [emptyAudit\<lparr>a_TS := me_now env, a_Fingerprint := fingerprintFromCtx c, a_RemoteAddr := remoteAddrFromCtx c,
                       a_Result := ''success'', a_Reason := '''', a_Tool := name\<rparr>])
      | ToolErr e \<Rightarrow>
          (ToolErr e,
           [emptyAudit\<lparr>a_TS := me_now env, a_Fingerprint := fingerprintFromCtx c, a_RemoteAddr := remoteAddrFromCtx c,
                       a_Result := ''fail'', a_Reason := e, a_Tool := name\<rparr>]))"

definition protocolVersion :: string where "protocolVersion = ''2025-11-25''"

definition pingHandler :: "unit \<Rightarrow> unit tool_result" where
  "pingHandler _ = ToolOk ''pong'' ()"

record ServerInfo =
  si_Name :: string
  si_Version :: string
  si_ProtocolVersion :: string

definition serverInfoHandler :: "string \<Rightarrow> unit \<Rightarrow> ServerInfo tool_result" where
  "serverInfoHandler ver _ =
     ToolOk (''raxd '' @ ver @ '' (MCP '' @ protocolVersion @ '')'')
       \<lparr>si_Name = ''raxd'', si_Version = ver, si_ProtocolVersion = protocolVersion\<rparr>"

subsection \<open>execute_command (exec_tool.go)\<close>

record ExecInput =
  ei_Command :: string
  ei_Args :: "string list"
  ei_TimeoutMs :: int
  ei_Cwd :: string

record ExecOutput =
  eo_Stdout :: string
  eo_Stderr :: string
  eo_ExitCode :: int
  eo_DurationMs :: int
  eo_TimedOut :: bool
  eo_StdoutTruncated :: bool
  eo_StderrTruncated :: bool

definition execAudit :: "mcp_env \<Rightarrow> ctx \<Rightarrow> ExecInput \<Rightarrow> string \<Rightarrow> string \<Rightarrow> AuditRecord" where
  "execAudit env c inp res reason =
     emptyAudit\<lparr>a_TS := me_now env, a_Fingerprint := fingerprintFromCtx c, a_RemoteAddr := remoteAddrFromCtx c,
       a_Result := res, a_Tool := ''execute_command'', a_Reason := reason, a_Command := ei_Command inp,
       a_Args := ei_Args inp\<rparr>"

definition milliseconds :: "duration \<Rightarrow> int" where
  "milliseconds d = go_div d 1000000"

definition effTimeoutMs :: "Config \<Rightarrow> ExecInput \<Rightarrow> int" where
  "effTimeoutMs cfg inp = (if ei_TimeoutMs inp = 0 then DefaultTimeoutMs cfg else ei_TimeoutMs inp)"

text \<open>\<^verbatim>\<open>time.Duration(effTimeoutMs) * time.Millisecond\<close>, a 64-bit product.\<close>

definition execTimeout :: "Config \<Rightarrow> ExecInput \<Rightarrow> duration" where
  "execTimeout cfg inp = wrap64 (effTimeoutMs cfg inp * 1000000)"

definition execReason :: "exec_error \<Rightarrow> string \<times> string" where
  "execReason e =
     (case e of
        ErrNotAllowed _ \<Rightarrow> (''deny'', ''not-allowed'')
      | ErrBadCwd _ \<Rightarrow> (''fail'', ''bad-cwd'')
      | ErrNotDir _ \<Rightarrow> (''fail'', ''bad-cwd'')
      | _ \<Rightarrow> (''fail'', ''not-found''))"

definition execSummary :: "exec_result \<Rightarrow> string" where
  "execSummary res =
     ''exit='' @ fmt_d (ExitCode res) @ '' duration='' @ fmt_d (milliseconds (Duration res)) @
     ''ms timed_out='' @ fmt_bool (TimedOut res) @ '' stdout='' @ fmt_d (int (length (Stdout res))) @
     ''B stderr='' @ fmt_d (int (length (Stderr res))) @ ''B'' @
     (if StdoutTruncated res \<or> StderrTruncated res then '' truncated'' else '''')"

text \<open>The checks and the run, after the root check; \<open>execHandler\<close> puts the warning before it.\<close>

definition execChecked ::
  "Config \<Rightarrow> mcp_env \<Rightarrow> ctx \<Rightarrow> ExecInput \<Rightarrow> ExecOutput tool_result \<times> AuditRecord list \<times> spawned list" where
  "execChecked cfg env c inp =
     (if int (length (ei_Args inp)) > MaxArgs cfg then
        let reason = ''too many arguments: '' @ fmt_d (int (length (ei_Args inp))) @ '' > '' @ fmt_d (MaxArgs cfg) in
        (ToolErr reason, [execAudit env c inp ''deny'' reason], [])
      else case List.find (\<lambda>arg. int (length arg) > MaxArgLen cfg) (ei_Args inp) of
        Some arg \<Rightarrow>
          (let reason = ''argument too long: '' @ fmt_d (int (length arg)) @ '' > '' @ fmt_d (MaxArgLen cfg) in
           (ToolErr reason, [execAudit env c inp ''deny'' reason], []))
      | None \<Rightarrow>
          if effTimeoutMs cfg inp > MaxTimeoutMs cfg then
            let reason = ''timeout_ms '' @ fmt_d (effTimeoutMs cfg inp) @ '' exceeds max '' @ fmt_d (MaxTimeoutMs cfg) in
            (ToolErr reason, [execAudit env c inp ''deny'' reason], [])
          else
            let cwd = (if ei_Cwd inp = [] then DefaultCwd cfg else ei_Cwd inp);
                runIn = \<lparr>Command = ei_Command inp, Args = ei_Args inp, Cwd = cwd\<rparr> in
            case Run (me_exec env (execTimeout cfg inp)) cfg runIn of
              (ExecPanic, sp) \<Rightarrow> (ToolPanic, [], sp)
            | (ExecErr e, sp) \<Rightarrow>
                (let (auditResult, reason) = execReason e in
                 (ToolErr (if auditResult = ''deny'' then ''command not allowed'' else ''command not found''),
                  [execAudit env c inp auditResult reason], sp))
            | (ExecOk res, sp) \<Rightarrow>
                (ToolOk (execSummary res)
                   \<lparr>eo_Stdout = Stdout res, eo_Stderr = Stderr res, eo_ExitCode = ExitCode res,
                    eo_DurationMs = milliseconds (Duration res), eo_TimedOut = TimedOut res,
                    eo_StdoutTruncated = StdoutTruncated res, eo_StderrTruncated = StderrTruncated res\<rparr>,
                 [(execAudit env c inp ''success'' '''')\<lparr>a_ExitCode := Some (ExitCode res),
                    a_Duration := Duration res, a_TimedOut := TimedOut res\<rparr>], sp))"

definition execHandler ::
  "Config \<Rightarrow> mcp_env \<Rightarrow> ctx \<Rightarrow> ExecInput \<Rightarrow> ExecOutput tool_result \<times> AuditRecord list \<times> spawned list" where
  "execHandler cfg env c inp =
     (if me_euid env = 0 then
        let warn = (execAudit env c inp ''warn''
              ''running-as-root: raxd executing commands as root (euid==0); ensure raxd runs as non-root'')
              \<lparr>a_TS := me_warn_now env\<rparr> in
        if DenyRoot cfg then
          (ToolErr ''execution as root is forbidden by policy'',
           [warn, execAudit env c inp ''deny'' ''execution as root is forbidden by policy (deny_root=true)''], [])
        else let (r, as, sp) = execChecked cfg env c inp in (r, warn # as, sp)
      else execChecked cfg env c inp)"

subsection \<open>upload_file (upload_tool.go)\<close>

record UploadToolInput =
  ui_Path :: string
  ui_Content :: string
  ui_Overwrite :: bool
  ui_Mode :: string

record UploadOutput =
  uo_Path :: string
  uo_Size :: int
  uo_Overwritten :: bool
  uo_Mode :: string

definition uploadAudit :: "mcp_env \<Rightarrow> ctx \<Rightarrow> string \<Rightarrow> string \<Rightarrow> string \<Rightarrow> AuditRecord" where
  "uploadAudit env c p res reason =
     emptyAudit\<lparr>a_TS := me_now env, a_Fingerprint := fingerprintFromCtx c, a_RemoteAddr := remoteAddrFromCtx c,
       a_Result := res, a_Tool := ''upload_file'', a_Path := p, a_Reason := reason\<rparr>"

text \<open>The audit result, the audit reason and the message of a failed write.\<close>

definition uploadReason :: "(string \<Rightarrow> string) \<Rightarrow> string \<Rightarrow> upload_error \<Rightarrow> string \<times> string \<times> string" where
  "uploadReason uni p e =
     (case e of
        ErrTraversal \<Rightarrow> (''deny'', ''traversal'', ''path is outside the upload root: '' @ Quote uni p)
      | ErrExists \<Rightarrow> (''deny'', ''file already exists'', ''file already exists (set overwrite to replace)'')
      | ErrIsDir \<Rightarrow> (''deny'', ''target is a directory'', ''target path is a directory'')
      | ErrTooLarge \<Rightarrow> (''deny'', ''file too large'', ''file too large: exceeds max_file_bytes'')
      | ErrQuotaExceeded \<Rightarrow> (''deny'', ''total upload quota exceeded'', ''upload denied: total upload quota exceeded'')
      | UploadIO _ \<Rightarrow> (''fail'', ''write failed'', ''write failed''))"

definition uploadChecked ::
  "UploadConfig \<Rightarrow> mcp_env \<Rightarrow> ctx \<Rightarrow> UploadToolInput \<Rightarrow> tree \<Rightarrow>
   UploadOutput tool_result \<times> AuditRecord list \<times> tree" where
  "uploadChecked cfg env c inp t =
     (let deny = (\<lambda>reason. (ToolErr reason, [uploadAudit env c (ui_Path inp) ''deny'' reason], t)) in
      if int (StdEncoding_DecodedLen (length (ui_Content inp))) > MaxFileBytes cfg then
        deny ''file too large: exceeds max_file_bytes''
      else case StdEncoding_DecodeString (ui_Content inp) of
        None \<Rightarrow> deny ''invalid base64 content''
      | Some decoded \<Rightarrow>
          if int (length decoded) > MaxFileBytes cfg then deny ''file too large: exceeds max_file_bytes''
          else
            case (if ui_Mode inp = [] then Inr (DefaultMode cfg) else ParseMode (ui_Mode inp)) of
              Inl _ \<Rightarrow> deny ''invalid file mode''
            | Inr mode \<Rightarrow>
                (case Upload_Write (me_os env) (me_ent env) cfg
                       \<lparr>RelPath = ui_Path inp, Data = decoded, Overwrite = ui_Overwrite inp, Mode = mode\<rparr> t of
                   (Inl e, t') \<Rightarrow>
                     (let (auditResult, reason, msg) = uploadReason (me_uni env) (ui_Path inp) e in
                      (ToolErr msg, [uploadAudit env c (ui_Path inp) auditResult reason], t'))
                 | (Inr res, t') \<Rightarrow>
                     (ToolOk (''path='' @ ur_RelPath res @ '' size='' @ fmt_d (ur_Size res) @ ''B overwritten='' @
                              fmt_bool (ur_Overwritten res) @ '' mode='' @ fmt_04o (ur_Mode res))
                        \<lparr>uo_Path = ur_RelPath res, uo_Size = ur_Size res, uo_Overwritten = ur_Overwritten res,
                         uo_Mode = fmt_04o (ur_Mode res)\<rparr>,
                      [(uploadAudit env c (ur_RelPath res) ''success'' '''')\<lparr>a_Size := ur_Size res\<rparr>], t')))"

definition uploadHandler ::
  "UploadConfig \<Rightarrow> mcp_env \<Rightarrow> ctx \<Rightarrow> UploadToolInput \<Rightarrow> tree \<Rightarrow>
   UploadOutput tool_result \<times> AuditRecord list \<times> tree" where
  "uploadHandler cfg env c inp t =
     (if me_euid env = 0 then
        let warn = (uploadAudit env c [] ''warn''
              ''running-as-root: raxd writing files as root (euid==0); ensure raxd runs as non-root'')
              \<lparr>a_TS := me_warn_now env\<rparr> in
        if UploadDenyRoot cfg then
          (ToolErr ''upload as root is forbidden by policy'',
           [warn, uploadAudit env c (ui_Path inp) ''deny'' ''upload as root is forbidden by policy (deny_root=true)''], t)
        else let (r, as, t') = uploadChecked cfg env c inp t in (r, warn # as, t')
      else uploadChecked cfg env c inp t)"

subsection \<open>The tool server (server.go)\<close>

text \<open>
  What the tools change on the host, the calls and their answers. The protocol library
  decodes a request into calls (\<open>dec\<close>) and encodes the answers (\<open>enc\<close>); \<open>envs i\<close> is the
  environment of the \<open>i\<close>-th call of a request.
\<close>

record host =
  hs_tree :: tree
  hs_started :: "spawned list"

datatype tool_call = CallPing | CallServerInfo | CallExec ExecInput | CallUpload UploadToolInput

datatype tool_answer =
    AnswerPing "unit tool_result"
  | AnswerServerInfo "ServerInfo tool_result"
  | AnswerExec "ExecOutput tool_result"
  | AnswerUpload "UploadOutput tool_result"

definition callTool ::
  "string \<Rightarrow> Config \<Rightarrow> UploadConfig \<Rightarrow> mcp_env \<Rightarrow> ctx \<Rightarrow> tool_call \<Rightarrow> host sstate \<Rightarrow> tool_answer \<times> host sstate" where
  "callTool ver execCfg uplCfg env c call s =
     (case call of
        CallPing \<Rightarrow>
          (let (r, as) = withAudit ''ping'' pingHandler env c () in (AnswerPing r, fold auditFn as s))
      | CallServerInfo \<Rightarrow>
          (let (r, as) = withAudit ''server_info'' (serverInfoHandler ver) env c () in
           (AnswerServerInfo r, fold auditFn as s))
      | CallExec inp \<Rightarrow>
          (let (r, as, sp) = execHandler execCfg env c inp in
           (AnswerExec r, fold auditFn as (s\<lparr>st_ext := (st_ext s)\<lparr>hs_started := hs_started (st_ext s) @ sp\<rparr>\<rparr>)))
      | CallUpload inp \<Rightarrow>
          (let (r, as, t) = uploadHandler uplCfg env c inp (hs_tree (st_ext s)) in
           (AnswerUpload r, fold auditFn as (s\<lparr>st_ext := (st_ext s)\<lparr>hs_tree := t\<rparr>\<rparr>))))"

fun callTools ::
  "string \<Rightarrow> Config \<Rightarrow> UploadConfig \<Rightarrow> (nat \<Rightarrow> mcp_env) \<Rightarrow> nat \<Rightarrow> ctx \<Rightarrow> tool_call list \<Rightarrow> host sstate \<Rightarrow>
   tool_answer list \<times> host sstate" where
  "callTools ver execCfg uplCfg envs i c [] s = ([], s)"
| "callTools ver execCfg uplCfg envs i c (call # calls) s =
     (let (a, s1) = callTool ver execCfg uplCfg (envs i) c call s;
          (as, s2) = callTools ver execCfg uplCfg envs (Suc i) c calls s1
      in (a # as, s2))"

definition NewHandler ::
  "string \<Rightarrow> Config \<Rightarrow> UploadConfig \<Rightarrow> (request \<Rightarrow> tool_call list) \<Rightarrow> (request \<Rightarrow> tool_answer list \<Rightarrow> outcome) \<Rightarrow>
   (nat \<Rightarrow> mcp_env) \<Rightarrow> host handler" where
  "NewHandler ver execCfg uplCfg dec enc envs r c s =
     (let (as, s') = callTools ver execCfg uplCfg envs 0 c (dec r) s in (enc r as, s'))"

end
