(* ===== verification/McpProps.thy ===== *)
theory McpProps
  imports Mcp FileUploadProps
begin

section \<open>Properties of the MCP tools\<close>

text \<open>
  What the tools promise to the audit log is a locale: a tool that returns has written one
  main record, which names the tool and the caller and tells success from refusal. The
  tools of \<^verbatim>\<open>withAudit\<close> and the checked bodies of \<open>execute_command\<close> and \<open>upload_file\<close> are
  its instances. The extended locale adds the root policy that the two handlers put before
  their bodies. After the audit come the limits of a command, its timeout, and the content
  and the size of an uploaded file.
\<close>

definition tool_record :: "string \<Rightarrow> ctx \<Rightarrow> 'o tool_result \<Rightarrow> AuditRecord \<Rightarrow> bool" where
  "tool_record name c r a \<longleftrightarrow>
     a_Tool a = name \<and> a_Fingerprint a = fingerprintFromCtx c \<and> a_RemoteAddr a = remoteAddrFromCtx c \<and>
     (case r of ToolOk _ _ \<Rightarrow> a_Result a = ''success'' \<and> a_Reason a = []
      | ToolErr _ \<Rightarrow> a_Result a \<in> {''deny'', ''fail''} | ToolPanic \<Rightarrow> False)"

definition warn_record :: "string \<Rightarrow> ctx \<Rightarrow> AuditRecord \<Rightarrow> bool" where
  "warn_record name c a \<longleftrightarrow>
     a_Tool a = name \<and> a_Fingerprint a = fingerprintFromCtx c \<and> a_RemoteAddr a = remoteAddrFromCtx c \<and>
     a_Result a = ''warn''"

locale audited_body =
  fixes body :: "mcp_env \<Rightarrow> ctx \<Rightarrow> 'i \<Rightarrow> 'w \<Rightarrow> 'o tool_result \<times> AuditRecord list \<times> 'w"
    and name :: string
  assumes one_record: "body env c i w = (r, as, w') \<Longrightarrow> r \<noteq> ToolPanic \<Longrightarrow> \<exists>a. as = [a] \<and> tool_record name c r a"

locale audited_tool = audited_body +
  fixes handle :: "mcp_env \<Rightarrow> ctx \<Rightarrow> 'a \<Rightarrow> 'b \<Rightarrow> 'c tool_result \<times> AuditRecord list \<times> 'b"
    and deny_root :: bool
  assumes user: "me_euid env \<noteq> 0 \<Longrightarrow> handle env c i w = body env c i w"
    and root: "me_euid env = 0 \<Longrightarrow> \<not> deny_root \<Longrightarrow>
      \<exists>wr. warn_record name c wr \<and> handle env c i w = (fst (body env c i w), wr # fst (snd (body env c i w)), snd (snd (body env c i w)))"
    and root_denied: "me_euid env = 0 \<Longrightarrow> deny_root \<Longrightarrow>
      \<exists>wr d msg. warn_record name c wr \<and> tool_record name c (ToolErr msg :: 'c tool_result) d \<and>
        handle env c i w = (ToolErr msg, [wr, d], w)"
begin

lemma main_record:
  assumes "handle env c i w = (r, as, w')" and "r \<noteq> ToolPanic"
  shows "\<exists>pre a. as = pre @ [a] \<and> tool_record name c r a \<and> length pre = (if me_euid env = 0 then 1 else 0) \<and>
    (\<forall>p \<in> set pre. warn_record name c p)"
proof -
  obtain rb ab wb where b: "body env c i w = (rb, ab, wb)" by (metis prod.collapse)
  consider "me_euid env \<noteq> 0" | "me_euid env = 0" "deny_root" | "me_euid env = 0" "\<not> deny_root" by blast
  then show ?thesis
  proof cases
    case 1
    then have "body env c i w = (r, as, w')" using user assms(1) by simp
    then show ?thesis using one_record [OF _ assms(2)] 1 by fastforce
  next
    case 2
    then obtain wr d msg where "warn_record name c wr" "tool_record name c (ToolErr msg :: 'c tool_result) d"
      "handle env c i w = (ToolErr msg, [wr, d], w)" using root_denied by blast
    then show ?thesis using assms 2 by (intro exI [of _ "[wr]"] exI [of _ d]) auto
  next
    case 3
    then obtain wr where wr: "warn_record name c wr" "handle env c i w = (rb, wr # ab, wb)"
      using root [of env c i w] b by auto
    then obtain a where "ab = [a]" "tool_record name c r a" using one_record [OF b] assms by auto
    then show ?thesis using wr assms 3 by (intro exI [of _ "[wr]"] exI [of _ a]) auto
  qed
qed

lemma denied_root_keeps_world:
  assumes "me_euid env = 0" and "deny_root"
  shows "snd (snd (handle env c i w)) = w"
  using root_denied [OF assms, of c i w] by auto

end

subsection \<open>The tools are instances\<close>

definition execBody ::
  "Config \<Rightarrow> mcp_env \<Rightarrow> ctx \<Rightarrow> ExecInput \<Rightarrow> spawned list \<Rightarrow> ExecOutput tool_result \<times> AuditRecord list \<times> spawned list" where
  "execBody cfg env c inp started = (let (r, as, sp) = execChecked cfg env c inp in (r, as, started @ sp))"

definition execTool_run ::
  "Config \<Rightarrow> mcp_env \<Rightarrow> ctx \<Rightarrow> ExecInput \<Rightarrow> spawned list \<Rightarrow> ExecOutput tool_result \<times> AuditRecord list \<times> spawned list" where
  "execTool_run cfg env c inp started = (let (r, as, sp) = execHandler cfg env c inp in (r, as, started @ sp))"

lemma execReason_result: "execReason e = (res, reason) \<Longrightarrow> res = ''deny'' \<or> res = ''fail''"
  by (auto simp: execReason_def split: exec_error.splits)

lemma uploadReason_result: "uploadReason uni p e = (res, reason, msg) \<Longrightarrow> res = ''deny'' \<or> res = ''fail''"
  by (auto simp: uploadReason_def split: upload_error.splits)

lemma execChecked_record:
  "execChecked cfg env c inp = (r, as, sp) \<Longrightarrow> r \<noteq> ToolPanic \<Longrightarrow> \<exists>a. as = [a] \<and> tool_record ''execute_command'' c r a"
  by (auto simp: execChecked_def execAudit_def tool_record_def Let_def dest: execReason_result
      split: if_splits option.splits exec_outcome.splits prod.splits)

lemma uploadChecked_record:
  "uploadChecked cfg env c inp t = (r, as, t') \<Longrightarrow> \<exists>a. as = [a] \<and> tool_record ''upload_file'' c r a"
  by (auto simp: uploadChecked_def uploadAudit_def tool_record_def Let_def dest: uploadReason_result
      split: if_splits option.splits sum.splits prod.splits)

interpretation plain_tool: audited_body "\<lambda>env c i w. (fst (withAudit name h env c i), snd (withAudit name h env c i), w)" name
  for name h
  by unfold_locales (auto simp: withAudit_def tool_record_def split: tool_result.splits)

interpretation exec_tool: audited_tool "execBody cfg" "''execute_command''" "execTool_run cfg" "DenyRoot cfg"
  for cfg
proof unfold_locales
  fix env c i w r as w'
  assume "execBody cfg env c i w = (r, as, w')" "r \<noteq> ToolPanic"
  then show "\<exists>a. as = [a] \<and> tool_record ''execute_command'' c r a"
    using execChecked_record [of cfg env c i] by (auto simp: execBody_def split: prod.splits)
qed (auto simp: execBody_def execTool_run_def execHandler_def warn_record_def tool_record_def execAudit_def Let_def
      split: prod.splits)

interpretation upload_tool: audited_tool "uploadChecked cfg" "''upload_file''" "uploadHandler cfg" "UploadDenyRoot cfg"
  for cfg
  by unfold_locales
    (auto simp: uploadHandler_def warn_record_def tool_record_def uploadAudit_def Let_def
      dest: uploadChecked_record split: prod.splits)

subsection \<open>execute_command\<close>

lemma Run_spawned: "Run env cfg inp = (res, sp) \<Longrightarrow> sp \<noteq> [] \<longleftrightarrow> (\<exists>r. res = ExecOk r)"
  by (auto simp: Run_def Let_def split: if_splits option.splits sum.splits prod.splits)

lemma Run_no_panic: "0 \<le> MaxOutputBytes cfg \<Longrightarrow> Run env cfg inp \<noteq> (ExecPanic, sp)"
  by (auto simp: Run_def Let_def NewCappedWriter_cw_of split: option.splits sum.splits prod.splits)

lemma execHandler_spawned:
  assumes "execHandler cfg env c inp = (r, as, sp)"
  shows "sp \<noteq> [] \<longleftrightarrow> (\<exists>txt out. r = ToolOk txt out)"
proof -
  have "sp' \<noteq> [] \<longleftrightarrow> (\<exists>txt out. r' = ToolOk txt out)" if "execChecked cfg env c inp = (r', as', sp')" for r' as' sp'
    using that by (auto simp: execChecked_def Let_def dest!: Run_spawned
        split: if_splits option.splits exec_outcome.splits prod.splits)
  then show ?thesis using assms by (auto simp: execHandler_def Let_def split: if_splits prod.splits)
qed

lemma execHandler_no_panic:
  assumes "0 \<le> MaxOutputBytes cfg" and "execHandler cfg env c inp = (r, as, sp)"
  shows "r \<noteq> ToolPanic"
proof -
  have "fst (execChecked cfg env c inp) \<noteq> ToolPanic"
    by (auto simp: execChecked_def Let_def Run_no_panic [OF assms(1)]
        split: option.splits exec_outcome.splits prod.splits)
  then show ?thesis using assms(2) by (auto simp: execHandler_def Let_def split: if_splits prod.splits)
qed


definition tool_env :: mcp_env where
  "tool_env = \<lparr>me_warn_now = 1, me_now = 2, me_euid = 0, me_exec = (\<lambda>d. demo_exec_env\<lparr>ctx_done := d \<le> 0\<rparr>),
     me_os = up_env, me_ent = ''abcdefgh'', me_uni = (\<lambda>s. s)\<rparr>"

definition tool_ctx :: ctx where
  "tool_ctx = \<lparr>cx_fp = Some ''9f86d081'', cx_keyID = Some ''k1'', cx_remote = Some ''192.0.2.7:4000''\<rparr>"

definition exec_call :: ExecInput where
  "exec_call = \<lparr>ei_Command = ''ls'', ei_Args = [''-l''], ei_TimeoutMs = 0, ei_Cwd = []\<rparr>"

lemmas tool_demo_defs = tool_env_def tool_ctx_def exec_call_def demo_run_defs

lemma exec_call_started:
  "fst (execHandler demo_cfg tool_env tool_ctx exec_call) \<noteq> ToolPanic"
  "snd (snd (execHandler demo_cfg tool_env c exec_call)) \<noteq> []"
  by code_simp+


lemma execChecked_started:
  assumes "execChecked cfg env c inp = (r, as, sp)" and "sp \<noteq> []"
  shows "int (length (ei_Args inp)) \<le> MaxArgs cfg \<and> (\<forall>arg \<in> set (ei_Args inp). int (length arg) \<le> MaxArgLen cfg) \<and>
    effTimeoutMs cfg inp \<le> MaxTimeoutMs cfg \<and>
    sp = snd (Run (me_exec env (execTimeout cfg inp)) cfg
      \<lparr>Command = ei_Command inp, Args = ei_Args inp, Cwd = (if ei_Cwd inp = [] then DefaultCwd cfg else ei_Cwd inp)\<rparr>)"
  using assms by (auto simp: execChecked_def Let_def find_None_iff not_less
      split: if_splits option.splits exec_outcome.splits prod.splits)

text \<open>
  C22. A process is started only within the limits of the configuration, whatever the
  configuration and the request: not as root when that is forbidden, with at most \<open>MaxArgs\<close>
  arguments of at most \<open>MaxArgLen\<close> bytes, and with a timeout (the requested one, or the default
  for zero) of at most \<open>MaxTimeoutMs\<close> milliseconds. The context that it runs under has this
  timeout in nanoseconds, as a 64-bit product. That product is at most \<open>MaxTimeoutMs\<close>
  milliseconds too if the timeout is not negative, and it is exact up to 9223372036854
  milliseconds. Nothing keeps a timeout from being negative: then the product may wrap.
\<close>

theorem exec_within_limits:
  assumes "execHandler cfg env c inp = (r, as, sp)" and "sp \<noteq> []"
  shows "\<not> (me_euid env = 0 \<and> DenyRoot cfg) \<and>
    int (length (ei_Args inp)) \<le> MaxArgs cfg \<and> (\<forall>arg \<in> set (ei_Args inp). int (length arg) \<le> MaxArgLen cfg) \<and>
    (\<exists>ms d. ms = (if ei_TimeoutMs inp = 0 then DefaultTimeoutMs cfg else ei_TimeoutMs inp) \<and> ms \<le> MaxTimeoutMs cfg \<and>
         d = wrap64 (1000000 * ms) \<and>
         (0 \<le> ms \<longrightarrow> d \<le> 1000000 * MaxTimeoutMs cfg) \<and> (0 \<le> ms \<and> ms \<le> 9223372036854 \<longrightarrow> d = 1000000 * ms) \<and>
         sp = snd (Run (me_exec env d) cfg \<lparr>Command = ei_Command inp, Args = ei_Args inp,
                Cwd = (if ei_Cwd inp = [] then DefaultCwd cfg else ei_Cwd inp)\<rparr>))"
proof -
  obtain r' as' where ch: "execChecked cfg env c inp = (r', as', sp)" and g: "\<not> (me_euid env = 0 \<and> DenyRoot cfg)"
    using assms(1,2) by (auto simp: execHandler_def Let_def split: if_splits prod.splits)
  note st = execChecked_started [OF ch assms(2)]
  let ?ms = "effTimeoutMs cfg inp"
  have d: "execTimeout cfg inp = wrap64 (1000000 * ?ms)" by (simp add: execTimeout_def mult.commute)
  have le: "wrap64 (1000000 * ?ms) \<le> 1000000 * MaxTimeoutMs cfg" if "0 \<le> ?ms"
    using wrap64_le_nonneg [of "1000000 * ?ms"] st that by simp
  have "wrap64 (1000000 * ?ms) = 1000000 * ?ms" if "0 \<le> ?ms" "?ms \<le> 9223372036854"
    using that by (intro wrap64_id) (simp add: is_int64_def)
  then show ?thesis using st g le
    by (intro conjI exI [of _ ?ms] exI [of _ "execTimeout cfg inp"]) (auto simp: effTimeoutMs_def d)
qed

theorem exec_within_limits_witness:
  "snd (snd (execHandler demo_cfg tool_env tool_ctx exec_call)) =
     snd (Run (me_exec tool_env 30000000000) demo_cfg \<lparr>Command = ''ls'', Args = [''-l''], Cwd = ''/tmp''\<rparr>)"
proof -
  let ?h = "execHandler demo_cfg tool_env tool_ctx exec_call"
  have h: "?h = (fst ?h, fst (snd ?h), snd (snd ?h))" by simp
  show ?thesis using exec_within_limits [OF h exec_call_started(2)] by (auto simp: exec_call_def demo_cfg_def)
qed

text \<open>
  A negative timeout does pass the comparison with the maximum, and the conversion to
  nanoseconds wraps around: a request of -9300000000000 ms is run under a timeout of about
  290 years, whatever maximum is configured.
\<close>

theorem exec_negative_timeout_wraps:
  assumes "me_euid env \<noteq> 0" and "int (length (ei_Args inp)) \<le> MaxArgs cfg"
    and "\<forall>arg \<in> set (ei_Args inp). int (length arg) \<le> MaxArgLen cfg" and "0 \<le> MaxTimeoutMs cfg"
  shows "snd (snd (execHandler cfg env c (inp\<lparr>ei_TimeoutMs := -9300000000000\<rparr>))) =
    snd (Run (me_exec env 9146744073709551616) cfg \<lparr>Command = ei_Command inp, Args = ei_Args inp,
           Cwd = (if ei_Cwd inp = [] then DefaultCwd cfg else ei_Cwd inp)\<rparr>)"
proof -
  have "execTimeout cfg (inp\<lparr>ei_TimeoutMs := -9300000000000\<rparr>) = 9146744073709551616"
    by (simp add: execTimeout_def effTimeoutMs_def wrap64_def)
  moreover have "List.find (\<lambda>arg. int (length arg) > MaxArgLen cfg) (ei_Args inp) = None"
    using assms(3) by (auto simp: find_None_iff not_less)
  ultimately show ?thesis using assms(1,2,4)
    by (auto simp: execHandler_def execChecked_def effTimeoutMs_def Let_def split: exec_outcome.splits prod.splits)
qed

theorem exec_negative_timeout_wraps_witness:
  "snd (snd (execHandler demo_cfg (tool_env\<lparr>me_euid := 1000\<rparr>) tool_ctx (exec_call\<lparr>ei_TimeoutMs := -9300000000000\<rparr>))) =
     snd (Run (me_exec tool_env 9146744073709551616) demo_cfg \<lparr>Command = ''ls'', Args = [''-l''], Cwd = ''/tmp''\<rparr>)"
  using exec_negative_timeout_wraps [of "tool_env\<lparr>me_euid := 1000\<rparr>" exec_call demo_cfg tool_ctx]
  by (simp add: exec_call_def demo_cfg_def)

subsection \<open>upload_file\<close>

text \<open>
  The call of upload_file leaves one main audit record, the last one, which names the
  tool and the caller and tells success from refusal; before it there is one warning when
  the daemon runs as root and nothing otherwise. When root is forbidden, the upload root
  stays as it was. The record of a success carries the path and the size of the result.
\<close>

theorem upload_one_main_record:
  assumes "uploadHandler cfg env c inp t = (r, as, t')"
  shows "\<exists>pre a. as = pre @ [a] \<and> tool_record ''upload_file'' c r a \<and>
    length pre = (if me_euid env = 0 then 1 else 0) \<and> (\<forall>p \<in> set pre. warn_record ''upload_file'' c p) \<and>
    (me_euid env = 0 \<and> UploadDenyRoot cfg \<longrightarrow> t' = t) \<and>
    (\<forall>txt out. r = ToolOk txt out \<longrightarrow> a_Path a = uo_Path out \<and> a_Size a = uo_Size out)"
proof -
  have np: "r \<noteq> ToolPanic"
    using assms by (auto simp: uploadHandler_def uploadChecked_def Let_def
        split: if_splits option.splits sum.splits prod.splits)
  obtain pre a where p: "as = pre @ [a]" "tool_record ''upload_file'' c r a"
    "length pre = (if me_euid env = 0 then 1 else 0)" "\<forall>p \<in> set pre. warn_record ''upload_file'' c p"
    using upload_tool.main_record [OF assms np] by blast
  have "me_euid env = 0 \<and> UploadDenyRoot cfg \<longrightarrow> t' = t"
    using upload_tool.denied_root_keeps_world [of env cfg c inp t] assms by auto
  moreover have "\<forall>txt out. r = ToolOk txt out \<longrightarrow> a_Path (last as) = uo_Path out \<and> a_Size (last as) = uo_Size out"
    using assms by (auto simp: uploadHandler_def uploadChecked_def uploadAudit_def Let_def
        split: if_splits option.splits sum.splits prod.splits)
  ultimately show ?thesis using p by fastforce
qed

definition upload_call :: UploadToolInput where
  "upload_call = \<lparr>ui_Path = ''d/b'', ui_Content = StdEncoding_EncodeToString ''yyy'', ui_Overwrite = False, ui_Mode = ''640''\<rparr>"

definition tool_result_ok :: "'o tool_result \<Rightarrow> bool" where
  "tool_result_ok r = (case r of ToolOk _ _ \<Rightarrow> True | _ \<Rightarrow> False)"

lemma upload_call_ok: "tool_result_ok (fst (uploadHandler up_cfg tool_env tool_ctx upload_call up_tree))"
  by code_simp

theorem upload_one_main_record_witness:
  "\<exists>w a. fst (snd (uploadHandler up_cfg tool_env tool_ctx upload_call up_tree)) = [w, a] \<and>
     a_Result w = ''warn'' \<and> a_Result a = ''success'' \<and> a_Fingerprint a = ''9f86d081''"
proof -
  let ?h = "uploadHandler up_cfg tool_env tool_ctx upload_call up_tree"
  have h: "?h = (fst ?h, fst (snd ?h), snd (snd ?h))" by simp
  from upload_one_main_record [OF h] obtain pre a where p: "fst (snd ?h) = pre @ [a]"
    "tool_record ''upload_file'' tool_ctx (fst ?h) a" "length pre = 1"
    "\<forall>p \<in> set pre. warn_record ''upload_file'' tool_ctx p"
    by (auto simp: tool_env_def)
  then obtain w where "pre = [w]" by (cases pre) auto
  then show ?thesis using p upload_call_ok
    by (auto simp: warn_record_def tool_record_def tool_ctx_def fingerprintFromCtx_def tool_result_ok_def
        split: tool_result.splits)
qed

lemma uploadHandler_world:
  assumes "uploadHandler cfg env c inp t = (r, as, t')" and "\<not> (me_euid env = 0 \<and> UploadDenyRoot cfg)"
  obtains as' where "uploadChecked cfg env c inp t = (r, as', t')"
  using assms by (auto simp: uploadHandler_def Let_def split: if_splits prod.splits)

lemma uploadChecked_ok:
  assumes "uploadChecked cfg env c inp t = (ToolOk txt out, as, t')"
  obtains data mode res where "StdEncoding_DecodeString (ui_Content inp) = Some data"
    "(if ui_Mode inp = [] then Inr (DefaultMode cfg) else ParseMode (ui_Mode inp)) = Inr mode"
    "Upload_Write (me_os env) (me_ent env) cfg
       \<lparr>RelPath = ui_Path inp, Data = data, Overwrite = ui_Overwrite inp, Mode = mode\<rparr> t = (Inr res, t')"
    "out = \<lparr>uo_Path = ur_RelPath res, uo_Size = ur_Size res, uo_Overwritten = ur_Overwritten res, uo_Mode = fmt_04o (ur_Mode res)\<rparr>"
  using assms by (auto simp: uploadChecked_def Let_def split: if_splits option.splits sum.splits prod.splits)

lemma uploadChecked_err:
  assumes "uploadChecked cfg env c inp t = (ToolErr msg, as, t')" and "wf_tree t" and "\<not> fails (me_os env) SysRemove"
  shows "only_dirs t t'"
  using assms(1) Upload_Write_error [OF _ assms(2,3)]
  by (auto simp: uploadChecked_def Let_def split: if_splits option.splits sum.splits prod.splits)

text \<open>
  C18. The content survives the whole path from the client to the disk. If upload_file is
  called with the base64 encoding of some bytes and succeeds, then, up to directories made
  on the way, one location changed, the one the path names inside the root: it holds exactly
  these bytes, with the mode of the request or the default, and the result reports the path,
  the number of bytes and that mode. If the call is refused, at most directories were added.
\<close>

theorem upload_tool_stores_content:
  assumes "uploadHandler cfg env c inp t = (r, as, t')" and "ui_Content inp = StdEncoding_EncodeToString data"
    and "wf_tree t" and "\<not> fails (me_os env) SysRemove"
  shows "case r of
      ToolOk txt out \<Rightarrow>
        (\<exists>t1 lb mode. only_dirs t t1 \<and> root_resolve False t1 (ui_Path inp) = Inr lb \<and> ''..'' \<notin> set lb \<and>
           (if ui_Mode inp = [] then mode = DefaultMode cfg else ParseMode (ui_Mode inp) = Inr mode) \<and>
           (\<forall>l. lookup t' l = (if l = lb then Some (EReg data mode) else lookup t1 l)) \<and>
           out = \<lparr>uo_Path = ui_Path inp, uo_Size = int (length data), uo_Overwritten = uo_Overwritten out,
                  uo_Mode = fmt_04o mode\<rparr>)
    | ToolErr msg \<Rightarrow> only_dirs t t'
    | ToolPanic \<Rightarrow> False"
proof (cases "me_euid env = 0 \<and> UploadDenyRoot cfg")
  case True
  then show ?thesis using assms(1) by (auto simp: uploadHandler_def Let_def)
next
  case False
  obtain as' where ch: "uploadChecked cfg env c inp t = (r, as', t')" by (rule uploadHandler_world [OF assms(1) False])
  show ?thesis
  proof (cases r)
    case (ToolOk summary out)
    obtain data' mode res where u: "StdEncoding_DecodeString (ui_Content inp) = Some data'"
      "(if ui_Mode inp = [] then Inr (DefaultMode cfg) else ParseMode (ui_Mode inp)) = Inr mode"
      "Upload_Write (me_os env) (me_ent env) cfg
         \<lparr>RelPath = ui_Path inp, Data = data', Overwrite = ui_Overwrite inp, Mode = mode\<rparr> t = (Inr res, t')"
      "out = \<lparr>uo_Path = ur_RelPath res, uo_Size = ur_Size res, uo_Overwritten = ur_Overwritten res, uo_Mode = fmt_04o (ur_Mode res)\<rparr>"
      by (rule uploadChecked_ok [OF ch [unfolded ToolOk]])
    have d: "data' = data" using u(1) assms(2) by (simp add: decode_encode)
    obtain t1 ov where t1: "only_dirs t t1" "wf_tree t1"
      "doWrite (me_os env) (me_ent env) (Dir (ui_Path inp))
        \<lparr>RelPath = ui_Path inp, Data = data', Overwrite = ui_Overwrite inp, Mode = mode\<rparr> ov t1 = (Inr res, t')"
      using Upload_Write_ok [OF u(3) assms(3)] by (metis UploadInput.select_convs(1))
    obtain lb where lb: "root_resolve False t1 (ui_Path inp) = Inr lb"
      "\<And>l. lookup t' l = (if l = lb then Some (EReg data mode) else lookup t1 l)"
      "res = \<lparr>ur_RelPath = ui_Path inp, ur_Size = int (length data), ur_Overwritten = ov, ur_Mode = mode\<rparr>"
      using doWrite_ok [OF t1(3,2)] d by auto
    have "''..'' \<notin> set lb" using lb(1) root_walk_no_dotdot unfolding root_resolve_def by fastforce
    then show ?thesis using ToolOk u(2,4) t1 lb
      by (simp, intro exI [of _ t1] exI [of _ lb] exI [of _ mode]) (auto split: if_splits)
  next
    case (ToolErr msg)
    then show ?thesis using uploadChecked_err [OF _ assms(3,4)] ch by simp
  next
    case ToolPanic
    then show ?thesis using uploadChecked_record [OF ch] by (auto simp: tool_record_def)
  qed
qed

theorem upload_tool_stores_content_witness:
  "\<exists>t1 lb. only_dirs up_tree t1 \<and> root_resolve False t1 ''d/b'' = Inr lb \<and>
     lookup (snd (snd (uploadHandler up_cfg tool_env tool_ctx upload_call up_tree))) lb = Some (EReg ''yyy'' 0x1A0)"
proof -
  let ?h = "uploadHandler up_cfg tool_env tool_ctx upload_call up_tree"
  have h: "?h = (fst ?h, fst (snd ?h), snd (snd ?h))" by simp
  have e: "ui_Content upload_call = StdEncoding_EncodeToString ''yyy''" "ui_Mode upload_call = ''640''"
    "ui_Path upload_call = ''d/b''" "\<not> fails (me_os tool_env) SysRemove"
    by (simp_all add: upload_call_def tool_env_def up_env_def)
  have m: "ParseMode ''640'' = Inr 0x1A0" by code_simp
  show ?thesis using upload_tool_stores_content [OF h e(1) up_tree_wf(1) e(4)] upload_call_ok
    by (auto simp: e m tool_result_ok_def split: tool_result.splits)
qed

text \<open>
  The filter before decoding counts the padding: the encoding of a file whose size is
  exactly \<open>MaxFileBytes\<close> is refused as too large whenever that size is not a multiple of
  three, as the default of 716800 is not, although the check after decoding and the writer
  accept a file of this size.
\<close>

theorem upload_exact_limit_refused:
  assumes "MaxFileBytes cfg = int (length data)" and "length data mod 3 \<noteq> 0"
    and "ui_Content inp = StdEncoding_EncodeToString data" and "me_euid env \<noteq> 0"
  shows "\<exists>a. uploadHandler cfg env c inp t = (ToolErr ''file too large: exceeds max_file_bytes'', [a], t) \<and>
    a_Result a = ''deny'' \<and>
    fst (Upload_Write (me_os env) (me_ent env) cfg
      \<lparr>RelPath = ui_Path inp, Data = data, Overwrite = ui_Overwrite inp, Mode = m\<rparr> t) \<noteq> Inl ErrTooLarge"
proof -
  have "length data < (length data + 2) div 3 * 3" using assms(2) by presburger
  then have "MaxFileBytes cfg < int (StdEncoding_DecodedLen (length (ui_Content inp)))"
    using assms(1,3) by (simp add: decodedLen_encode)
  then have "uploadHandler cfg env c inp t = (ToolErr ''file too large: exceeds max_file_bytes'',
      [uploadAudit env c (ui_Path inp) ''deny'' ''file too large: exceeds max_file_bytes''], t)"
    using assms(4) by (simp add: uploadHandler_def uploadChecked_def Let_def)
  moreover have "fst (doWrite e n d i ov s) \<noteq> Inl ErrTooLarge" for e n d i ov s
    by (auto simp: doWrite_def Let_def split: option.splits sum.splits)
  then have "fst (Upload_Write (me_os env) (me_ent env) cfg
      \<lparr>RelPath = ui_Path inp, Data = data, Overwrite = ui_Overwrite inp, Mode = m\<rparr> t) \<noteq> Inl ErrTooLarge"
    using assms(1) by (auto simp: Upload_Write_def writeUnderRoot_def writeWithQuota_def checkTarget_def Let_def
        split: option.splits sum.splits prod.splits if_splits)
  ultimately show ?thesis by (simp add: uploadAudit_def)
qed

theorem upload_exact_limit_refused_witness:
  "\<exists>a. uploadHandler up_cfg (tool_env\<lparr>me_euid := 1000\<rparr>) tool_ctx
         (upload_call\<lparr>ui_Content := StdEncoding_EncodeToString ''yyyy''\<rparr>) up_tree =
       (ToolErr ''file too large: exceeds max_file_bytes'', [a], up_tree)"
  using upload_exact_limit_refused [of up_cfg "''yyyy''" "upload_call\<lparr>ui_Content := StdEncoding_EncodeToString ''yyyy''\<rparr>"
      "tool_env\<lparr>me_euid := 1000\<rparr>" tool_ctx up_tree]
  by (auto simp: up_cfg_def)

subsection \<open>Whole requests\<close>

lemma fold_auditFn: "fold auditFn as s = s\<lparr>st_audit := st_audit s @ as\<rparr>"
  by (induction as arbitrary: s) (simp_all add: auditFn_def)

text \<open>Every call appends to the log, and a change of the host comes with a record of the caller.\<close>

definition host_record :: "ctx \<Rightarrow> AuditRecord \<Rightarrow> bool" where
  "host_record c a \<longleftrightarrow>
     a_Tool a \<in> {''execute_command'', ''upload_file''} \<and> a_Fingerprint a = fingerprintFromCtx c \<and>
     a_RemoteAddr a = remoteAddrFromCtx c \<and> a_Result a \<in> {''success'', ''deny'', ''fail''}"

lemma tool_record_host:
  "tool_record name c r a \<Longrightarrow> name \<in> {''execute_command'', ''upload_file''} \<Longrightarrow> host_record c a"
  by (auto simp: tool_record_def host_record_def split: tool_result.splits)

definition logs_effects :: "ctx \<Rightarrow> host sstate \<Rightarrow> host sstate \<Rightarrow> bool" where
  "logs_effects c s s' \<longleftrightarrow>
     (\<exists>more. st_audit s' = st_audit s @ more \<and> (st_ext s' \<noteq> st_ext s \<longrightarrow> (\<exists>a \<in> set more. host_record c a)))"

lemma logs_effects_trans: "logs_effects c s s1 \<Longrightarrow> logs_effects c s1 s2 \<Longrightarrow> logs_effects c s s2"
  by (fastforce simp: logs_effects_def)

lemma callTool_logs: "logs_effects c s (snd (callTool ver execCfg uplCfg env c call s))"
proof (cases call)
  case (CallExec inp)
  obtain r as sp where h: "execHandler execCfg env c inp = (r, as, sp)" by (metis prod.collapse)
  have "\<exists>a \<in> set as. host_record c a" if "sp \<noteq> []"
  proof -
    have "r \<noteq> ToolPanic" using execHandler_spawned [OF h] that by auto
    moreover have "execTool_run execCfg env c inp [] = (r, as, sp)" using h by (simp add: execTool_run_def)
    ultimately obtain pre a where "as = pre @ [a]" "tool_record ''execute_command'' c r a"
      using exec_tool.main_record by blast
    then show ?thesis using tool_record_host by fastforce
  qed
  then show ?thesis using CallExec h by (cases "sp = []") (auto simp: callTool_def fold_auditFn logs_effects_def)
next
  case (CallUpload inp)
  obtain r as t where h: "uploadHandler uplCfg env c inp (hs_tree (st_ext s)) = (r, as, t)" by (metis prod.collapse)
  obtain a where "a \<in> set as" "host_record c a"
  proof -
    obtain rc asc tc where ch: "uploadChecked uplCfg env c inp (hs_tree (st_ext s)) = (rc, asc, tc)" by (metis prod.collapse)
    have "r \<noteq> ToolPanic" using h ch uploadChecked_record [OF ch]
      by (auto simp: uploadHandler_def Let_def tool_record_def split: if_splits)
    then obtain pre a where "as = pre @ [a]" "tool_record ''upload_file'' c r a"
      using upload_tool.main_record [OF h] by blast
    then show ?thesis using that tool_record_host by fastforce
  qed
  then show ?thesis using CallUpload h by (auto simp: callTool_def fold_auditFn logs_effects_def)
qed (auto simp: callTool_def fold_auditFn logs_effects_def split: prod.splits)

lemma callTools_logs: "logs_effects c s (snd (callTools ver execCfg uplCfg envs i c calls s))"
proof (induction calls arbitrary: i s)
  case (Cons call calls)
  show ?case using logs_effects_trans [OF callTool_logs Cons] by (simp add: case_prod_beta Let_def)
qed (simp add: logs_effects_def)

lemma NewHandler_logs: "logs_effects c s (snd (NewHandler ver execCfg uplCfg dec enc envs r c s))"
  using callTools_logs by (simp add: NewHandler_def case_prod_beta Let_def)

end
