(* ===== verification/GoParse.thy ===== *)
theory GoParse
  imports GoStd
begin

section \<open>net.ParseIP and time.ParseDuration\<close>

text \<open>
  The two parsers of the standard library that the configuration uses. Of \<^verbatim>\<open>net.ParseIP\<close>
  only the verdict is needed. In \<^verbatim>\<open>time.ParseDuration\<close> the fraction of a unit is computed in
  floating point; that product is the argument \<open>fl\<close>, of the digits, the power of ten and the
  unit. Integers are bounded as the code bounds them, so no sum wraps.
\<close>

subsection \<open>Addresses\<close>

definition is_digit :: "char \<Rightarrow> bool" where
  "is_digit c \<longleftrightarrow> digit_val c \<noteq> None"

definition is_hex :: "char \<Rightarrow> bool" where
  "is_hex c \<longleftrightarrow> c \<in> set ''0123456789abcdefABCDEF''"

definition v4_field :: "string \<Rightarrow> bool" where
  "v4_field s \<longleftrightarrow>
     list_all is_digit s \<and> (length s = 1 \<or> length s > 1 \<and> hd s \<noteq> CHR ''0'') \<and>
     (case digits_val 10 0 s of Some n \<Rightarrow> n \<le> 255 | None \<Rightarrow> False)"

definition parseIPv4 :: "string \<Rightarrow> bool" where
  "parseIPv4 s \<longleftrightarrow> (let fs = Split s CHR ''.'' in length fs = 4 \<and> list_all v4_field fs)"

text \<open>\<open>v6_fields n ell s\<close>: \<open>n\<close> groups of 16 bits are left, \<open>ell\<close> tells if \<^verbatim>\<open>::\<close> was seen.\<close>

definition v6_finish :: "nat \<Rightarrow> bool \<Rightarrow> bool" where
  "v6_finish n ell \<longleftrightarrow> (if n > 0 then ell else \<not> ell)"

fun v6_fields :: "nat \<Rightarrow> bool \<Rightarrow> string \<Rightarrow> bool" where
  "v6_fields 0 ell s \<longleftrightarrow> s = [] \<and> \<not> ell"
| "v6_fields (Suc n) ell s \<longleftrightarrow>
     (let h = takeWhile is_hex s; rest = dropWhile is_hex s in
      if h = [] \<or> length h > 4 then False
      else case rest of
             [] \<Rightarrow> v6_finish n ell
           | c # r \<Rightarrow>
               if c = CHR ''.'' then (ell \<or> n = 1) \<and> n \<ge> 1 \<and> parseIPv4 s \<and> v6_finish (n - 1) ell
               else if c \<noteq> CHR '':'' \<or> r = [] then False
               else if hd r = CHR '':'' then
                 (if ell then False else if tl r = [] then v6_finish n True else v6_fields n True (tl r))
               else v6_fields n ell r)"

definition parseIPv6 :: "string \<Rightarrow> bool" where
  "parseIPv6 s \<longleftrightarrow>
     (if prefix ''::'' s then (drop 2 s = [] \<or> v6_fields 8 True (drop 2 s)) else v6_fields 8 False s)"

text \<open>An address with a zone has no value as a \<^verbatim>\<open>net.IP\<close>, so a percent sign is always refused.\<close>

definition ParseIP :: "string \<Rightarrow> bool" where
  "ParseIP s \<longleftrightarrow>
     CHR 0x25 \<notin> set s \<and>
     (case List.find (\<lambda>c. c = CHR ''.'' \<or> c = CHR '':'') s of
        None \<Rightarrow> False
      | Some c \<Rightarrow> if c = CHR ''.'' then parseIPv4 s else parseIPv6 s)"

lemma parseIP_examples:
  "ParseIP ''127.0.0.1''" "ParseIP ''0.0.0.0''" "ParseIP ''::1''" "ParseIP ''::''" "ParseIP ''fe80::1:2''"
  "ParseIP ''::ffff:10.0.0.1''" "\<not> ParseIP ''localhost''" "\<not> ParseIP ''127.0.0.01''" "\<not> ParseIP ''1.2.3''"
  "\<not> ParseIP ''256.1.1.1''" "\<not> ParseIP ''1::2::3''" "\<not> ParseIP ''1:2:3:4:5:6:7''" "\<not> ParseIP ''fe80::1%25eth0''"
  "\<not> ParseIP ''''" "ParseIP ''1:2:3:4:5:6:7:8''" "\<not> ParseIP ''1:2:3:4:5:6:7::8:9''"
  by code_simp+

subsection \<open>Durations\<close>

fun leadingInt :: "int \<Rightarrow> string \<Rightarrow> (int \<times> string) option" where
  "leadingInt x [] = Some (x, [])"
| "leadingInt x (c # s) =
     (case digit_val c of
        None \<Rightarrow> Some (x, c # s)
      | Some d \<Rightarrow>
          if x > 2 ^ 63 div 10 then None
          else let y = x * 10 + int d in if y > 2 ^ 63 then None else leadingInt y s)"

fun leadingFraction :: "int \<Rightarrow> int \<Rightarrow> bool \<Rightarrow> string \<Rightarrow> int \<times> int \<times> string" where
  "leadingFraction x scale over [] = (x, scale, [])"
| "leadingFraction x scale over (c # s) =
     (case digit_val c of
        None \<Rightarrow> (x, scale, c # s)
      | Some d \<Rightarrow>
          if over then leadingFraction x scale True s
          else if x > (2 ^ 63 - 1) div 10 then leadingFraction x scale True s
          else let y = x * 10 + int d in
               if y > 2 ^ 63 then leadingFraction x scale True s else leadingFraction y (scale * 10) False s)"

definition unitMap :: "string \<Rightarrow> int option" where
  "unitMap u =
     (if u = ''ns'' then Some 1
      else if u = ''us'' \<or> u = [CHR 0xC2, CHR 0xB5, CHR ''s''] \<or> u = [CHR 0xCE, CHR 0xBC, CHR ''s''] then Some 1000
      else if u = ''ms'' then Some 1000000
      else if u = ''s'' then Some 1000000000
      else if u = ''m'' then Some 60000000000
      else if u = ''h'' then Some 3600000000000
      else None)"

lemma leadingInt_shorter: "leadingInt x s = Some (y, t) \<Longrightarrow> length t \<le> length s"
  by (induction s arbitrary: x) (auto simp: Let_def intro: le_SucI split: option.splits if_splits)

lemma leadingFraction_shorter: "leadingFraction x sc ov s = (y, sc', t) \<Longrightarrow> length t \<le> length s"
  by (induction s arbitrary: x sc ov) (auto simp: Let_def intro: le_SucI split: option.splits if_splits)

definition fraction_part :: "string \<Rightarrow> int \<times> int \<times> bool \<times> string" where
  "fraction_part s =
     (case s of
        c # t \<Rightarrow> if c = CHR ''.'' then (let (f, scale, u) = leadingFraction 0 1 False t in (f, scale, length u \<noteq> length t, u))
                else (0, 1, False, s)
      | [] \<Rightarrow> (0, 1, False, []))"

lemma fraction_part_shorter: "fraction_part s = (f, sc, p, t) \<Longrightarrow> length t \<le> length s"
  by (auto simp: fraction_part_def dest!: leadingFraction_shorter split: list.splits if_splits prod.splits)

definition unit_char :: "char \<Rightarrow> bool" where
  "unit_char c \<longleftrightarrow> \<not> (c = CHR ''.'' \<or> is_digit c)"

lemma duration_step_shorter:
  assumes "leadingInt 0 s = Some (v, s1)" and "fraction_part s1 = (f, sc, p, s2)" and "takeWhile unit_char s2 \<noteq> []"
  shows "length (dropWhile unit_char s2) < length s"
proof -
  have "length (dropWhile unit_char s2) < length s2"
    using assms(3) by (cases s2) (auto simp: length_dropWhile_le le_imp_less_Suc split: if_splits)
  then show ?thesis using leadingInt_shorter [OF assms(1)] fraction_part_shorter [OF assms(2)] by linarith
qed

function duration_loop :: "(int \<Rightarrow> int \<Rightarrow> int \<Rightarrow> int) \<Rightarrow> int \<Rightarrow> string \<Rightarrow> int option" where
  "duration_loop fl d s =
     (if s = [] then Some d
      else if \<not> (hd s = CHR ''.'' \<or> is_digit (hd s)) then None
      else case leadingInt 0 s of
        None \<Rightarrow> None
      | Some (v, s1) \<Rightarrow>
          (case fraction_part s1 of
             (f, scale, post, s2) \<Rightarrow>
               let u = takeWhile unit_char s2; s3 = dropWhile unit_char s2 in
               if length s1 = length s \<and> \<not> post then None
               else if u = [] then None
               else case unitMap u of
                 None \<Rightarrow> None
               | Some unit \<Rightarrow>
                   if v > 2 ^ 63 div unit then None
                   else let v1 = v * unit + (if f > 0 then fl f scale unit else 0) in
                        if v1 > 2 ^ 63 then None
                        else if d + v1 > 2 ^ 63 then None
                        else duration_loop fl (d + v1) s3))"
  by pat_completeness auto
termination
  by (relation "measure (length \<circ> snd \<circ> snd)") (auto intro: duration_step_shorter [OF _ sym])

declare duration_loop.simps [simp del]

definition ParseDuration :: "(int \<Rightarrow> int \<Rightarrow> int \<Rightarrow> int) \<Rightarrow> string \<Rightarrow> duration option" where
  "ParseDuration fl s =
     (let neg = prefix ''-'' s; t = (if neg \<or> prefix ''+'' s then tl s else s) in
      if t = ''0'' then Some 0
      else if t = [] then None
      else case duration_loop fl 0 t of
             None \<Rightarrow> None
           | Some d \<Rightarrow>
               if neg then Some (- d)
               else if d > 2 ^ 63 - 1 then None else Some d)"

lemma parseDuration_examples:
  "ParseDuration fl ''30s'' = Some 30000000000" "ParseDuration fl ''10s'' = Some 10000000000"
  "ParseDuration fl ''120s'' = Some 120000000000" "ParseDuration fl ''1h15m'' = Some 4500000000000"
  "ParseDuration fl ''-5ms'' = Some (-5000000)" "ParseDuration fl ''30'' = None" "ParseDuration fl '''' = None"
  by code_simp+

end
