(* ===== verification/Settings.thy ===== *)
theory Settings
  imports Complex_Main GoParse GoPath FileUpload CmdExec
begin

section \<open>Paths and configuration (\<open>internal/config\<close>)\<close>

text \<open>
  Where raxd keeps its files, how it makes its directories, and how \<^verbatim>\<open>config.yaml\<close> becomes a
  configuration or an error. The YAML reader and the conversions of viper are a library:
  what the file sets is the result of the read, and the conversions are the record
  \<open>viper_cast\<close>, of which \<open>cast_law\<close> states that a value of the wanted type is kept.
\<close>

unbundle bit_operations_syntax

subsection \<open>Paths (paths.go)\<close>

record PathSet =
  ConfigDir :: string
  ConfigFile :: string
  StateDir :: string
  KeysDB :: string
  TLSDir :: string

definition Paths :: "(string \<Rightarrow> string) \<Rightarrow> PathSet option" where
  "Paths getenv =
     (let home = getenv ''HOME'' in
      if home = [] then None
      else
        let configBase = (if getenv ''XDG_CONFIG_HOME'' = [] then Join [home, ''.config'']
                          else getenv ''XDG_CONFIG_HOME'');
            configDir = Join [configBase, ''raxd''];
            stateBase = (if getenv ''XDG_STATE_HOME'' = [] then Join [home, ''.local'', ''state'']
                         else getenv ''XDG_STATE_HOME'');
            stateDir = Join [stateBase, ''raxd''] in
        Some \<lparr>ConfigDir = configDir, ConfigFile = Join [configDir, ''config.yaml''], StateDir = stateDir,
              KeysDB = Join [stateDir, ''keys.db''], TLSDir = Join [stateDir, ''tls'']\<rparr>)"

text \<open>
  Directories with their permissions. \<^verbatim>\<open>os.MkdirAll\<close> makes the missing ancestors of a path
  with the given mode less the umask and leaves existing directories as they are.
\<close>

type_synonym dirs = "string \<Rightarrow> filemode option"

record dirs_env =
  mkdir_fails :: "string \<Rightarrow> bool"
  umask :: filemode

definition ancestors :: "string \<Rightarrow> string list" where
  "ancestors p =
     (let es = clean_elems (IsAbs p) [] (Split p slash) in
      map (\<lambda>n. (if IsAbs p then [slash] else []) @ Join_sep (take (Suc n) es) ''/'') [0..<length es])"

definition os_MkdirAll :: "dirs_env \<Rightarrow> string \<Rightarrow> filemode \<Rightarrow> dirs \<Rightarrow> bool \<times> dirs" where
  "os_MkdirAll env p m ds =
     (if mkdir_fails env p then (False, ds)
      else (True, \<lambda>q. if q \<in> set (ancestors p) \<and> ds q = None then Some (m AND NOT (umask env)) else ds q))"

fun mkdirs :: "dirs_env \<Rightarrow> string list \<Rightarrow> dirs \<Rightarrow> bool \<times> dirs" where
  "mkdirs env [] ds = (True, ds)"
| "mkdirs env (d # rest) ds =
     (case os_MkdirAll env d 0x1C0 ds of
        (False, ds1) \<Rightarrow> (False, ds1)
      | (True, ds1) \<Rightarrow> mkdirs env rest ds1)"

definition EnsureDirs :: "dirs_env \<Rightarrow> PathSet \<Rightarrow> dirs \<Rightarrow> bool \<times> dirs" where
  "EnsureDirs env p ds = mkdirs env [ConfigDir p, StateDir p, TLSDir p] ds"

subsection \<open>The configuration (config.go)\<close>

record ExecConfig =
  xc_Allowlist :: "string list"
  xc_DefaultTimeoutMs :: int
  xc_MaxTimeoutMs :: int
  xc_DefaultCwd :: string
  xc_EnvWhitelist :: "string list"
  xc_MaxArgs :: int
  xc_MaxArgLen :: int
  xc_MaxOutputBytes :: int
  xc_DenyRoot :: bool

record UploadSection =
  uc_Root :: string
  uc_MaxFileBytes :: int
  uc_MaxTotalBytes :: int
  uc_DefaultMode :: string
  uc_OverwriteDefault :: bool
  uc_DenyRoot :: bool

record AppConfig =
  ac_Port :: int
  ac_BindAddr :: string
  ac_RateLimit :: rat
  ac_RateBurst :: int
  ac_OriginAllow :: "string list"
  ac_HostAllow :: "string list"
  ac_ReadTimeout :: duration
  ac_ReadHeaderTimeout :: duration
  ac_WriteTimeout :: duration
  ac_IdleTimeout :: duration
  ac_MaxHeaderBytes :: int
  ac_MaxBodyBytes :: int
  ac_Exec :: ExecConfig
  ac_Upload :: UploadSection

definition LimiterTTL :: "AppConfig \<Rightarrow> duration" where
  "LimiterTTL c = 10 * 60000000000"

text \<open>A value as \<^verbatim>\<open>v.Get\<close> returns it; \<open>VOther\<close> is of any other type, named by its text.\<close>

datatype vval =
    VStr string | VInt int | VFloat rat | VBool bool | VStrs "string list" | VDur duration | VOther string

record viper_cast =
  to_string :: "vval \<Rightarrow> string"
  to_int :: "vval \<Rightarrow> int"
  to_float :: "vval \<Rightarrow> rat"
  to_bool :: "vval \<Rightarrow> bool"
  to_strings :: "vval \<Rightarrow> string list"

definition cast_law :: "viper_cast \<Rightarrow> bool" where
  "cast_law vc \<longleftrightarrow>
     (\<forall>s. to_string vc (VStr s) = s) \<and> (\<forall>n. to_int vc (VInt n) = n) \<and> (\<forall>x. to_float vc (VFloat x) = x) \<and>
     (\<forall>b. to_bool vc (VBool b) = b) \<and> (\<forall>ss. to_strings vc (VStrs ss) = ss)"

definition defaults :: "(string \<times> vval) list" where
  "defaults =
     [(''port'', VInt 7822), (''bind_addr'', VStr ''127.0.0.1''), (''rate_limit'', VFloat 10),
      (''rate_burst'', VInt 20), (''origin_allow'', VStrs [''localhost'', ''127.0.0.1'', ''::1'']),
      (''host_allow'', VStrs [''localhost'', ''127.0.0.1'', ''::1'']), (''read_timeout'', VStr ''30s''),
      (''read_header_timeout'', VStr ''10s''), (''write_timeout'', VStr ''30s''), (''idle_timeout'', VStr ''120s''),
      (''max_header_bytes'', VInt 1048576), (''max_body_bytes'', VInt 1048576),
      (''exec.allowlist'', VStrs []), (''exec.default_timeout_ms'', VInt 30000),
      (''exec.max_timeout_ms'', VInt 300000), (''exec.default_cwd'', VStr ''/tmp''),
      (''exec.env_whitelist'', VStrs [''PATH'', ''HOME'', ''LANG'', ''TERM'']), (''exec.max_args'', VInt 256),
      (''exec.max_arg_len'', VInt 131072), (''exec.max_output_bytes'', VInt 1048576),
      (''exec.deny_root'', VBool False), (''upload.root'', VStr ''''), (''upload.max_file_bytes'', VInt 716800),
      (''upload.max_total_bytes'', VInt 0), (''upload.default_mode'', VStr ''0600''),
      (''upload.overwrite_default'', VBool False), (''upload.deny_root'', VBool False)]"

text \<open>\<^verbatim>\<open>v.Get\<close>: the value of the file, else the default, else nil.\<close>

definition v_Get :: "(string \<Rightarrow> vval option) \<Rightarrow> string \<Rightarrow> vval" where
  "v_Get file key =
     (case file key of
        Some v \<Rightarrow> v
      | None \<Rightarrow> (case map_of defaults key of Some v \<Rightarrow> v | None \<Rightarrow> VOther ''nil''))"

datatype config_error =
    NotYAML string
  | BadBindAddr string
  | BadDuration string
  | BadDurationType string
  | BadMaxFileBytes int int int
  | BadMaxTotalBytes int
  | BadDefaultMode string

definition parseModeStr :: "string \<Rightarrow> filemode option" where
  "parseModeStr s =
     (if s = [] then None
      else case ParseInt s 8 32 of
             None \<Rightarrow> None
           | Some val \<Rightarrow>
               if val < 0 then None
               else let mode = (word_of_int val :: filemode) in
                    if mode AND NOT 0x1FF \<noteq> 0 then None
                    else if mode AND 2 \<noteq> 0 then None
                    else Some mode)"

definition parseDuration ::
  "(int \<Rightarrow> int \<Rightarrow> int \<Rightarrow> int) \<Rightarrow> viper_cast \<Rightarrow> (string \<Rightarrow> vval option) \<Rightarrow> string \<Rightarrow> config_error + duration" where
  "parseDuration fl vc file key =
     (case v_Get file key of
        VDur d \<Rightarrow> Inr d
      | VStr s \<Rightarrow> (case ParseDuration fl s of None \<Rightarrow> Inl (BadDuration key) | Some d \<Rightarrow> Inr d)
      | VInt n \<Rightarrow> Inr (to_int vc (VInt n))
      | VFloat x \<Rightarrow> Inr (to_int vc (VFloat x))
      | _ \<Rightarrow> Inl (BadDurationType key))"

definition upload_reserve :: int where "upload_reserve = 1024"

definition upload_ceiling :: "int \<Rightarrow> int" where
  "upload_ceiling maxBodyBytes = go_div (wrap64 (wrap64 (maxBodyBytes - upload_reserve) * 3)) 4"

definition buildConfig ::
  "(int \<Rightarrow> int \<Rightarrow> int \<Rightarrow> int) \<Rightarrow> viper_cast \<Rightarrow> (string \<Rightarrow> vval option) \<Rightarrow> config_error + AppConfig" where
  "buildConfig fl vc file =
     (let get = v_Get file; GetString = (\<lambda>k. to_string vc (get k)); GetInt = (\<lambda>k. to_int vc (get k));
          GetBool = (\<lambda>k. to_bool vc (get k)); GetStringSlice = (\<lambda>k. to_strings vc (get k));
          bindAddr = GetString ''bind_addr'' in
      if \<not> ParseIP bindAddr then Inl (BadBindAddr bindAddr)
      else case parseDuration fl vc file ''read_timeout'' of Inl e \<Rightarrow> Inl e | Inr readTimeout \<Rightarrow>
      (case parseDuration fl vc file ''read_header_timeout'' of Inl e \<Rightarrow> Inl e | Inr readHeaderTimeout \<Rightarrow>
      (case parseDuration fl vc file ''write_timeout'' of Inl e \<Rightarrow> Inl e | Inr writeTimeout \<Rightarrow>
      (case parseDuration fl vc file ''idle_timeout'' of Inl e \<Rightarrow> Inl e | Inr idleTimeout \<Rightarrow>
      (let maxBodyBytes = GetInt ''max_body_bytes''; maxFileBytes = GetInt ''upload.max_file_bytes'';
           ceiling = upload_ceiling maxBodyBytes in
       if maxFileBytes \<le> 0 \<or> maxFileBytes > ceiling then Inl (BadMaxFileBytes maxFileBytes ceiling maxBodyBytes)
       else
         let maxTotalBytes = GetInt ''upload.max_total_bytes'' in
         if maxTotalBytes < 0 then Inl (BadMaxTotalBytes maxTotalBytes)
         else
           let uploadDefaultModeStr = GetString ''upload.default_mode'' in
           if parseModeStr uploadDefaultModeStr = None then Inl (BadDefaultMode uploadDefaultModeStr)
           else Inr
             \<lparr>ac_Port = GetInt ''port'', ac_BindAddr = bindAddr, ac_RateLimit = to_float vc (get ''rate_limit''),
              ac_RateBurst = GetInt ''rate_burst'', ac_OriginAllow = GetStringSlice ''origin_allow'',
              ac_HostAllow = GetStringSlice ''host_allow'', ac_ReadTimeout = readTimeout,
              ac_ReadHeaderTimeout = readHeaderTimeout, ac_WriteTimeout = writeTimeout,
              ac_IdleTimeout = idleTimeout, ac_MaxHeaderBytes = GetInt ''max_header_bytes'',
              ac_MaxBodyBytes = GetInt ''max_body_bytes'',
              ac_Exec = \<lparr>xc_Allowlist = GetStringSlice ''exec.allowlist'',
                xc_DefaultTimeoutMs = GetInt ''exec.default_timeout_ms'',
                xc_MaxTimeoutMs = GetInt ''exec.max_timeout_ms'', xc_DefaultCwd = GetString ''exec.default_cwd'',
                xc_EnvWhitelist = GetStringSlice ''exec.env_whitelist'', xc_MaxArgs = GetInt ''exec.max_args'',
                xc_MaxArgLen = GetInt ''exec.max_arg_len'',
                xc_MaxOutputBytes = GetInt ''exec.max_output_bytes'', xc_DenyRoot = GetBool ''exec.deny_root''\<rparr>,
              ac_Upload = \<lparr>uc_Root = GetString ''upload.root'', uc_MaxFileBytes = maxFileBytes,
                uc_MaxTotalBytes = maxTotalBytes, uc_DefaultMode = uploadDefaultModeStr,
                uc_OverwriteDefault = GetBool ''upload.overwrite_default'',
                uc_DenyRoot = GetBool ''upload.deny_root''\<rparr>\<rparr>)))))"

text \<open>\<^verbatim>\<open>ReadInConfig\<close>: the file is missing, cannot be read as YAML, or sets some keys.\<close>

datatype read_result = ReadMissing | ReadFailed string | ReadOk "string \<Rightarrow> vval option"

definition Load ::
  "(int \<Rightarrow> int \<Rightarrow> int \<Rightarrow> int) \<Rightarrow> viper_cast \<Rightarrow> read_result \<Rightarrow> config_error + AppConfig" where
  "Load fl vc rd =
     (case rd of
        ReadMissing \<Rightarrow> buildConfig fl vc (\<lambda>_. None)
      | ReadFailed msg \<Rightarrow> Inl (NotYAML msg)
      | ReadOk file \<Rightarrow> buildConfig fl vc file)"

end
