(* ===== verification/SettingsProps.thy ===== *)
theory SettingsProps
  imports Settings GoBase64 FileUploadProps
begin

section \<open>Properties of the configuration\<close>

text \<open>
  What an accepted configuration guarantees to the rest of the program, what the defaults
  are, and that the directories raxd makes are private to its user.
\<close>

subsection \<open>Ancestors\<close>

lemma Clean_in_ancestors:
  assumes "path_elems p \<noteq> []"
  shows "Clean p \<in> set (ancestors p)"
proof -
  have "Clean p = (if prefix ''/'' p then [slash] else []) @ Join_sep (take (Suc (length (path_elems p) - 1)) (path_elems p)) ''/''"
    using assms by (cases "prefix ''/'' p") (simp_all add: Clean_elems)
  then show ?thesis using assms unfolding ancestors_def IsAbs_def Let_def
    by (auto intro!: image_eqI [of _ _ "length (path_elems p) - 1"])
qed

subsection \<open>Private directories\<close>

lemma Paths_dirs:
  assumes "Paths getenv = Some p" and "d \<in> {ConfigDir p, StateDir p, TLSDir p}"
  shows "path_elems d \<noteq> [] \<and> Clean d = d"
proof -
  have child: "path_elems (Join [base, e]) \<noteq> [] \<and> Clean (Join [base, e]) = Join [base, e]"
    if "base \<noteq> []" "plain_elem e" for base e
    using that by (simp add: path_elems_child Clean_Join)
  have home: "getenv ''HOME'' \<noteq> []" using assms(1) by (auto simp: Paths_def Let_def split: if_splits)
  have three: "Join [getenv ''HOME'', ''.local'', ''state''] \<noteq> []" using home by (simp add: Join_def Clean_not_Nil)
  have plain: "plain_elem ''raxd''" "plain_elem ''tls''" by (simp_all add: plain_elem_def)
  show ?thesis using assms home three plain
    by (auto simp: Paths_def Let_def child Join_not_Nil split: if_splits)
qed

definition dirs_step :: "filemode \<Rightarrow> dirs \<Rightarrow> dirs \<Rightarrow> bool" where
  "dirs_step m a b \<longleftrightarrow> (\<forall>q. b q = a q \<or> a q = None \<and> b q = Some m)"

lemma dirs_step_trans: "dirs_step m a b \<Longrightarrow> dirs_step m b c \<Longrightarrow> dirs_step m a c"
  unfolding dirs_step_def by metis

lemma mkdirs_effect:
  assumes "mkdirs env ps ds = (ok, ds')"
  shows "dirs_step (0x1C0 AND NOT (umask env)) ds ds' \<and>
    (ok \<longrightarrow> (\<forall>p \<in> set ps. path_elems p \<noteq> [] \<longrightarrow> ds' (Clean p) \<noteq> None))"
  using assms
proof (induction ps arbitrary: ds)
  case (Cons p ps)
  obtain ok1 ds1 where m: "os_MkdirAll env p 0x1C0 ds = (ok1, ds1)" by fastforce
  have s: "dirs_step (0x1C0 AND NOT (umask env)) ds ds1"
    and d: "ok1 \<Longrightarrow> path_elems p \<noteq> [] \<Longrightarrow> ds1 (Clean p) \<noteq> None"
    using m Clean_in_ancestors [of p] by (auto simp: os_MkdirAll_def dirs_step_def split: if_splits)
  show ?case
  proof (cases ok1)
    case True
    then have rest: "mkdirs env ps ds1 = (ok, ds')" using Cons.prems m by simp
    have "ds' (Clean p) \<noteq> None" if "ds1 (Clean p) \<noteq> None"
      using Cons.IH [OF rest] that unfolding dirs_step_def by metis
    then show ?thesis using Cons.IH [OF rest] dirs_step_trans [OF s] d True by auto
  next
    case False
    then show ?thesis using Cons.prems m s by auto
  qed
qed (simp add: dirs_step_def)

lemma private_step:
  "dirs_step (0x1C0 AND NOT u) ds ds' \<Longrightarrow>
   ds' q = ds q \<or> ds q = None \<and> (\<exists>m. ds' q = Some m \<and> m AND 0x3F = 0)"
proof -
  assume e: "dirs_step (0x1C0 AND NOT u) ds ds'"
  have "(0x1C0 AND NOT u) AND (0x3F :: filemode) = (0x1C0 AND 0x3F) AND NOT u"
    by (simp only: and.commute and.left_commute)
  then have "(0x1C0 AND NOT u) AND (0x3F :: filemode) = 0" by simp
  then show ?thesis using e unfolding dirs_step_def by blast
qed

text \<open>
  The directories are private. After \<^verbatim>\<open>EnsureDirs\<close> succeeds on the resolved paths, the
  configuration, state and TLS directories exist; every directory it made has no permission
  for group or others, whatever the umask; every directory that existed keeps its mode.
  When it fails, the same holds of what it did make.
\<close>

theorem ensureDirs_private:
  assumes "Paths getenv = Some p" and "EnsureDirs env p ds = (ok, ds')"
  shows "(ok \<longrightarrow> ds' (ConfigDir p) \<noteq> None \<and> ds' (StateDir p) \<noteq> None \<and> ds' (TLSDir p) \<noteq> None) \<and>
    (\<forall>q. ds' q = ds q \<or> ds q = None \<and> (\<exists>m. ds' q = Some m \<and> m AND 0x3F = 0))"
proof -
  have e: "dirs_step (0x1C0 AND NOT (umask env)) ds ds'"
    "ok \<Longrightarrow> d \<in> {ConfigDir p, StateDir p, TLSDir p} \<Longrightarrow> path_elems d \<noteq> [] \<Longrightarrow> ds' (Clean d) \<noteq> None" for d
    using mkdirs_effect [of env "[ConfigDir p, StateDir p, TLSDir p]" ds ok ds'] assms(2)
    by (auto simp: EnsureDirs_def)
  have "ds' d \<noteq> None" if "ok" "d \<in> {ConfigDir p, StateDir p, TLSDir p}" for d
    using e(2) [OF that] Paths_dirs [OF assms(1) that(2)] by simp
  then show ?thesis using private_step [OF e(1)] by blast
qed

definition home_env :: "string \<Rightarrow> string" where
  "home_env k = (if k = ''HOME'' then ''/home/u'' else [])"

definition home_paths :: PathSet where
  "home_paths = \<lparr>ConfigDir = ''/home/u/.config/raxd'', ConfigFile = ''/home/u/.config/raxd/config.yaml'',
     StateDir = ''/home/u/.local/state/raxd'', KeysDB = ''/home/u/.local/state/raxd/keys.db'',
     TLSDir = ''/home/u/.local/state/raxd/tls''\<rparr>"

lemma home_paths: "Paths home_env = Some home_paths"
  by code_simp

theorem ensureDirs_private_witness:
  "snd (EnsureDirs \<lparr>mkdir_fails = (\<lambda>_. False), umask = 0x12\<rparr> home_paths (\<lambda>_. None)) ''/home/u/.local/state/raxd/tls'' \<noteq> None"
proof -
  let ?e = "EnsureDirs \<lparr>mkdir_fails = (\<lambda>_. False), umask = 0x12\<rparr> home_paths (\<lambda>_. None)"
  have e: "?e = (True, snd ?e)" by (simp add: EnsureDirs_def os_MkdirAll_def)
  show ?thesis using ensureDirs_private [OF home_paths e] by (simp add: home_paths_def)
qed

subsection \<open>Modes\<close>

text \<open>
  The configuration and the upload code agree on file modes, although each has its own
  copy of the parser: both accept the same strings, with the same mode.
\<close>

theorem parseModeStr_equiv:
  "parseModeStr s = (case ParseMode s of Inl _ \<Rightarrow> None | Inr m \<Rightarrow> Some m)"
  by (auto simp: parseModeStr_def ParseMode_def Let_def split: option.splits)

subsection \<open>Accepted configurations\<close>

lemma upload_ceiling_le:
  assumes "is_int64 b" and "0 \<le> b" and "0 < n" and "n \<le> upload_ceiling b"
  shows "1024 < b" and "4 * n \<le> 3 * (b - 1024)"
proof -
  have b: "wrap64 (b - upload_reserve) = b - 1024"
    using assms(1,2) by (simp add: upload_reserve_def is_int64_def)
  define x where "x = wrap64 ((b - 1024) * 3)"
  have c: "upload_ceiling b = go_div x 4" by (simp add: upload_ceiling_def b x_def)
  have "x \<noteq> 0" using c assms(3,4) by (auto simp: go_div_def)
  moreover have "\<not> x < 0" using c assms(3,4) go_div_neg_nonpos [of x 4] by force
  ultimately have "0 < x" by simp
  then have n: "4 * n \<le> x" using assms(4) c by (simp add: go_div_nonneg)
  show "1024 < b"
  proof (rule ccontr)
    assume "\<not> 1024 < b"
    then have "x = (b - 1024) * 3" using assms(2) unfolding x_def by (intro wrap64_id) (simp add: is_int64_def)
    then show False using \<open>0 < x\<close> \<open>\<not> 1024 < b\<close> by simp
  qed
  then have "x \<le> (b - 1024) * 3" unfolding x_def by (intro wrap64_le_nonneg) simp
  then show "4 * n \<le> 3 * (b - 1024)" using n by simp
qed

lemma buildConfig_ok:
  assumes "buildConfig fl vc file = Inr c"
  shows "ParseIP (ac_BindAddr c)" "0 < uc_MaxFileBytes (ac_Upload c)"
    "uc_MaxFileBytes (ac_Upload c) \<le> upload_ceiling (ac_MaxBodyBytes c)" "0 \<le> uc_MaxTotalBytes (ac_Upload c)"
    "parseModeStr (uc_DefaultMode (ac_Upload c)) \<noteq> None"
  using assms by (auto simp: buildConfig_def Let_def split: if_splits sum.splits)

lemma Load_ok: "Load fl vc rd = Inr c \<Longrightarrow> \<exists>file. buildConfig fl vc file = Inr c"
  by (auto simp: Load_def split: read_result.splits)

lemma Load_ParseMode:
  assumes "Load fl vc rd = Inr c"
  shows "\<exists>m. ParseMode (uc_DefaultMode (ac_Upload c)) = Inr m"
proof -
  obtain cf where "buildConfig fl vc cf = Inr c" using Load_ok [OF assms] by blast
  from buildConfig_ok(5) [OF this] show ?thesis
    by (auto simp: parseModeStr_def ParseMode_def Let_def split: option.splits if_splits)
qed

text \<open>
  C37. What an accepted configuration guarantees, whatever the file says: the bind address is
  an IP address, the default mode parses under the upload code's own rules, the total quota
  is not negative, and the file limit is positive and within the ceiling that the code computes
  from the body limit. If the body limit, an \<^verbatim>\<open>int64\<close>, is not negative, then uploads fit: the
  base64 text of every file within the file limit is at least 1022 bytes shorter than the largest
  request body, so the limit of the transport never cuts an upload that the file limit allows.
  For a negative body limit the ceiling may wrap around, and nothing refuses it then.
\<close>

theorem load_accepts_only_valid:
  assumes "Load fl vc rd = Inr c"
  shows "ParseIP (ac_BindAddr c) \<and> (\<exists>m. ParseMode (uc_DefaultMode (ac_Upload c)) = Inr m) \<and>
    0 < uc_MaxFileBytes (ac_Upload c) \<and> uc_MaxFileBytes (ac_Upload c) \<le> upload_ceiling (ac_MaxBodyBytes c) \<and>
    0 \<le> uc_MaxTotalBytes (ac_Upload c) \<and>
    (is_int64 (ac_MaxBodyBytes c) \<and> 0 \<le> ac_MaxBodyBytes c \<longrightarrow>
       (\<forall>data. int (length data) \<le> uc_MaxFileBytes (ac_Upload c) \<longrightarrow>
          int (length (StdEncoding_EncodeToString data)) + 1022 \<le> ac_MaxBodyBytes c))"
proof -
  obtain cf where b: "buildConfig fl vc cf = Inr c" using Load_ok [OF assms] by blast
  note ok = buildConfig_ok [OF b]
  have "int (length (StdEncoding_EncodeToString data)) + 1022 \<le> ac_MaxBodyBytes c"
    if le: "int (length data) \<le> uc_MaxFileBytes (ac_Upload c)" and m: "is_int64 (ac_MaxBodyBytes c)" "0 \<le> ac_MaxBodyBytes c"
    for data
  proof -
    define k where "k = (length data + 2) div 3"
    have "k * 3 \<le> length data + 2" unfolding k_def by simp
    then have "12 * int k \<le> 4 * int (length data) + 8" by linarith
    then show ?thesis using le upload_ceiling_le [OF m ok(2,3)] by (simp add: length_encode_std flip: k_def)
  qed
  then show ?thesis using ok Load_ParseMode [OF assms] by blast
qed

definition plain_cast :: viper_cast where
  "plain_cast = \<lparr>to_string = (\<lambda>v. case v of VStr s \<Rightarrow> s | _ \<Rightarrow> ''''), to_int = (\<lambda>v. case v of VInt n \<Rightarrow> n | _ \<Rightarrow> 0),
     to_float = (\<lambda>v. case v of VFloat x \<Rightarrow> x | _ \<Rightarrow> 0), to_bool = (\<lambda>v. case v of VBool b \<Rightarrow> b | _ \<Rightarrow> False),
     to_strings = (\<lambda>v. case v of VStrs ss \<Rightarrow> ss | _ \<Rightarrow> [])\<rparr>"

lemma plain_cast_law: "cast_law plain_cast"
  by (simp add: cast_law_def plain_cast_def)

definition default_config :: AppConfig where
  "default_config =
     \<lparr>ac_Port = 7822, ac_BindAddr = ''127.0.0.1'', ac_RateLimit = 10, ac_RateBurst = 20,
      ac_OriginAllow = [''localhost'', ''127.0.0.1'', ''::1''], ac_HostAllow = [''localhost'', ''127.0.0.1'', ''::1''],
      ac_ReadTimeout = 30000000000, ac_ReadHeaderTimeout = 10000000000, ac_WriteTimeout = 30000000000,
      ac_IdleTimeout = 120000000000, ac_MaxHeaderBytes = 1048576, ac_MaxBodyBytes = 1048576,
      ac_Exec = \<lparr>xc_Allowlist = [], xc_DefaultTimeoutMs = 30000, xc_MaxTimeoutMs = 300000, xc_DefaultCwd = ''/tmp'',
        xc_EnvWhitelist = [''PATH'', ''HOME'', ''LANG'', ''TERM''], xc_MaxArgs = 256, xc_MaxArgLen = 131072,
        xc_MaxOutputBytes = 1048576, xc_DenyRoot = False\<rparr>,
      ac_Upload = \<lparr>uc_Root = [], uc_MaxFileBytes = 716800, uc_MaxTotalBytes = 0, uc_DefaultMode = ''0600'',
        uc_OverwriteDefault = False, uc_DenyRoot = False\<rparr>\<rparr>"

lemma default_durations:
  "ParseDuration fl ''30s'' = Some 30000000000" "ParseDuration fl ''10s'' = Some 10000000000"
  "ParseDuration fl ''120s'' = Some 120000000000"
  by code_simp+

lemma default_checks:
  "ParseIP ''127.0.0.1''" "parseModeStr ''0600'' = Some 0x180" "upload_ceiling 1048576 = 785664"
  by code_simp+

text \<open>
  The ceiling of the file limit is computed with wrap-around. A file that sets the body limit to
  -4000000000000000000 is accepted with the default file limit of 716800 bytes; the transport takes
  a negative limit as zero, so the server that starts refuses the body of every upload.
\<close>

lemma load_accepts_negative_body:
  assumes "cast_law vc" and "file = (\<lambda>k. if k = ''max_body_bytes'' then Some (VInt (- 4000000000000000000)) else None)"
  shows "\<exists>c. Load fl vc (ReadOk file) = Inr c \<and> ac_MaxBodyBytes c = - 4000000000000000000 \<and>
    uc_MaxFileBytes (ac_Upload c) = 716800"
proof -
  have "upload_ceiling (- 4000000000000000000) = 1611686018427387136" by code_simp
  then show ?thesis using assms
    by (simp add: Load_def buildConfig_def Let_def v_Get_def defaults_def parseDuration_def cast_law_def
        default_durations default_checks)
qed

text \<open>
  Without a configuration file raxd runs with the documented defaults, and they pass every
  check of their own: the loader returns exactly this configuration.
\<close>

theorem load_defaults:
  assumes "cast_law vc"
  shows "Load fl vc ReadMissing = Inr default_config"
  using assms
  by (simp add: Load_def buildConfig_def Let_def v_Get_def defaults_def parseDuration_def cast_law_def
      default_durations default_checks default_config_def)

theorem load_defaults_witness: "Load (\<lambda>_ _ _. 0) plain_cast ReadMissing = Inr default_config"
  by (rule load_defaults [OF plain_cast_law])

lemma plain_load: "Load (\<lambda>_ _ _. 0) plain_cast ReadMissing = Inr default_config"
  by code_simp

theorem load_accepts_only_valid_witness:
  "ParseIP (ac_BindAddr default_config) \<and>
   int (length (StdEncoding_EncodeToString ''data'')) + 1022 \<le> ac_MaxBodyBytes default_config"
proof -
  have "is_int64 (ac_MaxBodyBytes default_config)" "0 \<le> ac_MaxBodyBytes default_config"
    "int (length ''data'') \<le> uc_MaxFileBytes (ac_Upload default_config)"
    by (simp_all add: default_config_def is_int64_def)
  then show ?thesis using load_accepts_only_valid [OF plain_load] by blast
qed

end
