(* ===== verification/HttpServer.thy ===== *)
theory HttpServer
  imports Settings Mcp
begin

section \<open>The server object (\<open>internal/server/server.go\<close>)\<close>

text \<open>
  \<^verbatim>\<open>New\<close> builds the server from the configuration: the TLS pair, the limiters, the middleware
  chain around the routes, and the fields of \<^verbatim>\<open>http.Server\<close>. \<^verbatim>\<open>Run\<close> binds the port, calls the
  listen hook, serves until the context ends, and flushes the times of use.

  A request comes with its own environment: what the server sees when it handles it and what
  each of the tool calls in it sees. Requests are handled one after another here, with the ticks
  of the limiters' garbage collection among them. Where overlapping requests share state under
  a lock is the subject of \<open>UploadLock\<close> and \<open>KeyLock\<close>.
\<close>

subsection \<open>Data\<close>

definition VersionTLS13 :: nat where "VersionTLS13 = 0x0304"

record 'c tls_Config =
  MinVersion :: nat
  Certificates :: "'c list"

definition buildTLSConfig :: "'c \<Rightarrow> 'c tls_Config" where
  "buildTLSConfig cert = \<lparr>MinVersion = VersionTLS13, Certificates = [cert]\<rparr>"

record req_env =
  rv_server :: server_env
  rv_tools :: "nat \<Rightarrow> mcp_env"

type_synonym http_handler = "req_env \<Rightarrow> host handler"

record 'c http_Server =
  ht_Addr :: string
  ht_Handler :: http_handler
  ht_TLSConfig :: "'c tls_Config"
  ht_ReadTimeout :: duration
  ht_ReadHeaderTimeout :: duration
  ht_WriteTimeout :: duration
  ht_IdleTimeout :: duration
  ht_MaxHeaderBytes :: int

record CertInfo =
  CertPath :: string
  KeyPath :: string
  Generated :: bool

text \<open>A hook is what it prints; \<open>None\<close> is a hook that is not set.\<close>

record 'c Server =
  srv_httpServer :: "'c http_Server"
  srv_limiters :: Limiters
  srv_store :: Store
  srv_certInfo :: CertInfo
  srv_onListen :: "(string \<Rightarrow> string list) option"
  srv_afterShutdownHook :: "string list option"

text \<open>
  \<^verbatim>\<open>server.New\<close> wraps every error of \<^verbatim>\<open>loadOrCreateCert\<close> with \<^verbatim>\<open>ErrTLSCert\<close>: the pair is the
  error it wraps and what \<^verbatim>\<open>errors.Is(err, ErrTLSCert)\<close> says of the result.
\<close>

record new_error =
  ne_cause :: tls_error
  ne_is_ErrTLSCert :: bool

subsection \<open>Building the server\<close>

text \<open>What \<^verbatim>\<open>New\<close> takes from the configuration for its chain, its address and its limiters.\<close>

definition serverCfg :: "AppConfig \<Rightarrow> server_cfg" where
  "serverCfg cfg =
     \<lparr>BindAddr = ac_BindAddr cfg, Port = ac_Port cfg, HostAllow = ac_HostAllow cfg,
      OriginAllow = ac_OriginAllow cfg, MaxBodyBytes = ac_MaxBodyBytes cfg\<rparr>"

definition serverAddr :: "AppConfig \<Rightarrow> string" where
  "serverAddr cfg = ac_BindAddr cfg @ '':'' @ fmt_d (ac_Port cfg)"

definition serverLimiters :: "AppConfig \<Rightarrow> Limiters" where
  "serverLimiters cfg = NewLimiters (ac_RateLimit cfg) (ac_RateBurst cfg) (LimiterTTL cfg)"

definition server_New ::
  "'c x509_lib \<Rightarrow> osenv \<Rightarrow> osenv \<Rightarrow> AppConfig \<Rightarrow> PathSet \<Rightarrow> Store \<Rightarrow> ((nat \<Rightarrow> mcp_env) \<Rightarrow> host handler) option \<Rightarrow>
   disk \<Rightarrow> (new_error + 'c Server) \<times> disk" where
  "server_New lib envK envC cfg p ks mcpHandler d =
     (case loadOrCreateCert lib envK envC (TLSDir p) d of
        (Inl e, d1) \<Rightarrow> (Inl \<lparr>ne_cause = e, ne_is_ErrTLSCert = True\<rparr>, d1)
      | (Inr (cert, generated), d1) \<Rightarrow>
          (let tlsCfg = buildTLSConfig cert;
               handler = (\<lambda>e. serve (rv_server e) (serverCfg cfg) (map_option (\<lambda>h. h (rv_tools e)) mcpHandler));
               httpSrv = \<lparr>ht_Addr = serverAddr cfg, ht_Handler = handler, ht_TLSConfig = tlsCfg,
                          ht_ReadTimeout = ac_ReadTimeout cfg, ht_ReadHeaderTimeout = ac_ReadHeaderTimeout cfg,
                          ht_WriteTimeout = ac_WriteTimeout cfg, ht_IdleTimeout = ac_IdleTimeout cfg,
                          ht_MaxHeaderBytes = ac_MaxHeaderBytes cfg\<rparr> in
           (Inr \<lparr>srv_httpServer = httpSrv, srv_limiters = serverLimiters cfg, srv_store = ks,
                 srv_certInfo = \<lparr>CertPath = TLSDir p @ ''/cert.pem'', KeyPath = TLSDir p @ ''/key.pem'',
                                 Generated = generated\<rparr>,
                 srv_onListen = None, srv_afterShutdownHook = None\<rparr>, d1)))"

definition GetCertInfo :: "'c Server \<Rightarrow> CertInfo" where
  "GetCertInfo s = srv_certInfo s"

definition SetOnListen :: "(string \<Rightarrow> string list) \<Rightarrow> 'c Server \<Rightarrow> 'c Server" where
  "SetOnListen fn s = s\<lparr>srv_onListen := Some fn\<rparr>"

definition SetAfterShutdownHook :: "string list \<Rightarrow> 'c Server \<Rightarrow> 'c Server" where
  "SetAfterShutdownHook fn s = s\<lparr>srv_afterShutdownHook := Some fn\<rparr>"

definition Server_Addr :: "'c Server \<Rightarrow> string" where
  "Server_Addr s = ht_Addr (srv_httpServer s)"

subsection \<open>Serving\<close>

datatype srv_event = SrvRequest req_env request | SrvTick gotime

fun srv_step :: "http_handler \<Rightarrow> srv_event \<Rightarrow> host sstate \<Rightarrow> outcome list \<times> host sstate" where
  "srv_step h (SrvRequest e r) s = (let (o1, s1) = h e r no_ctx s in ([o1], s1))"
| "srv_step h (SrvTick now) s = ([], s\<lparr>st_limiters := gc now (st_limiters s)\<rparr>)"

fun srv_loop :: "http_handler \<Rightarrow> srv_event list \<Rightarrow> host sstate \<Rightarrow> outcome list \<times> host sstate" where
  "srv_loop h [] s = ([], s)"
| "srv_loop h (ev # evs) s =
     (let (os, s1) = srv_step h ev s; (os2, s2) = srv_loop h evs s1 in (os @ os2, s2))"

subsection \<open>Start and shutdown\<close>

definition isAddrInUse :: "string \<Rightarrow> bool" where
  "isAddrInUse msg \<longleftrightarrow> Contains msg ''address already in use'' \<or> Contains msg ''bind: address already in use''"

datatype run_error = ErrPortInUse string | RunError string

text \<open>
  The first of the two events that \<^verbatim>\<open>Run\<close> waits for: \<^verbatim>\<open>Serve\<close> returned, with \<open>None\<close> for
  \<^verbatim>\<open>ErrServerClosed\<close>, or the context ended; the latter has the error that \<^verbatim>\<open>Shutdown\<close> then
  returns, if it does and is not \<^verbatim>\<open>ErrServerClosed\<close>.
\<close>

datatype serve_event = ServeReturned "string option" | CtxDone "string option"

datatype run_action =
    ActStartGC duration
  | ActListen string
  | ActOnListen string "string list"
  | ActServe "outcome list" "AuditRecord list"
  | ActShutdown duration
  | ActWarnShutdown string
  | ActAfterShutdown "string list"
  | ActFlushUsage
  | ActWarnFlush ks_error

definition start_state :: "'c Server \<Rightarrow> host \<Rightarrow> host sstate" where
  "start_state srv x = \<lparr>st_store = srv_store srv, st_limiters = srv_limiters srv, st_audit = [], st_ext = x\<rparr>"

text \<open>
  \<^verbatim>\<open>Run\<close> with the result of \<^verbatim>\<open>net.Listen\<close> (the text of the error or the bound address), the
  requests and ticks until the end, the event that ends it, the host, and the disk for the last
  flush. The actions are in the order of the code; a request that is still running when
  \<^verbatim>\<open>Shutdown\<close> gives up after 30 seconds is not modelled.
\<close>

definition Server_Run ::
  "json \<Rightarrow> osenv \<Rightarrow> (string + string) \<Rightarrow> srv_event list \<Rightarrow> serve_event \<Rightarrow> 'c Server \<Rightarrow> host \<Rightarrow> disk \<Rightarrow>
   run_error option \<times> run_action list \<times> host sstate \<times> disk" where
  "Server_Run js env listen evs ev srv x d =
     (let addr = ht_Addr (srv_httpServer srv);
          begin_acts = [ActStartGC (5 * 60000000000), ActListen addr] in
      case listen of
        Inl msg \<Rightarrow>
          (if isAddrInUse msg then (Some (ErrPortInUse addr), begin_acts, start_state srv x, d)
           else (Some (RunError msg), begin_acts, start_state srv x, d))
      | Inr bound \<Rightarrow>
          (let hook = (case srv_onListen srv of Some fn \<Rightarrow> [ActOnListen bound (fn bound)] | None \<Rightarrow> []);
               (os, s1) = srv_loop (ht_Handler (srv_httpServer srv)) evs (start_state srv x);
               acts = begin_acts @ hook @ [ActServe os (st_audit s1)] in
           case ev of
             ServeReturned None \<Rightarrow> (None, acts, s1, d)
           | ServeReturned (Some e) \<Rightarrow> (Some (RunError e), acts, s1, d)
           | CtxDone shutdownErr \<Rightarrow>
               (let (flushErr, store1, d1) = FlushUsage js env (st_store s1) d in
                (None,
                 acts @ ActShutdown (30 * 1000000000) #
                 (case shutdownErr of Some e \<Rightarrow> [ActWarnShutdown e] | None \<Rightarrow> []) @
                 (case srv_afterShutdownHook srv of Some ls \<Rightarrow> [ActAfterShutdown ls] | None \<Rightarrow> []) @
                 ActFlushUsage #
                 (case flushErr of Some e \<Rightarrow> [ActWarnFlush e] | None \<Rightarrow> []),
                 s1\<lparr>st_store := store1\<rparr>, d1))))"

end
