(* ===== verification/Startup.thy ===== *)
theory Startup
  imports HttpServer
begin

section \<open>Starting the server (\<open>internal/cli/serve.go\<close>)\<close>

text \<open>
  \<^verbatim>\<open>raxd serve\<close>: resolve the paths, make the directories, load the configuration, open the
  key store, make the upload root, build the handlers and the server, and run it. The
  result is the error that the command returns, the lines it printed to standard error, what
  \<^verbatim>\<open>Run\<close> did, and the directories, the files and the host afterwards.

  The environment of a start has one set of faults per component. \<open>su_events\<close> are the requests
  and timer ticks between the start and the shutdown, \<open>su_dec\<close> and \<open>su_enc\<close> the protocol library
  of the tool server, and \<open>su_text\<close> is the text of an error that quotes the operating system or a
  library. \<^verbatim>\<open>mcp.NewHandler\<close> never returns an error, so the branch for one is left out.
\<close>

datatype serve_error =
    ServePaths | ServeDirs | ServeConfig config_error | ServeStore ks_error | ServeUploadRoot
  | ServeMode | ServeTls tls_error | ServeRun run_error

record 'c startup_env =
  su_getenv :: "string \<Rightarrow> string"
  su_dirs :: dirs_env
  su_fl :: "int \<Rightarrow> int \<Rightarrow> int \<Rightarrow> int"
  su_cast :: viper_cast
  su_config :: read_result
  su_json :: json
  su_os :: osenv
  su_lib :: "'c x509_lib"
  su_osKey :: osenv
  su_osCert :: osenv
  su_listen :: "string + string"
  su_event :: serve_event
  su_events :: "srv_event list"
  su_version :: string
  su_dec :: "request \<Rightarrow> tool_call list"
  su_enc :: "request \<Rightarrow> tool_answer list \<Rightarrow> outcome"
  su_text :: "serve_error \<Rightarrow> string"

record startup_state =
  ss_dirs :: dirs
  ss_disk :: disk
  ss_host :: host

subsection \<open>From the configuration to the components\<close>

definition execCfg :: "AppConfig \<Rightarrow> Config" where
  "execCfg cfg =
     \<lparr>Allowlist = xc_Allowlist (ac_Exec cfg), DefaultTimeoutMs = xc_DefaultTimeoutMs (ac_Exec cfg),
      MaxTimeoutMs = xc_MaxTimeoutMs (ac_Exec cfg), DefaultCwd = xc_DefaultCwd (ac_Exec cfg),
      EnvWhitelist = xc_EnvWhitelist (ac_Exec cfg), MaxArgs = xc_MaxArgs (ac_Exec cfg),
      MaxArgLen = xc_MaxArgLen (ac_Exec cfg), MaxOutputBytes = xc_MaxOutputBytes (ac_Exec cfg),
      DenyRoot = xc_DenyRoot (ac_Exec cfg)\<rparr>"

definition uploadRoot :: "AppConfig \<Rightarrow> PathSet \<Rightarrow> string" where
  "uploadRoot cfg p =
     (if uc_Root (ac_Upload cfg) = [] then Join [StateDir p, ''uploads''] else uc_Root (ac_Upload cfg))"

definition uplCfg :: "AppConfig \<Rightarrow> PathSet \<Rightarrow> filemode \<Rightarrow> UploadConfig" where
  "uplCfg cfg p defaultModeVal =
     \<lparr>UploadRoot = uploadRoot cfg p, MaxFileBytes = uc_MaxFileBytes (ac_Upload cfg),
      MaxTotalBytes = uc_MaxTotalBytes (ac_Upload cfg), DefaultMode = defaultModeVal,
      UploadDenyRoot = uc_DenyRoot (ac_Upload cfg)\<rparr>"

text \<open>The call of \<^verbatim>\<open>server.New\<close> with the MCP handler built from the two configurations.\<close>

definition buildServer ::
  "'c startup_env \<Rightarrow> PathSet \<Rightarrow> AppConfig \<Rightarrow> Store \<Rightarrow> filemode \<Rightarrow> disk \<Rightarrow> (new_error + 'c Server) \<times> disk" where
  "buildServer env p cfg ks defaultModeVal d =
     (let mcpH = NewHandler (su_version env) (execCfg cfg) (uplCfg cfg p defaultModeVal) (su_dec env) (su_enc env) in
      server_New (su_lib env) (su_osKey env) (su_osCert env) cfg p ks (Some mcpH) d)"

subsection \<open>Messages\<close>

definition printStartBlock :: "CertInfo \<Rightarrow> AppConfig \<Rightarrow> string list" where
  "printStartBlock ci cfg =
     (let certStatus = (if Generated ci then ''generated'' else ''loaded'');
          keyStatus = (if Generated ci then ''generated'' else ''loaded'');
          keyExtra = (if Generated ci then ''  (0600)'' else '''') in
      [''  cert      '' @ certStatus @ ''  '' @ CertPath ci,
       ''  key       '' @ keyStatus @ ''  '' @ KeyPath ci @ keyExtra,
       ''  tls       TLS 1.3 only'',
       ''  listening https://'' @ ac_BindAddr cfg @ '':'' @ fmt_d (ac_Port cfg)])"

definition tls_error_text :: "tls_error \<Rightarrow> string" where
  "tls_error_text e = (case e of ErrTLSCert \<Rightarrow> ''TLS certificate or key is corrupted or unreadable'' | ErrGenerate \<Rightarrow> ''failed to generate TLS certificate'')"

definition new_error_text :: "new_error \<Rightarrow> string" where
  "new_error_text err = tls_error_text ErrTLSCert @ '': '' @ tls_error_text (ne_cause err)"

definition printStartError :: "new_error \<Rightarrow> PathSet \<Rightarrow> string list" where
  "printStartError err p =
     (if ne_is_ErrTLSCert err \<or> Contains (new_error_text err) ''TLS certificate'' then
        [''error: TLS certificate or key is corrupted or unreadable'',
         ''  hint: remove the files in '' @ TLSDir p @ '' and run \"raxd serve\" again to regenerate'']
      else
        [''error: failed to generate TLS certificate'',
         ''  hint: check available disk space and write permissions for '' @ TLSDir p])"

definition startBlock :: "bool \<Rightarrow> CertInfo \<Rightarrow> AppConfig \<Rightarrow> string list" where
  "startBlock noKeys ci cfg =
     printStartBlock ci cfg @
     (if noKeys then
        [''  warning   no API keys found '' @ em_dash @ '' all connections will be rejected'',
         ''  hint      create a key with \"raxd key create --name <label>\"'']
      else []) @
     [''  press Ctrl+C to stop'', '''']"

definition shutdownBlock :: "string list" where
  "shutdownBlock =
     [''  shutting down  signal received'', ''  draining       waiting for active connections to finish'',
      ''  flushing       usage data flushed'', ''  stopped'', '''']"

definition run_error_text :: "run_error \<Rightarrow> string" where
  "run_error_text e = (case e of ErrPortInUse addr \<Rightarrow> ''address already in use: '' @ addr | RunError msg \<Rightarrow> msg)"

definition printRunError :: "run_error \<Rightarrow> AppConfig \<Rightarrow> string list" where
  "printRunError runErr cfg =
     (if (case runErr of ErrPortInUse _ \<Rightarrow> True | RunError _ \<Rightarrow> False) \<or> Contains (run_error_text runErr) ''address already in use'' then
        [''error: cannot bind to '' @ serverAddr cfg @ '': address already in use'',
         ''  hint: check what is using port '' @ fmt_d (ac_Port cfg) @ '' with \"lsof -i :'' @ fmt_d (ac_Port cfg) @
         ''\" and stop it, or change the port with \"raxd config port <PORT>\"'']
      else [''error: '' @ run_error_text runErr])"

subsection \<open>The command\<close>

text \<open>
  The part from \<^verbatim>\<open>server.New\<close> on. \<open>started\<close> is set by the listen hook, which \<^verbatim>\<open>Run\<close> calls
  after the bind; its lines come before everything that \<^verbatim>\<open>Run\<close> does later.
\<close>

definition runServer ::
  "'c startup_env \<Rightarrow> PathSet \<Rightarrow> AppConfig \<Rightarrow> Store \<Rightarrow> filemode \<Rightarrow> startup_state \<Rightarrow>
   serve_error option \<times> string list \<times> run_action list \<times> startup_state" where
  "runServer env p cfg ks defaultModeVal s =
     (case buildServer env p cfg ks defaultModeVal (ss_disk s) of
        (Inl err, d1) \<Rightarrow> (Some (ServeTls (ne_cause err)), printStartError err p, [], s\<lparr>ss_disk := d1\<rparr>)
      | (Inr srv0, d1) \<Rightarrow>
          (let ci = GetCertInfo srv0;
               noKeys = (List (su_json env) (su_os env) ks d1 = Inr []);
               srv = SetOnListen (\<lambda>_. startBlock noKeys ci cfg) srv0;
               (runErr, acts, st, d2) =
                 Server_Run (su_json env) (su_os env) (su_listen env) (su_events env) (su_event env) srv (ss_host s) d1;
               hook = concat (map (\<lambda>a. case a of ActOnListen _ ls \<Rightarrow> ls | _ \<Rightarrow> []) acts);
               started = list_ex (\<lambda>a. case a of ActOnListen _ _ \<Rightarrow> True | _ \<Rightarrow> False) acts;
               s2 = s\<lparr>ss_disk := d2, ss_host := st_ext st\<rparr> in
           case runErr of
             Some e \<Rightarrow> (Some (ServeRun e), hook @ printRunError e cfg, acts, s2)
           | None \<Rightarrow> (None, hook @ (if started then shutdownBlock else []), acts, s2)))"

definition runServe ::
  "'c startup_env \<Rightarrow> startup_state \<Rightarrow> serve_error option \<times> string list \<times> run_action list \<times> startup_state" where
  "runServe env s =
     (case Paths (su_getenv env) of
        None \<Rightarrow> (Some ServePaths, [''error: cannot determine config directory: $HOME is not set''], [], s)
      | Some p \<Rightarrow>
      (case EnsureDirs (su_dirs env) p (ss_dirs s) of
        (False, ds) \<Rightarrow>
          (Some ServeDirs,
           [''error: cannot create TLS directory: permission denied'',
            ''  hint: check that the current user has write access to ~/.local/state/raxd/''], [], s\<lparr>ss_dirs := ds\<rparr>)
      | (True, ds) \<Rightarrow>
      (let s1 = s\<lparr>ss_dirs := ds\<rparr> in
       case Load (su_fl env) (su_cast env) (su_config env) of
         Inl e \<Rightarrow>
           (Some (ServeConfig e),
            [''error: '' @ su_text env (ServeConfig e),
             ''  hint: set a valid address in config.yaml (field: bind_addr), for example \"127.0.0.1\" or \"0.0.0.0\"''],
            [], s1)
       | Inr cfg \<Rightarrow>
       (case Open (su_json env) (su_os env) (KeysDB p) (ss_disk s) of
         Inl e \<Rightarrow>
           (Some (ServeStore e),
            [''error: key store is corrupted or unreadable'',
             ''  hint: check file permissions on the keys.db path shown in \"raxd status\"'',
             ''  hint: do not attempt to repair the file manually '' @ em_dash @
             '' contact support if data recovery is needed''], [], s1)
       | Inr ks \<Rightarrow>
       (case os_MkdirAll (su_dirs env) (uploadRoot cfg p) 0x1C0 ds of
         (False, ds2) \<Rightarrow>
           (Some ServeUploadRoot, [''error: cannot create upload root directory: '' @ su_text env ServeUploadRoot], [],
            s1\<lparr>ss_dirs := ds2\<rparr>)
       | (True, ds2) \<Rightarrow>
       (let s2 = s1\<lparr>ss_dirs := ds2\<rparr> in
        case ParseMode (uc_DefaultMode (ac_Upload cfg)) of
          Inl _ \<Rightarrow> (Some ServeMode, [''error: invalid upload.default_mode: '' @ su_text env ServeMode], [], s2)
        | Inr defaultModeVal \<Rightarrow> runServer env p cfg ks defaultModeVal s2))))))"

end
