(* ===== verification/RequestProps.thy ===== *)
theory RequestProps
  imports HttpServer ServerProps McpProps
begin

section \<open>From a request to its effects\<close>

text \<open>
  What has to be true of a request that reaches the tools, of one that changes something on the
  host, and of the requests of a whole run. The properties of the program build on these.
\<close>

text \<open>The context of a request that presented \<open>token\<close> and was found to be the key \<open>k\<close>.\<close>

definition key_ctx :: "request \<Rightarrow> ctx \<Rightarrow> string \<Rightarrow> Record \<Rightarrow> ctx" where
  "key_ctx r c token k =
     c\<lparr>cx_fp := Some (if r_Fingerprint k = [] then Fingerprint token else r_Fingerprint k),
       cx_keyID := Some (r_ID k), cx_remote := Some (rq_RemoteAddr r)\<rparr>"

lemma gates_pass:
  obtains (refused) code s' where "st_ext s' = st_ext s" "\<And>next. gates env cfg next r c s = (http_Error code, s')"
  | (passed) token k st l where "contains (se_uni env) (HostAllow cfg) (hostOnly r)" "bearerToken r = Some token"
      "rq_Header r ''Origin'' = [] \<or> originAllowed env (rq_Header r ''Origin'') (OriginAllow cfg)"
      "Verify (se_json env) (se_os env) (se_now env) (st_store s) token (se_disk env) = (Inr (Some k), st)"
      "\<And>next. gates env cfg next r c s = next r (key_ctx r c token k) (s\<lparr>st_store := st, st_limiters := l\<rparr>)"
proof (cases "contains (se_uni env) (HostAllow cfg) (hostOnly r) \<and>
    (rq_Header r ''Origin'' = [] \<or> originAllowed env (rq_Header r ''Origin'') (OriginAllow cfg))")
  case False
  then have "\<exists>s'. st_ext s' = st_ext s \<and> (\<forall>next. gates env cfg next r c s = (http_Error 403, s'))"
    by (cases "contains (se_uni env) (HostAllow cfg) (hostOnly r)")
      (auto simp: gates_def hostOriginMiddleware_def auditFn_def Let_def)
  then show ?thesis using refused by blast
next
  case host: True
  then have g: "gates env cfg next r c s = authMiddleware env (rateLimitMiddleware env next) r c s" for "next"
    by (auto simp: gates_def hostOriginMiddleware_def Let_def)
  show ?thesis
  proof (cases "\<exists>token k st. bearerToken r = Some token \<and>
      Verify (se_json env) (se_os env) (se_now env) (st_store s) token (se_disk env) = (Inr (Some k), st)")
    case False
    then have "\<exists>code s'. st_ext s' = st_ext s \<and> (\<forall>next. gates env cfg next r c s = (http_Error code, s'))"
    proof (cases "bearerToken r")
      case None
      then show ?thesis by (auto simp: g authMiddleware_def auditFn_def Let_def)
    next
      case (Some token)
      obtain res st where "Verify (se_json env) (se_os env) (se_now env) (st_store s) token (se_disk env) = (res, st)"
        by fastforce
      moreover have "res = Inr None \<or> (\<exists>e. res = Inl e)"
        using calculation False Some by (cases res) (auto simp: not_Some_eq [symmetric] simp del: not_Some_eq)
      ultimately show ?thesis using Some by (auto simp: g authMiddleware_def auditFn_def Let_def)
    qed
    then show ?thesis using refused by blast
  next
    case True
    then obtain token k st where v: "bearerToken r = Some token"
      "Verify (se_json env) (se_os env) (se_now env) (st_store s) token (se_disk env) = (Inr (Some k), st)" by blast
    have a: "gates env cfg next r c s = rateLimitMiddleware env next r (key_ctx r c token k) (s\<lparr>st_store := st\<rparr>)" for "next"
      by (simp add: g authMiddleware_def v key_ctx_def remoteIP_def Let_def)
    obtain ok l where al: "Allow (se_now env) (se_t1 env) (se_t2 env) (fingerprintFromCtx (key_ctx r c token k))
        (ipOnly (remoteIP r)) (st_limiters s) = (ok, l)" by fastforce
    show ?thesis
    proof (cases ok)
      case True
      then show ?thesis using passed [OF _ v(1) _ v(2), of l] host al by (auto simp: a rateLimitMiddleware_def Let_def)
    next
      case False
      then have "\<exists>s'. st_ext s' = st_ext s \<and> (\<forall>next. gates env cfg next r c s = (http_Error 429, s'))"
        using al by (auto simp: a rateLimitMiddleware_def auditFn_def Let_def)
      then show ?thesis using refused by blast
    qed
  qed
qed

lemma gates_key:
  assumes "gates env cfg h1 r c s \<noteq> gates env cfg h2 r c s"
  obtains token k s' where
    "fst (Verify (se_json env) (se_os env) (se_now env) (st_store s) token (se_disk env)) = Inr (Some k)"
    "h1 r (key_ctx r c token k) s' \<noteq> h2 r (key_ctx r c token k) s'"
proof (rule gates_pass [of s env cfg r c])
  fix token k st l
  assume "Verify (se_json env) (se_os env) (se_now env) (st_store s) token (se_disk env) = (Inr (Some k), st)"
    "\<And>next. gates env cfg next r c s = next r (key_ctx r c token k) (s\<lparr>st_store := st, st_limiters := l\<rparr>)"
  then show thesis using that [of token k] assms by simp
qed (use assms in simp)

text \<open>A request that passes every check is handled under the key.\<close>

lemma serve_passes:
  assumes "contains (se_uni env) (HostAllow cfg) (hostOnly r)" and "rq_Header r ''Origin'' = []"
    and "bearerToken r = Some token"
    and "Verify (se_json env) (se_os env) (se_now env) (st_store s) token (se_disk env) = (Inr (Some k), st)"
    and "Allow (se_now env) (se_t1 env) (se_t2 env) (fingerprintFromCtx (key_ctx r c token k)) (ipOnly (rq_RemoteAddr r))
      (st_limiters s) = (True, l)"
    and "rq_Path r = ''/mcp''"
  shows "\<exists>s1. st_ext s1 = st_ext s \<and>
    snd (serve env cfg (Some h) r c s) = snd (h (r\<lparr>rq_Limit := Some (MaxBodyBytes cfg)\<rparr>) (key_ctx r c token k) s1)"
proof -
  let ?r = "r\<lparr>rq_Limit := Some (MaxBodyBytes cfg)\<rparr>"
  let ?s1 = "auditFn (emptyAudit\<lparr>a_Fingerprint := fingerprintFromCtx (key_ctx r c token k), a_RemoteAddr := rq_RemoteAddr r,
    a_Result := ''success''\<rparr>) (s\<lparr>st_store := st, st_limiters := l\<rparr>)"
  have r: "hostOnly ?r = hostOnly r" "bearerToken ?r = bearerToken r" "remoteIP ?r = rq_RemoteAddr r"
    by (simp_all add: hostOnly_def bearerToken_def remoteIP_def)
  have k: "c\<lparr>cx_fp := Some (if r_Fingerprint k = [] then Fingerprint token else r_Fingerprint k),
      cx_keyID := Some (r_ID k), cx_remote := Some (rq_RemoteAddr r)\<rparr> = key_ctx r c token k"
    by (simp add: key_ctx_def)
  have "cleanPath ''/mcp'' = ''/mcp''" by code_simp
  then have "mux (Some h) ?r c' s' = h ?r c' s'" for c' s' using assms(6) by (simp add: mux_def)
  then have "snd (serve env cfg (Some h) r c s) = snd (h ?r (key_ctx r c token k) ?s1)"
    using assms(1-5) k by (simp add: serve_gates recover_snd gates_def hostOriginMiddleware_def authMiddleware_def
        rateLimitMiddleware_def authSuccessAuditMiddleware_def r Let_def)
  moreover have "st_ext ?s1 = st_ext s" by (simp add: auditFn_def)
  ultimately show ?thesis by blast
qed

subsection \<open>One request\<close>

text \<open>
  \<open>keyed_effect cfg p as e r\<close>: the request \<open>r\<close> with environment \<open>e\<close> may have had an effect. Its
  host and origin are allowed, its path is \<^verbatim>\<open>/mcp\<close>, its bearer token verifies to an active key of
  the store at \<open>p\<close>, and \<open>as\<close> has the record of a tool under the fingerprint of that key.
\<close>

definition tool_record_of :: "request \<Rightarrow> string \<Rightarrow> AuditRecord \<Rightarrow> bool" where
  "tool_record_of r fp a \<longleftrightarrow>
     a_Tool a \<in> {''execute_command'', ''upload_file''} \<and> a_Fingerprint a = fp \<and>
     a_RemoteAddr a = (if rq_RemoteAddr r = [] then ''-'' else rq_RemoteAddr r)"

definition keyed_effect :: "server_cfg \<Rightarrow> string \<Rightarrow> AuditRecord list \<Rightarrow> server_env \<Rightarrow> request \<Rightarrow> bool" where
  "keyed_effect cfg p as env r \<longleftrightarrow>
     (\<exists>token k. bearerToken r = Some token \<and>
        fst (Verify (se_json env) (se_os env) (se_now env) \<lparr>path = p, usageBuf = []\<rparr> token (se_disk env)) = Inr (Some k) \<and>
        contains (se_uni env) (HostAllow cfg) (hostOnly r) \<and>
        (rq_Header r ''Origin'' = [] \<or> originAllowed env (rq_Header r ''Origin'') (OriginAllow cfg)) \<and>
        rq_Path r = ''/mcp'' \<and>
        list_ex (tool_record_of r (if r_Fingerprint k = [] then Fingerprint token else r_Fingerprint k)) as)"

lemma keyed_effect_mono: "keyed_effect cfg p as env r \<Longrightarrow> set as \<subseteq> set as' \<Longrightarrow> keyed_effect cfg p as' env r"
  unfolding keyed_effect_def list_ex_iff by blast

lemma Verify_same_path:
  "path s = path s' \<Longrightarrow> fst (Verify js oe now s tok d) = fst (Verify js oe now s' tok d)"
  by (simp add: Verify_def readDB_def split: sum.splits option.splits)

lemma Verify_path: "path (snd (Verify js oe now s tok d)) = path s"
  by (simp add: Verify_def split: sum.splits option.splits)

lemma callTools_store: "st_store (snd (callTools ver xcfg ucfg envs i c calls s)) = st_store s"
proof (induction calls arbitrary: i s)
  case (Cons call calls)
  have "st_store (snd (callTool ver xcfg ucfg (envs i) c call s)) = st_store s"
    by (cases call) (simp_all add: callTool_def fold_auditFn Let_def split: prod.splits)
  then show ?case using Cons by (simp add: case_prod_beta Let_def)
qed simp

lemma NewHandler_store: "st_store (snd (NewHandler ver xcfg ucfg dec enc envs r c s)) = st_store s"
  using callTools_store by (simp add: NewHandler_def case_prod_beta Let_def)

lemma serve_path:
  assumes "\<And>r c s. st_store (snd (h r c s)) = st_store s"
  shows "path (st_store (snd (serve env cfg (Some h) r c s))) = path (st_store s)"
proof -
  let ?r = "r\<lparr>rq_Limit := Some (MaxBodyBytes cfg)\<rparr>"
  have m: "st_store (snd (mux (Some h) r c s)) = st_store s" for r c s
    using assms by (simp add: mux_def healthHandler_def dispatchHandler_def)
  have v: "path st = path (st_store s)"
    if "Verify (se_json env) (se_os env) (se_now env) (st_store s) tok (se_disk env) = (res, st)" for tok res st
    using Verify_path [of "se_json env" "se_os env" "se_now env" "st_store s" tok "se_disk env"] that by simp
  have i: "path (st_store (snd (authSuccessAuditMiddleware (mux (Some h)) r c s))) = path (st_store s)" for r c s
    by (simp add: authSuccessAuditMiddleware_def m auditFn_def)
  have l: "path (st_store (snd (rateLimitMiddleware env (authSuccessAuditMiddleware (mux (Some h))) r c s))) = path (st_store s)" for r c s
    by (simp add: rateLimitMiddleware_def i auditFn_def Let_def split: prod.splits bool.splits)
  have a: "path (st_store (snd (authMiddleware env (rateLimitMiddleware env (authSuccessAuditMiddleware (mux (Some h)))) r c s))) =
      path (st_store s)" for r c
    by (auto simp: authMiddleware_def l auditFn_def Let_def dest: v split: option.splits prod.splits sum.splits)
  show ?thesis by (simp add: serve_gates recover_snd gates_def hostOriginMiddleware_def a auditFn_def Let_def)
qed

text \<open>The audit log only grows.\<close>

lemma inner_appends:
  "\<exists>more. st_audit (snd (authSuccessAuditMiddleware (mux (Some (NewHandler ver xcfg ucfg dec enc envs))) r c s)) =
     st_audit s @ more"
proof -
  have "\<exists>more. st_audit (snd (mux (Some (NewHandler ver xcfg ucfg dec enc envs)) r c s0)) = st_audit s0 @ more" for s0
    using mux_appends [of "Some (NewHandler ver xcfg ucfg dec enc envs)" r c s0] NewHandler_logs
    by (fastforce simp: logs_effects_def)
  from this [of "auditFn (emptyAudit\<lparr>a_Fingerprint := fingerprintFromCtx c, a_RemoteAddr := remoteIP r, a_Result := ''success''\<rparr>) s"]
  show ?thesis by (auto simp: authSuccessAuditMiddleware_def auditFn_def)
qed

lemma gates_appends:
  assumes "\<And>r c s. \<exists>more. st_audit (snd (h r c s)) = st_audit s @ more"
  shows "\<exists>more. st_audit (snd (gates env cfg h r c s)) = st_audit s @ more"
proof (rule gates_cases [of s env cfg r c])
  fix c' s' assume "st_audit s' = st_audit s" "\<And>next. gates env cfg next r c s = next r c' s'"
  then show ?thesis using assms [of r c' s'] by simp
qed auto

lemma serve_host_effect:
  fixes env cfg ver xcfg ucfg dec enc envs r c s
  defines "s' \<equiv> snd (serve env cfg (Some (NewHandler ver xcfg ucfg dec enc envs)) r c s)"
  shows "\<exists>more. st_audit s' = st_audit s @ more \<and>
    (st_ext s' \<noteq> st_ext s \<longrightarrow> keyed_effect cfg (path (st_store s)) more env r)"
proof -
  let ?r = "r\<lparr>rq_Limit := Some (MaxBodyBytes cfg)\<rparr>"
  let ?h = "NewHandler ver xcfg ucfg dec enc envs"
  have same [simp]: "hostOnly ?r = hostOnly r" "bearerToken ?r = bearerToken r"
    by (simp_all add: hostOnly_def bearerToken_def)
  have sv: "s' = snd (gates env cfg (authSuccessAuditMiddleware (mux (Some ?h))) ?r c s)"
    by (simp add: s'_def serve_gates recover_snd)
  have app: "\<exists>more. st_audit s' = st_audit s @ more"
    using gates_appends [of "authSuccessAuditMiddleware (mux (Some ?h))" env cfg ?r c s] inner_appends sv by metis
  show ?thesis
  proof (cases "st_ext s' = st_ext s")
    case True
    then show ?thesis using app by auto
  next
    case False
    show ?thesis
    proof (rule gates_pass [of s env cfg ?r c])
      fix code s1 assume "st_ext s1 = st_ext s" "\<And>next. gates env cfg next ?r c s = (http_Error code, s1)"
      then show ?thesis using False sv by simp
    next
      fix token k st l
      assume p: "contains (se_uni env) (HostAllow cfg) (hostOnly ?r)" "bearerToken ?r = Some token"
        "rq_Header ?r ''Origin'' = [] \<or> originAllowed env (rq_Header ?r ''Origin'') (OriginAllow cfg)"
        "Verify (se_json env) (se_os env) (se_now env) (st_store s) token (se_disk env) = (Inr (Some k), st)"
        "\<And>next. gates env cfg next ?r c s = next ?r (key_ctx ?r c token k) (s\<lparr>st_store := st, st_limiters := l\<rparr>)"
      let ?c = "key_ctx ?r c token k"
      obtain s1 rec where s1: "s' = snd (mux (Some ?h) ?r ?c s1)" "st_audit s1 = st_audit s @ [rec]" "st_ext s1 = st_ext s"
        by (simp add: sv p(5) authSuccessAuditMiddleware_def auditFn_def)
      have path: "rq_Path r = ''/mcp''" and m: "s' = snd (?h ?r ?c s1)"
        using s1 False by (auto simp: mux_def healthHandler_def dispatchHandler_def split: if_splits)
      obtain more a where "st_audit s' = st_audit s1 @ more" "a \<in> set more" "host_record ?c a"
        using NewHandler_logs [of ?c s1 ver xcfg ucfg dec enc envs ?r] False s1(3) by (auto simp: logs_effects_def m)
      moreover have "Fingerprint token \<noteq> []" by (simp add: Fingerprint_def flip: length_0_conv)
      moreover have "fst (Verify (se_json env) (se_os env) (se_now env) \<lparr>path = path (st_store s), usageBuf = []\<rparr> token
          (se_disk env)) = Inr (Some k)"
        using p(4) Verify_same_path [of "\<lparr>path = path (st_store s), usageBuf = []\<rparr>" "st_store s"] by simp
      ultimately show ?thesis using p(1-3) path s1(2)
        by (intro exI [of _ "rec # more"])
          (auto simp: keyed_effect_def tool_record_of_def list_ex_iff host_record_def key_ctx_def fingerprintFromCtx_def remoteAddrFromCtx_def)
    qed
  qed
qed

subsection \<open>A run of the server\<close>

definition tool_handler ::
  "server_cfg \<Rightarrow> string \<Rightarrow> Config \<Rightarrow> UploadConfig \<Rightarrow> (request \<Rightarrow> tool_call list) \<Rightarrow>
   (request \<Rightarrow> tool_answer list \<Rightarrow> outcome) \<Rightarrow> http_handler" where
  "tool_handler cfg ver xcfg ucfg dec enc e =
     serve (rv_server e) cfg (Some (NewHandler ver xcfg ucfg dec enc (rv_tools e)))"

lemma srv_loop_effect:
  assumes "srv_loop (tool_handler cfg ver xcfg ucfg dec enc) evs s = (os, s')"
  shows "path (st_store s') = path (st_store s)"
    and "\<exists>more. st_audit s' = st_audit s @ more \<and>
      (st_ext s' \<noteq> st_ext s \<longrightarrow>
        (\<exists>e r. SrvRequest e r \<in> set evs \<and> keyed_effect cfg (path (st_store s)) more (rv_server e) r))"
proof -
  have "path (st_store s') = path (st_store s) \<and>
    (\<exists>more. st_audit s' = st_audit s @ more \<and>
      (st_ext s' \<noteq> st_ext s \<longrightarrow>
        (\<exists>e r. SrvRequest e r \<in> set evs \<and> keyed_effect cfg (path (st_store s)) more (rv_server e) r)))"
    using assms
  proof (induction evs arbitrary: s os)
    case (Cons ev evs)
    let ?h = "tool_handler cfg ver xcfg ucfg dec enc"
    obtain os1 s1 os2 where st: "srv_step ?h ev s = (os1, s1)" "srv_loop ?h evs s1 = (os2, s')"
      using Cons.prems by (auto simp: Let_def split: prod.splits)
    note IH = Cons.IH [OF st(2)]
    show ?case
    proof (cases ev)
      case (SrvTick now)
      then have "st_store s1 = st_store s" "st_audit s1 = st_audit s" "st_ext s1 = st_ext s" using st(1) by auto
      then show ?thesis using IH by auto
    next
      case (SrvRequest e r)
      then have s1: "s1 = snd (serve (rv_server e) cfg (Some (NewHandler ver xcfg ucfg dec enc (rv_tools e))) r no_ctx s)"
        using st(1) by (auto simp: tool_handler_def Let_def split: prod.splits)
      have p: "path (st_store s1) = path (st_store s)" unfolding s1 by (rule serve_path [OF NewHandler_store])
      obtain m1 where m1: "st_audit s1 = st_audit s @ m1"
        "st_ext s1 \<noteq> st_ext s \<Longrightarrow> keyed_effect cfg (path (st_store s)) m1 (rv_server e) r"
        using serve_host_effect [of "rv_server e" cfg ver xcfg ucfg dec enc "rv_tools e" r no_ctx s] unfolding s1 by blast
      obtain m2 where m2: "st_audit s' = st_audit s1 @ m2"
        "st_ext s' \<noteq> st_ext s1 \<Longrightarrow> \<exists>e r. SrvRequest e r \<in> set evs \<and> keyed_effect cfg (path (st_store s)) m2 (rv_server e) r"
        using IH p by auto
      have "\<exists>e r. SrvRequest e r \<in> set (ev # evs) \<and> keyed_effect cfg (path (st_store s)) (m1 @ m2) (rv_server e) r"
        if "st_ext s' \<noteq> st_ext s"
      proof (cases "st_ext s1 = st_ext s")
        case True
        then show ?thesis using that m2(2) keyed_effect_mono [of _ _ m2 _ _ "m1 @ m2"] by fastforce
      next
        case False
        then show ?thesis using m1(2) SrvRequest keyed_effect_mono [of _ _ m1 _ _ "m1 @ m2"] by fastforce
      qed
      then show ?thesis using IH p m1(1) m2(1) by auto
    qed
  qed simp
  then show "path (st_store s') = path (st_store s)"
    and "\<exists>more. st_audit s' = st_audit s @ more \<and>
      (st_ext s' \<noteq> st_ext s \<longrightarrow>
        (\<exists>e r. SrvRequest e r \<in> set evs \<and> keyed_effect cfg (path (st_store s)) more (rv_server e) r))"
    by blast+
qed

end
