(* ===== verification/StartupProps.thy ===== *)
theory StartupProps
  imports Startup SettingsProps RequestProps
begin

section \<open>What a start guarantees\<close>

text \<open>
  When the server listens, what is printed and when, and which configurations reach the
  components.
\<close>

definition mkdir_all_ok :: "'c startup_env \<Rightarrow> AppConfig \<Rightarrow> PathSet \<Rightarrow> startup_state \<Rightarrow> bool" where
  "mkdir_all_ok env cfg p s \<longleftrightarrow>
     fst (EnsureDirs (su_dirs env) p (ss_dirs s)) \<and> \<not> mkdir_fails (su_dirs env) (uploadRoot cfg p)"

text \<open>The state that \<^verbatim>\<open>server.New\<close> starts from: all directories made.\<close>

definition prepared :: "'c startup_env \<Rightarrow> AppConfig \<Rightarrow> PathSet \<Rightarrow> startup_state \<Rightarrow> startup_state" where
  "prepared env cfg p s =
     s\<lparr>ss_dirs := snd (os_MkdirAll (su_dirs env) (uploadRoot cfg p) 0x1C0
                          (snd (EnsureDirs (su_dirs env) p (ss_dirs s))))\<rparr>"

text \<open>A start either stops with an error and no action, or it reaches \<^verbatim>\<open>server.New\<close>.\<close>

lemma runServe_cases:
  obtains (stopped) e out s' where "runServe env s = (Some e, out, [], s')" "e \<noteq> ServeMode"
      "\<forall>l \<in> set out. \<not> HasPrefix l ''  listening''"
      "\<not> (\<exists>p cfg ks. Paths (su_getenv env) = Some p \<and> Load (su_fl env) (su_cast env) (su_config env) = Inr cfg \<and>
         Open (su_json env) (su_os env) (KeysDB p) (ss_disk s) = Inr ks \<and> mkdir_all_ok env cfg p s)"
  | (reached) p cfg ks m where "Paths (su_getenv env) = Some p"
      "Load (su_fl env) (su_cast env) (su_config env) = Inr cfg"
      "Open (su_json env) (su_os env) (KeysDB p) (ss_disk s) = Inr ks" "mkdir_all_ok env cfg p s"
      "ParseMode (uc_DefaultMode (ac_Upload cfg)) = Inr m"
      "runServe env s = runServer env p cfg ks m (prepared env cfg p s)"
proof (cases "\<exists>p cfg ks. Paths (su_getenv env) = Some p \<and> Load (su_fl env) (su_cast env) (su_config env) = Inr cfg \<and>
    Open (su_json env) (su_os env) (KeysDB p) (ss_disk s) = Inr ks \<and> mkdir_all_ok env cfg p s")
  case True
  then obtain p cfg ks where h: "Paths (su_getenv env) = Some p"
    "Load (su_fl env) (su_cast env) (su_config env) = Inr cfg"
    "Open (su_json env) (su_os env) (KeysDB p) (ss_disk s) = Inr ks" "mkdir_all_ok env cfg p s" by blast
  obtain ds where ds: "EnsureDirs (su_dirs env) p (ss_dirs s) = (True, ds)"
    using h(4) by (cases "EnsureDirs (su_dirs env) p (ss_dirs s)") (auto simp: mkdir_all_ok_def)
  obtain m where m: "ParseMode (uc_DefaultMode (ac_Upload cfg)) = Inr m" using Load_ParseMode [OF h(2)] by auto
  have "runServe env s = runServer env p cfg ks m (prepared env cfg p s)"
    using h ds m by (auto simp: runServe_def prepared_def mkdir_all_ok_def os_MkdirAll_def Let_def)
  with h m show ?thesis by (rule reached)
next
  case False
  have "\<exists>e out s'. runServe env s = (Some e, out, [], s') \<and> e \<noteq> ServeMode \<and> (\<forall>l \<in> set out. \<not> HasPrefix l ''  listening'')"
    using False
    by (auto dest: Load_ParseMode simp: runServe_def mkdir_all_ok_def os_MkdirAll_def Let_def
        split: option.splits sum.splits prod.splits bool.splits)
  then show ?thesis using False by (auto intro: stopped)
qed


definition hook_ran :: "run_action list \<Rightarrow> bool" where
  "hook_ran acts \<longleftrightarrow> (\<exists>b ls. ActOnListen b ls \<in> set acts)"

lemma hook_ran_ex: "list_ex (\<lambda>a. case a of ActOnListen _ _ \<Rightarrow> True | _ \<Rightarrow> False) acts = hook_ran acts"
  by (induction acts) (auto simp: hook_ran_def split: run_action.split)

lemma listening_lines:
  "(\<exists>l \<in> set (startBlock n ci cfg). HasPrefix l ''  listening'')"
  "\<not> (\<exists>l \<in> set (printStartError err p). HasPrefix l ''  listening'')"
  "\<not> (\<exists>l \<in> set (printRunError e cfg). HasPrefix l ''  listening'')"
  "\<not> (\<exists>l \<in> set shutdownBlock. HasPrefix l ''  listening'')"
  by (auto simp: startBlock_def printStartBlock_def printStartError_def printRunError_def shutdownBlock_def Let_def)

text \<open>What the hook printed.\<close>

definition hook_lines :: "run_action list \<Rightarrow> string list" where
  "hook_lines acts = concat (map (\<lambda>a. case a of ActOnListen _ ls \<Rightarrow> ls | _ \<Rightarrow> []) acts)"

lemma Server_Run_hook:
  assumes "Server_Run js oe listen evs ev srv x d = (err, acts, st, d')" and "srv_onListen srv = Some fn"
  shows "case listen of Inl _ \<Rightarrow> \<not> hook_ran acts \<and> hook_lines acts = [] | Inr b \<Rightarrow> hook_ran acts \<and> hook_lines acts = fn b"
  using assms
  by (cases listen; cases ev)
    (auto simp: Server_Run_def hook_ran_def hook_lines_def Let_def split: option.splits prod.splits if_splits)

text \<open>The serving part: how the server was built, and what the requests did.\<close>

lemma Server_Run_serves:
  assumes "Server_Run js oe listen evs ev srv x d = (err, acts, st, d')"
  shows "(st_ext st = x \<and> d' = d) \<or>
    (\<exists>b os s1. listen = Inr b \<and> srv_loop (ht_Handler (srv_httpServer srv)) evs (start_state srv x) = (os, s1) \<and>
       ActServe os (st_audit s1) \<in> set acts \<and> st_ext st = st_ext s1 \<and>
       (d' = d \<or> (\<exists>fe fs. FlushUsage js oe (st_store s1) d = (fe, fs, d'))))"
  using assms
  by (auto simp: Server_Run_def start_state_def Let_def split: sum.splits serve_event.splits option.splits prod.splits if_splits)

lemma buildServer_ok:
  assumes "buildServer env p cfg ks m d = (Inr srv, d1)"
  shows "ht_Handler (srv_httpServer srv) =
      tool_handler (serverCfg cfg) (su_version env) (execCfg cfg) (uplCfg cfg p m) (su_dec env) (su_enc env)"
    and "srv_store srv = ks" and "srv_limiters srv = serverLimiters cfg"
    and "MinVersion (ht_TLSConfig (srv_httpServer srv)) = VersionTLS13"
    and "\<exists>cert g. loadOrCreateCert (su_lib env) (su_osKey env) (su_osCert env) (TLSDir p) d = (Inr (cert, g), d1) \<and>
      Certificates (ht_TLSConfig (srv_httpServer srv)) = [cert]"
  using assms by (auto simp: buildServer_def server_New_def tool_handler_def [abs_def] buildTLSConfig_def Let_def
      split: prod.splits sum.splits)

lemma runServer_cases:
  assumes "runServer env p cfg ks m s = (e, out, acts, s')"
  obtains (failed) err d1 where "buildServer env p cfg ks m (ss_disk s) = (Inl err, d1)" "acts = []" "e \<noteq> None"
      "out = printStartError err p" "s' = s\<lparr>ss_disk := d1\<rparr>"
  | (ran) srv d1 n err st d2 where "buildServer env p cfg ks m (ss_disk s) = (Inr srv, d1)"
      "Server_Run (su_json env) (su_os env) (su_listen env) (su_events env) (su_event env)
         (SetOnListen (\<lambda>_. startBlock n (GetCertInfo srv) cfg) srv) (ss_host s) d1 = (err, acts, st, d2)"
      "e = map_option ServeRun err" "s' = s\<lparr>ss_disk := d2, ss_host := st_ext st\<rparr>"
      "out = hook_lines acts @ (case err of Some re \<Rightarrow> printRunError re cfg | None \<Rightarrow> if hook_ran acts then shutdownBlock else [])"
proof (cases "buildServer env p cfg ks m (ss_disk s)")
  case (Pair r d1)
  show ?thesis
  proof (cases r)
    case (Inl err)
    then show ?thesis using assms Pair by (intro failed) (auto simp: runServer_def)
  next
    case (Inr srv)
    let ?n = "List (su_json env) (su_os env) ks d1 = Inr []"
    obtain err acts' st d2 where run: "Server_Run (su_json env) (su_os env) (su_listen env) (su_events env) (su_event env)
         (SetOnListen (\<lambda>_. startBlock ?n (GetCertInfo srv) cfg) srv) (ss_host s) d1 = (err, acts', st, d2)"
      by (metis prod_cases4)
    show ?thesis
      by (rule ran [OF Pair [unfolded Inr], of ?n err st d2])
        (use assms Pair Inr run in \<open>auto simp: runServer_def hook_ran_ex hook_lines_def Let_def split: option.splits\<close>)
  qed
qed

lemma runServer_listens:
  assumes "runServer env p cfg ks m s = (e, out, acts, s')"
  shows "hook_ran acts \<longleftrightarrow> (\<exists>srv. fst (buildServer env p cfg ks m (ss_disk s)) = Inr srv) \<and> (\<exists>b. su_listen env = Inr b)"
    and "(\<exists>l \<in> set out. HasPrefix l ''  listening'') \<longleftrightarrow> hook_ran acts"
    and "ss_dirs s' = ss_dirs s"
  using assms
proof (atomize (full), cases rule: runServer_cases)
  case (failed err d1)
  then show "(hook_ran acts \<longleftrightarrow> (\<exists>srv. fst (buildServer env p cfg ks m (ss_disk s)) = Inr srv) \<and> (\<exists>b. su_listen env = Inr b)) \<and>
      ((\<exists>l \<in> set out. HasPrefix l ''  listening'') \<longleftrightarrow> hook_ran acts) \<and> ss_dirs s' = ss_dirs s"
    using listening_lines(2) by (auto simp: hook_ran_def)
next
  case (ran srv d1 n err st d2)
  have "case su_listen env of Inl _ \<Rightarrow> \<not> hook_ran acts \<and> hook_lines acts = []
      | Inr b \<Rightarrow> hook_ran acts \<and> hook_lines acts = startBlock n (GetCertInfo srv) cfg"
    using Server_Run_hook [OF ran(2)] by (simp add: SetOnListen_def)
  then show "(hook_ran acts \<longleftrightarrow> (\<exists>srv. fst (buildServer env p cfg ks m (ss_disk s)) = Inr srv) \<and> (\<exists>b. su_listen env = Inr b)) \<and>
      ((\<exists>l \<in> set out. HasPrefix l ''  listening'') \<longleftrightarrow> hook_ran acts) \<and> ss_dirs s' = ss_dirs s"
    using ran listening_lines by (cases "su_listen env") (auto simp: bex_Un split: option.splits)
qed

text \<open>
  C36. The server listens exactly when it should, and says so exactly then. The listen hook runs
  if and only if the paths resolve, the directories and the upload root are there, the
  configuration is valid, the key store opens, the certificate is loaded or made, and the
  port is bound; the server that then runs speaks TLS 1.3 only, with that certificate. The line
  that announces the address is printed if and only if the hook ran.
\<close>

theorem serve_listens_iff:
  assumes "runServe env s = (e, out, acts, s')"
  shows "((\<exists>b ls. ActOnListen b ls \<in> set acts) \<longleftrightarrow>
      (\<exists>p cfg ks m srv d1 cert g b. Paths (su_getenv env) = Some p \<and> Load (su_fl env) (su_cast env) (su_config env) = Inr cfg \<and>
         Open (su_json env) (su_os env) (KeysDB p) (ss_disk s) = Inr ks \<and> mkdir_all_ok env cfg p s \<and>
         ParseMode (uc_DefaultMode (ac_Upload cfg)) = Inr m \<and>
         loadOrCreateCert (su_lib env) (su_osKey env) (su_osCert env) (TLSDir p) (ss_disk s) = (Inr (cert, g), d1) \<and>
         buildServer env p cfg ks m (ss_disk s) = (Inr srv, d1) \<and>
         ht_TLSConfig (srv_httpServer srv) = \<lparr>MinVersion = 0x0304, Certificates = [cert]\<rparr> \<and> su_listen env = Inr b)) \<and>
    ((\<exists>l \<in> set out. HasPrefix l ''  listening'') \<longleftrightarrow> (\<exists>b ls. ActOnListen b ls \<in> set acts))"
proof (cases rule: runServe_cases [of env s])
  case (stopped e out s')
  then show ?thesis using assms by auto
next
  case (reached p cfg ks m)
  have d: "ss_disk (prepared env cfg p s) = ss_disk s" by (simp add: prepared_def)
  have "runServer env p cfg ks m (prepared env cfg p s) = (e, out, acts, s')" using reached(6) assms by simp
  note run = runServer_listens [OF this, unfolded d]
  have tls: "\<exists>cert g. loadOrCreateCert (su_lib env) (su_osKey env) (su_osCert env) (TLSDir p) (ss_disk s) = (Inr (cert, g), d1) \<and>
      ht_TLSConfig (srv_httpServer srv) = \<lparr>MinVersion = 0x0304, Certificates = [cert]\<rparr>"
    if "buildServer env p cfg ks m (ss_disk s) = (Inr srv, d1)" for srv d1
    using buildServer_ok(4,5) [OF that] by (auto simp: VersionTLS13_def)
  have "hook_ran acts \<longleftrightarrow> (\<exists>srv d1. buildServer env p cfg ks m (ss_disk s) = (Inr srv, d1)) \<and> (\<exists>b. su_listen env = Inr b)"
    using run(1) by (metis fst_conv prod.collapse)
  then show ?thesis using reached(1-5) run(2) tls unfolding hook_ran_def by (metis option.inject sum.inject(2))
qed

text \<open>
  A running server has a valid configuration and private directories. When \<^verbatim>\<open>raxd serve\<close>
  ends without an error, it had bound its port, its configuration passed every check, the
  configuration, state and TLS directories exist, and every directory the start made, the
  upload root included, has no permission for group or others.
\<close>

theorem serve_ok_prepared:
  assumes "runServe env s = (None, out, acts, s')"
  shows "\<exists>p cfg m b. Paths (su_getenv env) = Some p \<and> Load (su_fl env) (su_cast env) (su_config env) = Inr cfg \<and>
    ParseMode (uc_DefaultMode (ac_Upload cfg)) = Inr m \<and> su_listen env = Inr b \<and>
    ss_dirs s' (ConfigDir p) \<noteq> None \<and> ss_dirs s' (StateDir p) \<noteq> None \<and> ss_dirs s' (TLSDir p) \<noteq> None \<and>
    (path_elems (uploadRoot cfg p) \<noteq> [] \<longrightarrow> ss_dirs s' (Clean (uploadRoot cfg p)) \<noteq> None) \<and>
    (\<forall>q. ss_dirs s' q = ss_dirs s q \<or> ss_dirs s q = None \<and> (\<exists>m. ss_dirs s' q = Some m \<and> m AND 0x3F = 0))"
proof (cases rule: runServe_cases [of env s])
  case (reached p cfg ks m)
  have rs: "runServer env p cfg ks m (prepared env cfg p s) = (None, out, acts, s')" using reached(6) assms by simp
  note run = runServer_listens [OF rs]
  from rs have "\<exists>b. su_listen env = Inr b"
  proof (cases rule: runServer_cases)
    case (ran srv d1 n err st d2)
    then show ?thesis by (auto simp: Server_Run_def Let_def split: sum.splits if_splits)
  qed simp
  then obtain b where b: "su_listen env = Inr b" by blast
  let ?ps = "[ConfigDir p, StateDir p, TLSDir p, uploadRoot cfg p]"
  have "mkdirs (su_dirs env) ?ps (ss_dirs s) = (True, ss_dirs (prepared env cfg p s))"
    using reached(4) by (auto simp: mkdir_all_ok_def prepared_def EnsureDirs_def os_MkdirAll_def split: prod.splits if_splits)
  moreover have "ss_dirs s' = ss_dirs (prepared env cfg p s)" by (rule run(3))
  ultimately have "mkdirs (su_dirs env) ?ps (ss_dirs s) = (True, ss_dirs s')" by simp
  from mkdirs_effect [OF this]
  have e: "dirs_step (0x1C0 AND NOT (umask (su_dirs env))) (ss_dirs s) (ss_dirs s')"
    "\<And>q. q \<in> set ?ps \<Longrightarrow> path_elems q \<noteq> [] \<Longrightarrow> ss_dirs s' (Clean q) \<noteq> None"
    by blast+
  have "ss_dirs s' q \<noteq> None" if "q \<in> {ConfigDir p, StateDir p, TLSDir p}" for q
    using e(2) [of q] Paths_dirs [OF reached(1) that] that by auto
  then show ?thesis
    using reached(1,2) Load_ParseMode [OF reached(2)] b e(2) [of "uploadRoot cfg p"] private_step [OF e(1)] by auto
qed (use assms in simp)


subsection \<open>The requests of a run\<close>

lemma Open_store: "Open js oe p d = Inr ks \<Longrightarrow> path ks = p"
  by (auto simp: Open_def Let_def split: option.splits if_splits)

text \<open>What the requests did to the host, and which store and disk the last flush wrote.\<close>

lemma runServe_run:
  fixes env :: "'c startup_env"
  assumes "runServe env s = (e, out, acts, s')"
  obtains (idle) "ss_host s' = ss_host s" "ss_disk s' = ss_disk s \<or>
      (\<exists>p r. Paths (su_getenv env) = Some p \<and>
        loadOrCreateCert (su_lib env) (su_osKey env) (su_osCert env) (TLSDir p) (ss_disk s) = (r, ss_disk s'))"
  | (served) p cfg cert d1 and srv :: "'c Server" and os s1 b ver xcfg ucfg where "Paths (su_getenv env) = Some p"
      "Load (su_fl env) (su_cast env) (su_config env) = Inr cfg"
      "loadOrCreateCert (su_lib env) (su_osKey env) (su_osCert env) (TLSDir p) (ss_disk s) = (Inr cert, d1)"
      "path (st_store (start_state srv (ss_host s))) = KeysDB p" "su_listen env = Inr b"
      "srv_loop (tool_handler (serverCfg cfg) ver xcfg ucfg (su_dec env) (su_enc env)) (su_events env)
         (start_state srv (ss_host s)) = (os, s1)"
      "ActServe os (st_audit s1) \<in> set acts" "ss_host s' = st_ext s1"
      "ss_disk s' = d1 \<or> (\<exists>fe fs. FlushUsage (su_json env) (su_os env) (st_store s1) d1 = (fe, fs, ss_disk s'))"
proof (cases rule: runServe_cases [of env s])
  case stopped
  then have "ss_host s' = ss_host s \<and> ss_disk s' = ss_disk s" using assms
    by (auto simp: runServe_def runServer_def Let_def mkdir_all_ok_def os_MkdirAll_def dest: Load_ParseMode
        split: option.splits sum.splits prod.splits bool.splits)
  then show ?thesis using idle by blast
next
  case (reached p cfg ks m)
  have d: "ss_disk (prepared env cfg p s) = ss_disk s" "ss_host (prepared env cfg p s) = ss_host s"
    by (simp_all add: prepared_def)
  have rs: "runServer env p cfg ks m (prepared env cfg p s) = (e, out, acts, s')" using reached(6) assms by simp
  show ?thesis
    using rs
  proof (cases rule: runServer_cases)
    case (failed err d1)
    then have "\<exists>r. loadOrCreateCert (su_lib env) (su_osKey env) (su_osCert env) (TLSDir p) (ss_disk s) = (r, ss_disk s')"
      using d by (auto simp: buildServer_def server_New_def Let_def split: prod.splits sum.splits)
    then show ?thesis using failed(5) d reached(1) by (intro idle) auto
  next
    case (ran srv d1 n err st d2)
    note b = buildServer_ok [OF ran(1)]
    let ?srv = "SetOnListen (\<lambda>_. startBlock n (GetCertInfo srv) cfg) srv"
    have h: "ht_Handler (srv_httpServer ?srv) = ht_Handler (srv_httpServer srv)"
      "start_state ?srv x = start_state srv x" for x
      by (simp_all add: SetOnListen_def start_state_def)
    obtain cert where cert: "loadOrCreateCert (su_lib env) (su_osKey env) (su_osCert env) (TLSDir p) (ss_disk s) = (Inr cert, d1)"
      using b(5) d(1) by auto
    have path: "path (st_store (start_state srv (ss_host s))) = KeysDB p"
      using Open_store [OF reached(3)] b(2) by (simp add: start_state_def)
    show ?thesis
    proof (cases "st_ext st = ss_host (prepared env cfg p s) \<and> d2 = d1")
      case True
      then show ?thesis using ran(4) d cert reached(1) by (intro idle) auto
    next
      case False
      then obtain b os s1 where "su_listen env = Inr b"
        "srv_loop (ht_Handler (srv_httpServer ?srv)) (su_events env) (start_state ?srv (ss_host (prepared env cfg p s))) = (os, s1)"
        "ActServe os (st_audit s1) \<in> set acts" "st_ext st = st_ext s1"
        "d2 = d1 \<or> (\<exists>fe fs. FlushUsage (su_json env) (su_os env) (st_store s1) d1 = (fe, fs, d2))"
        using Server_Run_serves [OF ran(2)] by blast
      then show ?thesis using ran(4) reached(1,2) cert path d(2) unfolding h b(1)
        by (intro served [where p = p and cfg = cfg and srv = srv and ver = "su_version env" and xcfg = "execCfg cfg"
              and ucfg = "uplCfg cfg p m"]) auto
    qed
  qed
qed

lemma runServe_effect:
  assumes "runServe env s = (e, out, acts, s')" and "ss_host s' \<noteq> ss_host s"
  shows "\<exists>p cfg os as q r. Paths (su_getenv env) = Some p \<and> Load (su_fl env) (su_cast env) (su_config env) = Inr cfg \<and>
    ActServe os as \<in> set acts \<and> SrvRequest q r \<in> set (su_events env) \<and>
    keyed_effect (serverCfg cfg) (KeysDB p) as (rv_server q) r"
  using assms(1)
proof (cases rule: runServe_run)
  case (served p cfg cert d1 srv os s1 b ver xcfg ucfg)
  have "st_audit (start_state srv (ss_host s)) = []" "st_ext (start_state srv (ss_host s)) = ss_host s"
    by (simp_all add: start_state_def)
  then obtain q r where "SrvRequest q r \<in> set (su_events env)"
    "keyed_effect (serverCfg cfg) (KeysDB p) (st_audit s1) (rv_server q) r"
    using srv_loop_effect(2) [OF served(6)] served(4,8) assms(2) by auto
  then show ?thesis using served(1,2,7) by blast
qed (use assms(2) in simp)

subsection \<open>A first start\<close>

text \<open>An empty home directory, no configuration file, no faults, and Ctrl+C at the end.\<close>

definition calm_os :: "string \<Rightarrow> osenv" where
  "calm_os tmp = \<lparr>fails = (\<lambda>_. False), tmp_name = tmp, written_before_fail = 0\<rparr>"

definition first_start :: "unit startup_env" where
  "first_start =
     \<lparr>su_getenv = home_env, su_dirs = \<lparr>mkdir_fails = (\<lambda>_. False), umask = 0x12\<rparr>, su_fl = (\<lambda>_ _ _. 0),
      su_cast = plain_cast, su_config = ReadMissing,
      su_json = \<lparr>Marshal = (\<lambda>_. Some ''db''), Unmarshal = (\<lambda>_. Some emptyDB)\<rparr>, su_os = calm_os ''t0'',
      su_lib = \<lparr>GenerateKey = Some ''k'', rand_Int = (\<lambda>_. Some 1), x_now = 0, CreateCertificate = (\<lambda>_ _. Some ''c''),
                MarshalPKCS8PrivateKey = (\<lambda>_. Some ''k''), LoadX509 = (\<lambda>_ _. Some ())\<rparr>,
      su_osKey = calm_os ''t1'', su_osCert = calm_os ''t2'', su_listen = Inr ''127.0.0.1:7822'',
      su_event = CtxDone None, su_events = [], su_version = ''dev'', su_dec = (\<lambda>_. []), su_enc = (\<lambda>_ _. Resp 200 []),
      su_text = (\<lambda>_. '''')\<rparr>"

definition empty_home :: startup_state where
  "empty_home = \<lparr>ss_dirs = (\<lambda>_. None), ss_disk = \<lparr>files = (\<lambda>_. None), hist = []\<rparr>,
     ss_host = \<lparr>hs_tree = [], hs_started = []\<rparr>\<rparr>"

lemma first_cert: "\<exists>d. loadOrCreateCert (su_lib first_start) (su_osKey first_start) (su_osCert first_start)
    (TLSDir home_paths) (ss_disk empty_home) = (Inr ((), True), d)"
proof -
  have p: "Join [''/home/u/.local/state/raxd/tls'', ''cert.pem''] = ''/home/u/.local/state/raxd/tls/cert.pem''"
    "Join [''/home/u/.local/state/raxd/tls'', ''key.pem''] = ''/home/u/.local/state/raxd/tls/key.pem''"
    by code_simp+
  show ?thesis
    by (simp add: loadOrCreateCert_def fileExists_def generateSelfSigned_def generate_def writePEM_def
        write_tmp_rename_def os_defs LoadX509KeyPair_def first_start_def calm_os_def empty_home_def home_paths_def
        certFile_def keyFile_def p Let_def)
qed

text \<open>A start in which nothing fails.\<close>

lemma start_runs:
  fixes env :: "'c startup_env"
  assumes "Paths (su_getenv env) = Some p" and "Load (su_fl env) (su_cast env) (su_config env) = Inr cfg"
    and "Open (su_json env) (su_os env) (KeysDB p) (ss_disk s) = Inr ks" and "mkdir_all_ok env cfg p s"
    and "loadOrCreateCert (su_lib env) (su_osKey env) (su_osCert env) (TLSDir p) (ss_disk s) = (Inr (cert, g), d1)"
    and "su_listen env = Inr b" and "su_event env = CtxDone x"
  obtains out acts s' and srv :: "'c Server" and m where "runServe env s = (None, out, acts, s')"
    "list_ex (\<lambda>l. HasPrefix l ''  listening'') out"
    "srv_store srv = ks" "srv_limiters srv = serverLimiters cfg"
    "ss_host s' = st_ext (snd (srv_loop
       (tool_handler (serverCfg cfg) (su_version env) (execCfg cfg) (uplCfg cfg p m) (su_dec env) (su_enc env))
       (su_events env) (start_state srv (ss_host s))))"
proof -
  obtain m where m: "ParseMode (uc_DefaultMode (ac_Upload cfg)) = Inr m" using Load_ParseMode [OF assms(2)] by auto
  have r: "runServe env s = runServer env p cfg ks m (prepared env cfg p s)"
    by (cases rule: runServe_cases [of env s]) (use assms(1-4) m in auto)
  obtain e out acts s' where rs: "runServer env p cfg ks m (prepared env cfg p s) = (e, out, acts, s')"
    by (metis prod_cases4)
  have p: "ss_disk (prepared env cfg p s) = ss_disk s" "ss_host (prepared env cfg p s) = ss_host s" by (simp_all add: prepared_def)
  obtain srv where b: "buildServer env p cfg ks m (ss_disk s) = (Inr srv, d1)"
    by (simp add: buildServer_def server_New_def assms(5) Let_def)
  have l: "list_ex (\<lambda>l. HasPrefix l ''  listening'') out"
    using runServer_listens(1,2) [OF rs] assms(6) b unfolding p by (auto simp: list_ex_iff)
  from rs have "e = None \<and> ss_host s' = st_ext (snd (srv_loop (ht_Handler (srv_httpServer srv)) (su_events env) (start_state srv (ss_host s))))"
  proof (cases rule: runServer_cases)
    case (failed err d)
    then show ?thesis using b p by simp
  next
    case (ran srv' d n err st d2)
    then have "srv' = srv" using b p by simp
    then show ?thesis using ran(2,3,4) p(2)
      by (auto simp: Server_Run_def SetOnListen_def start_state_def assms(6,7) Let_def split: prod.splits)
  qed
  then show thesis using that [of out acts s' srv m] r rs l buildServer_ok [OF b] by simp
qed

lemma first_start_run:
  obtains out acts s' where "runServe first_start empty_home = (None, out, acts, s')"
    "list_ex (\<lambda>l. HasPrefix l ''  listening'') out"
proof -
  obtain d where c: "loadOrCreateCert (su_lib first_start) (su_osKey first_start) (su_osCert first_start)
    (TLSDir home_paths) (ss_disk empty_home) = (Inr ((), True), d)" using first_cert by blast
  have o: "Open (su_json first_start) (su_os first_start) (KeysDB home_paths) (ss_disk empty_home) =
      Inr \<lparr>path = KeysDB home_paths, usageBuf = []\<rparr>"
    by (simp add: Open_def empty_home_def)
  have l: "Load (su_fl first_start) (su_cast first_start) (su_config first_start) = Inr default_config"
    using plain_load by (simp add: first_start_def)
  have m: "mkdir_all_ok first_start default_config home_paths empty_home"
    by (simp add: mkdir_all_ok_def EnsureDirs_def os_MkdirAll_def first_start_def)
  have g: "Paths (su_getenv first_start) = Some home_paths" using home_paths by (simp add: first_start_def)
  have e: "su_listen first_start = Inr ''127.0.0.1:7822''" "su_event first_start = CtxDone None"
    by (simp_all add: first_start_def)
  show thesis by (rule start_runs [OF g l o m c e]) (rule that)
qed

theorem serve_listens_iff_witness:
  "\<exists>b ls. ActOnListen b ls \<in> set (fst (snd (snd (runServe first_start empty_home))))"
proof (rule first_start_run)
  fix out acts s'
  assume r: "runServe first_start empty_home = (None, out, acts, s')" "list_ex (\<lambda>l. HasPrefix l ''  listening'') out"
  show ?thesis using serve_listens_iff [OF r(1)] r by (auto simp: list_ex_iff)
qed

theorem serve_ok_prepared_witness:
  "\<exists>p. Paths home_env = Some p \<and>
     ss_dirs (snd (snd (snd (runServe first_start empty_home)))) (TLSDir p) \<noteq> None"
proof (rule first_start_run)
  fix out acts s' assume r: "runServe first_start empty_home = (None, out, acts, s')"
  have "su_getenv first_start = home_env" by (simp add: first_start_def)
  then show ?thesis using serve_ok_prepared [OF r] r by auto
qed

subsection \<open>Two surprises\<close>

text \<open>
  A failed generation is reported as a corrupted pair. Whatever goes wrong in
  \<^verbatim>\<open>server.New\<close>, the message is the one about corrupted files and the advice is to remove
  them: the message about disk space and permissions, written for a pair that could not be
  made, is never printed.
\<close>

theorem start_error_never_generation:
  assumes "fst (server_New lib envK envC cfg p ks h d) = Inl err"
  shows "printStartError err p =
    [''error: TLS certificate or key is corrupted or unreadable'',
     ''  hint: remove the files in '' @ TLSDir p @ '' and run \"raxd serve\" again to regenerate'']"
  using assms by (auto simp: server_New_def printStartError_def split: prod.splits sum.splits)

theorem start_error_never_generation_witness:
  "fst (server_New (tls_lib\<lparr>GenerateKey := None\<rparr>) tls_env tls_env default_config home_paths demo_store None empty_tls) =
     Inl \<lparr>ne_cause = ErrGenerate, ne_is_ErrTLSCert = True\<rparr> \<and>
   printStartError \<lparr>ne_cause = ErrGenerate, ne_is_ErrTLSCert = True\<rparr> home_paths ! 0 =
     ''error: TLS certificate or key is corrupted or unreadable''"
proof -
  have n: "fst (server_New (tls_lib\<lparr>GenerateKey := None\<rparr>) tls_env tls_env default_config home_paths demo_store None empty_tls) =
      Inl \<lparr>ne_cause = ErrGenerate, ne_is_ErrTLSCert = True\<rparr>"
    by (simp add: server_New_def loadOrCreateCert_def fileExists_def generateSelfSigned_def generate_def empty_tls_def
        tls_env_def Let_def)
  show ?thesis using start_error_never_generation [OF n] n by simp
qed

lemma Run_negative_limit:
  "Allowlist cfg = [] \<Longrightarrow> MaxOutputBytes cfg < 0 \<Longrightarrow>
   validateCwd env (if Cwd inp = [] then DefaultCwd cfg else Cwd inp) = None \<Longrightarrow>
   lookupBinary env (Command inp) = Inr b \<Longrightarrow> Run env cfg inp = (ExecPanic, [])"
  by (simp add: Run_def allowed_def NewCappedWriter_def Let_def)

text \<open>
  A negative output limit is accepted, and every command then panics. With
  \<^verbatim>\<open>exec.max_output_bytes\<close> below zero and nothing else set, the configuration loads; with
  it, a command that is found and whose directory exists ends in a panic instead of
  running.
\<close>

theorem negative_output_limit_panics:
  assumes "cast_law vc" and "n < 0"
  shows "\<exists>c. Load fl vc (ReadOk [''exec.max_output_bytes'' \<mapsto> VInt n]) = Inr c \<and>
    (\<forall>env inp. validateCwd env (if Cwd inp = [] then DefaultCwd (execCfg c) else Cwd inp) = None \<and>
       (\<exists>b. lookupBinary env (Command inp) = Inr b) \<longrightarrow> Run env (execCfg c) inp = (ExecPanic, []))"
proof -
  let ?c = "default_config\<lparr>ac_Exec := (ac_Exec default_config)\<lparr>xc_MaxOutputBytes := n\<rparr>\<rparr>"
  have "Load fl vc (ReadOk [''exec.max_output_bytes'' \<mapsto> VInt n]) = Inr ?c"
    using assms(1)
    by (simp add: Load_def buildConfig_def Let_def v_Get_def defaults_def parseDuration_def cast_law_def
        default_durations default_checks default_config_def)
  moreover have "Allowlist (execCfg ?c) = []" "MaxOutputBytes (execCfg ?c) < 0"
    using assms(2) by (simp_all add: execCfg_def default_config_def)
  ultimately show ?thesis using Run_negative_limit by blast
qed

theorem negative_output_limit_panics_witness:
  "\<exists>c. Load (\<lambda>_ _ _. 0) plain_cast (ReadOk [''exec.max_output_bytes'' \<mapsto> VInt (- 1)]) = Inr c"
  using negative_output_limit_panics [OF plain_cast_law, of "- 1"] by fastforce

end
