(* ===== verification/UnitFile.thy ===== *)
theory UnitFile
  imports GoStd GoPath
begin

section \<open>The service definitions (\<open>internal/service/templates.go\<close>)\<close>

text \<open>
  The systemd unit, the launchd property list and the journald drop-in, as the lines that
  the templates produce, and the validation of the values that go into them. The texts are
  those of the source, with the bytes of its UTF-8 characters written out.
\<close>

record svc_cfg =
  sc_ExecPath :: string
  sc_Port :: int
  sc_User :: string
  sc_Group :: string
  sc_Label :: string
  sc_StateDir :: string
  sc_ConfigDir :: string
  sc_LogPath :: string

record TemplateData =
  t_ExecPath :: string
  t_User :: string
  t_Group :: string
  t_Label :: string
  t_Port :: int
  t_NeedNetBindCap :: bool
  t_StateDir :: string
  t_ConfigDir :: string
  t_LogPath :: string
  t_ConfigHome :: string
  t_StateHome :: string

subsection \<open>Validation\<close>

definition re_lower :: "char \<Rightarrow> bool" where
  "re_lower c \<longleftrightarrow> 97 \<le> (of_char c :: nat) \<and> (of_char c :: nat) \<le> 122"

definition re_digit :: "char \<Rightarrow> bool" where
  "re_digit c \<longleftrightarrow> 48 \<le> (of_char c :: nat) \<and> (of_char c :: nat) \<le> 57"

text \<open>The regular expressions \<^verbatim>\<open>^[a-z_][a-z0-9_-]{0,31}$\<close> and \<^verbatim>\<open>^[a-z][a-z0-9._-]{0,253}$\<close>.\<close>

definition posixNameRe :: "string \<Rightarrow> bool" where
  "posixNameRe s =
     (case s of
        [] \<Rightarrow> False
      | c # r \<Rightarrow> (re_lower c \<or> c = CHR ''_'') \<and> length r \<le> 31 \<and>
          list_all (\<lambda>x. re_lower x \<or> re_digit x \<or> x = CHR ''_'' \<or> x = CHR ''-'') r)"

definition labelRe :: "string \<Rightarrow> bool" where
  "labelRe s =
     (case s of
        [] \<Rightarrow> False
      | c # r \<Rightarrow> re_lower c \<and> length r \<le> 253 \<and>
          list_all (\<lambda>x. re_lower x \<or> re_digit x \<or> x = CHR ''.'' \<or> x = CHR ''_'' \<or> x = CHR ''-'') r)"

text \<open>A byte below 128 is a rune of its own wherever it stands, so the loop over runes is one over bytes.\<close>

definition hasControlChar :: "string \<Rightarrow> bool" where
  "hasControlChar s = list_ex (\<lambda>c. (of_char c :: nat) < 0x20 \<or> (of_char c :: nat) = 0x7F) s"

fun validatePaths :: "(string \<Rightarrow> string) \<Rightarrow> (string \<times> string) list \<Rightarrow> string option" where
  "validatePaths uni [] = None"
| "validatePaths uni ((name, val) # rest) =
     (if val = [] then Some (name @ '' is empty (SR-90)'')
      else if \<not> IsAbs val then Some (name @ '' '' @ Quote uni val @ '' is not absolute (SR-90)'')
      else if hasControlChar val then Some (name @ '' '' @ Quote uni val @ '' contains control characters (SR-90)'')
      else validatePaths uni rest)"

text \<open>The result is the message of the error.\<close>

definition ValidateTemplateData :: "(string \<Rightarrow> string) \<Rightarrow> TemplateData \<Rightarrow> string option" where
  "ValidateTemplateData uni d =
     (if \<not> posixNameRe (t_User d) then
        Some (''invalid User '' @ Quote uni (t_User d) @ '': must match ^[a-z_][a-z0-9_-]{0,31}$ (SR-90)'')
      else if \<not> posixNameRe (t_Group d) then
        Some (''invalid Group '' @ Quote uni (t_Group d) @ '': must match ^[a-z_][a-z0-9_-]{0,31}$ (SR-90)'')
      else if \<not> labelRe (t_Label d) then
        Some (''invalid Label '' @ Quote uni (t_Label d) @ '': must match ^[a-z][a-z0-9._-]{0,253}$ (SR-90)'')
      else if t_ExecPath d = [] then Some ''ExecPath is empty (SR-90)''
      else if \<not> IsAbs (t_ExecPath d) then
        Some (''ExecPath '' @ Quote uni (t_ExecPath d) @ '' is not absolute (SR-90)'')
      else if hasControlChar (t_ExecPath d) then
        Some (''ExecPath '' @ Quote uni (t_ExecPath d) @ '' contains control characters (SR-90)'')
      else if Clean (t_ExecPath d) \<noteq> t_ExecPath d then
        Some (''ExecPath '' @ Quote uni (t_ExecPath d) @ '' is not normalized (cleaned: '' @
              Quote uni (Clean (t_ExecPath d)) @ '') (SR-90)'')
      else if t_Port d < 1 \<or> t_Port d > 65535 then
        Some (''Port '' @ fmt_d (t_Port d) @ '' is out of range 1..65535 (SR-90)'')
      else validatePaths uni
        [(''StateDir'', t_StateDir d), (''ConfigDir'', t_ConfigDir d), (''LogPath'', t_LogPath d),
         (''ConfigHome'', t_ConfigHome d), (''StateHome'', t_StateHome d)])"

subsection \<open>The templates\<close>

definition newline :: char where "newline = CHR 0x0A"

text \<open>A text is its lines, each ended by a newline.\<close>

definition text_of :: "string list \<Rightarrow> string" where
  "text_of ls = concat (map (\<lambda>l. l @ [newline]) ls)"

definition unit_head :: "TemplateData \<Rightarrow> string list" where
  "unit_head d =
     [''# /etc/systemd/system/raxd.service'',
      ''# Generated by: raxd service install. Do not edit manually.'',
      ''# Regenerate: raxd service install (idempotent, AC9).'',
      '''',
      ''[Unit]'',
      ''Description=raxd '' @ em_dash @ '' Remote Access Daemon for AI agents (OEM TECH)'',
      ''After=network.target'',
      ''Documentation=https://github.com/vladimirvkhs/raxd'',
      '''',
      ''[Service]'',
      ''Type=exec'',
      ''ExecStart='' @ t_ExecPath d @ '' serve'',
      ''User='' @ t_User d,
      ''Group='' @ t_Group d,
      '''',
      ''# Restart on failure only (AC4); graceful SIGTERM '' @ [CHR 0xE2, CHR 0x86, CHR 0x92] @ '' clean exit '' @ [CHR 0xE2, CHR 0x86, CHR 0x92] @ '' no restart (AC5).'',
      ''Restart=on-failure'',
      ''RestartSec=2s'',
      '''',
      ''# State directory: systemd creates /var/lib/raxd with owner=raxd before start.'',
      ''# StateDirectoryMode=0700 is EXPLICIT '' @ em_dash @ '' default is 0755, which is wider than baseline '' @ [CHR 0xC2, CHR 0xA7] @ ''2.'',
      ''StateDirectory=raxd'',
      ''StateDirectoryMode=0700'',
      '''',
      ''# Config directory: systemd creates /etc/raxd owned by raxd BEFORE ExecStart (BUG-1 fix).'',
      ''# Without this, config.EnsureDirs '' @ [CHR 0xE2, CHR 0x86, CHR 0x92] @ '' MkdirAll(/etc/raxd) fails under ProtectSystem=strict.'',
      ''# ConfigurationDirectoryMode=0700 is EXPLICIT per SR-89 baseline.'',
      ''ConfigurationDirectory=raxd'',
      ''ConfigurationDirectoryMode=0700'',
      '''',
      ''# Path environment: overrides XDG defaults so internal/config/paths.go resolves'',
      ''# /etc/raxd (ConfigDir) and /var/lib/raxd (StateDir) without code changes (ADR-002).'',
      ''Environment=XDG_CONFIG_HOME=/etc'',
      ''Environment=XDG_STATE_HOME=/var/lib'',
      ''Environment=HOME=/var/lib/raxd'',
      '''',
      ''# Journal: stderr '' @ [CHR 0xE2, CHR 0x86, CHR 0x92] @ '' journald (explicit per service-design.md '' @ [CHR 0xC2, CHR 0xA7] @ ''2.1, AC8 documentation).'',
      ''StandardOutput=journal'',
      ''StandardError=journal'',
      ''SyslogIdentifier=raxd'']"

definition unit_hardening :: "TemplateData \<Rightarrow> string list" where
  "unit_hardening d =
     (if t_NeedNetBindCap d then
     ['''',
      ''# Ambient capability: present ONLY when Port<1024 (NeedNetBindCap=true, ADR-003).'',
      ''# The hardening directive for privilege escalation is omitted here (ADR-003, accepted deviation '' @ [CHR 0xD0, CHR 0x9F] @ ''-1).'',
      ''# Remaining hardening PRESERVED (SR-87).'',
      ''CapabilityBoundingSet=CAP_NET_BIND_SERVICE'',
      ''AmbientCapabilities=CAP_NET_BIND_SERVICE'']
      else
     ['''',
      ''# Full hardening for default port >= 1024.'',
      ''NoNewPrivileges=yes''])"

definition unit_tail :: "string list" where
  "unit_tail =
     [''ProtectSystem=strict'',
      ''ProtectHome=yes'',
      ''PrivateTmp=yes'',
      '''',
      ''[Install]'',
      ''WantedBy=multi-user.target'']"

definition unitTemplate :: "TemplateData \<Rightarrow> string list" where
  "unitTemplate d = unit_head d @ unit_hardening d @ unit_tail"

definition RenderUnit :: "(string \<Rightarrow> string) \<Rightarrow> TemplateData \<Rightarrow> string + string" where
  "RenderUnit uni d =
     (case ValidateTemplateData uni d of
        Some e \<Rightarrow> Inl e
      | None \<Rightarrow> Inr (text_of (unitTemplate d)))"

definition plistTemplate :: "TemplateData \<Rightarrow> string list" where
  "plistTemplate d =
     [''<?xml version=\"1.0\" encoding=\"UTF-8\"?>'',
      ''<!DOCTYPE plist PUBLIC \"-//Apple//DTD PLIST 1.0//EN\"'',
      ''    \"http://www.apple.com/DTDs/PropertyList-1.0.dtd\">'',
      ''<!-- /Library/LaunchDaemons/'' @ t_Label d @ ''.plist -->'',
      ''<!-- Generated by: raxd service install. Do not edit manually. -->'',
      ''<plist version=\"1.0\">'',
      ''<dict>'',
      ''    <!-- Required: unique job identifier (reverse DNS) -->'',
      ''    <key>Label</key>'',
      ''    <string>'' @ t_Label d @ ''</string>'',
      '''',
      ''    <!-- Command: raxd serve (AC1) -->'',
      ''    <key>ProgramArguments</key>'',
      ''    <array>'',
      ''        <string>'' @ t_ExecPath d @ ''</string>'',
      ''        <string>serve</string>'',
      ''    </array>'',
      '''',
      ''    <!-- Autostart at load/boot (AC3) -->'',
      ''    <key>RunAtLoad</key>'',
      ''    <true/>'',
      '''',
      ''    <!-- Restart on failure only: SuccessfulExit=false means restart when exit!=0.'',
      ''         Graceful stop returns code 0 '' @ [CHR 0xE2, CHR 0x86, CHR 0x92] @ '' NOT restarted (AC5).'',
      ''         Kill / panic '' @ [CHR 0xE2, CHR 0x86, CHR 0x92] @ '' exit!=0 '' @ [CHR 0xE2, CHR 0x86, CHR 0x92] @ '' restarted (AC4). -->'',
      ''    <key>KeepAlive</key>'',
      ''    <dict>'',
      ''        <key>SuccessfulExit</key>'',
      ''        <false/>'',
      ''    </dict>'',
      '''',
      ''    <!-- Non-root execution: launchd starts as root, drops to UserName (AC6, SR-83) -->'',
      ''    <key>UserName</key>'',
      ''    <string>'' @ t_User d @ ''</string>'',
      '''',
      ''    <key>GroupName</key>'',
      ''    <string>'' @ t_Group d @ ''</string>'',
      '''',
      ''    <!-- Environment: XDG paths so internal/config/paths.go resolves system dirs'',
      ''         without code changes (ADR-002). HOME needed as fallback in paths.go.'',
      ''         ConfigHome=filepath.Dir(ConfigDir), StateHome=filepath.Dir(StateDir) '' @ em_dash,
      ''         invariant: XDG_CONFIG_HOME + \"/raxd\" == ConfigDir (BUG-1 macOS fix). -->'',
      ''    <key>EnvironmentVariables</key>'',
      ''    <dict>'',
      ''        <key>XDG_CONFIG_HOME</key>'',
      ''        <string>'' @ t_ConfigHome d @ ''</string>'',
      ''        <key>XDG_STATE_HOME</key>'',
      ''        <string>'' @ t_StateHome d @ ''</string>'',
      ''        <key>HOME</key>'',
      ''        <string>'' @ t_StateDir d @ ''</string>'',
      ''    </dict>'',
      '''',
      ''    <!-- Working directory -->'',
      ''    <key>WorkingDirectory</key>'',
      ''    <string>'' @ t_StateDir d @ ''</string>'',
      '''',
      ''    <!-- Log output (macOS has no journald; rotation via newsyslog, see ops docs) -->'',
      ''    <key>StandardOutPath</key>'',
      ''    <string>'' @ t_LogPath d @ ''/raxd.log</string>'',
      '''',
      ''    <key>StandardErrorPath</key>'',
      ''    <string>'' @ t_LogPath d @ ''/raxd.log</string>'',
      ''</dict>'',
      ''</plist>'']"

definition RenderPlist :: "(string \<Rightarrow> string) \<Rightarrow> TemplateData \<Rightarrow> string + string" where
  "RenderPlist uni d =
     (case ValidateTemplateData uni d of
        Some e \<Rightarrow> Inl e
      | None \<Rightarrow> Inr (text_of (plistTemplate d)))"

definition JournaldDropIn :: string where
  "JournaldDropIn = text_of
     [''# /etc/systemd/journald.conf.d/raxd.conf'',
      ''# Installed by: raxd service install'',
      ''# Removed by:   raxd service uninstall (SR-93)'',
      ''# Purpose: limit audit log growth (closes command-exec OR-2 / file-upload OR-U4)'',
      ''#'',
      ''# NOTE: journald limits are per-host (global), not per-unit (ADR-004, '' @ [CHR 0xD0, CHR 0x9F] @ ''-3).'',
      '''',
      ''[Journal]'',
      ''SystemMaxUse=200M'',
      ''SystemMaxFileSize=50M'']"

definition TemplateDataFromConfig :: "svc_cfg \<Rightarrow> TemplateData" where
  "TemplateDataFromConfig cfg =
     \<lparr>t_ExecPath = sc_ExecPath cfg, t_User = sc_User cfg, t_Group = sc_Group cfg, t_Label = sc_Label cfg,
      t_Port = sc_Port cfg, t_NeedNetBindCap = (sc_Port cfg < 1024), t_StateDir = sc_StateDir cfg,
      t_ConfigDir = sc_ConfigDir cfg, t_LogPath = sc_LogPath cfg, t_ConfigHome = Dir (sc_ConfigDir cfg),
      t_StateHome = Dir (sc_StateDir cfg)\<rparr>"

definition neutralizeStderr :: "string \<Rightarrow> string" where
  "neutralizeStderr _ = ''manager command failed''"

end
