(* ===== verification/UnitFileProps.thy ===== *)
theory UnitFileProps
  imports UnitFile Settings
begin

section \<open>What the service definitions say\<close>

text \<open>
  No value that passes the validation adds a line to the unit, the unit sets the hardening
  it should, and the directories that the daemon resolves from its environment are those
  that the unit and the property list name.
\<close>

subsection \<open>Lines\<close>

lemma Split_text_of:
  "(\<And>l. l \<in> set ls \<Longrightarrow> newline \<notin> set l) \<Longrightarrow> Split (text_of ls) newline = ls @ [[]]"
  by (induction ls) (auto simp: text_of_def Split_append_sep)

lemma no_control_no_newline: "\<not> hasControlChar s \<Longrightarrow> newline \<notin> set s"
  by (auto simp: hasControlChar_def list_ex_iff newline_def)

lemma name_no_newline: "posixNameRe s \<Longrightarrow> newline \<notin> set s" "labelRe s \<Longrightarrow> newline \<notin> set s"
  by (auto simp: posixNameRe_def labelRe_def newline_def re_lower_def re_digit_def list_all_iff split: list.splits)

lemma validatePaths_ok:
  "validatePaths uni ps = None \<Longrightarrow> (n, v) \<in> set ps \<Longrightarrow> IsAbs v \<and> \<not> hasControlChar v"
  by (induction uni ps rule: validatePaths.induct) (auto split: if_splits)

lemma valid_fields:
  assumes "ValidateTemplateData uni d = None"
  shows "newline \<notin> set (t_ExecPath d)" "newline \<notin> set (t_User d)" "newline \<notin> set (t_Group d)"
    "newline \<notin> set (t_Label d)" "newline \<notin> set (t_StateDir d)" "newline \<notin> set (t_LogPath d)"
    "newline \<notin> set (t_ConfigHome d)" "newline \<notin> set (t_StateHome d)" "IsAbs (t_ExecPath d)"
    "posixNameRe (t_User d)" "posixNameRe (t_Group d)" "IsAbs (t_ConfigDir d)" "IsAbs (t_StateDir d)"
proof -
  have p: "validatePaths uni [(''StateDir'', t_StateDir d), (''ConfigDir'', t_ConfigDir d), (''LogPath'', t_LogPath d),
      (''ConfigHome'', t_ConfigHome d), (''StateHome'', t_StateHome d)] = None"
    and n: "posixNameRe (t_User d)" "posixNameRe (t_Group d)" "labelRe (t_Label d)" "\<not> hasControlChar (t_ExecPath d)"
      "IsAbs (t_ExecPath d)"
    using assms unfolding ValidateTemplateData_def by (auto simp del: validatePaths.simps split: if_splits)
  show "newline \<notin> set (t_ExecPath d)" "newline \<notin> set (t_User d)" "newline \<notin> set (t_Group d)"
    "newline \<notin> set (t_Label d)" "IsAbs (t_ExecPath d)" "posixNameRe (t_User d)" "posixNameRe (t_Group d)"
    using n by (auto dest: name_no_newline no_control_no_newline)
  show "newline \<notin> set (t_StateDir d)" "newline \<notin> set (t_LogPath d)"
    "newline \<notin> set (t_ConfigHome d)" "newline \<notin> set (t_StateHome d)"
    using validatePaths_ok [OF p, of "''StateDir''"] validatePaths_ok [OF p, of "''LogPath''"]
      validatePaths_ok [OF p, of "''ConfigHome''"] validatePaths_ok [OF p, of "''StateHome''"]
    by (auto dest: no_control_no_newline)
  show "IsAbs (t_ConfigDir d)" "IsAbs (t_StateDir d)"
    using validatePaths_ok [OF p, of "''ConfigDir''"] validatePaths_ok [OF p, of "''StateDir''"] by auto
qed

lemma unit_lines_no_newline:
  assumes "ValidateTemplateData uni d = None"
  shows "l \<in> set (unitTemplate d) \<Longrightarrow> newline \<notin> set l"
  using valid_fields(1,2,3) [OF assms]
  by (auto simp: unitTemplate_def unit_head_def unit_hardening_def unit_tail_def newline_def em_dash_def split: if_splits)

lemma plist_lines_no_newline:
  assumes "ValidateTemplateData uni d = None"
  shows "l \<in> set (plistTemplate d) \<Longrightarrow> newline \<notin> set l"
  using valid_fields(1-8) [OF assms] by (auto simp: plistTemplate_def newline_def em_dash_def)

lemma RenderUnit_lines:
  assumes "RenderUnit uni d = Inr out"
  shows "ValidateTemplateData uni d = None" "Split out newline = unitTemplate d @ [[]]"
proof -
  show v: "ValidateTemplateData uni d = None" using assms by (simp add: RenderUnit_def split: option.splits)
  show "Split out newline = unitTemplate d @ [[]]"
    using assms v Split_text_of [of "unitTemplate d"] unit_lines_no_newline [OF v] by (auto simp: RenderUnit_def)
qed

lemma RenderPlist_lines:
  assumes "RenderPlist uni d = Inr out"
  shows "Split out newline = plistTemplate d @ [[]]"
proof -
  have v: "ValidateTemplateData uni d = None" using assms by (simp add: RenderPlist_def split: option.splits)
  then show ?thesis using assms Split_text_of [of "plistTemplate d"] plist_lines_no_newline [OF v] by (auto simp: RenderPlist_def)
qed

subsection \<open>The unit\<close>

text \<open>Lines that are equal, or that set the same one of the three variable directives.\<close>

definition same_line :: "string \<Rightarrow> string \<Rightarrow> bool" where
  "same_line l l' \<longleftrightarrow> l = l' \<or> list_ex (\<lambda>k. prefix k l \<and> prefix k l') [''ExecStart=/'', ''User='', ''Group='']"

lemma same_line_refl [simp]: "same_line l l"
  by (simp add: same_line_def)

lemma same_line_user [simp]:
  "same_line (''User='' @ u) (''User='' @ u')" "same_line (''Group='' @ u) (''Group='' @ u')"
  by (simp_all add: same_line_def)

lemma same_line_exec:
  "prefix ''/'' p \<Longrightarrow> prefix ''/'' p' \<Longrightarrow> same_line (''ExecStart='' @ p @ '' serve'') (''ExecStart='' @ p' @ '' serve'')"
  by (auto simp: same_line_def prefix_def)

lemma unit_head_same:
  "prefix ''/'' (t_ExecPath d) \<Longrightarrow> prefix ''/'' (t_ExecPath d') \<Longrightarrow> list_all2 same_line (unit_head d) (unit_head d')"
  unfolding unit_head_def
  by (intro list_all2_Cons [THEN iffD2] conjI list.rel_inject(1)) (rule same_line_exec same_line_user same_line_refl; assumption?)+

text \<open>
  C32. No value can inject a directive into the unit. Two units rendered from any two sets of
  values with the same port class have the same number of lines, and they agree on every
  line but the three that name the program, the user and the group. Privilege escalation is
  ruled out unless the port needs the capability, and then the only capability is to bind it.
\<close>

theorem unit_injection_free:
  assumes "RenderUnit uni d = Inr out" and "RenderUnit uni d' = Inr out'"
    and "t_NeedNetBindCap d = t_NeedNetBindCap d'"
  shows "list_all2 same_line (Split out newline) (Split out' newline) \<and>
    (if t_NeedNetBindCap d then ''CapabilityBoundingSet=CAP_NET_BIND_SERVICE'' \<in> set (Split out newline)
     else ''NoNewPrivileges=yes'' \<in> set (Split out newline))"
proof -
  note l = RenderUnit_lines [OF assms(1)] RenderUnit_lines [OF assms(2)]
  have "list_all2 same_line (unit_head d) (unit_head d')"
    using valid_fields(9) l(1,3) by (auto simp: IsAbs_def intro: unit_head_same)
  moreover have "list_all2 same_line (unit_hardening d @ unit_tail @ [[]]) (unit_hardening d' @ unit_tail @ [[]])"
    using assms(3) by (simp add: unit_hardening_def list_all2_refl del: list_all2_Cons)
  ultimately have "list_all2 same_line (unitTemplate d @ [[]]) (unitTemplate d' @ [[]])"
    unfolding unitTemplate_def append_assoc by (rule list_all2_appendI)
  moreover have "if t_NeedNetBindCap d then ''CapabilityBoundingSet=CAP_NET_BIND_SERVICE'' \<in> set (unit_hardening d)
      else ''NoNewPrivileges=yes'' \<in> set (unit_hardening d)"
    by (simp add: unit_hardening_def)
  ultimately show ?thesis unfolding l(2,4) by (simp add: unitTemplate_def del: list_all2_append split: if_splits)
qed

definition unit_data :: "string \<Rightarrow> TemplateData" where
  "unit_data exe =
     \<lparr>t_ExecPath = exe, t_User = ''raxd'', t_Group = ''raxd'', t_Label = ''tech.oem.raxd'', t_Port = 7822,
      t_NeedNetBindCap = False, t_StateDir = ''/var/lib/raxd'', t_ConfigDir = ''/etc/raxd'', t_LogPath = ''/var/log/raxd'',
      t_ConfigHome = ''/etc'', t_StateHome = ''/var/lib''\<rparr>"

lemma unit_data_valid: "ValidateTemplateData uni (unit_data ''/usr/bin/raxd'') = None"
  by code_simp

theorem unit_injection_free_witness:
  "''NoNewPrivileges=yes'' \<in> set (Split (text_of (unitTemplate (unit_data ''/usr/bin/raxd''))) newline)"
proof -
  have r: "RenderUnit (\<lambda>_. []) (unit_data ''/usr/bin/raxd'') = Inr (text_of (unitTemplate (unit_data ''/usr/bin/raxd'')))"
    by (simp add: RenderUnit_def unit_data_valid)
  show ?thesis using unit_injection_free [OF r r refl] by (simp add: unit_data_def)
qed

text \<open>The value that a unit's \<^verbatim>\<open>Environment=\<close> lines give a variable.\<close>

definition unit_getenv :: "string list \<Rightarrow> string \<Rightarrow> string" where
  "unit_getenv ls k =
     (case List.find (prefix (''Environment='' @ k @ ''='')) ls of
        None \<Rightarrow> []
      | Some l \<Rightarrow> drop (length (''Environment='' @ k @ ''='')) l)"

text \<open>
  The daemon that systemd starts finds the directories that systemd makes for it. Under the
  environment of any rendered unit the paths resolve to \<^verbatim>\<open>/etc/raxd\<close> and
  \<^verbatim>\<open>/var/lib/raxd\<close>, which the directives of the unit create with mode 0700.
\<close>

theorem unit_paths_resolve:
  assumes "RenderUnit uni d = Inr out"
  shows "Paths (unit_getenv (Split out newline)) =
      Some \<lparr>ConfigDir = ''/etc/raxd'', ConfigFile = ''/etc/raxd/config.yaml'', StateDir = ''/var/lib/raxd'',
            KeysDB = ''/var/lib/raxd/keys.db'', TLSDir = ''/var/lib/raxd/tls''\<rparr> \<and>
    {''StateDirectory=raxd'', ''StateDirectoryMode=0700'', ''ConfigurationDirectory=raxd'',
     ''ConfigurationDirectoryMode=0700''} \<subseteq> set (Split out newline)"
proof -
  note l = RenderUnit_lines(2) [OF assms]
  have v: "unit_getenv (Split out newline) ''HOME'' = ''/var/lib/raxd''"
    "unit_getenv (Split out newline) ''XDG_CONFIG_HOME'' = ''/etc''"
    "unit_getenv (Split out newline) ''XDG_STATE_HOME'' = ''/var/lib''"
    by (simp_all add: l unit_getenv_def unitTemplate_def unit_head_def)
  have "Paths (\<lambda>k. unit_getenv (Split out newline) k) =
      Paths (\<lambda>k. if k = ''HOME'' then ''/var/lib/raxd'' else if k = ''XDG_CONFIG_HOME'' then ''/etc''
        else if k = ''XDG_STATE_HOME'' then ''/var/lib'' else [])"
    unfolding Paths_def by (simp add: v)
  also have "\<dots> = Some \<lparr>ConfigDir = ''/etc/raxd'', ConfigFile = ''/etc/raxd/config.yaml'', StateDir = ''/var/lib/raxd'',
      KeysDB = ''/var/lib/raxd/keys.db'', TLSDir = ''/var/lib/raxd/tls''\<rparr>"
    by code_simp
  finally show ?thesis by (simp add: l unitTemplate_def unit_head_def)
qed

theorem unit_paths_resolve_witness:
  "StateDir (the (Paths (unit_getenv (Split (text_of (unitTemplate (unit_data ''/usr/bin/raxd''))) newline)))) = ''/var/lib/raxd''"
proof -
  have r: "RenderUnit (\<lambda>_. []) (unit_data ''/usr/bin/raxd'') = Inr (text_of (unitTemplate (unit_data ''/usr/bin/raxd'')))"
    by (simp add: RenderUnit_def unit_data_valid)
  show ?thesis using unit_paths_resolve [OF r] by simp
qed

subsection \<open>The property list\<close>

text \<open>The string that follows a key of the environment in the lines of a property list.\<close>

definition plist_getenv :: "string list \<Rightarrow> string \<Rightarrow> string" where
  "plist_getenv ls k =
     (case dropWhile (\<lambda>l. l \<noteq> ''        <key>'' @ k @ ''</key>'') ls of
        _ # v # _ \<Rightarrow> drop (length ''        <string>'') (take (length v - length ''</string>'') v)
      | _ \<Rightarrow> [])"

lemma plist_env:
  "plist_getenv (plistTemplate d @ [[]]) ''HOME'' = t_StateDir d"
  "plist_getenv (plistTemplate d @ [[]]) ''XDG_CONFIG_HOME'' = t_ConfigHome d"
  "plist_getenv (plistTemplate d @ [[]]) ''XDG_STATE_HOME'' = t_StateHome d"
  by (simp_all add: plist_getenv_def plistTemplate_def)

lemma Paths_getenv:
  "getenv ''HOME'' \<noteq> [] \<Longrightarrow> getenv ''XDG_CONFIG_HOME'' = Dir c \<Longrightarrow> getenv ''XDG_STATE_HOME'' = Dir s \<Longrightarrow>
   Join [Dir c, ''raxd''] = c \<Longrightarrow> Join [Dir s, ''raxd''] = s \<Longrightarrow>
   \<exists>p. Paths getenv = Some p \<and> ConfigDir p = c \<and> StateDir p = s"
  by (simp add: Paths_def Let_def Dir_def Clean_not_Nil)

text \<open>
  The same holds under launchd, for every configuration whose directories are named
  \<^verbatim>\<open>raxd\<close>: the environment of the rendered property list makes the daemon resolve exactly
  the configured directories.
\<close>

theorem plist_paths_resolve:
  assumes "RenderPlist uni (TemplateDataFromConfig cfg) = Inr out"
    and "Clean (sc_ConfigDir cfg) = sc_ConfigDir cfg" and "sc_ConfigDir cfg = a @ ''/raxd''"
    and "Clean (sc_StateDir cfg) = sc_StateDir cfg" and "sc_StateDir cfg = b @ ''/raxd''"
  shows "\<exists>p. Paths (plist_getenv (Split out newline)) = Some p \<and>
    ConfigDir p = sc_ConfigDir cfg \<and> StateDir p = sc_StateDir cfg"
proof -
  have v: "ValidateTemplateData uni (TemplateDataFromConfig cfg) = None"
    using assms(1) by (simp add: RenderPlist_def split: option.splits)
  have abs: "IsAbs (sc_ConfigDir cfg)" "IsAbs (sc_StateDir cfg)"
    using valid_fields(12,13) [OF v] by (simp_all add: TemplateDataFromConfig_def)
  have r: "plain_elem ''raxd''" by (simp add: plain_elem_def)
  have "Join [Dir (sc_ConfigDir cfg), ''raxd''] = sc_ConfigDir cfg"
    "Join [Dir (sc_StateDir cfg), ''raxd''] = sc_StateDir cfg"
    using Join_Dir [OF abs(1) assms(2) _ r] Join_Dir [OF abs(2) assms(4) _ r] assms(3,5) by auto
  moreover have "t_StateDir (TemplateDataFromConfig cfg) \<noteq> []"
    "t_ConfigHome (TemplateDataFromConfig cfg) = Dir (sc_ConfigDir cfg)"
    "t_StateHome (TemplateDataFromConfig cfg) = Dir (sc_StateDir cfg)"
    using assms(5) by (simp_all add: TemplateDataFromConfig_def)
  ultimately show ?thesis unfolding RenderPlist_lines [OF assms(1)] by (intro Paths_getenv) (simp_all only: plist_env not_False_eq_True)
qed

definition mac_cfg :: svc_cfg where
  "mac_cfg = \<lparr>sc_ExecPath = ''/usr/local/bin/raxd'', sc_Port = 7822, sc_User = ''raxd'', sc_Group = ''raxd'',
     sc_Label = ''tech.oem.raxd'', sc_StateDir = ''/usr/local/var/raxd'', sc_ConfigDir = ''/usr/local/etc/raxd'',
     sc_LogPath = ''/usr/local/var/log/raxd''\<rparr>"

theorem plist_paths_resolve_witness:
  "\<exists>p. Paths (plist_getenv (Split (text_of (plistTemplate (TemplateDataFromConfig mac_cfg))) newline)) = Some p \<and>
     ConfigDir p = ''/usr/local/etc/raxd''"
proof -
  have v: "ValidateTemplateData (\<lambda>_. []) (TemplateDataFromConfig mac_cfg) = None" by code_simp
  then have r: "RenderPlist (\<lambda>_. []) (TemplateDataFromConfig mac_cfg) = Inr (text_of (plistTemplate (TemplateDataFromConfig mac_cfg)))"
    by (simp add: RenderPlist_def)
  have c: "Clean (sc_ConfigDir mac_cfg) = sc_ConfigDir mac_cfg" "Clean (sc_StateDir mac_cfg) = sc_StateDir mac_cfg"
    by code_simp+
  have n: "sc_ConfigDir mac_cfg = ''/usr/local/etc'' @ ''/raxd''" "sc_StateDir mac_cfg = ''/usr/local/var'' @ ''/raxd''"
    by (simp_all add: mac_cfg_def)
  show ?thesis using plist_paths_resolve [OF r c(1) n(1) c(2) n(2)] by (auto simp: mac_cfg_def)
qed

text \<open>
  The property list is not escaped. An executable path that passes the validation can close
  its element and add another argument to the daemon's command line.
\<close>

theorem plist_unescaped:
  "ValidateTemplateData uni (unit_data ''/opt/x</string><string>--evil'') = None \<and>
   ''        <string>/opt/x</string><string>--evil</string>'' \<in>
     set (plistTemplate (unit_data ''/opt/x</string><string>--evil''))"
proof -
  have "ValidateTemplateData uni (unit_data ''/opt/x</string><string>--evil'') = None" by code_simp
  moreover have "''        <string>/opt/x</string><string>--evil</string>'' \<in>
     set (plistTemplate (unit_data ''/opt/x</string><string>--evil''))"
    by (simp add: plistTemplate_def unit_data_def)
  ultimately show ?thesis by blast
qed

end
