(* ===== verification/Service.thy ===== *)
theory Service
  imports UnitFile Settings
begin

section \<open>Service management (\<open>internal/service\<close>: service.go, exec.go, purge.go)\<close>

text \<open>
  The common part of the two service managers: errors, configuration, commands of the
  operating system, and the checks before a purge.

  The host is a \<open>svc_world\<close>: a file tree, as a list of paths with their nodes, and the trace
  of everything raxd did to the host, in order. The environment \<open>svc_env\<close> says who runs
  raxd, which file operations fail, and how the programs that raxd starts answer, given
  everything done so far. The paths that raxd writes and removes are plain names: a symbolic
  link in their place is resolved by \<open>EvalSymlinks\<close> and \<open>os_Stat\<close>, and never written through.
\<close>

unbundle bit_operations_syntax

subsection \<open>Errors (service.go)\<close>

datatype sentinel =
    ErrAlreadyInstalled | ErrNotInstalled | ErrManagerUnavailable | ErrPermission | ErrUnsupported
  | ErrUserMismatch | ErrSuspiciousPath | ErrPurgeNotConfirmed

definition sentinel_text :: "sentinel \<Rightarrow> string" where
  "sentinel_text e =
     (case e of
        ErrAlreadyInstalled \<Rightarrow> ''service is already installed''
      | ErrNotInstalled \<Rightarrow> ''service is not installed''
      | ErrManagerUnavailable \<Rightarrow> ''service manager is not available''
      | ErrPermission \<Rightarrow> ''insufficient privileges''
      | ErrUnsupported \<Rightarrow> ''platform not supported for service management''
      | ErrUserMismatch \<Rightarrow> ''user account does not match expected raxd system account''
      | ErrSuspiciousPath \<Rightarrow> ''suspicious path rejected by purge safety check''
      | ErrPurgeNotConfirmed \<Rightarrow> ''purge requires explicit confirmation (--yes flag)'')"

text \<open>An error: the sentinel that \<^verbatim>\<open>errors.Is\<close> finds in it, and its text.\<close>

datatype svc_error = SvcError (err_sentinel: "sentinel option") (err_text: string)

definition ServiceError :: "sentinel \<Rightarrow> string \<Rightarrow> string" where
  "ServiceError s detail = (if detail \<noteq> [] then sentinel_text s @ '': '' @ detail else sentinel_text s)"

definition wrapErr :: "sentinel \<Rightarrow> string \<Rightarrow> svc_error" where
  "wrapErr s detail = SvcError (Some s) (ServiceError s detail)"

definition bareErr :: "sentinel \<Rightarrow> svc_error" where
  "bareErr s = SvcError (Some s) (sentinel_text s)"

definition errors_Is :: "svc_error \<Rightarrow> sentinel \<Rightarrow> bool" where
  "errors_Is e s \<longleftrightarrow> err_sentinel e = Some s"

text \<open>\<^verbatim>\<open>fmt.Errorf\<close> with a text before \<^verbatim>\<open>%w\<close>.\<close>

definition Errorf :: "string \<Rightarrow> svc_error \<Rightarrow> svc_error" where
  "Errorf s e = SvcError (err_sentinel e) (s @ '': '' @ err_text e)"

definition plainErr :: "string \<Rightarrow> svc_error" where
  "plainErr s = SvcError None s"

subsection \<open>Configuration (service.go)\<close>

record svc_status =
  ss_Installed :: bool
  ss_Active :: bool
  ss_PID :: int
  ss_EUID :: int
  ss_State :: string

definition DefaultConfigForGOOS :: "string \<Rightarrow> svc_cfg" where
  "DefaultConfigForGOOS goos =
     (let base = \<lparr>sc_ExecPath = '''', sc_Port = 7822, sc_User = ''raxd'', sc_Group = ''raxd'', sc_Label = ''tech.oem.raxd'',
                  sc_StateDir = '''', sc_ConfigDir = '''', sc_LogPath = ''''\<rparr> in
      if goos = ''darwin'' then
        base\<lparr>sc_ConfigDir := ''/usr/local/etc/raxd'', sc_StateDir := ''/usr/local/var/raxd'',
             sc_LogPath := ''/usr/local/var/log/raxd''\<rparr>
      else
        base\<lparr>sc_ConfigDir := ''/etc/raxd'', sc_StateDir := ''/var/lib/raxd'', sc_LogPath := ''/var/log/raxd''\<rparr>)"

record PurgeReport =
  pr_Platform :: string
  pr_Stopped :: bool
  pr_Uninstalled :: bool
  pr_UserRemoved :: bool
  pr_UserAbsent :: bool
  pr_DirsRemoved :: "string list"
  pr_DirsAbsent :: "string list"

definition emptyReport :: PurgeReport where
  "emptyReport = \<lparr>pr_Platform = '''', pr_Stopped = False, pr_Uninstalled = False, pr_UserRemoved = False,
     pr_UserAbsent = False, pr_DirsRemoved = [], pr_DirsAbsent = []\<rparr>"

datatype manager = Systemd svc_cfg | Launchd svc_cfg

definition or_default :: "string \<Rightarrow> string \<Rightarrow> string" where
  "or_default s d = (if s = [] then d else s)"

text \<open>\<open>exe\<close> is the result of \<^verbatim>\<open>os.Executable\<close>.\<close>

definition service_New :: "string \<Rightarrow> string option \<Rightarrow> svc_cfg \<Rightarrow> svc_error + manager" where
  "service_New goos exe cfg =
     (case (if sc_ExecPath cfg = [] then exe else Some (sc_ExecPath cfg)) of
        None \<Rightarrow> Inl (plainErr ''cannot determine executable path'')
      | Some p \<Rightarrow>
          (let dflt = DefaultConfigForGOOS goos;
               c = \<lparr>sc_ExecPath = p, sc_Port = (if sc_Port cfg = 0 then sc_Port dflt else sc_Port cfg),
                    sc_User = or_default (sc_User cfg) (sc_User dflt), sc_Group = or_default (sc_Group cfg) (sc_Group dflt),
                    sc_Label = or_default (sc_Label cfg) (sc_Label dflt),
                    sc_StateDir = or_default (sc_StateDir cfg) (sc_StateDir dflt),
                    sc_ConfigDir = or_default (sc_ConfigDir cfg) (sc_ConfigDir dflt),
                    sc_LogPath = or_default (sc_LogPath cfg) (sc_LogPath dflt)\<rparr> in
           if goos = ''linux'' then Inr (Systemd c)
           else if goos = ''darwin'' then Inr (Launchd c)
           else Inl (wrapErr ErrUnsupported (''GOOS='' @ goos))))"

subsection \<open>The host\<close>

datatype node = NDir filemode | NFile bytes filemode | NLink string

type_synonym nodes = "(string \<times> node) list"

datatype sevent =
    EvCmd string "string list"
  | EvMkdir string
  | EvWrite string
  | EvRemove string
  | EvRemoveAll string
  | EvAudit string bool "string list"

record svc_world =
  sw_nodes :: nodes
  sw_trace :: "sevent list"

text \<open>How a program ended: exit code and standard error, or not started at all.\<close>

datatype cmd_result =
    CmdOk string
  | CmdExit int string
  | CmdNotFound
  | CmdCancelled string
  | CmdFailed string

datatype write_fault = WriteOk | WriteNotOpened | WriteCut nat

record svc_env =
  sv_euid :: int
  sv_home :: "string option"
  sv_cmd :: "sevent list \<Rightarrow> string \<Rightarrow> string list \<Rightarrow> cmd_result"
  sv_proc :: "sevent list \<Rightarrow> int \<Rightarrow> string option"
  sv_lstat_fails :: "string \<Rightarrow> bool"
  sv_mkdir_fails :: "string \<Rightarrow> bool"
  sv_write :: "string \<Rightarrow> write_fault"
  sv_stuck :: "string \<Rightarrow> bool"
  sv_umask :: filemode
  sv_uni :: "string \<Rightarrow> string"
  sv_errtext :: "string \<Rightarrow> string"

definition emit :: "sevent \<Rightarrow> svc_world \<Rightarrow> svc_world" where
  "emit e w = w\<lparr>sw_trace := sw_trace w @ [e]\<rparr>"

definition run_cmd :: "svc_env \<Rightarrow> string \<Rightarrow> string list \<Rightarrow> svc_world \<Rightarrow> cmd_result \<times> svc_world" where
  "run_cmd env name args w = (sv_cmd env (sw_trace w) name args, emit (EvCmd name args) w)"

text \<open>\<^verbatim>\<open>filepath.EvalSymlinks\<close> of an absolute path, with its limit of 255 links.\<close>

datatype eval_result = Resolved string | EvalNotExist | EvalErr

function resolve :: "svc_env \<Rightarrow> nodes \<Rightarrow> nat \<Rightarrow> string list \<Rightarrow> string list \<Rightarrow> eval_result" where
  "resolve env ns k done [] = Resolved (slash # Join_sep done ''/'')"
| "resolve env ns k done (e # rest) =
     (if e = [] \<or> e = ''.'' then resolve env ns k done rest
      else if e = ''..'' then resolve env ns k (butlast done) rest
      else let p = slash # Join_sep (done @ [e]) ''/'' in
        if sv_lstat_fails env p then EvalErr
        else case map_of ns p of
               None \<Rightarrow> EvalNotExist
             | Some (NLink t) \<Rightarrow>
                 if k = 0 then EvalErr
                 else resolve env ns (k - 1) (if IsAbs t then [] else done) (Split t slash @ rest)
             | Some (NFile _ _) \<Rightarrow> if rest \<noteq> [] then EvalErr else resolve env ns k (done @ [e]) rest
             | Some (NDir _) \<Rightarrow> resolve env ns k (done @ [e]) rest)"
  by pat_completeness auto
termination
  by (relation "measures [\<lambda>(_, _, k, _, _). k, \<lambda>(_, _, _, _, es). length es]") auto

definition EvalSymlinks :: "svc_env \<Rightarrow> nodes \<Rightarrow> string \<Rightarrow> eval_result" where
  "EvalSymlinks env ns p = resolve env ns 255 [] (Split p slash)"

datatype stat_result = StatOk | StatNotExist | StatErr

definition os_Stat :: "svc_env \<Rightarrow> nodes \<Rightarrow> string \<Rightarrow> stat_result" where
  "os_Stat env ns p =
     (case EvalSymlinks env ns p of Resolved _ \<Rightarrow> StatOk | EvalNotExist \<Rightarrow> StatNotExist | EvalErr \<Rightarrow> StatErr)"

definition add_dir :: "filemode \<Rightarrow> string \<Rightarrow> nodes \<Rightarrow> nodes" where
  "add_dir m a ns = (case map_of ns a of None \<Rightarrow> ns @ [(a, NDir m)] | Some _ \<Rightarrow> ns)"

definition is_file_at :: "nodes \<Rightarrow> string \<Rightarrow> bool" where
  "is_file_at ns a = (case map_of ns a of Some (NFile _ _) \<Rightarrow> True | _ \<Rightarrow> False)"

definition svc_MkdirAll :: "svc_env \<Rightarrow> string \<Rightarrow> filemode \<Rightarrow> svc_world \<Rightarrow> bool \<times> svc_world" where
  "svc_MkdirAll env p m w =
     (let w1 = emit (EvMkdir p) w in
      if sv_mkdir_fails env p \<or> list_ex (is_file_at (sw_nodes w)) (ancestors p) then (False, w1)
      else (True, w1\<lparr>sw_nodes := fold (add_dir (m AND NOT (sv_umask env))) (ancestors p) (sw_nodes w)\<rparr>))"

text \<open>\<^verbatim>\<open>os.WriteFile\<close>: an existing file is truncated and keeps its mode.\<close>

definition os_WriteFile :: "svc_env \<Rightarrow> string \<Rightarrow> bytes \<Rightarrow> filemode \<Rightarrow> svc_world \<Rightarrow> bool \<times> svc_world" where
  "os_WriteFile env p data m w =
     (let w1 = emit (EvWrite p) w;
          mode = (case map_of (sw_nodes w) p of Some (NFile _ m0) \<Rightarrow> m0 | _ \<Rightarrow> m AND NOT (sv_umask env));
          put = (\<lambda>bs. w1\<lparr>sw_nodes := AList.update p (NFile bs mode) (sw_nodes w)\<rparr>) in
      case map_of (sw_nodes w) p of
        Some (NDir _) \<Rightarrow> (False, w1)
      | Some (NLink _) \<Rightarrow> (False, w1)
      | _ \<Rightarrow>
          (case sv_write env p of
             WriteNotOpened \<Rightarrow> (False, w1)
           | WriteCut n \<Rightarrow> (False, put (take n data))
           | WriteOk \<Rightarrow> (True, put data)))"

definition at_or_below :: "string \<Rightarrow> string \<Rightarrow> bool" where
  "at_or_below p q \<longleftrightarrow> q = p \<or> prefix (p @ ''/'') q"

datatype remove_result = RemoveOk | RemoveNotExist | RemoveErr

definition os_Remove :: "svc_env \<Rightarrow> string \<Rightarrow> svc_world \<Rightarrow> remove_result \<times> svc_world" where
  "os_Remove env p w =
     (let w1 = emit (EvRemove p) w in
      case map_of (sw_nodes w) p of
        None \<Rightarrow> (RemoveNotExist, w1)
      | Some _ \<Rightarrow>
          if sv_stuck env p \<or> list_ex (\<lambda>(q, _). prefix (p @ ''/'') q) (sw_nodes w) then (RemoveErr, w1)
          else (RemoveOk, w1\<lparr>sw_nodes := AList.delete p (sw_nodes w)\<rparr>))"

text \<open>\<^verbatim>\<open>os.RemoveAll\<close> removes what it can; what cannot be removed keeps its ancestors.\<close>

definition os_RemoveAll :: "svc_env \<Rightarrow> string \<Rightarrow> svc_world \<Rightarrow> bool \<times> svc_world" where
  "os_RemoveAll env p w =
     (let w1 = emit (EvRemoveAll p) w;
          stuck = [q \<leftarrow> map fst (sw_nodes w). at_or_below p q \<and> sv_stuck env q] in
      (stuck = [], w1\<lparr>sw_nodes := [(q, n) \<leftarrow> sw_nodes w. \<not> at_or_below p q \<or> list_ex (at_or_below q) stuck]\<rparr>))"

subsection \<open>Commands (exec.go)\<close>

definition isExitCode :: "cmd_result \<Rightarrow> int \<Rightarrow> bool" where
  "isExitCode r code = (case r of CmdExit c _ \<Rightarrow> c = code | _ \<Rightarrow> False)"

definition mapExitCode :: "string \<Rightarrow> int \<Rightarrow> string \<Rightarrow> svc_error" where
  "mapExitCode name code detail =
     (if code = 1 \<and> detail = ''manager command failed'' then
        wrapErr ErrManagerUnavailable (name @ '' exited with code '' @ fmt_d code @ '': '' @ detail)
      else wrapErr ErrManagerUnavailable (name @ '' exited with code '' @ fmt_d code))"

definition RunManager :: "svc_env \<Rightarrow> string \<Rightarrow> string list \<Rightarrow> svc_world \<Rightarrow> (svc_error + string) \<times> svc_world" where
  "RunManager env name args w =
     (let (r, w1) = run_cmd env name args w in
      (case r of
         CmdOk out \<Rightarrow> Inr out
       | CmdNotFound \<Rightarrow> Inl (wrapErr ErrManagerUnavailable (''binary '' @ Quote (sv_uni env) name @ '' not found''))
       | CmdCancelled why \<Rightarrow> Inl (plainErr (''manager command cancelled: '' @ why))
       | CmdFailed why \<Rightarrow>
           Inl (wrapErr ErrManagerUnavailable
                  (''cannot execute '' @ Quote (sv_uni env) name @ '': '' @ neutralizeStderr why))
       | CmdExit code stderr \<Rightarrow> Inl (mapExitCode name code (neutralizeStderr stderr)), w1))"

subsection \<open>Paths that may be purged (purge.go)\<close>

definition blockedSystemRoots :: "string list" where
  "blockedSystemRoots =
     [''/etc'', ''/var'', ''/usr'', ''/usr/local'', ''/tmp'', ''/bin'', ''/sbin'', ''/lib'', ''/lib64'', ''/boot'',
      ''/dev'', ''/proc'', ''/sys'', ''/run'']"

definition isEqualOrAncestor :: "string \<Rightarrow> string \<Rightarrow> bool" where
  "isEqualOrAncestor candidate base = (candidate = base \<or> HasPrefix base (candidate @ ''/''))"

definition validatePurgePath :: "svc_env \<Rightarrow> nodes \<Rightarrow> string \<Rightarrow> string list \<Rightarrow> svc_error option" where
  "validatePurgePath env ns p allowedRoots =
     (if p = [] then Some (wrapErr ErrSuspiciousPath ''empty path'')
      else if Clean p \<noteq> p then Some (wrapErr ErrSuspiciousPath ''path is not clean'')
      else if \<not> IsAbs p then Some (wrapErr ErrSuspiciousPath ''path is not absolute'')
      else if p = ''/'' then Some (wrapErr ErrSuspiciousPath ''root path rejected'')
      else if (case sv_home env of None \<Rightarrow> False | Some homeDir \<Rightarrow> isEqualOrAncestor p homeDir) then
        Some (wrapErr ErrSuspiciousPath ''path is HOME or HOME ancestor'')
      else if p \<in> set blockedSystemRoots then Some (wrapErr ErrSuspiciousPath ''path is a blocked system root'')
      else case EvalSymlinks env ns p of
             EvalNotExist \<Rightarrow> None
           | EvalErr \<Rightarrow> Some (wrapErr ErrSuspiciousPath ''cannot resolve symlinks'')
           | Resolved resolved \<Rightarrow>
               if list_ex (\<lambda>root. HasPrefix (resolved @ ''/'') (root @ ''/'') \<or> resolved = root) allowedRoots then None
               else Some (wrapErr ErrSuspiciousPath ''resolved path is outside expected layout''))"

end
