(* ===== verification/Systemd.thy ===== *)
theory Systemd
  imports Service
begin

section \<open>The systemd manager (\<open>internal/service/systemd.go\<close>)\<close>

text \<open>
  Installation with rollback, removal, start, stop, status and purge under systemd. Every
  operation takes the environment and the host and returns its error and the new host.
\<close>

definition unitPath :: string where "unitPath = ''/etc/systemd/system/raxd.service''"
definition dropInDir :: string where "dropInDir = ''/etc/systemd/journald.conf.d''"
definition dropInPath :: string where "dropInPath = ''/etc/systemd/journald.conf.d/raxd.conf''"
definition systemctlBin :: string where "systemctlBin = ''/bin/systemctl''"
definition useraddBin :: string where "useraddBin = ''/usr/sbin/useradd''"
definition userdelBin :: string where "userdelBin = ''/usr/sbin/userdel''"
definition getentBin :: string where "getentBin = ''/usr/bin/getent''"

definition noLoginShells :: "string list" where
  "noLoginShells = [''/usr/sbin/nologin'', ''/sbin/nologin'', ''/usr/bin/false'']"

definition needRoot :: svc_error where
  "needRoot = wrapErr ErrPermission ''must be run as root or with sudo''"

subsection \<open>Helpers\<close>

definition writeFile :: "svc_env \<Rightarrow> string \<Rightarrow> bytes \<Rightarrow> filemode \<Rightarrow> svc_world \<Rightarrow> svc_error option \<times> svc_world" where
  "writeFile env p content mode w =
     (let dir = Dir p in
      case svc_MkdirAll env dir 0x1ED w of
        (False, w1) \<Rightarrow> (Some (plainErr (''cannot create dir '' @ dir @ '': '' @ sv_errtext env dir)), w1)
      | (True, w1) \<Rightarrow>
          (case os_WriteFile env p content mode w1 of
             (False, w2) \<Rightarrow> (Some (plainErr (sv_errtext env p)), w2)
           | (True, w2) \<Rightarrow> (None, w2)))"

text \<open>\<^verbatim>\<open>strings.SplitN(line, "=", 2)\<close> with two parts.\<close>

definition cut_equals :: "string \<Rightarrow> (string \<times> string) option" where
  "cut_equals line =
     (if CHR ''='' \<in> set line
      then Some (takeWhile (\<lambda>c. c \<noteq> CHR ''='') line, tl (dropWhile (\<lambda>c. c \<noteq> CHR ''='') line)) else None)"

definition parseSystemctlProps :: "string \<Rightarrow> (string \<times> string) list" where
  "parseSystemctlProps out =
     foldl (\<lambda>props line.
        case cut_equals line of
          Some (k, v) \<Rightarrow> AList.update (TrimSpace k) (TrimSpace v) props
        | None \<Rightarrow> props) [] (Split (TrimSpace out) (CHR 0x0A))"

text \<open>\<^verbatim>\<open>strings.Fields\<close>: the words between runs of white space.\<close>

function take_word :: "string \<Rightarrow> string \<times> string" where
  "take_word s =
     (case s of
        [] \<Rightarrow> ([], [])
      | c # r \<Rightarrow> if strip_one space_runes s \<noteq> None then ([], s) else let (w, t) = take_word r in (c # w, t))"
  by pat_completeness auto
termination
  by (relation "measure length") auto

declare take_word.simps [simp del]

lemma take_word_length: "length (snd (take_word s)) \<le> length s"
proof (induction s rule: take_word.induct)
  case (1 s)
  show ?case
  proof (cases s)
    case (Cons c r)
    then show ?thesis using 1 [of c r] by (subst take_word.simps) (auto simp: case_prod_beta Let_def)
  qed (simp add: take_word.simps)
qed

lemma strip_left_length: "length (strip_left rs s) \<le> length s"
proof (induction rs s rule: strip_left.induct)
  case (1 rs s)
  show ?case
  proof (cases "strip_one rs s")
    case None
    then show ?thesis by (simp add: strip_left.simps)
  next
    case (Some t)
    then show ?thesis using 1 [OF Some] strip_one_shorter [OF Some] by (subst strip_left.simps) simp
  qed
qed

function Fields :: "string \<Rightarrow> string list" where
  "Fields s =
     (case strip_left space_runes s of
        [] \<Rightarrow> []
      | c # r \<Rightarrow> let (w, t) = take_word r in (c # w) # Fields t)"
  by pat_completeness auto
termination
proof (relation "measure length")
  fix s c r x w t
  assume h: "strip_left space_runes s = c # r" "x = take_word r" "(w, t) = x"
  then have "length t \<le> length r" using take_word_length [of r] by (metis snd_conv)
  moreover have "length r < length s" using strip_left_length [of space_runes s] h(1) by simp
  ultimately show "(t, s) \<in> measure length" by simp
qed simp

declare Fields.simps [simp del]

text \<open>The value that \<^verbatim>\<open>strconv.Atoi\<close> returns beside its error: 0, or the bound that was passed.\<close>

definition Atoi_val :: "string \<Rightarrow> int" where
  "Atoi_val s =
     (case Atoi s of
        Some n \<Rightarrow> n
      | None \<Rightarrow>
          (let neg = prefix ''-'' s; ds = (if neg \<or> prefix ''+'' s then tl s else s) in
           if ds \<noteq> [] \<and> digits_val 10 0 ds \<noteq> None then if neg then - (2 ^ 63) else 2 ^ 63 - 1 else 0))"

definition readProcEUID :: "svc_env \<Rightarrow> int \<Rightarrow> svc_world \<Rightarrow> int" where
  "readProcEUID env pid w =
     (case sv_proc env (sw_trace w) pid of
        None \<Rightarrow> 0
      | Some data \<Rightarrow>
          (case List.find (\<lambda>line. HasPrefix line ''Uid:'' \<and> 3 \<le> length (Fields line)) (Split data (CHR 0x0A)) of
             None \<Rightarrow> 0
           | Some line \<Rightarrow> Atoi_val (Fields line ! 2)))"

subsection \<open>Install\<close>

definition createUser :: "svc_env \<Rightarrow> svc_cfg \<Rightarrow> svc_world \<Rightarrow> svc_error option \<times> svc_world" where
  "createUser env cfg w =
     (let (r, w1) = run_cmd env useraddBin
            [''--system'', ''--no-create-home'', ''--shell'', ''/usr/sbin/nologin'', ''--comment'', ''raxd daemon'', sc_User cfg] w in
      (case r of
         CmdOk _ \<Rightarrow> None
       | _ \<Rightarrow> if isExitCode r 9 then None else Some (wrapErr ErrPermission ''useradd failed''), w1))"

definition rollback :: "svc_env \<Rightarrow> bool \<Rightarrow> bool \<Rightarrow> svc_world \<Rightarrow> svc_world" where
  "rollback env unit dropIn w =
     (let w1 = (if unit then snd (os_Remove env unitPath w) else w) in
      if dropIn then snd (os_Remove env dropInPath w1) else w1)"

text \<open>The steps that write files, each undone by \<^verbatim>\<open>rollback\<close> when a later one fails.\<close>

definition installUnit :: "svc_env \<Rightarrow> bytes \<Rightarrow> svc_world \<Rightarrow> svc_error option \<times> svc_world" where
  "installUnit env unitContent w1 =
     (case writeFile env unitPath unitContent 0x1A4 w1 of
        (Some e, w2) \<Rightarrow> (Some (Errorf ''service install: write unit'' e), w2)
      | (None, w2) \<Rightarrow>
      (case svc_MkdirAll env dropInDir 0x1ED w2 of
        (False, w3) \<Rightarrow>
          (Some (Errorf ''service install: create drop-in dir'' (plainErr (sv_errtext env dropInDir))), rollback env True False w3)
      | (True, w3) \<Rightarrow>
      (case writeFile env dropInPath JournaldDropIn 0x1A4 w3 of
        (Some e, w4) \<Rightarrow> (Some (Errorf ''service install: write drop-in'' e), rollback env True False w4)
      | (None, w4) \<Rightarrow>
      (case RunManager env systemctlBin [''daemon-reload''] w4 of
        (Inl _, w5) \<Rightarrow>
          (Some (wrapErr ErrManagerUnavailable ''systemctl daemon-reload failed''), rollback env True True w5)
      | (Inr _, w5) \<Rightarrow>
      (case RunManager env systemctlBin [''enable'', ''raxd''] w5 of
        (Inl _, w6) \<Rightarrow> (Some (wrapErr ErrManagerUnavailable ''systemctl enable failed''), rollback env True True w6)
      | (Inr _, w6) \<Rightarrow> (None, w6))))))"

definition systemd_Install :: "svc_env \<Rightarrow> svc_cfg \<Rightarrow> svc_world \<Rightarrow> svc_error option \<times> svc_world" where
  "systemd_Install env cfg w =
     (if sv_euid env \<noteq> 0 then (Some needRoot, w)
      else if os_Stat env (sw_nodes w) unitPath = StatOk then (Some (bareErr ErrAlreadyInstalled), w)
      else case createUser env cfg w of
        (Some e, w1) \<Rightarrow> (Some (Errorf ''service install: create user'' e), w1)
      | (None, w1) \<Rightarrow>
      (case RenderUnit (sv_uni env) (TemplateDataFromConfig cfg) of
        Inl msg \<Rightarrow> (Some (Errorf ''service install: render unit'' (plainErr msg)), w1)
      | Inr unitContent \<Rightarrow> installUnit env unitContent w1))"

subsection \<open>Uninstall, start, stop, status\<close>

definition systemd_Uninstall :: "svc_env \<Rightarrow> svc_world \<Rightarrow> svc_error option \<times> svc_world" where
  "systemd_Uninstall env w =
     (if sv_euid env \<noteq> 0 then (Some needRoot, w)
      else if os_Stat env (sw_nodes w) unitPath = StatNotExist then (Some (bareErr ErrNotInstalled), w)
      else
        let (_, w1) = RunManager env systemctlBin [''stop'', ''raxd''] w;
            (_, w2) = RunManager env systemctlBin [''disable'', ''raxd''] w1;
            (_, w3) = RunManager env systemctlBin [''daemon-reload''] w2;
            (r1, w4) = os_Remove env unitPath w3 in
        if r1 = RemoveErr then
          (Some (wrapErr ErrManagerUnavailable (''cannot remove unit: '' @ sv_errtext env unitPath)), w4)
        else
          let (r2, w5) = os_Remove env dropInPath w4 in
          if r2 = RemoveErr then
            (Some (wrapErr ErrManagerUnavailable (''cannot remove drop-in: '' @ sv_errtext env dropInPath)), w5)
          else
            let (_, w6) = RunManager env systemctlBin [''daemon-reload''] w5 in (None, w6))"

definition systemd_Start :: "svc_env \<Rightarrow> svc_world \<Rightarrow> svc_error option \<times> svc_world" where
  "systemd_Start env w =
     (if sv_euid env \<noteq> 0 then (Some needRoot, w)
      else if os_Stat env (sw_nodes w) unitPath = StatNotExist then (Some (bareErr ErrNotInstalled), w)
      else case RunManager env systemctlBin [''start'', ''raxd''] w of
             (Inl _, w1) \<Rightarrow> (Some (wrapErr ErrManagerUnavailable ''systemctl start failed''), w1)
           | (Inr _, w1) \<Rightarrow> (None, w1))"

definition systemd_Stop :: "svc_env \<Rightarrow> svc_world \<Rightarrow> svc_error option \<times> svc_world" where
  "systemd_Stop env w =
     (if sv_euid env \<noteq> 0 then (Some needRoot, w)
      else if os_Stat env (sw_nodes w) unitPath = StatNotExist then (Some (bareErr ErrNotInstalled), w)
      else case RunManager env systemctlBin [''stop'', ''raxd''] w of
             (Inl _, w1) \<Rightarrow> (Some (wrapErr ErrManagerUnavailable ''systemctl stop failed''), w1)
           | (Inr _, w1) \<Rightarrow> (None, w1))"

definition notInstalledStatus :: svc_status where
  "notInstalledStatus = \<lparr>ss_Installed = False, ss_Active = False, ss_PID = 0, ss_EUID = 0, ss_State = ''not installed''\<rparr>"

definition unknownStatus :: svc_status where
  "unknownStatus = \<lparr>ss_Installed = True, ss_Active = False, ss_PID = 0, ss_EUID = 0, ss_State = ''unknown''\<rparr>"

definition systemd_Status :: "svc_env \<Rightarrow> svc_world \<Rightarrow> svc_status \<times> svc_world" where
  "systemd_Status env w =
     (if os_Stat env (sw_nodes w) unitPath = StatNotExist then (notInstalledStatus, w)
      else case RunManager env systemctlBin [''show'', ''-p'', ''MainPID,ActiveState,SubState,UnitFileState'', ''raxd''] w of
        (Inl _, w1) \<Rightarrow> (unknownStatus, w1)
      | (Inr out, w1) \<Rightarrow>
          (let props = parseSystemctlProps out;
               pid = (case map_of props ''MainPID'' of Some s \<Rightarrow> Atoi_val s | None \<Rightarrow> 0);
               activeState = (case map_of props ''ActiveState'' of Some s \<Rightarrow> s | None \<Rightarrow> []);
               subState = (case map_of props ''SubState'' of Some s \<Rightarrow> s | None \<Rightarrow> []);
               stateStr = (if subState \<noteq> [] then activeState @ '' ('' @ subState @ '')'' else activeState);
               active = (activeState = ''active'');
               euid = (if pid > 0 \<and> active then readProcEUID env pid w1 else 0) in
           (\<lparr>ss_Installed = True, ss_Active = active, ss_PID = pid, ss_EUID = euid, ss_State = stateStr\<rparr>, w1)))"

subsection \<open>Purge\<close>

definition parsePasswdLine :: "string \<Rightarrow> string \<Rightarrow> svc_error + bool" where
  "parsePasswdLine line expectedName =
     (let fields = Split line (CHR '':'') in
      if length fields < 7 then Inl (wrapErr ErrManagerUnavailable ''getent passwd: unexpected output format'')
      else if fields ! 0 \<noteq> expectedName then
        Inl (wrapErr ErrUserMismatch ''username does not match expected raxd account'')
      else if (case Atoi (fields ! 2) of None \<Rightarrow> True | Some uid \<Rightarrow> uid \<le> 0 \<or> uid \<ge> 1000) then
        Inl (wrapErr ErrUserMismatch ''uid is not in system account range [1,999]'')
      else if fields ! 6 \<notin> set noLoginShells then
        Inl (wrapErr ErrUserMismatch (''user has a login shell '' @ em_dash @ '' not a raxd system account''))
      else Inr True)"

definition verifyTargetUserLinux :: "svc_env \<Rightarrow> string \<Rightarrow> svc_world \<Rightarrow> (svc_error + bool) \<times> svc_world" where
  "verifyTargetUserLinux env name w =
     (let (r, w1) = run_cmd env getentBin [''passwd'', name] w in
      (case r of
         CmdOk out \<Rightarrow> (let line = TrimSpace out in if line = [] then Inr False else parsePasswdLine line name)
       | CmdExit code _ \<Rightarrow>
           if code = 2 then Inr False else Inl (wrapErr ErrManagerUnavailable ''getent passwd failed'')
       | _ \<Rightarrow> Inr False, w1))"

definition mapUserdelExitCode :: "int \<Rightarrow> svc_error option" where
  "mapUserdelExitCode code =
     (if code = 0 then None
      else if code = 6 then None
      else if code = 1 then Some (wrapErr ErrPermission ''userdel: insufficient privileges'')
      else if code = 10 then Some (wrapErr ErrPermission ''userdel: cannot update group file'')
      else if code = 8 then Some (wrapErr ErrManagerUnavailable ''userdel: user is currently logged in'')
      else Some (wrapErr ErrManagerUnavailable (''userdel: unexpected exit code '' @ fmt_d code)))"

definition deleteUserLinux :: "svc_env \<Rightarrow> string \<Rightarrow> svc_world \<Rightarrow> svc_error option \<times> svc_world" where
  "deleteUserLinux env name w =
     (let (r, w1) = run_cmd env userdelBin [name] w in
      (case r of
         CmdOk _ \<Rightarrow> None
       | CmdExit code _ \<Rightarrow> mapUserdelExitCode code
       | _ \<Rightarrow> Some (wrapErr ErrManagerUnavailable ''userdel: unexpected error''), w1))"

record PurgeOptions =
  po_Confirmed :: bool
  po_AuditOut :: bool

definition emitPurgeAuditRecord :: "bool \<Rightarrow> string \<Rightarrow> bool \<Rightarrow> string list \<Rightarrow> svc_world \<Rightarrow> svc_world" where
  "emitPurgeAuditRecord out platform userPresent dirsPresent w =
     (if \<not> out then w else emit (EvAudit platform userPresent dirsPresent) w)"

fun validateDirs :: "svc_env \<Rightarrow> nodes \<Rightarrow> string list \<Rightarrow> string list \<Rightarrow> svc_error option" where
  "validateDirs env ns roots [] = None"
| "validateDirs env ns roots (d # ds) =
     (case validatePurgePath env ns d roots of
        Some e \<Rightarrow> Some e
      | None \<Rightarrow> validateDirs env ns roots ds)"

fun removeDirs ::
  "svc_env \<Rightarrow> string list \<Rightarrow> string list \<Rightarrow> PurgeReport \<Rightarrow> svc_world \<Rightarrow> (PurgeReport \<times> svc_error option) \<times> svc_world" where
  "removeDirs env dirsPresent [] report w = ((report, None), w)"
| "removeDirs env dirsPresent (d # ds) report w =
     (case os_RemoveAll env d w of
        (False, w1) \<Rightarrow> ((report, Some (wrapErr ErrManagerUnavailable (''cannot remove '' @ d))), w1)
      | (True, w1) \<Rightarrow>
          removeDirs env dirsPresent ds
            (if d \<in> set dirsPresent then report\<lparr>pr_DirsRemoved := pr_DirsRemoved report @ [d]\<rparr>
             else report\<lparr>pr_DirsAbsent := pr_DirsAbsent report @ [d]\<rparr>) w1)"

text \<open>
  The steps from the validation of the paths on. They are the same on both platforms, up to
  the directories and the functions that verify and delete the user.
\<close>

definition purgeSteps ::
  "svc_env \<Rightarrow> (svc_env \<Rightarrow> string \<Rightarrow> svc_world \<Rightarrow> (svc_error + bool) \<times> svc_world) \<Rightarrow>
   (svc_env \<Rightarrow> string \<Rightarrow> svc_world \<Rightarrow> svc_error option \<times> svc_world) \<Rightarrow> string \<Rightarrow> string list \<Rightarrow> PurgeOptions \<Rightarrow>
   PurgeReport \<Rightarrow> svc_world \<Rightarrow> (PurgeReport \<times> svc_error option) \<times> svc_world" where
  "purgeSteps env verifyUser deleteUser user dirs opts report w =
     (case validateDirs env (sw_nodes w) dirs dirs of
        Some e \<Rightarrow> ((emptyReport, Some e), w)
      | None \<Rightarrow>
      (case verifyUser env user w of
        (Inl e, w1) \<Rightarrow> ((emptyReport, Some e), w1)
      | (Inr userPresent, w1) \<Rightarrow>
      (let report1 = (if \<not> userPresent then report\<lparr>pr_UserAbsent := True\<rparr> else report);
           dirsPresent = [d \<leftarrow> dirs. os_Stat env (sw_nodes w1) d = StatOk];
           w2 = emitPurgeAuditRecord (po_AuditOut opts) (pr_Platform report) userPresent dirsPresent w1 in
       if userPresent then
         (case deleteUser env user w2 of
            (Some e, w3) \<Rightarrow> ((emptyReport, Some e), w3)
          | (None, w3) \<Rightarrow> removeDirs env dirsPresent dirs (report1\<lparr>pr_UserRemoved := True\<rparr>) w3)
       else removeDirs env dirsPresent dirs report1 w2)))"

definition systemd_Purge ::
  "svc_env \<Rightarrow> svc_cfg \<Rightarrow> PurgeOptions \<Rightarrow> svc_world \<Rightarrow> (PurgeReport \<times> svc_error option) \<times> svc_world" where
  "systemd_Purge env cfg opts w =
     (let report = emptyReport\<lparr>pr_Platform := ''linux''\<rparr> in
      if sv_euid env \<noteq> 0 then ((emptyReport, Some needRoot), w)
      else if \<not> po_Confirmed opts then ((emptyReport, Some (bareErr ErrPurgeNotConfirmed)), w)
      else
        let (st, w1) = systemd_Status env w;
            (stopErr, w2) = (if ss_Active st then systemd_Stop env w1 else (None, w1)) in
        if stopErr \<noteq> None then ((emptyReport, Some (wrapErr ErrManagerUnavailable ''service did not stop'')), w2)
        else
          let report1 = (if ss_Active st then report\<lparr>pr_Stopped := True\<rparr> else report) in
          case systemd_Uninstall env w2 of
            (Some e, w3) \<Rightarrow>
              if \<not> errors_Is e ErrNotInstalled then ((emptyReport, Some e), w3)
              else purgeSteps env verifyTargetUserLinux deleteUserLinux (sc_User cfg) [sc_StateDir cfg, sc_ConfigDir cfg]
                     opts report1 w3
          | (None, w3) \<Rightarrow>
              purgeSteps env verifyTargetUserLinux deleteUserLinux (sc_User cfg) [sc_StateDir cfg, sc_ConfigDir cfg]
                opts (report1\<lparr>pr_Uninstalled := True\<rparr>) w3)"

end
