(* ===== verification/Launchd.thy ===== *)
theory Launchd
  imports Systemd
begin

section \<open>The launchd manager (\<open>internal/service/launchd.go\<close>)\<close>

text \<open>The same operations under launchd.\<close>

definition dsclBin :: string where "dsclBin = ''/usr/bin/dscl''"
definition plistPath :: string where "plistPath = ''/Library/LaunchDaemons/tech.oem.raxd.plist''"
definition launchctlBin :: string where "launchctlBin = ''/bin/launchctl''"
definition launchLabel :: string where "launchLabel = ''system/tech.oem.raxd''"

subsection \<open>Install\<close>

fun createDirsLoop :: "svc_env \<Rightarrow> svc_cfg \<Rightarrow> string list \<Rightarrow> svc_world \<Rightarrow> svc_error option \<times> svc_world" where
  "createDirsLoop env cfg [] w = (None, w)"
| "createDirsLoop env cfg (d # ds) w =
     (case svc_MkdirAll env d 0x1C0 w of
        (False, w1) \<Rightarrow> (Some (plainErr (''cannot create '' @ d @ '': '' @ sv_errtext env d)), w1)
      | (True, w1) \<Rightarrow>
          (let (_, w2) = run_cmd env ''/usr/sbin/chown'' [''-R'', sc_User cfg @ '':'' @ sc_Group cfg, d] w1 in
           createDirsLoop env cfg ds w2))"

definition createDirs :: "svc_env \<Rightarrow> svc_cfg \<Rightarrow> svc_world \<Rightarrow> svc_error option \<times> svc_world" where
  "createDirs env cfg w = createDirsLoop env cfg [sc_StateDir cfg, sc_LogPath cfg, sc_ConfigDir cfg] w"

definition launchd_Install :: "svc_env \<Rightarrow> svc_cfg \<Rightarrow> svc_world \<Rightarrow> svc_error option \<times> svc_world" where
  "launchd_Install env cfg w =
     (if sv_euid env \<noteq> 0 then (Some needRoot, w)
      else if os_Stat env (sw_nodes w) plistPath = StatOk then (Some (bareErr ErrAlreadyInstalled), w)
      else case RenderPlist (sv_uni env) (TemplateDataFromConfig cfg) of
        Inl msg \<Rightarrow> (Some (Errorf ''service install: render plist'' (plainErr msg)), w)
      | Inr plistContent \<Rightarrow>
      (case createDirs env cfg w of
        (Some e, w1) \<Rightarrow> (Some (Errorf ''service install: create dirs'' e), w1)
      | (None, w1) \<Rightarrow>
      (case writeFile env plistPath plistContent 0x1A4 w1 of
        (Some e, w2) \<Rightarrow> (Some (Errorf ''service install: write plist'' e), w2)
      | (None, w2) \<Rightarrow>
      (case RunManager env launchctlBin [''bootstrap'', ''system'', plistPath] w2 of
        (Inl _, w3) \<Rightarrow>
          (Some (wrapErr ErrManagerUnavailable ''launchctl bootstrap failed''), snd (os_Remove env plistPath w3))
      | (Inr _, w3) \<Rightarrow>
          (let (_, w4) = RunManager env launchctlBin [''enable'', launchLabel] w3 in (None, w4))))))"

subsection \<open>Uninstall, start, stop, status\<close>

definition launchd_Uninstall :: "svc_env \<Rightarrow> svc_world \<Rightarrow> svc_error option \<times> svc_world" where
  "launchd_Uninstall env w =
     (if sv_euid env \<noteq> 0 then (Some needRoot, w)
      else if os_Stat env (sw_nodes w) plistPath = StatNotExist then (Some (bareErr ErrNotInstalled), w)
      else
        let (_, w1) = RunManager env launchctlBin [''bootout'', launchLabel] w;
            (_, w2) = RunManager env launchctlBin [''disable'', launchLabel] w1;
            (r, w3) = os_Remove env plistPath w2 in
        if r = RemoveErr then
          (Some (wrapErr ErrManagerUnavailable (''cannot remove plist: '' @ sv_errtext env plistPath)), w3)
        else (None, w3))"

definition launchd_Start :: "svc_env \<Rightarrow> svc_world \<Rightarrow> svc_error option \<times> svc_world" where
  "launchd_Start env w =
     (if sv_euid env \<noteq> 0 then (Some needRoot, w)
      else if os_Stat env (sw_nodes w) plistPath = StatNotExist then (Some (bareErr ErrNotInstalled), w)
      else case RunManager env launchctlBin [''kickstart'', ''-k'', launchLabel] w of
             (Inl _, w1) \<Rightarrow> (Some (wrapErr ErrManagerUnavailable ''launchctl kickstart failed''), w1)
           | (Inr _, w1) \<Rightarrow> (None, w1))"

definition launchd_Stop :: "svc_env \<Rightarrow> svc_world \<Rightarrow> svc_error option \<times> svc_world" where
  "launchd_Stop env w =
     (if sv_euid env \<noteq> 0 then (Some needRoot, w)
      else if os_Stat env (sw_nodes w) plistPath = StatNotExist then (Some (bareErr ErrNotInstalled), w)
      else case RunManager env launchctlBin [''kill'', ''SIGTERM'', launchLabel] w of
             (Inl _, w1) \<Rightarrow> (Some (wrapErr ErrManagerUnavailable ''launchctl kill SIGTERM failed''), w1)
           | (Inr _, w1) \<Rightarrow> (None, w1))"

text \<open>
  \<^verbatim>\<open>fmt.Sscanf(line, "pid = %d", &pid)\<close> on a line with that prefix: blanks, a sign and the
  digits up to the first other character; the variable keeps its value when there are none
  or they do not fit an \<^verbatim>\<open>int\<close>.
\<close>

definition scan_pid :: "string \<Rightarrow> int \<Rightarrow> int" where
  "scan_pid line old =
     (let s = dropWhile (\<lambda>c. c = CHR '' '' \<or> c = CHR 0x09) (drop (length ''pid = '') line);
          signed = (prefix ''-'' s \<or> prefix ''+'' s);
          ds = takeWhile (\<lambda>c. digit_val c \<noteq> None) (if signed then tl s else s) in
      case Atoi ((if signed then [hd s] else []) @ ds) of Some n \<Rightarrow> n | None \<Rightarrow> old)"

definition launchd_Status :: "svc_env \<Rightarrow> svc_world \<Rightarrow> svc_status \<times> svc_world" where
  "launchd_Status env w =
     (if os_Stat env (sw_nodes w) plistPath = StatNotExist then (notInstalledStatus, w)
      else case RunManager env launchctlBin [''print'', launchLabel] w of
        (Inl _, w1) \<Rightarrow> (unknownStatus, w1)
      | (Inr out, w1) \<Rightarrow>
          (let active = Contains out ''state = running'';
               pid = foldl (\<lambda>pid l. let line = TrimSpace l in if HasPrefix line ''pid = '' then scan_pid line pid else pid)
                       0 (Split out (CHR 0x0A));
               state = (if active then ''running'' else ''inactive'') in
           (\<lparr>ss_Installed = True, ss_Active = active, ss_PID = pid, ss_EUID = 0, ss_State = state\<rparr>, w1)))"

subsection \<open>Purge\<close>

fun parseDsclLines :: "string list \<Rightarrow> svc_error + bool" where
  "parseDsclLines [] = Inl (wrapErr ErrManagerUnavailable ''dscl: unexpected output format'')"
| "parseDsclLines (l # ls) =
     (let line = TrimSpace l in
      if HasPrefix line ''UserShell:'' then
        let shell = TrimSpace (TrimPrefix line ''UserShell:'') in
        if shell \<notin> set noLoginShells then
          Inl (wrapErr ErrUserMismatch (''user has a login shell '' @ em_dash @ '' not a raxd system account''))
        else Inr True
      else parseDsclLines ls)"

definition parseDsclShellOutput :: "string \<Rightarrow> svc_error + bool" where
  "parseDsclShellOutput output = parseDsclLines (Split output (CHR 0x0A))"

definition verifyTargetUserDarwin :: "svc_env \<Rightarrow> string \<Rightarrow> svc_world \<Rightarrow> (svc_error + bool) \<times> svc_world" where
  "verifyTargetUserDarwin env name w =
     (let (r, w1) = run_cmd env dsclBin [''.'', ''-read'', ''/Users/'' @ name, ''UserShell''] w in
      (case r of CmdOk out \<Rightarrow> parseDsclShellOutput out | _ \<Rightarrow> Inr False, w1))"

definition mapDsclDeleteError :: "string \<Rightarrow> svc_error option" where
  "mapDsclDeleteError stderrStr =
     (if Contains stderrStr ''eDSRecordNotFound'' \<or> Contains stderrStr ''Unknown node'' \<or> Contains stderrStr ''No such record''
      then None
      else if Contains stderrStr ''Permission denied'' \<or> Contains stderrStr ''Operation not permitted'' \<or>
              Contains stderrStr ''eDSPermissionError''
      then Some (wrapErr ErrPermission ''dscl delete: insufficient privileges'')
      else Some (wrapErr ErrManagerUnavailable ''dscl delete failed''))"

definition cmd_stderr :: "cmd_result \<Rightarrow> string" where
  "cmd_stderr r = (case r of CmdExit _ stderr \<Rightarrow> stderr | _ \<Rightarrow> [])"

definition deleteUserDarwin :: "svc_env \<Rightarrow> string \<Rightarrow> svc_world \<Rightarrow> svc_error option \<times> svc_world" where
  "deleteUserDarwin env name w =
     (let (r, w1) = run_cmd env dsclBin [''.'', ''-delete'', ''/Users/'' @ name] w in
      (case r of CmdOk _ \<Rightarrow> None | _ \<Rightarrow> mapDsclDeleteError (cmd_stderr r), w1))"

definition launchd_Purge ::
  "svc_env \<Rightarrow> svc_cfg \<Rightarrow> PurgeOptions \<Rightarrow> svc_world \<Rightarrow> (PurgeReport \<times> svc_error option) \<times> svc_world" where
  "launchd_Purge env cfg opts w =
     (let report = emptyReport\<lparr>pr_Platform := ''darwin''\<rparr>;
          dirs = [sc_StateDir cfg, sc_ConfigDir cfg, sc_LogPath cfg] in
      if sv_euid env \<noteq> 0 then ((emptyReport, Some needRoot), w)
      else if \<not> po_Confirmed opts then ((emptyReport, Some (bareErr ErrPurgeNotConfirmed)), w)
      else
        let (st, w1) = launchd_Status env w;
            (stopErr, w2) = (if ss_Active st then launchd_Stop env w1 else (None, w1)) in
        if stopErr \<noteq> None then ((emptyReport, Some (wrapErr ErrManagerUnavailable ''service did not stop'')), w2)
        else
          let report1 = (if ss_Active st then report\<lparr>pr_Stopped := True\<rparr> else report) in
          case launchd_Uninstall env w2 of
            (Some e, w3) \<Rightarrow>
              if \<not> errors_Is e ErrNotInstalled then ((emptyReport, Some e), w3)
              else purgeSteps env verifyTargetUserDarwin deleteUserDarwin (sc_User cfg) dirs opts report1 w3
          | (None, w3) \<Rightarrow>
              purgeSteps env verifyTargetUserDarwin deleteUserDarwin (sc_User cfg) dirs opts
                (report1\<lparr>pr_Uninstalled := True\<rparr>) w3)"


subsection \<open>The interface (service.go)\<close>

text \<open>The methods of \<^verbatim>\<open>ServiceManager\<close>, on the manager that \<^verbatim>\<open>New\<close> chose.\<close>

definition mgr_Install :: "svc_env \<Rightarrow> manager \<Rightarrow> svc_world \<Rightarrow> svc_error option \<times> svc_world" where
  "mgr_Install env m w = (case m of Systemd cfg \<Rightarrow> systemd_Install env cfg w | Launchd cfg \<Rightarrow> launchd_Install env cfg w)"

definition mgr_Uninstall :: "svc_env \<Rightarrow> manager \<Rightarrow> svc_world \<Rightarrow> svc_error option \<times> svc_world" where
  "mgr_Uninstall env m w = (case m of Systemd _ \<Rightarrow> systemd_Uninstall env w | Launchd _ \<Rightarrow> launchd_Uninstall env w)"

definition mgr_Start :: "svc_env \<Rightarrow> manager \<Rightarrow> svc_world \<Rightarrow> svc_error option \<times> svc_world" where
  "mgr_Start env m w = (case m of Systemd _ \<Rightarrow> systemd_Start env w | Launchd _ \<Rightarrow> launchd_Start env w)"

definition mgr_Stop :: "svc_env \<Rightarrow> manager \<Rightarrow> svc_world \<Rightarrow> svc_error option \<times> svc_world" where
  "mgr_Stop env m w = (case m of Systemd _ \<Rightarrow> systemd_Stop env w | Launchd _ \<Rightarrow> launchd_Stop env w)"

definition mgr_Status :: "svc_env \<Rightarrow> manager \<Rightarrow> svc_world \<Rightarrow> svc_status \<times> svc_world" where
  "mgr_Status env m w = (case m of Systemd _ \<Rightarrow> systemd_Status env w | Launchd _ \<Rightarrow> launchd_Status env w)"

definition mgr_Purge ::
  "svc_env \<Rightarrow> manager \<Rightarrow> PurgeOptions \<Rightarrow> svc_world \<Rightarrow> (PurgeReport \<times> svc_error option) \<times> svc_world" where
  "mgr_Purge env m opts w =
     (case m of Systemd cfg \<Rightarrow> systemd_Purge env cfg opts w | Launchd cfg \<Rightarrow> launchd_Purge env cfg opts w)"

end
