(* ===== verification/ServiceProofs.thy ===== *)
theory ServiceProofs
  imports Launchd
begin

section \<open>The contract of a service manager\<close>

text \<open>
  What a purge relies on, as a locale with one interpretation per manager: looking at the
  service, stopping it and verifying its user change no file; removing the registration
  touches the files of the registration only; deleting the user is one command. What a purge
  does to the host, and in which order, is proved from this contract once.
\<close>

subsection \<open>Files\<close>

lemma map_of_filter_key: "map_of (filter (\<lambda>(q, n). P q) ns) q = (if P q then map_of ns q else None)"
  by (induction ns) auto

lemma emit_simps [simp]:
  "sw_nodes (emit e w) = sw_nodes w" "sw_trace (emit e w) = sw_trace w @ [e]"
  by (simp_all add: emit_def)

lemma RunManager_effect:
  "sw_nodes (snd (RunManager env name args w)) = sw_nodes w"
  "sw_trace (snd (RunManager env name args w)) = sw_trace w @ [EvCmd name args]"
  by (simp_all add: RunManager_def run_cmd_def)

lemma RunManager_pair:
  "RunManager env name args w = (r, w') \<Longrightarrow> sw_nodes w' = sw_nodes w \<and> sw_trace w' = sw_trace w @ [EvCmd name args]"
  using RunManager_effect [of env name args w] by simp

lemma os_Remove_effect:
  "os_Remove env p w = (r, w') \<Longrightarrow>
     sw_trace w' = sw_trace w @ [EvRemove p] \<and>
     (\<forall>q. q \<noteq> p \<longrightarrow> map_of (sw_nodes w') q = map_of (sw_nodes w) q) \<and>
     (r \<noteq> RemoveErr \<longrightarrow> map_of (sw_nodes w') p = None)"
  by (auto simp: os_Remove_def Let_def delete_conv' split: option.splits if_splits)

lemma at_or_below_refl [simp]: "at_or_below p p"
  by (simp add: at_or_below_def)

lemma os_RemoveAll_effect:
  assumes "os_RemoveAll env p w = (ok, w')"
  shows "sw_trace w' = sw_trace w @ [EvRemoveAll p]"
    and "\<not> at_or_below p q \<Longrightarrow> map_of (sw_nodes w') q = map_of (sw_nodes w) q"
    and "ok \<Longrightarrow> at_or_below p q \<Longrightarrow> map_of (sw_nodes w') q = None"
    and "map_of (sw_nodes w) q = None \<Longrightarrow> map_of (sw_nodes w') q = None"
  using assms by (auto simp: os_RemoveAll_def Let_def map_of_filter_key filter_empty_conv split: if_splits)

definition below_any :: "string list \<Rightarrow> string \<Rightarrow> bool" where
  "below_any ds q \<longleftrightarrow> (\<exists>d \<in> set ds. at_or_below d q)"

lemma removeDirs_effect:
  assumes "removeDirs env present ds rep w = ((rep', e), w')"
  shows "(\<exists>k. sw_trace w' = sw_trace w @ map EvRemoveAll (take k ds)) \<and>
    (\<forall>q. \<not> below_any ds q \<longrightarrow> map_of (sw_nodes w') q = map_of (sw_nodes w) q) \<and>
    (\<forall>q. map_of (sw_nodes w) q = None \<longrightarrow> map_of (sw_nodes w') q = None) \<and>
    (e = None \<longrightarrow> sw_trace w' = sw_trace w @ map EvRemoveAll ds \<and> (\<forall>q. below_any ds q \<longrightarrow> map_of (sw_nodes w') q = None))"
  using assms
proof (induction ds arbitrary: rep w)
  case (Cons d ds)
  obtain ok w1 where r: "os_RemoveAll env d w = (ok, w1)" by fastforce
  note r1 = os_RemoveAll_effect [OF r]
  show ?case
  proof (cases ok)
    case False
    then have "w' = w1" "e \<noteq> None" using Cons.prems r by auto
    then show ?thesis using r1 by (auto simp: below_any_def intro: exI [of _ 1])
  next
    case True
    define rep1 where "rep1 = (if d \<in> set present then rep\<lparr>pr_DirsRemoved := pr_DirsRemoved rep @ [d]\<rparr>
             else rep\<lparr>pr_DirsAbsent := pr_DirsAbsent rep @ [d]\<rparr>)"
    have rest: "removeDirs env present ds rep1 w1 = ((rep', e), w')" using Cons.prems r True by (simp add: rep1_def)
    obtain k where k: "sw_trace w' = sw_trace w1 @ map EvRemoveAll (take k ds)" using Cons.IH [OF rest] by blast
    have "sw_trace w' = sw_trace w @ map EvRemoveAll (take (Suc k) (d # ds))" using k r1(1) by simp
    then have "\<exists>k. sw_trace w' = sw_trace w @ map EvRemoveAll (take k (d # ds))" by blast
    moreover have "map_of (sw_nodes w') q = None" if "e = None" "below_any (d # ds) q" for q
      using that Cons.IH [OF rest] r1(3) [OF True, of q] by (auto simp: below_any_def)
    moreover have "map_of (sw_nodes w') q = map_of (sw_nodes w) q" if "\<not> below_any (d # ds) q" for q
      using that Cons.IH [OF rest] r1(2) [of q] by (auto simp: below_any_def)
    moreover have "map_of (sw_nodes w') q = None" if "map_of (sw_nodes w) q = None" for q
      using that Cons.IH [OF rest] r1(4) [of q] by auto
    moreover have "e = None \<Longrightarrow> sw_trace w' = sw_trace w @ map EvRemoveAll (d # ds)"
      using Cons.IH [OF rest] r1(1) by simp
    ultimately show ?thesis by blast
  qed
qed (simp add: below_any_def)

subsection \<open>The locale\<close>

locale service_manager =
  fixes status :: "svc_env \<Rightarrow> svc_world \<Rightarrow> svc_status \<times> svc_world"
    and stop :: "svc_env \<Rightarrow> svc_world \<Rightarrow> svc_error option \<times> svc_world"
    and uninstall :: "svc_env \<Rightarrow> svc_world \<Rightarrow> svc_error option \<times> svc_world"
    and verifyUser :: "svc_env \<Rightarrow> string \<Rightarrow> svc_world \<Rightarrow> (svc_error + bool) \<times> svc_world"
    and deleteUser :: "svc_env \<Rightarrow> string \<Rightarrow> svc_world \<Rightarrow> svc_error option \<times> svc_world"
    and deleteCmd :: "string \<Rightarrow> sevent"
    and user :: string and dirs :: "string list" and platform :: string and artifacts :: "string list"
    and purge :: "svc_env \<Rightarrow> PurgeOptions \<Rightarrow> svc_world \<Rightarrow> (PurgeReport \<times> svc_error option) \<times> svc_world"
  assumes purge_eq: "purge env opts w =
      (let report = emptyReport\<lparr>pr_Platform := platform\<rparr> in
       if sv_euid env \<noteq> 0 then ((emptyReport, Some needRoot), w)
       else if \<not> po_Confirmed opts then ((emptyReport, Some (bareErr ErrPurgeNotConfirmed)), w)
       else
         let (st, w1) = status env w;
             (stopErr, w2) = (if ss_Active st then stop env w1 else (None, w1)) in
         if stopErr \<noteq> None then ((emptyReport, Some (wrapErr ErrManagerUnavailable ''service did not stop'')), w2)
         else
           let report1 = (if ss_Active st then report\<lparr>pr_Stopped := True\<rparr> else report) in
           case uninstall env w2 of
             (Some e, w3) \<Rightarrow>
               if \<not> errors_Is e ErrNotInstalled then ((emptyReport, Some e), w3)
               else purgeSteps env verifyUser deleteUser user dirs opts report1 w3
           | (None, w3) \<Rightarrow> purgeSteps env verifyUser deleteUser user dirs opts (report1\<lparr>pr_Uninstalled := True\<rparr>) w3)"
    and status_quiet: "status env w = (st, w') \<Longrightarrow> sw_nodes w' = sw_nodes w \<and>
      (\<exists>es. sw_trace w' = sw_trace w @ es \<and> (\<forall>e \<in> set es. e \<noteq> deleteCmd u \<and> (\<forall>d. e \<noteq> EvRemoveAll d)))"
    and stop_quiet: "stop env w = (se, w') \<Longrightarrow> sw_nodes w' = sw_nodes w \<and>
      (\<exists>es. sw_trace w' = sw_trace w @ es \<and> (\<forall>e \<in> set es. e \<noteq> deleteCmd u \<and> (\<forall>d. e \<noteq> EvRemoveAll d)))"
    and uninstall_frame: "uninstall env w = (ue, w') \<Longrightarrow>
      (\<forall>q. q \<notin> set artifacts \<longrightarrow> map_of (sw_nodes w') q = map_of (sw_nodes w) q) \<and>
      (\<exists>es. sw_trace w' = sw_trace w @ es \<and> (\<forall>e \<in> set es. e \<noteq> deleteCmd u \<and> (\<forall>d. e \<noteq> EvRemoveAll d)))"
    and uninstall_ok: "uninstall env w = (None, w') \<Longrightarrow> a \<in> set artifacts \<Longrightarrow> map_of (sw_nodes w') a = None"
    and verify_quiet: "verifyUser env u w = (vr, w') \<Longrightarrow> sw_nodes w' = sw_nodes w \<and>
      (\<exists>es. sw_trace w' = sw_trace w @ es \<and> (\<forall>e \<in> set es. e \<noteq> deleteCmd u \<and> (\<forall>d. e \<noteq> EvRemoveAll d)))"
    and delete_one: "deleteUser env u w = (de, w') \<Longrightarrow> sw_nodes w' = sw_nodes w \<and> sw_trace w' = sw_trace w @ [deleteCmd u]"
    and delete_not_dir: "deleteCmd u \<noteq> EvRemoveAll d"
begin

definition quiet :: "sevent list \<Rightarrow> bool" where
  "quiet es \<longleftrightarrow> (\<forall>e \<in> set es. e \<noteq> deleteCmd user \<and> (\<forall>d. e \<noteq> EvRemoveAll d))"

lemma quiet_append [simp]: "quiet (a @ b) \<longleftrightarrow> quiet a \<and> quiet b"
  by (auto simp: quiet_def)

text \<open>
  A purge that deletes something went through every check, wrote its record, and then
  deleted the user, if there is one, and a prefix of the directories.
\<close>

definition destroyed :: "PurgeOptions \<Rightarrow> bool \<Rightarrow> sevent list \<Rightarrow> bool" where
  "destroyed opts present es \<longleftrightarrow>
     (\<exists>pre dp k. quiet pre \<and>
        es = pre @ (if po_AuditOut opts then [EvAudit platform present dp] else []) @
             (if present then [deleteCmd user] else []) @ map EvRemoveAll (take k dirs))"

lemma destroyed_prefix: "quiet es \<Longrightarrow> destroyed opts present es' \<Longrightarrow> destroyed opts present (es @ es')"
  unfolding destroyed_def
proof (elim exE conjE)
  fix pre dp k
  assume "quiet es" "quiet pre" "es' = pre @ (if po_AuditOut opts then [EvAudit platform present dp] else []) @
      (if present then [deleteCmd user] else []) @ map EvRemoveAll (take k dirs)"
  then show "\<exists>pre dp k. quiet pre \<and> es @ es' = pre @ (if po_AuditOut opts then [EvAudit platform present dp] else []) @
      (if present then [deleteCmd user] else []) @ map EvRemoveAll (take k dirs)"
    by (intro exI [of _ "es @ pre"] exI [of _ dp] exI [of _ k]) simp
qed

lemma purgeSteps_effect:
  assumes "purgeSteps env verifyUser deleteUser user dirs opts rep w = ((r, e), w')" and "pr_Platform rep = platform"
  shows "(\<forall>q. \<not> below_any dirs q \<longrightarrow> map_of (sw_nodes w') q = map_of (sw_nodes w) q) \<and>
    (\<forall>q. map_of (sw_nodes w) q = None \<longrightarrow> map_of (sw_nodes w') q = None) \<and>
    (e = None \<longrightarrow> (\<forall>q. below_any dirs q \<longrightarrow> map_of (sw_nodes w') q = None)) \<and>
    (\<exists>es. sw_trace w' = sw_trace w @ es \<and>
       (quiet es \<or> validateDirs env (sw_nodes w) dirs dirs = None \<and>
          (\<exists>present. fst (verifyUser env user w) = Inr present \<and> destroyed opts present es)))"
proof (cases "validateDirs env (sw_nodes w) dirs dirs")
  case (Some e1)
  then have "w' = w" "e = Some e1" using assms(1) by (simp_all add: purgeSteps_def)
  moreover have "quiet []" by (simp add: quiet_def)
  ultimately show ?thesis by force
next
  case valid: None
  obtain v w1 where v: "verifyUser env user w = (v, w1)" by fastforce
  obtain es where es: "sw_trace w1 = sw_trace w @ es" "quiet es" and n1: "sw_nodes w1 = sw_nodes w"
    using verify_quiet [OF v] unfolding quiet_def by blast
  show ?thesis
  proof (cases v)
    case (Inl e1)
    then have "w' = w1" "e \<noteq> None" using assms(1) valid v by (auto simp: purgeSteps_def)
    then show ?thesis using es n1 by auto
  next
    case (Inr present)
    define dp where "dp = [d \<leftarrow> dirs. os_Stat env (sw_nodes w1) d = StatOk]"
    define w2 where "w2 = emitPurgeAuditRecord (po_AuditOut opts) platform present dp w1"
    have w2: "sw_nodes w2 = sw_nodes w"
      "sw_trace w2 = sw_trace w @ es @ (if po_AuditOut opts then [EvAudit platform present dp] else [])"
      using es n1 by (simp_all add: w2_def emitPurgeAuditRecord_def)
    have dest: "destroyed opts present (es @ (if po_AuditOut opts then [EvAudit platform present dp] else []) @
        (if present then [deleteCmd user] else []) @ map EvRemoveAll (take k dirs))" for k
      unfolding destroyed_def using es(2) by blast
    have tail: "\<exists>es. sw_trace w' = sw_trace w @ es \<and> (quiet es \<or> validateDirs env (sw_nodes w) dirs dirs = None \<and>
          (\<exists>present. fst (verifyUser env user w) = Inr present \<and> destroyed opts present es))"
      if "sw_trace w' = sw_trace w @ (es @ (if po_AuditOut opts then [EvAudit platform present dp] else []) @
        (if present then [deleteCmd user] else []) @ map EvRemoveAll (take k dirs))" for k
      by (rule exI, rule conjI, rule that) (use dest [of k] valid v Inr in auto)
    have fin: ?thesis if rm: "removeDirs env dp dirs rep2 w3 = ((r, e), w')" and n3: "sw_nodes w3 = sw_nodes w"
      and t3: "sw_trace w3 = sw_trace w2 @ (if present then [deleteCmd user] else [])" for rep2 w3
    proof -
      note rd = removeDirs_effect [OF rm]
      then obtain k where "sw_trace w' = sw_trace w3 @ map EvRemoveAll (take k dirs)" by blast
      then have "sw_trace w' = sw_trace w @ (es @ (if po_AuditOut opts then [EvAudit platform present dp] else []) @
        (if present then [deleteCmd user] else []) @ map EvRemoveAll (take k dirs))"
        using t3 w2(2) by simp
      from tail [OF this] show ?thesis using rd n3 by simp
    qed
    have eq: "purgeSteps env verifyUser deleteUser user dirs opts rep w =
        (if present then
           (case deleteUser env user w2 of
              (Some e1, w3) \<Rightarrow> ((emptyReport, Some e1), w3)
            | (None, w3) \<Rightarrow> removeDirs env dp dirs (rep\<lparr>pr_UserRemoved := True\<rparr>) w3)
         else removeDirs env dp dirs (rep\<lparr>pr_UserAbsent := True\<rparr>) w2)"
      unfolding dp_def w2_def using valid v Inr assms(2) by (simp add: purgeSteps_def Let_def)
    show ?thesis
    proof (cases present)
      case False
      then show ?thesis using assms(1) fin [of "rep\<lparr>pr_UserAbsent := True\<rparr>" w2] w2(1) unfolding eq by simp
    next
      case True
      obtain de w3 where d: "deleteUser env user w2 = (de, w3)" by fastforce
      note d1 = delete_one [OF d]
      show ?thesis
      proof (cases de)
        case None
        then show ?thesis using assms(1) True d fin [of "rep\<lparr>pr_UserRemoved := True\<rparr>" w3] d1 w2(1) unfolding eq by simp
      next
        case (Some e1)
        then have "w' = w3" "e = Some e1" using assms(1) True d unfolding eq by simp_all
        then show ?thesis using tail [of 0] d1 w2 True by simp
      qed
    qed
  qed
qed

lemma purge_effect:
  assumes "purge env opts w = ((r, e), w')"
  shows "(\<forall>q. \<not> below_any dirs q \<longrightarrow> q \<notin> set artifacts \<longrightarrow> map_of (sw_nodes w') q = map_of (sw_nodes w) q) \<and>
    (e = None \<longrightarrow> (\<forall>q. below_any dirs q \<longrightarrow> map_of (sw_nodes w') q = None)) \<and>
    (\<exists>es. sw_trace w' = sw_trace w @ es \<and>
       (quiet es \<or> sv_euid env = 0 \<and> po_Confirmed opts \<and>
          (\<exists>w0 present. (\<forall>q. q \<notin> set artifacts \<longrightarrow> map_of (sw_nodes w0) q = map_of (sw_nodes w) q) \<and>
             validateDirs env (sw_nodes w0) dirs dirs = None \<and> fst (verifyUser env user w0) = Inr present \<and>
             destroyed opts present es)))"
proof (cases "sv_euid env = 0 \<and> po_Confirmed opts")
  case False
  then have "w' = w" "e \<noteq> None" using assms by (auto simp: purge_eq Let_def split: if_splits)
  moreover have "quiet []" by (simp add: quiet_def)
  ultimately show ?thesis by force
next
  case priv: True
  obtain st w1 where st: "status env w = (st, w1)" by fastforce
  obtain se w2 where sp: "(if ss_Active st then stop env w1 else (None, w1)) = (se, w2)" by fastforce
  obtain ue w3 where un: "uninstall env w2 = (ue, w3)" by fastforce
  obtain es1 where es1: "sw_trace w1 = sw_trace w @ es1" "quiet es1" "sw_nodes w1 = sw_nodes w"
    using status_quiet [OF st] unfolding quiet_def by blast
  have "\<exists>es2. sw_trace w2 = sw_trace w1 @ es2 \<and> quiet es2 \<and> sw_nodes w2 = sw_nodes w1"
    using sp stop_quiet [of env w1 se w2 user] by (cases "ss_Active st") (auto simp: quiet_def)
  then obtain es2 where es2: "sw_trace w2 = sw_trace w @ es1 @ es2" "quiet es2" "sw_nodes w2 = sw_nodes w"
    using es1 by auto
  obtain es3 where es3: "sw_trace w3 = sw_trace w2 @ es3" "quiet es3"
    and fr: "\<And>q. q \<notin> set artifacts \<Longrightarrow> map_of (sw_nodes w3) q = map_of (sw_nodes w) q"
    using uninstall_frame [OF un, of user] es2(3) unfolding quiet_def by metis
  show ?thesis
  proof (cases "se \<noteq> None \<or> (\<exists>e1. ue = Some e1 \<and> \<not> errors_Is e1 ErrNotInstalled)")
    case True
    then have "w' = w2 \<or> w' = w3" "e \<noteq> None" using assms priv st sp un by (auto simp: purge_eq Let_def split: if_splits)
    moreover have "\<exists>es. sw_trace w2 = sw_trace w @ es \<and> quiet es" "\<exists>es. sw_trace w3 = sw_trace w @ es \<and> quiet es"
      using es1 es2 es3 by auto
    ultimately show ?thesis using es2(3) fr by auto
  next
    case False
    then obtain rep where ps: "purgeSteps env verifyUser deleteUser user dirs opts rep w3 = ((r, e), w')"
      and rp: "pr_Platform rep = platform"
      using assms priv st sp un by (cases ue) (auto simp: purge_eq Let_def split: if_splits)
    note eff = purgeSteps_effect [OF ps rp]
    then obtain es where t: "sw_trace w' = sw_trace w3 @ es" and alt: "quiet es \<or>
        validateDirs env (sw_nodes w3) dirs dirs = None \<and>
        (\<exists>present. fst (verifyUser env user w3) = Inr present \<and> destroyed opts present es)"
      by blast
    have q: "quiet (es1 @ es2 @ es3)" using es1(2) es2(2) es3(2) by simp
    have "sw_trace w' = sw_trace w @ (es1 @ es2 @ es3) @ es" using t es3(1) es2(1) by simp
    moreover have "quiet es \<Longrightarrow> quiet ((es1 @ es2 @ es3) @ es)" using q by simp
    moreover note destroyed_prefix [OF q, of opts _ es]
    ultimately have "\<exists>es. sw_trace w' = sw_trace w @ es \<and>
       (quiet es \<or> sv_euid env = 0 \<and> po_Confirmed opts \<and>
          (\<exists>w0 present. (\<forall>q. q \<notin> set artifacts \<longrightarrow> map_of (sw_nodes w0) q = map_of (sw_nodes w) q) \<and>
             validateDirs env (sw_nodes w0) dirs dirs = None \<and> fst (verifyUser env user w0) = Inr present \<and>
             destroyed opts present es))"
      using alt priv fr by (intro exI [of _ "(es1 @ es2 @ es3) @ es"]) auto
    then show ?thesis using eff fr by auto
  qed
qed

lemma purge_trace:
  assumes "purge env opts w = ((r, e), w')"
  shows "\<exists>pre post. sw_trace w' = sw_trace w @ pre @ post \<and> quiet pre \<and>
    (post = [] \<or> sv_euid env = 0 \<and> po_Confirmed opts \<and>
      (\<exists>w0 present dp k. (\<forall>q. q \<notin> set artifacts \<longrightarrow> map_of (sw_nodes w0) q = map_of (sw_nodes w) q) \<and>
         validateDirs env (sw_nodes w0) dirs dirs = None \<and> fst (verifyUser env user w0) = Inr present \<and>
         post = (if po_AuditOut opts then [EvAudit platform present dp] else []) @
           (if present then [deleteCmd user] else []) @ map EvRemoveAll (take k dirs)))"
proof -
  obtain es where t: "sw_trace w' = sw_trace w @ es" and alt: "quiet es \<or> sv_euid env = 0 \<and> po_Confirmed opts \<and>
      (\<exists>w0 present. (\<forall>q. q \<notin> set artifacts \<longrightarrow> map_of (sw_nodes w0) q = map_of (sw_nodes w) q) \<and>
         validateDirs env (sw_nodes w0) dirs dirs = None \<and> fst (verifyUser env user w0) = Inr present \<and>
         destroyed opts present es)"
    using purge_effect [OF assms] by blast
  from alt show ?thesis
  proof (elim disjE conjE exE)
    assume "quiet es"
    then show ?thesis using t by (intro exI [of _ es] exI [of _ "[]"]) simp
  next
    fix w0 present
    assume h: "sv_euid env = 0" "po_Confirmed opts"
      "\<forall>q. q \<notin> set artifacts \<longrightarrow> map_of (sw_nodes w0) q = map_of (sw_nodes w) q"
      "validateDirs env (sw_nodes w0) dirs dirs = None" "fst (verifyUser env user w0) = Inr present"
      and "destroyed opts present es"
    then obtain pre dp k where p: "quiet pre"
      "es = pre @ (if po_AuditOut opts then [EvAudit platform present dp] else []) @
         (if present then [deleteCmd user] else []) @ map EvRemoveAll (take k dirs)"
      unfolding destroyed_def by blast
    show ?thesis
      by (rule exI [of _ pre], rule exI, rule conjI, rule t [unfolded p(2)]) (use p(1) h in blast)
  qed
qed

end

subsection \<open>The two managers\<close>

lemmas svc_ops = systemd_Status_def systemd_Stop_def systemd_Uninstall_def launchd_Status_def launchd_Stop_def
  launchd_Uninstall_def

lemma run_cmd_pair:
  "run_cmd env name args w = (r, w') \<Longrightarrow> sw_nodes w' = sw_nodes w \<and> sw_trace w' = sw_trace w @ [EvCmd name args]"
  by (auto simp: run_cmd_def)

lemma systemd_Uninstall_effect:
  assumes "systemd_Uninstall env w = (ue, w')"
  shows "(\<forall>q. q \<notin> {unitPath, dropInPath} \<longrightarrow> map_of (sw_nodes w') q = map_of (sw_nodes w) q) \<and>
    (ue = None \<longrightarrow> map_of (sw_nodes w') unitPath = None \<and> map_of (sw_nodes w') dropInPath = None) \<and>
    (\<exists>es. sw_trace w' = sw_trace w @ es \<and>
       (\<forall>e \<in> set es. (\<exists>a. e = EvCmd systemctlBin a) \<or> e \<in> {EvRemove unitPath, EvRemove dropInPath}))"
proof (cases "sv_euid env \<noteq> 0 \<or> os_Stat env (sw_nodes w) unitPath = StatNotExist")
  case True
  then show ?thesis using assms by (auto simp: systemd_Uninstall_def split: if_splits)
next
  case False
  obtain x1 w1 where r1: "RunManager env systemctlBin [''stop'', ''raxd''] w = (x1, w1)" by fastforce
  obtain x2 w2 where r2: "RunManager env systemctlBin [''disable'', ''raxd''] w1 = (x2, w2)" by fastforce
  obtain x3 w3 where r3: "RunManager env systemctlBin [''daemon-reload''] w2 = (x3, w3)" by fastforce
  obtain x4 w4 where r4: "os_Remove env unitPath w3 = (x4, w4)" by fastforce
  obtain x5 w5 where r5: "os_Remove env dropInPath w4 = (x5, w5)" by fastforce
  obtain x6 w6 where r6: "RunManager env systemctlBin [''daemon-reload''] w5 = (x6, w6)" by fastforce
  note e = RunManager_pair [OF r1] RunManager_pair [OF r2] RunManager_pair [OF r3] os_Remove_effect [OF r4]
    os_Remove_effect [OF r5] RunManager_pair [OF r6]
  have ne: "unitPath \<noteq> dropInPath" by (simp add: unitPath_def dropInPath_def)
  consider "x4 = RemoveErr" "ue \<noteq> None" "w' = w4" | "x4 \<noteq> RemoveErr" "x5 = RemoveErr" "ue \<noteq> None" "w' = w5"
    | "x4 \<noteq> RemoveErr" "x5 \<noteq> RemoveErr" "w' = w6"
    using assms False r1 r2 r3 r4 r5 r6 by (auto simp: systemd_Uninstall_def Let_def split: if_splits)
  then show ?thesis using e ne by cases auto
qed

lemma launchd_Uninstall_effect:
  assumes "launchd_Uninstall env w = (ue, w')"
  shows "(\<forall>q. q \<noteq> plistPath \<longrightarrow> map_of (sw_nodes w') q = map_of (sw_nodes w) q) \<and>
    (ue = None \<longrightarrow> map_of (sw_nodes w') plistPath = None) \<and>
    (\<exists>es. sw_trace w' = sw_trace w @ es \<and>
       (\<forall>e \<in> set es. (\<exists>a. e = EvCmd launchctlBin a) \<or> e = EvRemove plistPath))"
proof (cases "sv_euid env \<noteq> 0 \<or> os_Stat env (sw_nodes w) plistPath = StatNotExist")
  case True
  then show ?thesis using assms by (auto simp: launchd_Uninstall_def split: if_splits)
next
  case False
  obtain x1 w1 where r1: "RunManager env launchctlBin [''bootout'', launchLabel] w = (x1, w1)" by fastforce
  obtain x2 w2 where r2: "RunManager env launchctlBin [''disable'', launchLabel] w1 = (x2, w2)" by fastforce
  obtain x3 w3 where r3: "os_Remove env plistPath w2 = (x3, w3)" by fastforce
  note e = RunManager_pair [OF r1] RunManager_pair [OF r2] os_Remove_effect [OF r3]
  have "w' = w3" "ue = None \<longleftrightarrow> x3 \<noteq> RemoveErr"
    using assms False r1 r2 r3 by (auto simp: launchd_Uninstall_def Let_def split: if_splits)
  then show ?thesis using e by auto
qed

lemma status_stop_effect:
  "systemd_Status env w = (st, w') \<Longrightarrow> sw_nodes w' = sw_nodes w \<and>
     (\<exists>es. sw_trace w' = sw_trace w @ es \<and> (\<forall>e \<in> set es. \<exists>a. e = EvCmd systemctlBin a))"
  "launchd_Status env w = (st, w') \<Longrightarrow> sw_nodes w' = sw_nodes w \<and>
     (\<exists>es. sw_trace w' = sw_trace w @ es \<and> (\<forall>e \<in> set es. \<exists>a. e = EvCmd launchctlBin a))"
  "systemd_Stop env w = (se, w') \<Longrightarrow> sw_nodes w' = sw_nodes w \<and>
     (\<exists>es. sw_trace w' = sw_trace w @ es \<and> (\<forall>e \<in> set es. \<exists>a. e = EvCmd systemctlBin a))"
  "launchd_Stop env w = (se, w') \<Longrightarrow> sw_nodes w' = sw_nodes w \<and>
     (\<exists>es. sw_trace w' = sw_trace w @ es \<and> (\<forall>e \<in> set es. \<exists>a. e = EvCmd launchctlBin a))"
  by (auto simp: systemd_Status_def launchd_Status_def systemd_Stop_def launchd_Stop_def Let_def
      dest!: RunManager_pair split: if_splits prod.splits sum.splits)

lemma only_cmds_quiet:
  "\<exists>es. t' = t @ es \<and> (\<forall>e \<in> set es. \<exists>a. e = EvCmd b a) \<Longrightarrow> b \<noteq> b' \<Longrightarrow>
   \<exists>es. t' = t @ es \<and> (\<forall>e \<in> set es. e \<noteq> EvCmd b' x \<and> (\<forall>d. e \<noteq> EvRemoveAll d))"
  by (elim exE conjE, intro exI conjI, assumption) auto

definition userdelCmd :: "string \<Rightarrow> sevent" where
  "userdelCmd u = EvCmd userdelBin [u]"

definition dsclDeleteCmd :: "string \<Rightarrow> sevent" where
  "dsclDeleteCmd u = EvCmd dsclBin [''.'', ''-delete'', ''/Users/'' @ u]"

lemma bins_differ [simp]:
  "systemctlBin \<noteq> userdelBin" "getentBin \<noteq> userdelBin" "launchctlBin \<noteq> dsclBin"
  by (simp_all add: systemctlBin_def userdelBin_def getentBin_def launchctlBin_def dsclBin_def)

lemmas bins_differ_sym [simp] = bins_differ [THEN not_sym]

interpretation linux: service_manager systemd_Status systemd_Stop systemd_Uninstall verifyTargetUserLinux
  deleteUserLinux userdelCmd "sc_User cfg" "[sc_StateDir cfg, sc_ConfigDir cfg]" "''linux''" "[unitPath, dropInPath]"
  "\<lambda>env. systemd_Purge env cfg" for cfg
proof (unfold_locales, goal_cases)
  case (1 env opts w)
  show ?case by (simp add: systemd_Purge_def Let_def)
next
  case (2 env w st w' u)
  show ?case unfolding userdelCmd_def
    using status_stop_effect(1) [OF 2] only_cmds_quiet [OF conjunct2 [OF status_stop_effect(1) [OF 2]] bins_differ(1)] by simp
next
  case (3 env w se w' u)
  show ?case unfolding userdelCmd_def
    using status_stop_effect(3) [OF 3] only_cmds_quiet [OF conjunct2 [OF status_stop_effect(3) [OF 3]] bins_differ(1)] by simp
next
  case (4 env w ue w' u)
  then obtain es where es: "sw_trace w' = sw_trace w @ es"
    "\<forall>e \<in> set es. (\<exists>a. e = EvCmd systemctlBin a) \<or> e \<in> {EvRemove unitPath, EvRemove dropInPath}"
    using systemd_Uninstall_effect [OF 4] by blast
  then have "\<forall>e \<in> set es. e \<noteq> userdelCmd u \<and> (\<forall>d. e \<noteq> EvRemoveAll d)" by (auto simp: userdelCmd_def)
  then show ?case using systemd_Uninstall_effect [OF 4] es(1) by simp
next
  case (5 env w w' a)
  then show ?case using systemd_Uninstall_effect [OF 5(1)] by auto
next
  case (6 env u w vr w')
  then show ?case by (auto simp: verifyTargetUserLinux_def userdelCmd_def Let_def split: prod.splits dest!: run_cmd_pair)
next
  case (7 env u w de w')
  then show ?case by (auto simp: deleteUserLinux_def userdelCmd_def Let_def split: prod.splits dest!: run_cmd_pair)
next
  case 8
  show ?case by (simp add: userdelCmd_def)
qed

interpretation mac: service_manager launchd_Status launchd_Stop launchd_Uninstall verifyTargetUserDarwin
  deleteUserDarwin dsclDeleteCmd "sc_User cfg" "[sc_StateDir cfg, sc_ConfigDir cfg, sc_LogPath cfg]" "''darwin''" "[plistPath]"
  "\<lambda>env. launchd_Purge env cfg" for cfg
proof (unfold_locales, goal_cases)
  case (1 env opts w)
  show ?case by (simp add: launchd_Purge_def Let_def)
next
  case (2 env w st w' u)
  show ?case unfolding dsclDeleteCmd_def
    using status_stop_effect(2) [OF 2] only_cmds_quiet [OF conjunct2 [OF status_stop_effect(2) [OF 2]] bins_differ(3)] by simp
next
  case (3 env w se w' u)
  show ?case unfolding dsclDeleteCmd_def
    using status_stop_effect(4) [OF 3] only_cmds_quiet [OF conjunct2 [OF status_stop_effect(4) [OF 3]] bins_differ(3)] by simp
next
  case (4 env w ue w' u)
  then obtain es where es: "sw_trace w' = sw_trace w @ es"
    "\<forall>e \<in> set es. (\<exists>a. e = EvCmd launchctlBin a) \<or> e = EvRemove plistPath"
    using launchd_Uninstall_effect [OF 4] by blast
  then have "\<forall>e \<in> set es. e \<noteq> dsclDeleteCmd u \<and> (\<forall>d. e \<noteq> EvRemoveAll d)" by (auto simp: dsclDeleteCmd_def)
  then show ?case using launchd_Uninstall_effect [OF 4] es(1) by simp
next
  case (5 env w w' a)
  then show ?case using launchd_Uninstall_effect [OF 5(1)] by auto
next
  case (6 env u w vr w')
  then show ?case by (auto simp: verifyTargetUserDarwin_def dsclDeleteCmd_def Let_def split: prod.splits dest!: run_cmd_pair)
next
  case (7 env u w de w')
  then show ?case by (auto simp: deleteUserDarwin_def dsclDeleteCmd_def Let_def split: prod.splits dest!: run_cmd_pair)
next
  case 8
  show ?case by (simp add: dsclDeleteCmd_def)
qed

end
