(* ===== verification/ServiceProps.thy ===== *)
theory ServiceProps
  imports ServiceProofs
begin

unbundle bit_operations_syntax

section \<open>Properties of service management\<close>

text \<open>
  What may be purged, what a purge destroys and in which order, that a failed installation
  leaves nothing behind, and that an installation can be undone.
\<close>

subsection \<open>Paths that may be purged\<close>

text \<open>
  Only a path inside raxd's own layout passes the safety check. A path it accepts is
  absolute and clean, is neither the root nor a system directory, is not the home directory
  of the caller nor an ancestor of it, and, wherever its symbolic links lead, it resolves
  to one of the allowed directories or to something below one of them.
\<close>

theorem purge_path_safe:
  assumes "validatePurgePath env ns p roots = None"
  shows "IsAbs p \<and> Clean p = p \<and> p \<noteq> ''/'' \<and> p \<notin> set blockedSystemRoots \<and>
    (\<forall>h. sv_home env = Some h \<longrightarrow> \<not> at_or_below p h) \<and>
    (\<forall>r. EvalSymlinks env ns p = Resolved r \<longrightarrow> (\<exists>root \<in> set roots. at_or_below root r))"
proof -
  have "at_or_below root r" if "HasPrefix (r @ ''/'') (root @ ''/'') \<or> r = root" for root r
    using that by (auto simp: at_or_below_def)
  then show ?thesis using assms
    by (auto simp: validatePurgePath_def isEqualOrAncestor_def at_or_below_def list_ex_iff
        split: if_splits eval_result.splits option.splits)
qed

subsection \<open>What a purge does\<close>

lemma validateDirs_None:
  "validateDirs env ns roots ds = None \<longleftrightarrow> (\<forall>d \<in> set ds. validatePurgePath env ns d roots = None)"
  by (induction env ns roots ds rule: validateDirs.induct) (auto split: option.splits)

fun purge_dirs :: "manager \<Rightarrow> string list" where
  "purge_dirs (Systemd cfg) = [sc_StateDir cfg, sc_ConfigDir cfg]"
| "purge_dirs (Launchd cfg) = [sc_StateDir cfg, sc_ConfigDir cfg, sc_LogPath cfg]"

fun registration :: "manager \<Rightarrow> string list" where
  "registration (Systemd cfg) = [unitPath, dropInPath]"
| "registration (Launchd cfg) = [plistPath]"

fun user_deletion :: "manager \<Rightarrow> sevent" where
  "user_deletion (Systemd cfg) = userdelCmd (sc_User cfg)"
| "user_deletion (Launchd cfg) = dsclDeleteCmd (sc_User cfg)"

fun platform_of :: "manager \<Rightarrow> string" where
  "platform_of (Systemd _) = ''linux''"
| "platform_of (Launchd _) = ''darwin''"

fun mgr_verifyUser :: "svc_env \<Rightarrow> manager \<Rightarrow> svc_world \<Rightarrow> (svc_error + bool) \<times> svc_world" where
  "mgr_verifyUser env (Systemd cfg) w = verifyTargetUserLinux env (sc_User cfg) w"
| "mgr_verifyUser env (Launchd cfg) w = verifyTargetUserDarwin env (sc_User cfg) w"

text \<open>
  C25. A purge destroys raxd's own files and nothing else. Whatever fails on the way, a file
  that is neither part of the service registration nor inside one of the state, configuration
  and (on macOS) log directories is as it was; and when the purge reports success, nothing is
  left inside these directories.
\<close>

theorem purge_only_own_files:
  assumes "mgr_Purge env m opts w = ((r, e), w')"
  shows "(\<forall>q. \<not> below_any (purge_dirs m) q \<longrightarrow> q \<notin> set (registration m) \<longrightarrow>
      map_of (sw_nodes w') q = map_of (sw_nodes w) q) \<and>
    (e = None \<longrightarrow> (\<forall>q. below_any (purge_dirs m) q \<longrightarrow> map_of (sw_nodes w') q = None))"
proof (cases m)
  case (Systemd cfg)
  then show ?thesis using linux.purge_effect [of env cfg opts w r e w'] assms by (auto simp: mgr_Purge_def)
next
  case (Launchd cfg)
  then show ?thesis using mac.purge_effect [of env cfg opts w r e w'] assms by (auto simp: mgr_Purge_def)
qed

text \<open>
  C24. Nothing is destroyed before everything was checked and recorded. Either a purge deletes
  neither the user nor a directory, or it ran as root and confirmed, every directory passed
  the safety check, the user was verified, and its actions are, in this order: harmless ones,
  the record in the log (when there is one), the deletion of the user, the removal of the
  directories in their order.
\<close>

theorem purge_order:
  assumes "mgr_Purge env m opts w = ((r, e), w')"
  shows "\<exists>pre post. sw_trace w' = sw_trace w @ pre @ post \<and>
    (\<forall>ev \<in> set pre. ev \<noteq> user_deletion m \<and> (\<forall>d. ev \<noteq> EvRemoveAll d)) \<and>
    (post = [] \<or> sv_euid env = 0 \<and> po_Confirmed opts \<and>
      (\<exists>w0 present dp k. (\<forall>q. q \<notin> set (registration m) \<longrightarrow> map_of (sw_nodes w0) q = map_of (sw_nodes w) q) \<and>
         (\<forall>d \<in> set (purge_dirs m). validatePurgePath env (sw_nodes w0) d (purge_dirs m) = None) \<and>
         fst (mgr_verifyUser env m w0) = Inr present \<and>
         post = (if po_AuditOut opts then [EvAudit (platform_of m) present dp] else []) @
           (if present then [user_deletion m] else []) @ map EvRemoveAll (take k (purge_dirs m))))"
proof (cases m)
  case (Systemd cfg)
  then have "systemd_Purge env cfg opts w = ((r, e), w')" using assms by (simp add: mgr_Purge_def)
  from linux.purge_trace [OF this] show ?thesis
    by (simp only: linux.quiet_def validateDirs_None Systemd purge_dirs.simps registration.simps user_deletion.simps
        platform_of.simps mgr_verifyUser.simps)
next
  case (Launchd cfg)
  then have "launchd_Purge env cfg opts w = ((r, e), w')" using assms by (simp add: mgr_Purge_def)
  from mac.purge_trace [OF this] show ?thesis
    by (simp only: mac.quiet_def validateDirs_None Launchd purge_dirs.simps registration.simps user_deletion.simps
        platform_of.simps mgr_verifyUser.simps)
qed


subsection \<open>A host\<close>

text \<open>A Linux host with the service installed and its user present; \<open>cmd\<close> answers \<^verbatim>\<open>systemctl\<close>.\<close>

definition host_env :: "(string list \<Rightarrow> cmd_result) \<Rightarrow> svc_env" where
  "host_env cmd =
     \<lparr>sv_euid = 0, sv_home = Some ''/root'',
      sv_cmd = (\<lambda>t name args.
        if name = getentBin then CmdOk ''raxd:x:998:998:raxd daemon:/home/raxd:/usr/sbin/nologin''
        else if name = systemctlBin then cmd args else CmdOk ''''),
      sv_proc = (\<lambda>_ _. None), sv_lstat_fails = (\<lambda>_. False), sv_mkdir_fails = (\<lambda>_. False),
      sv_write = (\<lambda>_. WriteOk), sv_stuck = (\<lambda>_. False), sv_umask = 0x12, sv_uni = (\<lambda>_. []), sv_errtext = (\<lambda>_. [])\<rparr>"

definition raxd_cfg :: svc_cfg where
  "raxd_cfg = (DefaultConfigForGOOS ''linux'')\<lparr>sc_ExecPath := ''/usr/bin/raxd''\<rparr>"

definition installed_nodes :: nodes where
  "installed_nodes =
     [(''/etc'', NDir 0x1ED), (''/etc/raxd'', NDir 0x1C0), (''/etc/raxd/config.yaml'', NFile '''' 0x180),
      (''/var'', NDir 0x1ED), (''/var/lib'', NDir 0x1ED), (''/var/lib/raxd'', NDir 0x1C0),
      (''/etc/systemd'', NDir 0x1ED), (''/etc/systemd/system'', NDir 0x1ED), (unitPath, NFile '''' 0x1A4)]"

definition installed_host :: svc_world where
  "installed_host = \<lparr>sw_nodes = installed_nodes, sw_trace = []\<rparr>"

definition yes :: PurgeOptions where
  "yes = \<lparr>po_Confirmed = True, po_AuditOut = True\<rparr>"

lemma host_purged:
  "fst (mgr_Purge (host_env (\<lambda>_. CmdOk [])) (Systemd raxd_cfg) yes installed_host) =
    (emptyReport\<lparr>pr_Platform := ''linux'', pr_Uninstalled := True, pr_UserRemoved := True,
       pr_DirsRemoved := [''/var/lib/raxd'', ''/etc/raxd'']\<rparr>, None)"
  by code_simp

theorem purge_path_safe_witness:
  "\<not> at_or_below ''/var/lib/raxd'' ''/root'' \<and> ''/var/lib/raxd'' \<notin> set blockedSystemRoots"
proof -
  have "validatePurgePath (host_env (\<lambda>_. CmdOk [])) installed_nodes ''/var/lib/raxd'' [''/var/lib/raxd'', ''/etc/raxd''] = None"
    by code_simp
  from purge_path_safe [OF this] show ?thesis by (simp add: host_env_def)
qed

theorem purge_only_own_files_witness:
  "map_of (sw_nodes (snd (mgr_Purge (host_env (\<lambda>_. CmdOk [])) (Systemd raxd_cfg) yes installed_host))) ''/etc/raxd/config.yaml'' = None"
proof -
  obtain r e w' where p: "mgr_Purge (host_env (\<lambda>_. CmdOk [])) (Systemd raxd_cfg) yes installed_host = ((r, e), w')"
    by (metis prod.exhaust)
  then have "e = None" using host_purged by simp
  moreover have "below_any (purge_dirs (Systemd raxd_cfg)) ''/etc/raxd/config.yaml''"
    by (simp add: below_any_def at_or_below_def raxd_cfg_def DefaultConfigForGOOS_def)
  ultimately show ?thesis using purge_only_own_files [OF p] p by simp
qed

theorem purge_order_witness:
  "\<exists>pre post. sw_trace (snd (mgr_Purge (host_env (\<lambda>_. CmdOk [])) (Systemd raxd_cfg) yes installed_host)) = pre @ post \<and>
     EvRemoveAll ''/etc/raxd'' \<notin> set pre"
proof -
  obtain r e w' where p: "mgr_Purge (host_env (\<lambda>_. CmdOk [])) (Systemd raxd_cfg) yes installed_host = ((r, e), w')"
    by (metis prod.exhaust)
  obtain pre post where "sw_trace w' = sw_trace installed_host @ pre @ post"
    "\<forall>ev \<in> set pre. ev \<noteq> user_deletion (Systemd raxd_cfg) \<and> (\<forall>d. ev \<noteq> EvRemoveAll d)"
    using purge_order [OF p] by blast
  then show ?thesis unfolding p snd_conv by (intro exI [of _ pre] exI [of _ post]) (auto simp: installed_host_def)
qed

text \<open>
  A service whose state is unknown is purged without having been stopped. When
  \<^verbatim>\<open>systemctl\<close> fails at every call, the status is unknown and not active, the purge does not
  call \<^verbatim>\<open>Stop\<close>, the failing stop inside the uninstallation is ignored, and the state of the
  daemon that may still be running is deleted with a report of success.
\<close>

theorem purge_unknown_not_stopped:
  "fst (systemd_Status (host_env (\<lambda>_. CmdExit 1 [])) installed_host) = unknownStatus \<and>
   snd (fst (mgr_Purge (host_env (\<lambda>_. CmdExit 1 [])) (Systemd raxd_cfg) yes installed_host)) = None \<and>
   EvRemoveAll ''/var/lib/raxd'' \<in>
     set (sw_trace (snd (mgr_Purge (host_env (\<lambda>_. CmdExit 1 [])) (Systemd raxd_cfg) yes installed_host)))"
  by code_simp

subsection \<open>Installing under systemd\<close>

text \<open>
  \<open>grown U ns ns'\<close>: the second tree differs from the first at the paths \<open>U\<close> and by new
  directories among the parents of the unit and of the drop-in only.
\<close>

definition unit_parents :: "string list" where
  "unit_parents = [''/etc'', ''/etc/systemd'', ''/etc/systemd/system'', ''/etc/systemd/journald.conf.d'']"

definition grown :: "string set \<Rightarrow> nodes \<Rightarrow> nodes \<Rightarrow> bool" where
  "grown U ns ns' \<longleftrightarrow> fst ` set ns' \<subseteq> fst ` set ns \<union> set unit_parents \<union> U \<and>
     (\<forall>q. q \<notin> U \<longrightarrow> map_of ns' q = map_of ns q \<or>
        map_of ns q = None \<and> q \<in> set unit_parents \<and> (\<exists>m. map_of ns' q = Some (NDir m)))"

lemma grown_refl [simp]: "grown U ns ns"
  by (auto simp: grown_def)

lemma grown_trans:
  assumes "grown U a b" and "grown U b c"
  shows "grown U a c"
  unfolding grown_def
proof (intro conjI allI impI)
  show "fst ` set c \<subseteq> fst ` set a \<union> set unit_parents \<union> U" using assms unfolding grown_def by blast
  fix q assume "q \<notin> U"
  then have "map_of b q = map_of a q \<or> map_of a q = None \<and> q \<in> set unit_parents \<and> (\<exists>m. map_of b q = Some (NDir m))"
    "map_of c q = map_of b q \<or> map_of b q = None \<and> q \<in> set unit_parents \<and> (\<exists>m. map_of c q = Some (NDir m))"
    using assms unfolding grown_def by blast+
  then show "map_of c q = map_of a q \<or> map_of a q = None \<and> q \<in> set unit_parents \<and> (\<exists>m. map_of c q = Some (NDir m))"
    by auto
qed

lemma grown_mono: "grown U a b \<Longrightarrow> U \<subseteq> V \<Longrightarrow> grown V a b"
  unfolding grown_def by blast

lemma add_dirs_grown: "set as \<subseteq> set unit_parents \<Longrightarrow> grown U ns (fold (add_dir m) as ns)"
proof (induction as arbitrary: ns)
  case (Cons a as)
  have "grown U ns (add_dir m a ns)" using Cons.prems
    by (auto simp: grown_def add_dir_def map_add_def split: option.splits)
  then show ?case using Cons.IH [of "add_dir m a ns"] Cons.prems by (auto intro: grown_trans)
qed simp

lemma mkdir_grown:
  "svc_MkdirAll env p m w = (ok, w') \<Longrightarrow> set (ancestors p) \<subseteq> set unit_parents \<Longrightarrow> grown U (sw_nodes w) (sw_nodes w')"
  by (auto simp: svc_MkdirAll_def Let_def add_dirs_grown split: if_splits)

lemma grown_update [simp]: "grown {p} ns (AList.update p v ns)"
  unfolding grown_def dom_update by (simp add: update_conv') blast

lemma WriteFile_grown:
  assumes "os_WriteFile env p data m w = (ok, w')"
  shows "grown {p} (sw_nodes w) (sw_nodes w')" "ok \<Longrightarrow> \<exists>m'. map_of (sw_nodes w') p = Some (NFile data m')"
    "\<not> ok \<Longrightarrow> \<forall>n. sv_write env p \<noteq> WriteCut n \<Longrightarrow> sw_nodes w' = sw_nodes w"
  using assms
  by (auto simp: os_WriteFile_def Let_def update_conv' split: option.splits node.splits write_fault.splits)

lemma writeFile_grown:
  assumes "writeFile env p data m w = (e, w')" and "set (ancestors (Dir p)) \<subseteq> set unit_parents"
  shows "grown {p} (sw_nodes w) (sw_nodes w')" "e = None \<Longrightarrow> \<exists>m'. map_of (sw_nodes w') p = Some (NFile data m')"
    "e \<noteq> None \<Longrightarrow> \<forall>n. sv_write env p \<noteq> WriteCut n \<Longrightarrow> grown {} (sw_nodes w) (sw_nodes w')"
proof -
  obtain ok1 w1 where m: "svc_MkdirAll env (Dir p) 0x1ED w = (ok1, w1)" by fastforce
  note g1 = mkdir_grown [OF m assms(2)]
  obtain ok2 w2 where f: "os_WriteFile env p data m w1 = (ok2, w2)" by fastforce
  note g2 = WriteFile_grown [OF f]
  show "grown {p} (sw_nodes w) (sw_nodes w')" "e = None \<Longrightarrow> \<exists>m'. map_of (sw_nodes w') p = Some (NFile data m')"
    "e \<noteq> None \<Longrightarrow> \<forall>n. sv_write env p \<noteq> WriteCut n \<Longrightarrow> grown {} (sw_nodes w) (sw_nodes w')"
    using assms(1) m f g1 g2 grown_trans [OF g1 g2(1)]
    by (auto simp: writeFile_def Let_def split: bool.splits)
qed

lemma unit_dirs:
  "set (ancestors (Dir unitPath)) \<subseteq> set unit_parents" "set (ancestors (Dir dropInPath)) \<subseteq> set unit_parents"
  "set (ancestors dropInDir) \<subseteq> set unit_parents"
  by code_simp+

text \<open>A removal that is not stuck removes a file, whose path has nothing below it.\<close>

definition removable :: "svc_env \<Rightarrow> nodes \<Rightarrow> bool" where
  "removable env ns \<longleftrightarrow> (\<forall>p \<in> {unitPath, dropInPath}. \<not> sv_stuck env p \<and> (\<forall>q \<in> fst ` set ns. \<not> prefix (p @ ''/'') q))"

lemma parents_not_below:
  "p \<in> {unitPath, dropInPath} \<Longrightarrow> q \<in> set unit_parents \<union> {unitPath, dropInPath} \<Longrightarrow> \<not> prefix (p @ ''/'') q \<and> p \<notin> set unit_parents"
  by (auto simp: unit_parents_def unitPath_def dropInPath_def)

lemma grown_removable: "grown {unitPath, dropInPath} ns ns' \<Longrightarrow> removable env ns \<Longrightarrow> removable env ns'"
  unfolding removable_def grown_def using parents_not_below by blast

lemma Remove_back:
  assumes "os_Remove env p w = (r, w')" and "removable env (sw_nodes w)" and "p \<in> {unitPath, dropInPath}"
  shows "r \<noteq> RemoveErr" "map_of (sw_nodes w') p = None" "fst ` set (sw_nodes w') \<subseteq> fst ` set (sw_nodes w)"
    "\<And>q. q \<noteq> p \<Longrightarrow> map_of (sw_nodes w') q = map_of (sw_nodes w) q"
proof -
  have nb: "\<not> list_ex (\<lambda>(q, _). prefix (p @ ''/'') q) (sw_nodes w)"
    using assms(2,3) unfolding removable_def list_ex_iff by force
  then show r: "r \<noteq> RemoveErr" using assms unfolding removable_def
    by (auto simp: os_Remove_def Let_def split: option.splits if_splits)
  show "map_of (sw_nodes w') p = None" "\<And>q. q \<noteq> p \<Longrightarrow> map_of (sw_nodes w') q = map_of (sw_nodes w) q"
    using os_Remove_effect [OF assms(1)] r by auto
  show "fst ` set (sw_nodes w') \<subseteq> fst ` set (sw_nodes w)"
    using assms(1) by (auto simp: os_Remove_def Let_def AList.delete_eq split: option.splits if_splits)
qed

lemma removable_subset: "removable env ns \<Longrightarrow> fst ` set ns' \<subseteq> fst ` set ns \<Longrightarrow> removable env ns'"
  unfolding removable_def by blast

text \<open>Only new directories are left of an attempt that is undone.\<close>

definition only_new_dirs :: "nodes \<Rightarrow> nodes \<Rightarrow> bool" where
  "only_new_dirs ns ns' \<longleftrightarrow>
     (\<forall>q. map_of ns' q = map_of ns q \<or> map_of ns q = None \<and> (\<exists>m. map_of ns' q = Some (NDir m)))"

lemma grown_only_new_dirs: "grown {} ns ns' \<Longrightarrow> only_new_dirs ns ns'"
  unfolding grown_def only_new_dirs_def by blast

text \<open>Removing both files undoes whatever was written to them on a fresh host.\<close>

lemma undo_both:
  assumes "grown {unitPath, dropInPath} ns (sw_nodes w)" and "map_of ns unitPath = None" and "map_of ns dropInPath = None"
    and "removable env ns" and "os_Remove env unitPath w = (r1, w1)" and "os_Remove env dropInPath w1 = (r2, w2)"
  shows "only_new_dirs ns (sw_nodes w2)" "r1 \<noteq> RemoveErr" "r2 \<noteq> RemoveErr"
proof -
  have rm: "removable env (sw_nodes w)" using grown_removable [OF assms(1,4)] .
  note b1 = Remove_back [OF assms(5) rm]
  note b2 = Remove_back [OF assms(6) removable_subset [OF rm b1(3)]]
  have "map_of (sw_nodes w2) q = map_of (sw_nodes w) q" if "q \<notin> {unitPath, dropInPath}" for q using b1(4) b2(4) that by auto
  moreover have "map_of (sw_nodes w2) unitPath = None" "map_of (sw_nodes w2) dropInPath = None"
    using b1(2) b2(2,4) by (auto simp: unitPath_def dropInPath_def)
  ultimately show "only_new_dirs ns (sw_nodes w2)"
    using assms(1-3) unfolding grown_def only_new_dirs_def by (metis insert_iff empty_iff)
  show "r1 \<noteq> RemoveErr" "r2 \<noteq> RemoveErr" using b1(1) b2(1) by auto
qed

lemma undo_unit:
  assumes "grown {unitPath} ns (sw_nodes w)" and "map_of ns unitPath = None" and "removable env ns"
    and "os_Remove env unitPath w = (r1, w1)"
  shows "only_new_dirs ns (sw_nodes w1)"
proof -
  have rm: "removable env (sw_nodes w)" using grown_removable [OF grown_mono [OF assms(1)] assms(3)] by blast
  note b1 = Remove_back [OF assms(4) rm]
  show ?thesis using b1 assms(1,2) unfolding grown_def only_new_dirs_def by (metis insert_iff empty_iff)
qed


subsection \<open>Rollback and removal\<close>

lemma only_new_dirs_refl [simp]: "only_new_dirs ns ns"
  by (simp add: only_new_dirs_def)

lemma createUser_nodes: "createUser env cfg w = (e, w') \<Longrightarrow> sw_nodes w' = sw_nodes w"
  by (auto simp: createUser_def Let_def split: prod.splits dest!: run_cmd_pair)

lemma rollback_unit:
  "grown {unitPath} ns (sw_nodes w) \<Longrightarrow> map_of ns unitPath = None \<Longrightarrow> removable env ns \<Longrightarrow>
   only_new_dirs ns (sw_nodes (rollback env True False w))"
  using undo_unit [of ns w env "fst (os_Remove env unitPath w)" "snd (os_Remove env unitPath w)"]
  by (simp add: rollback_def Let_def)

lemma rollback_both:
  "grown {unitPath, dropInPath} ns (sw_nodes w) \<Longrightarrow> map_of ns unitPath = None \<Longrightarrow> map_of ns dropInPath = None \<Longrightarrow>
   removable env ns \<Longrightarrow> only_new_dirs ns (sw_nodes (rollback env True True w))"
  using undo_both(1) [of ns w env "fst (os_Remove env unitPath w)" "snd (os_Remove env unitPath w)"]
  by (simp add: rollback_def Let_def) (metis prod.collapse)

text \<open>The result of \<open>installUnit\<close> from the results of its steps.\<close>

definition install_result where
  "install_result env e2 w2 ok3 w3 e4 w4 x5 w5 x6 w6 =
     (case e2 of Some e \<Rightarrow> (Some (Errorf ''service install: write unit'' e), w2)
      | None \<Rightarrow>
        if \<not> ok3 then (Some (Errorf ''service install: create drop-in dir'' (plainErr (sv_errtext env dropInDir))), rollback env True False w3)
        else (case e4 of Some e \<Rightarrow> (Some (Errorf ''service install: write drop-in'' e), rollback env True False w4)
        | None \<Rightarrow> (case x5 of
            Inl (_ :: svc_error) \<Rightarrow> (Some (wrapErr ErrManagerUnavailable ''systemctl daemon-reload failed''), rollback env True True w5)
          | Inr (_ :: string) \<Rightarrow> (case x6 of
              Inl (_ :: svc_error) \<Rightarrow> (Some (wrapErr ErrManagerUnavailable ''systemctl enable failed''), rollback env True True w6)
            | Inr (_ :: string) \<Rightarrow> (None, w6)))))"

lemma installUnit_stages:
  obtains e2 w2 ok3 w3 e4 w4 x5 w5 x6 w6 where
    "writeFile env unitPath content 0x1A4 w = (e2, w2)" "svc_MkdirAll env dropInDir 0x1ED w2 = (ok3, w3)"
    "writeFile env dropInPath JournaldDropIn 0x1A4 w3 = (e4, w4)"
    "RunManager env systemctlBin [''daemon-reload''] w4 = (x5, w5)"
    "RunManager env systemctlBin [''enable'', ''raxd''] w5 = (x6, w6)"
    "installUnit env content w = install_result env e2 w2 ok3 w3 e4 w4 x5 w5 x6 w6"
proof -
  obtain e2 w2 where s2: "writeFile env unitPath content 0x1A4 w = (e2, w2)" by fastforce
  obtain ok3 w3 where s3: "svc_MkdirAll env dropInDir 0x1ED w2 = (ok3, w3)" by fastforce
  obtain e4 w4 where s4: "writeFile env dropInPath JournaldDropIn 0x1A4 w3 = (e4, w4)" by fastforce
  obtain x5 w5 where s5: "RunManager env systemctlBin [''daemon-reload''] w4 = (x5, w5)" by fastforce
  obtain x6 w6 where s6: "RunManager env systemctlBin [''enable'', ''raxd''] w5 = (x6, w6)" by fastforce
  show thesis
    by (rule that [OF s2 s3 s4 s5 s6]) (simp add: installUnit_def install_result_def s2 s3 s4 s5 s6 split: option.split sum.split)
qed

lemma grown_two: "grown {unitPath} a b \<Longrightarrow> grown {dropInPath} b c \<Longrightarrow> grown {unitPath, dropInPath} a c"
  using grown_trans [OF grown_mono grown_mono] by blast

lemma installUnit_ok:
  assumes "installUnit env content w = (None, w')"
  obtains w2 where "writeFile env unitPath content 0x1A4 w = (None, w2)" "grown {dropInPath} (sw_nodes w2) (sw_nodes w')"
proof (rule installUnit_stages [of env content w])
  fix e2 w2 ok3 w3 e4 w4 x5 w5 x6 w6
  assume s: "writeFile env unitPath content 0x1A4 w = (e2, w2)" "svc_MkdirAll env dropInDir 0x1ED w2 = (ok3, w3)"
    "writeFile env dropInPath JournaldDropIn 0x1A4 w3 = (e4, w4)"
    "RunManager env systemctlBin [''daemon-reload''] w4 = (x5, w5)"
    "RunManager env systemctlBin [''enable'', ''raxd''] w5 = (x6, w6)"
    and eq: "installUnit env content w = install_result env e2 w2 ok3 w3 e4 w4 x5 w5 x6 w6"
  have "grown {dropInPath} (sw_nodes w2) (sw_nodes w4)"
    by (rule grown_trans [OF mkdir_grown [OF s(2) unit_dirs(3)] writeFile_grown(1) [OF s(3) unit_dirs(2)]])
  moreover have "e2 = None" "w' = w6" using assms unfolding eq install_result_def by (auto split: option.splits sum.splits if_splits)
  ultimately show thesis using that s RunManager_pair [OF s(4)] RunManager_pair [OF s(5)] by auto
qed

lemma installUnit_undone:
  assumes "installUnit env content w = (Some e, w')" and "map_of (sw_nodes w) unitPath = None"
    and "map_of (sw_nodes w) dropInPath = None" and "removable env (sw_nodes w)" and "\<forall>p n. sv_write env p \<noteq> WriteCut n"
  shows "only_new_dirs (sw_nodes w) (sw_nodes w')"
proof (rule installUnit_stages [of env content w])
  fix e2 w2 ok3 w3 e4 w4 x5 w5 x6 w6
  assume s: "writeFile env unitPath content 0x1A4 w = (e2, w2)" "svc_MkdirAll env dropInDir 0x1ED w2 = (ok3, w3)"
    "writeFile env dropInPath JournaldDropIn 0x1A4 w3 = (e4, w4)"
    "RunManager env systemctlBin [''daemon-reload''] w4 = (x5, w5)"
    "RunManager env systemctlBin [''enable'', ''raxd''] w5 = (x6, w6)"
    and eq: "installUnit env content w = install_result env e2 w2 ok3 w3 e4 w4 x5 w5 x6 w6"
  note f2 = writeFile_grown [OF s(1) unit_dirs(1)]
  note f4 = writeFile_grown [OF s(3) unit_dirs(2)]
  have g3: "grown {unitPath} (sw_nodes w) (sw_nodes w3)" by (rule grown_trans [OF f2(1) mkdir_grown [OF s(2) unit_dirs(3)]])
  have gg: "grown {unitPath, dropInPath} (sw_nodes w) (sw_nodes w4)" by (rule grown_two [OF g3 f4(1)])
  have nodes: "sw_nodes w5 = sw_nodes w4" "sw_nodes w6 = sw_nodes w4" using RunManager_pair [OF s(4)] RunManager_pair [OF s(5)] by auto
  consider "e2 \<noteq> None" "w' = w2" | "w' = rollback env True False w3" | "e4 \<noteq> None" "w' = rollback env True False w4"
    | "w' = rollback env True True w5" | "w' = rollback env True True w6"
    using assms(1) unfolding eq install_result_def by (auto split: option.splits sum.splits if_splits)
  then show ?thesis
  proof cases
    case 1
    then show ?thesis using f2(3) assms(5) by (simp add: grown_only_new_dirs)
  next
    case 2
    then show ?thesis using rollback_unit [OF g3 assms(2,4)] by simp
  next
    case 3
    then have "grown {unitPath} (sw_nodes w) (sw_nodes w4)"
      using f4(3) assms(5) grown_trans [OF g3 grown_mono [of "{}"]] by blast
    then show ?thesis using 3 rollback_unit [OF _ assms(2,4)] by simp
  qed (use rollback_both [OF _ assms(2,3,4)] gg nodes in simp_all)
qed

text \<open>The files after a failed installation, and after one that was undone.\<close>

lemma install_failed_nodes:
  assumes "systemd_Install env cfg w = (Some e, w')" and "map_of (sw_nodes w) unitPath = None"
    and "map_of (sw_nodes w) dropInPath = None" and "removable env (sw_nodes w)" and "\<forall>p n. sv_write env p \<noteq> WriteCut n"
  shows "only_new_dirs (sw_nodes w) (sw_nodes w')"
proof -
  obtain ce w1 where c: "createUser env cfg w = (ce, w1)" by fastforce
  note n1 = createUser_nodes [OF c]
  consider "sw_nodes w' = sw_nodes w" | content where "installUnit env content w1 = (Some e, w')"
    using assms(1) c n1 by (auto simp: systemd_Install_def split: if_splits option.splits sum.splits)
  then show ?thesis
  proof cases
    case (2 content)
    then show ?thesis using installUnit_undone [of env content w1 e w'] assms n1 by simp
  qed simp
qed

text \<open>A fresh host: no unit, no drop-in, and no symbolic link among the parent directories.\<close>

definition fresh_host :: "nodes \<Rightarrow> bool" where
  "fresh_host ns \<longleftrightarrow> map_of ns unitPath = None \<and> map_of ns dropInPath = None \<and>
     (\<forall>a \<in> set unit_parents. \<forall>t. map_of ns a \<noteq> Some (NLink t))"

lemma map_of_add_dirs:
  "map_of (fold (add_dir m) as ns) q = (case map_of ns q of None \<Rightarrow> if q \<in> set as then Some (NDir m) else None | Some x \<Rightarrow> Some x)"
proof (induction as arbitrary: ns)
  case (Cons a as)
  have "map_of (add_dir m a ns) q = (case map_of ns q of None \<Rightarrow> if q = a then Some (NDir m) else None | Some x \<Rightarrow> Some x)"
    by (auto simp: add_dir_def map_add_def split: option.splits)
  then show ?case by (simp add: Cons.IH split: option.split)
qed (auto split: option.splits)

lemma unit_ancestors: "ancestors (Dir unitPath) = [''/etc'', ''/etc/systemd'', ''/etc/systemd/system'']"
  by code_simp

lemma installed_stat:
  assumes "writeFile env unitPath content 0x1A4 w = (None, w2)" and "fresh_host (sw_nodes w)"
    and "grown {dropInPath} (sw_nodes w2) ns" and "\<forall>p. \<not> sv_lstat_fails env' p"
  shows "os_Stat env' ns unitPath = StatOk" "\<exists>m. map_of ns unitPath = Some (NFile content m)"
proof -
  obtain w1 where m: "svc_MkdirAll env (Dir unitPath) 0x1ED w = (True, w1)" and f: "os_WriteFile env unitPath content 0x1A4 w1 = (True, w2)"
    using assms(1) by (auto simp: writeFile_def Let_def split: prod.splits bool.splits)
  have up: "a \<noteq> unitPath" "a \<noteq> dropInPath" "a \<in> set unit_parents" if "a \<in> set (ancestors (Dir unitPath))" for a
    using that unfolding unit_ancestors by (auto simp: unitPath_def dropInPath_def unit_parents_def)
  have keep: "map_of (sw_nodes w2) q = x \<Longrightarrow> x \<noteq> None \<Longrightarrow> q \<noteq> dropInPath \<Longrightarrow> map_of ns q = x" for q x
    using assms(3) unfolding grown_def by fastforce
  have w2: "map_of (sw_nodes w2) a = map_of (sw_nodes w1) a" if "a \<noteq> unitPath" for a
    using f that by (auto simp: os_WriteFile_def Let_def update_conv' split: option.splits node.splits write_fault.splits)
  have dir: "\<exists>m. map_of ns a = Some (NDir m)" if a: "a \<in> set (ancestors (Dir unitPath))" for a
  proof -
    have n1: "map_of (sw_nodes w1) a = (case map_of (sw_nodes w) a of None \<Rightarrow> Some (NDir (0x1ED AND NOT (sv_umask env))) | x \<Rightarrow> x)"
      and nf: "\<not> is_file_at (sw_nodes w) a"
      using m a by (auto simp: svc_MkdirAll_def Let_def map_of_add_dirs list_ex_iff split: if_splits option.split)
    have "\<exists>m. map_of (sw_nodes w1) a = Some (NDir m)"
    proof (cases "map_of (sw_nodes w) a")
      case (Some n)
      then show ?thesis using n1 nf assms(2) up(3) [OF a] by (cases n) (auto simp: is_file_at_def fresh_host_def)
    qed (use n1 in simp)
    then show ?thesis using keep w2 up [OF a] by (metis option.distinct(1))
  qed
  show unit: "\<exists>m. map_of ns unitPath = Some (NFile content m)"
    using WriteFile_grown(2) [OF f] keep by (fastforce simp: unitPath_def dropInPath_def)
  have "\<exists>m. map_of ns ''/etc'' = Some (NDir m)" "\<exists>m. map_of ns ''/etc/systemd'' = Some (NDir m)"
    "\<exists>m. map_of ns ''/etc/systemd/system'' = Some (NDir m)"
    using dir unfolding unit_ancestors by auto
  then show "os_Stat env' ns unitPath = StatOk"
    using unit assms(4) by (auto simp: os_Stat_def EvalSymlinks_def unitPath_def)
qed

lemma uninstall_restores_nodes:
  assumes "systemd_Install env cfg w = (None, w1)" and "fresh_host (sw_nodes w)"
    and "sv_euid env' = 0" and "\<forall>p. \<not> sv_lstat_fails env' p" and "removable env' (sw_nodes w)"
  shows "systemd_Install env' cfg w1 = (Some (bareErr ErrAlreadyInstalled), w1) \<and>
    (\<exists>content m. RenderUnit (sv_uni env) (TemplateDataFromConfig cfg) = Inr content \<and>
       map_of (sw_nodes w1) unitPath = Some (NFile content m)) \<and>
    (\<exists>w2. systemd_Uninstall env' w1 = (None, w2) \<and> only_new_dirs (sw_nodes w) (sw_nodes w2))"
proof -
  obtain wa content where wa: "createUser env cfg w = (None, wa)" "installUnit env content wa = (None, w1)"
    and r: "RenderUnit (sv_uni env) (TemplateDataFromConfig cfg) = Inr content"
    using assms(1) by (auto simp: systemd_Install_def split: if_splits option.splits sum.splits prod.splits)
  note na = createUser_nodes [OF wa(1)]
  obtain wb where wb: "writeFile env unitPath content 0x1A4 wa = (None, wb)" "grown {dropInPath} (sw_nodes wb) (sw_nodes w1)"
    using installUnit_ok [OF wa(2)] by blast
  have fr: "fresh_host (sw_nodes wa)" using assms(2) na by simp
  note st = installed_stat [OF wb(1) fr wb(2) assms(4)]
  have g: "grown {unitPath, dropInPath} (sw_nodes w) (sw_nodes w1)"
    using grown_two [OF writeFile_grown(1) [OF wb(1) unit_dirs(1)] wb(2)] na by simp
  obtain x1 u1 where r1: "RunManager env' systemctlBin [''stop'', ''raxd''] w1 = (x1, u1)" by fastforce
  obtain x2 u2 where r2: "RunManager env' systemctlBin [''disable'', ''raxd''] u1 = (x2, u2)" by fastforce
  obtain x3 u3 where r3: "RunManager env' systemctlBin [''daemon-reload''] u2 = (x3, u3)" by fastforce
  obtain x4 u4 where r4: "os_Remove env' unitPath u3 = (x4, u4)" by fastforce
  obtain x5 u5 where r5: "os_Remove env' dropInPath u4 = (x5, u5)" by fastforce
  obtain x6 u6 where r6: "RunManager env' systemctlBin [''daemon-reload''] u5 = (x6, u6)" by fastforce
  have n3: "sw_nodes u3 = sw_nodes w1" "sw_nodes u6 = sw_nodes u5"
    using RunManager_pair [OF r1] RunManager_pair [OF r2] RunManager_pair [OF r3] RunManager_pair [OF r6] by auto
  have "only_new_dirs (sw_nodes w) (sw_nodes u5)" "x4 \<noteq> RemoveErr" "x5 \<noteq> RemoveErr"
    using undo_both [OF _ _ _ assms(5) r4 r5] g n3(1) assms(2) by (auto simp: fresh_host_def)
  moreover from this have "systemd_Uninstall env' w1 = (None, u6)"
    using assms(3) st(1) r1 r2 r3 r4 r5 r6 by (simp add: systemd_Uninstall_def Let_def)
  moreover have "systemd_Install env' cfg w1 = (Some (bareErr ErrAlreadyInstalled), w1)"
    using assms(3) st(1) by (simp add: systemd_Install_def)
  ultimately show ?thesis using n3(2) st(2) r by auto
qed

definition fresh_world :: svc_world where
  "fresh_world = \<lparr>sw_nodes = [(''/etc'', NDir 0x1ED)], sw_trace = []\<rparr>"

lemma fresh_world_fresh: "fresh_host (sw_nodes fresh_world)" "removable (host_env c) (sw_nodes fresh_world)"
  by (simp_all add: fresh_host_def fresh_world_def unitPath_def dropInPath_def unit_parents_def removable_def host_env_def)

text \<open>
  A unit that was cut short is not rolled back. When the disk fills up while the unit is
  written, \<^verbatim>\<open>Install\<close> fails before it counts the file as created: the fragment stays, and the
  next \<^verbatim>\<open>Install\<close> reports the service as installed.
\<close>

definition full_disk :: svc_env where
  "full_disk = (host_env (\<lambda>_. CmdOk []))\<lparr>sv_write := (\<lambda>_. WriteCut 100)\<rparr>"

theorem cut_unit_blocks_install:
  "fst (systemd_Install full_disk raxd_cfg fresh_world) \<noteq> None \<and>
   fst (systemd_Install (host_env (\<lambda>_. CmdOk [])) raxd_cfg (snd (systemd_Install full_disk raxd_cfg fresh_world))) =
     Some (bareErr ErrAlreadyInstalled)"
  by code_simp

end
