(* ===== verification/CliKey.thy ===== *)
theory CliKey
  imports Settings KeystoreProps
begin

section \<open>The key commands, the banner and the status command (\<open>internal/cli\<close>, \<open>internal/banner\<close>, \<open>internal/version\<close>)\<close>

text \<open>
  What each command prints, and to which stream. A line is its text, an entry of the
  structured log is its message with its fields, a table is its header with its rows, as
  they are handed to the table library, and a JSON object is its fields.
\<close>

datatype cli_val = CStr string | CInt int | CBool bool | CStrs "string list"

datatype out =
    OutLine string
  | OutLog string "(string \<times> cli_val) list"
  | OutTable "string list" "string list list"
  | OutJson "(string \<times> cli_val) list"

text \<open>\<^verbatim>\<open>%-Ns\<close> pads to a number of runes.\<close>

definition pad_right :: "nat \<Rightarrow> string \<Rightarrow> string" where
  "pad_right n s = s @ replicate (n - RuneCountInString s) (CHR '' '')"

text \<open>\<^verbatim>\<open>Format("2006-01-02")\<close> of an instant in UTC, counted from the first day of year 1.\<close>

definition civil_date :: "int \<Rightarrow> int \<times> int \<times> int" where
  "civil_date days =
     (let z = days + 306; era = z div 146097; doe = z mod 146097;
          yoe = (doe - doe div 1460 + doe div 36524 - doe div 146096) div 365;
          doy = doe - (365 * yoe + yoe div 4 - yoe div 100);
          mp = (5 * doy + 2) div 153;
          d = doy - (153 * mp + 2) div 5 + 1;
          m = (if mp < 10 then mp + 3 else mp - 9);
          y = yoe + era * 400 + (if m \<le> 2 then 1 else 0) in (y, m, d))"

definition zero_pad :: "nat \<Rightarrow> int \<Rightarrow> string" where
  "zero_pad n k = (let s = fmt_d k in replicate (n - length s) (CHR ''0'') @ s)"

definition format_date :: "gotime \<Rightarrow> string" where
  "format_date t =
     (let (y, m, d) = civil_date (t div 86400000000000) in zero_pad 4 y @ ''-'' @ zero_pad 2 m @ ''-'' @ zero_pad 2 d)"

text \<open>A conversion to runes and back: an invalid byte becomes U+FFFD.\<close>

function to_runes :: "string \<Rightarrow> string list" where
  "to_runes s =
     (case s of
        [] \<Rightarrow> []
      | c # _ \<Rightarrow>
          (if rune_len s = 1 \<and> 128 \<le> (of_char c :: nat) then [CHR 0xEF, CHR 0xBF, CHR 0xBD] else take (rune_len s) s) #
          to_runes (drop (rune_len s) s))"
  by pat_completeness auto
termination
  by (relation "measure length") (auto simp: rune_len_pos)

declare to_runes.simps [simp del]

definition truncateEllipsis :: "string \<Rightarrow> nat \<Rightarrow> string" where
  "truncateEllipsis s n =
     (let runes = to_runes s in
      if length runes \<le> n then s else concat (take (n - 1) runes) @ [CHR 0xE2, CHR 0x80, CHR 0xA6])"

subsection \<open>Errors (key.go)\<close>

datatype cli_error = CliPaths | CliStore ks_error | CliNoId | CliNoEntropy

record cli_env =
  ce_getenv :: "string \<Rightarrow> string"
  ce_json :: json
  ce_os :: osenv
  ce_now :: gotime
  ce_ent :: bytes
  ce_text :: "string \<Rightarrow> string"
  ce_uni :: "string \<Rightarrow> string"

definition openStore :: "cli_env \<Rightarrow> disk \<Rightarrow> cli_error + Store" where
  "openStore env d =
     (case Paths (ce_getenv env) of
        None \<Rightarrow> Inl CliPaths
      | Some paths \<Rightarrow>
          (case Open (ce_json env) (ce_os env) (KeysDB paths) d of
             Inl e \<Rightarrow> Inl (CliStore e)
           | Inr store \<Rightarrow> Inr store))"

definition printError :: "string \<Rightarrow> string list \<Rightarrow> out list" where
  "printError message hints = OutLine (''error: '' @ message) # map (\<lambda>h. OutLine (''  hint: '' @ h)) hints"

text \<open>The text of an error that is none of the sentinels; \<open>ce_text\<close> adds the operating system's part.\<close>

definition cli_error_text :: "cli_env \<Rightarrow> cli_error \<Rightarrow> string" where
  "cli_error_text env e =
     (case e of
        CliPaths \<Rightarrow> ''cannot resolve config paths: cannot determine config directory: $HOME is not set''
      | CliStore (ErrIO msg) \<Rightarrow> ce_text env msg
      | _ \<Rightarrow> [])"

definition printStoreError :: "cli_env \<Rightarrow> cli_error \<Rightarrow> string \<Rightarrow> out list" where
  "printStoreError env err op =
     (case err of
        CliStore e \<Rightarrow>
          if Is_ErrCorrupt e then
            printError ''key store is corrupted or unreadable''
              [''check file permissions on keys.db (must be readable by current user)'',
               ''do not attempt to repair the file manually '' @ em_dash @ '' contact support if data recovery is needed'']
          else if e = ErrLabelTooLong then
            printError ''label is too long (max 64 characters)'' [''choose a shorter label and try again'']
          else if e = ErrNotFound then
            printError (''key '' @ Quote (ce_uni env) op @ '' not found'') [''run \"raxd key list\" to see available key IDs'']
          else if e = ErrAlreadyRevoked then
            printError (''key '' @ Quote (ce_uni env) op @ '' is already revoked'') [''run \"raxd key list\" to see active keys'']
          else printError (op @ '': '' @ cli_error_text env err) []
      | _ \<Rightarrow> printError (op @ '': '' @ cli_error_text env err) [])"

subsection \<open>Commands (key.go)\<close>

definition box_h :: string where "box_h = [CHR 0xE2, CHR 0x94, CHR 0x80]"
definition box_v :: string where "box_v = [CHR 0xE2, CHR 0x94, CHR 0x82]"
definition box_tl :: string where "box_tl = [CHR 0xE2, CHR 0x94, CHR 0x8C]"
definition box_tr :: string where "box_tr = [CHR 0xE2, CHR 0x94, CHR 0x90]"
definition box_bl :: string where "box_bl = [CHR 0xE2, CHR 0x94, CHR 0x94]"
definition box_br :: string where "box_br = [CHR 0xE2, CHR 0x94, CHR 0x98]"

definition Repeat :: "string \<Rightarrow> nat \<Rightarrow> string" where
  "Repeat s n = concat (replicate n s)"

definition printKeyBox :: "string \<Rightarrow> out list" where
  "printKeyBox key =
     (let inner = ''  '' @ key @ ''  ''; width = RuneCountInString inner in
      [OutLine (box_tl @ Repeat box_h width @ box_tr), OutLine (box_v @ inner @ box_v),
       OutLine (box_bl @ Repeat box_h width @ box_br)])"

text \<open>The result of a command: its error, standard output, standard error, and the disk.\<close>

type_synonym cli_result = "cli_error option \<times> out list \<times> out list \<times> disk"

definition runKeyCreate :: "cli_env \<Rightarrow> string \<Rightarrow> disk \<Rightarrow> cli_result" where
  "runKeyCreate env label d =
     (case openStore env d of
        Inl e \<Rightarrow> (Some e, [], printStoreError env e ''create'', d)
      | Inr store \<Rightarrow>
      (case Create (ce_json env) (ce_os env) (ce_now env) (ce_ent env) store label d of
        (Fatal, d1) \<Rightarrow> (Some CliNoEntropy, [], [], d1)
      | (Raise e, d1) \<Rightarrow> (Some (CliStore e), [], printStoreError env (CliStore e) ''create'', d1)
      | (Ret (plain, rec), d1) \<Rightarrow>
          (let labelDisplay = (if r_Label rec = [] then ''-'' else r_Label rec) in
           (None, printKeyBox plain @ [OutLine []],
            [OutLine ''  ! WARNING: This key will NOT be shown again. Save it now.'', OutLine [],
             OutLine (''  '' @ pad_right 9 ''id'' @ '' '' @ r_ID rec),
             OutLine (''  '' @ pad_right 9 ''label'' @ '' '' @ labelDisplay),
             OutLine (''  '' @ pad_right 9 ''created'' @ '' '' @ format_date (r_Created rec)), OutLine [],
             OutLog ''key created''
               [(''action'', CStr ''create''), (''id'', CStr (r_ID rec)), (''fingerprint'', CStr (r_Fingerprint rec))]],
            d1))))"

definition keyRow :: "Record \<Rightarrow> string list" where
  "keyRow r =
     (let labelDisplay = truncateEllipsis (if r_Label r = [] then ''-'' else r_Label r) 20;
          lastUsedDisplay = (if r_LastUsed r \<noteq> 0 then format_date (r_LastUsed r) else ''never'') in
      [''  '' @ r_ID r, labelDisplay, format_date (r_Created r), lastUsedDisplay])"

definition runKeyList :: "cli_env \<Rightarrow> disk \<Rightarrow> cli_result" where
  "runKeyList env d =
     (case openStore env d of
        Inl e \<Rightarrow> (Some e, [], printStoreError env e ''list'', d)
      | Inr store \<Rightarrow>
      (case List (ce_json env) (ce_os env) store d of
        Inl e \<Rightarrow> (Some (CliStore e), [], printStoreError env (CliStore e) ''list'', d)
      | Inr records \<Rightarrow>
          if records = [] then
            (None, [OutLine ''  No API keys found.'',
                    OutLine ''  hint: create your first key with \"raxd key create --name <label>\"''], [], d)
          else (None, [OutTable [''  ID'', ''LABEL'', ''CREATED'', ''LAST USED''] (map keyRow records)], [], d)))"

definition runKeyDelete :: "cli_env \<Rightarrow> string list \<Rightarrow> disk \<Rightarrow> cli_result" where
  "runKeyDelete env args d =
     (case args of
        [] \<Rightarrow>
          (Some CliNoId, [],
           printError ''key delete requires an id argument''
             [''run \"raxd key list\" to find the key ID, then use \"raxd key delete <id>\"''], d)
      | ident # _ \<Rightarrow>
      (case openStore env d of
        Inl e \<Rightarrow> (Some e, [], printStoreError env e ''delete'', d)
      | Inr store \<Rightarrow>
          (let fp = (case List (ce_json env) (ce_os env) store d of
                       Inl _ \<Rightarrow> []
                     | Inr recs \<Rightarrow>
                         (case List.find (\<lambda>r. r_ID r = ident) recs of Some r \<Rightarrow> r_Fingerprint r | None \<Rightarrow> [])) in
           case Revoke (ce_json env) (ce_os env) (ce_now env) store ident d of
             (Some e, d1) \<Rightarrow> (Some (CliStore e), [], printStoreError env (CliStore e) ident, d1)
           | (None, d1) \<Rightarrow>
               (None, [],
                [OutLine (''  key '' @ ident @ '' revoked''),
                 OutLine ''  hint: the key can no longer be used for authentication'',
                 OutLog ''key revoked'' [(''action'', CStr ''delete''), (''id'', CStr ident), (''fingerprint'', CStr fp)]],
                d1))))"

subsection \<open>Status, version, banner (status.go, version.go, banner.go)\<close>

definition runStatus :: "cli_env \<Rightarrow> bool \<Rightarrow> cli_error option \<times> out list \<times> out list" where
  "runStatus env configMissing =
     (case Paths (ce_getenv env) of
        None \<Rightarrow>
          (Some CliPaths, [],
           [OutLine ''error: cannot determine config directory: $HOME is not set'',
            OutLine ''  hint: set the HOME environment variable and try again''])
      | Some paths \<Rightarrow>
          (let configSuffix = (if configMissing then ''  (not found, defaults applied)'' else '''') in
           (None,
            [OutLine (''  '' @ pad_right 8 ''state'' @ '' not running''),
             OutLine (''  '' @ pad_right 8 ''config'' @ '' '' @ ConfigFile paths @ configSuffix),
             OutLine (''  '' @ pad_right 8 ''keys'' @ '' '' @ KeysDB paths),
             OutLine (''  '' @ pad_right 8 ''tls'' @ '' '' @ TLSDir paths)], [])))"

record build_info =
  bi_Version :: string
  bi_Commit :: string
  bi_Date :: string

definition version_Set :: "string \<Rightarrow> string \<Rightarrow> string \<Rightarrow> build_info \<Rightarrow> build_info" where
  "version_Set v commit date b =
     \<lparr>bi_Version = (if v \<noteq> [] then v else bi_Version b), bi_Commit = (if commit \<noteq> [] then commit else bi_Commit b),
      bi_Date = (if date \<noteq> [] then date else bi_Date b)\<rparr>"

definition version_Info :: "build_info \<Rightarrow> string" where
  "version_Info b = ''raxd '' @ bi_Version b @ '' (commit '' @ bi_Commit b @ '', built '' @ bi_Date b @ '')''"

definition middle_dot :: string where "middle_dot = [CHR 0xC2, CHR 0xB7]"

text \<open>The five lines of the banner; \<^verbatim>\<open>len\<close> counts bytes. \<^verbatim>\<open>strings.Repeat\<close> panics on a negative count, which does not occur.\<close>

definition banner_Render :: "build_info \<Rightarrow> string list" where
  "banner_Render b =
     (let line1 = ''raxd  '' @ em_dash @ ''  Remote Access Daemon'';
          line2 = bi_Version b @ ''  '' @ middle_dot @ ''  commit '' @ bi_Commit b @ ''  '' @ middle_dot @ ''  built '' @ bi_Date b;
          line3 = ''Vladimir Kovalev, OEM TECH'';
          width = max (max (length line1) (length line2)) (length line3) + 4;
          pad = (\<lambda>s. box_v @ ''  '' @ s @ Repeat '' '' (width - 2 - length s) @ ''  '' @ box_v) in
      [box_tl @ Repeat box_h width @ box_tr, pad line1, pad line2, pad line3, box_bl @ Repeat box_h width @ box_br])"

end
