(* ===== verification/CliKeyProps.thy ===== *)
theory CliKeyProps
  imports CliKey SettingsProps
begin

section \<open>Properties of the key commands\<close>

text \<open>
  A new key appears on standard output and nowhere else, and the commands together do what
  their user expects: a created key is listed, a deleted one is not.
\<close>

subsection \<open>Where the key is printed\<close>

lemma Contains_iff: "Contains s t \<longleftrightarrow> (\<exists>a b. s = a @ t @ b)"
proof (induction s t rule: Contains.induct)
  case (2 c s t)
  show ?case
  proof
    assume "Contains (c # s) t"
    then consider "prefix t (c # s)" | "Contains s t" by auto
    then show "\<exists>a b. c # s = a @ t @ b"
    proof cases
      case 1
      then show ?thesis by (auto simp: prefix_def intro: exI [of _ "[]"])
    next
      case p: 2
      then obtain a b where "s = a @ t @ b" using 2 by blast
      then show ?thesis by (intro exI [of _ "c # a"] exI [of _ b]) simp
    qed
  next
    assume "\<exists>a b. c # s = a @ t @ b"
    then obtain a b where ab: "c # s = a @ t @ b" by blast
    show "Contains (c # s) t"
    proof (cases a)
      case Nil
      then have "prefix t (c # s)" using ab by simp
      then show ?thesis by simp
    next
      case (Cons x xs)
      then have "s = xs @ t @ b" using ab by simp
      then have "Contains s t" using 2 by blast
      then show ?thesis by simp
    qed
  qed
qed auto

fun val_strings :: "cli_val \<Rightarrow> string list" where
  "val_strings (CStr s) = [s]"
| "val_strings (CInt n) = [fmt_d n]"
| "val_strings (CBool b) = [fmt_bool b]"
| "val_strings (CStrs ss) = ss"

fun out_strings :: "out \<Rightarrow> string list" where
  "out_strings (OutLine s) = [s]"
| "out_strings (OutLog m fs) = m # concat (map (\<lambda>(k, v). k # val_strings v) fs)"
| "out_strings (OutTable h rows) = h @ concat rows"
| "out_strings (OutJson fs) = concat (map (\<lambda>(k, v). k # val_strings v) fs)"

lemma digits_of_digits: "c \<in> set (digits_of 10 n) \<Longrightarrow> 48 \<le> (of_char c :: nat) \<and> (of_char c :: nat) \<le> 57"
proof (induction "10 :: nat" n rule: digits_of.induct)
  case (1 n)
  then show ?case by (subst (asm) (2) digits_of.simps) (auto split: if_splits)
qed

lemma underscore_free:
  "CHR ''_'' \<notin> set (fmt_d n)" "CHR ''_'' \<notin> set (zero_pad k n)" "CHR ''_'' \<notin> set (format_date t)"
proof -
  have d: "CHR ''_'' \<notin> set (digits_of 10 m)" for m using digits_of_digits [of "CHR ''_''" m] by auto
  show f: "CHR ''_'' \<notin> set (fmt_d n)" for n using d by (auto simp: fmt_d_def)
  show z: "CHR ''_'' \<notin> set (zero_pad k n)" for k n using f by (auto simp: zero_pad_def Let_def)
  show "CHR ''_'' \<notin> set (format_date t)" using z by (auto simp: format_date_def Let_def split: prod.splits)
qed

lemma hex_underscore_free: "hexstr s \<Longrightarrow> CHR ''_'' \<notin> set s"
  by (auto simp: hexstr_def list_all_iff)

lemma no_key_without_underscore: "CHR ''_'' \<notin> set s \<Longrightarrow> \<not> Contains s (keyPrefix @ b)"
  by (auto simp: Contains_iff keyPrefix_def)

lemma key_in_suffix:
  assumes "Contains (pre @ s) (keyPrefix @ b)" and "CHR ''r'' \<notin> set pre"
  shows "Contains s (keyPrefix @ b)"
proof -
  obtain x y where xy: "pre @ s = x @ keyPrefix @ b @ y" using assms(1) by (auto simp: Contains_iff)
  have "length pre \<le> length x"
  proof (rule ccontr)
    assume "\<not> length pre \<le> length x"
    then have "(pre @ s) ! length x = pre ! length x" "pre ! length x \<in> set pre" by (auto simp: nth_append)
    moreover have "(pre @ s) ! length x = CHR ''r''" unfolding xy by (simp add: keyPrefix_def)
    ultimately show False using assms(2) by simp
  qed
  then have "s = drop (length pre) x @ (keyPrefix @ b) @ y" using arg_cong [OF xy, of "drop (length pre)"] by simp
  then show ?thesis unfolding Contains_iff by blast
qed

lemma Create_ids:
  assumes "Create js env now ent s label d = (Ret (plain, rec), d')"
  shows "hexstr (r_ID rec)" "hexstr (r_Fingerprint rec)" "\<exists>b. plain = keyPrefix @ b" "r_Label rec = label"
  using assms
  by (cases rule: Create_cases;
    auto simp: newRecord_def emptyRecord_def Fingerprint_def generateBody_def dest!: generateID_Some split: option.splits)+

text \<open>
  C38. The body of a new key is shown once, on standard output. \<^verbatim>\<open>key create\<close> prints the box with
  the key there, and no line and no log entry on standard error contains the key, unless the
  user had put it into the label.
\<close>

theorem created_key_only_on_stdout:
  assumes "runKeyCreate env label d = (None, stdout, stderr, d')"
  shows "\<exists>plain. stdout = printKeyBox plain @ [OutLine []] \<and> HasPrefix plain keyPrefix \<and>
    (\<forall>o1 \<in> set stderr. \<forall>s \<in> set (out_strings o1). Contains s plain \<longrightarrow> Contains label plain)"
proof -
  obtain store plain rec where st: "openStore env d = Inr store"
    and c: "Create (ce_json env) (ce_os env) (ce_now env) (ce_ent env) store label d = (Ret (plain, rec), d')"
    using assms by (auto simp: runKeyCreate_def split: sum.splits prod.splits ks_result.splits)
  obtain b where b: "plain = keyPrefix @ b" using Create_ids(3) [OF c] by blast
  note ids = hex_underscore_free [OF Create_ids(1) [OF c]] hex_underscore_free [OF Create_ids(2) [OF c]]
  let ?l = "''  '' @ pad_right 9 ''label'' @ '' '' @ (if label = [] then ''-'' else label)"
  have lab: "Contains label plain" if "Contains ?l plain"
  proof -
    have "CHR ''r'' \<notin> set (''  '' @ pad_right 9 ''label'' @ '' '')" by (simp add: pad_right_def)
    from key_in_suffix [OF _ this, of "if label = [] then ''-'' else label" b]
    have "Contains (if label = [] then ''-'' else label) plain" using that by (simp only: b append_assoc)
    then show ?thesis using no_key_without_underscore [of "''-''" b] unfolding b by (auto split: if_splits)
  qed
  have out: "stdout = printKeyBox plain @ [OutLine []]"
    "stderr = [OutLine ''  ! WARNING: This key will NOT be shown again. Save it now.'', OutLine [],
       OutLine (''  '' @ pad_right 9 ''id'' @ '' '' @ r_ID rec), OutLine ?l,
       OutLine (''  '' @ pad_right 9 ''created'' @ '' '' @ format_date (r_Created rec)), OutLine [],
       OutLog ''key created''
         [(''action'', CStr ''create''), (''id'', CStr (r_ID rec)), (''fingerprint'', CStr (r_Fingerprint rec))]]"
    using assms st c Create_ids(4) [OF c] by (auto simp: runKeyCreate_def Let_def)
  have "CHR ''_'' \<notin> set s \<or> s = ?l" if "o1 \<in> set stderr" "s \<in> set (out_strings o1)" for o1 s
    using that ids underscore_free(3) [of "r_Created rec"] unfolding out(2) by (auto simp: pad_right_def)
  then have "Contains label plain" if "o1 \<in> set stderr" "s \<in> set (out_strings o1)" "Contains s plain" for o1 s
    using that lab no_key_without_underscore [of s b] b by blast
  then show ?thesis using out(1) b by (intro exI [of _ plain]) auto
qed

subsection \<open>Create, list, delete\<close>

text \<open>The identifiers that \<^verbatim>\<open>key list\<close> shows, with the indentation of their column.\<close>

definition listed :: "cli_env \<Rightarrow> disk \<Rightarrow> string list" where
  "listed env d =
     concat (map (\<lambda>out. case out of OutTable _ rows \<Rightarrow> map hd rows | _ \<Rightarrow> []) (fst (snd (runKeyList env d))))"

definition calm :: "cli_env \<Rightarrow> PathSet \<Rightarrow> bool" where
  "calm env p \<longleftrightarrow> json_law (ce_json env) \<and> Paths (ce_getenv env) = Some p \<and> tmp_name (ce_os env) \<noteq> KeysDB p \<and>
     (\<forall>c. \<not> fails (ce_os env) c)"

definition cli_store :: "PathSet \<Rightarrow> Store" where
  "cli_store p = \<lparr>path = KeysDB p, usageBuf = []\<rparr>"

lemma openStore_calm:
  "calm env p \<Longrightarrow> db_at (ce_json env) (KeysDB p) (files d) = Some db \<Longrightarrow> openStore env d = Inr (cli_store p)"
  by (auto simp: calm_def openStore_def Open_def db_at_def cli_store_def Let_def split: option.splits if_splits)

lemma List_calm:
  assumes "\<forall>c. \<not> fails env c" and "db_at js (path s) (files d) = Some db"
  shows "List js env s d = Inr (map fromDBRecord [k \<leftarrow> Keys db. \<not> d_Revoked k])"
  using assms
  by (cases "files d (path s)") (auto simp: List_def acquireLock_def readDB_ok db_at_def emptyDB_def split: option.splits)

lemma listed_calm:
  assumes "calm env p" and "db_at (ce_json env) (KeysDB p) (files d) = Some db"
  shows "listed env d = map (\<lambda>k. ''  '' @ d_ID k) [k \<leftarrow> Keys db. \<not> d_Revoked k]"
proof -
  have "List (ce_json env) (ce_os env) (cli_store p) d = Inr (map fromDBRecord [k \<leftarrow> Keys db. \<not> d_Revoked k])"
    using assms by (intro List_calm) (auto simp: calm_def cli_store_def)
  then show ?thesis
    by (cases "[k \<leftarrow> Keys db. \<not> d_Revoked k] = []")
      (auto simp: listed_def runKeyList_def openStore_calm [OF assms] keyRow_def fromDBRecord_def Let_def)
qed

text \<open>The identifiers with their states, and those that are shown.\<close>

abbreviation states :: "Database \<Rightarrow> (string \<times> bool) list" where
  "states db \<equiv> map (\<lambda>k. (d_ID k, d_Revoked k)) (Keys db)"

definition active_ids :: "(string \<times> bool) list \<Rightarrow> string list" where
  "active_ids irs = map fst [ir \<leftarrow> irs. \<not> snd ir]"

lemma listed_states:
  assumes "calm env p" and "db_at (ce_json env) (KeysDB p) (files d) = Some db"
  shows "listed env d = map (\<lambda>i. ''  '' @ i) (active_ids (states db))"
  by (simp add: listed_calm [OF assms] active_ids_def filter_map comp_def)

lemma Revoke_calm:
  assumes "calm env p" and "db_at (ce_json env) (KeysDB p) (files d) = Some db" and "wf_db db"
    and "Revoke (ce_json env) (ce_os env) now (cli_store p) ident d = (None, d')"
  obtains db' where "db_at (ce_json env) (KeysDB p) (files d') = Some db'"
    "active_ids (states db') = [i \<leftarrow> active_ids (states db). i \<noteq> ident]"
proof -
  obtain r d1 where l: "acquireLock (ce_os env) (KeysDB p) lockExclusive d = (r, d1)" by fastforce
  have ok: "\<not> fails (ce_os env) c" and p: "path (cli_store p) = KeysDB p" for c using assms(1) by (auto simp: calm_def cli_store_def)
  have at: "db_at (ce_json env) (KeysDB p) (files d1) = Some db" using acquireLock_db_at [OF l] assms(2) by simp
  then have "readDB (ce_json env) (ce_os env) (cli_store p) d1 = Inr db" using ok by (simp add: readDB_db_at p)
  then obtain ks where ks: "revokeLoop ident now (Keys db) = Inr ks"
    "writeDB (ce_json env) (ce_os env) (cli_store p) (db\<lparr>Keys := ks\<rparr>) d1 = (None, d')"
    using assms(4) l by (auto simp: Revoke_def p split: sum.splits)
  have wf: "wf_db (db\<lparr>Keys := ks\<rparr>)" using revokeLoop_wf [OF ks(1) assms(3)] by simp
  then have cl: "clean_db (db\<lparr>Keys := ks\<rparr>)" by (simp add: wf_db_def)
  obtain db' where db': "db_at (ce_json env) (KeysDB p) (files d') = Some db'" "eq_mod_labels (db\<lparr>Keys := ks\<rparr>) db'"
    using writeDB_result(1) [OF _ cl _ ks(2)] assms(1) by (auto simp: calm_def p)
  have "states db' = states (db\<lparr>Keys := ks\<rparr>)"
    using eq_mod_labels_map [OF db'(2), of "\<lambda>k. (d_ID k, d_Revoked k)"] by simp
  moreover obtain pre k post where k: "Keys db = pre @ k # post" "d_ID k = ident" "\<not> d_Revoked k"
    "ks = pre @ k\<lparr>d_Revoked := True, d_RevokedAt := now\<rparr> # post"
    using revokeLoop_Inr [OF ks(1)] by blast
  moreover have "\<forall>x \<in> set pre \<union> set post. d_ID x \<noteq> ident"
    using assms(3) k(1,2) by (auto simp: wf_db_def image_iff)
  then have "active_ids (states (db\<lparr>Keys := ks\<rparr>)) = [i \<leftarrow> active_ids (states db). i \<noteq> ident]"
    using k(2) unfolding active_ids_def k(1) k(4)
    by (auto simp: filter_map comp_def k(3) intro!: arg_cong2 [where f = append] map_cong filter_cong)
  ultimately show thesis using that [OF db'(1)] by simp
qed


subsection \<open>A first key\<close>

definition first_key_env :: cli_env where
  "first_key_env =
     \<lparr>ce_getenv = home_env, ce_json = new_json, ce_os = ok_env, ce_now = 3, ce_ent = replicate 56 CHR ''a'',
      ce_text = (\<lambda>s. s), ce_uni = (\<lambda>_. [])\<rparr>"

lemma first_key_calm: "calm first_key_env home_paths"
  using home_paths demo_create_run(1) by (simp add: calm_def first_key_env_def ok_env_def home_paths_def)

lemma first_key_created:
  "\<exists>stdout stderr d1. runKeyCreate first_key_env ''ci'' no_files = (None, stdout, stderr, d1)"
proof -
  have st: "openStore first_key_env no_files = Inr (cli_store home_paths)"
    using demo_create_run(4) by (intro openStore_calm [OF first_key_calm, of _ emptyDB])
      (simp add: first_key_env_def db_at_def no_files_def)
  have "generateBody (replicate 56 CHR ''a'') = Some (demo_body, replicate 24 CHR ''a'')"
    by (simp add: generateBody_def rand_Read_def keyBodyBytes_def demo_body_def)
  moreover have "generateSalt (replicate 24 CHR ''a'') = Some (replicate 16 CHR ''a'', replicate 8 CHR ''a'')"
    by (simp add: generateSalt_def rand_Read_def saltBytes_def)
  moreover have "generateID {} (replicate 8 CHR ''a'') = Some (EncodeToString_hex (replicate 8 CHR ''a''), [])"
    by (subst generateID.simps) (simp add: rand_Read_def idBytes_def)
  ultimately have "fst (Create new_json ok_env 3 (replicate 56 CHR ''a'') (cli_store home_paths) ''ci'' no_files) =
      Ret (demo_body, demo_new)"
    by (simp add: Create_def RuneCountInString_ci acquireLock_def os_open_create_def readDB_def demo_defs emptyDB_def
        dbVersion_def writeDB_def commit_file_def os_defs Let_def new_json_def cli_store_def home_paths_def flip: demo_new_def)
  then obtain d1 where "Create new_json ok_env 3 (replicate 56 CHR ''a'') (cli_store home_paths) ''ci'' no_files =
      (Ret (demo_body, demo_new), d1)" by (metis prod.collapse)
  then show ?thesis using st by (simp add: runKeyCreate_def first_key_env_def)
qed


theorem created_key_only_on_stdout_witness:
  "\<exists>plain. fst (snd (runKeyCreate first_key_env ''ci'' no_files)) = printKeyBox plain @ [OutLine []]"
proof -
  obtain stdout stderr d1 where c: "runKeyCreate first_key_env ''ci'' no_files = (None, stdout, stderr, d1)"
    using first_key_created by blast
  from created_key_only_on_stdout [OF c] show ?thesis using c by auto
qed

subsection \<open>The banner\<close>

text \<open>
  The box of the banner is not a box. Its rows are padded by bytes and carry one margin too
  many, which cancels for the two lines with two bytes of UTF-8 to spare and not for the
  last: that row is two columns wider than the frame.
\<close>

theorem banner_row_sticks_out:
  "map RuneCountInString (banner_Render \<lparr>bi_Version = ''dev'', bi_Commit = ''none'', bi_Date = ''unknown''\<rparr>) =
     [45, 45, 45, 47, 45]"
  by code_simp

end
