(* ===== verification/CliService.thy ===== *)
theory CliService
  imports CliKey Launchd
begin

section \<open>The service commands (\<open>internal/cli/service.go\<close>)\<close>

text \<open>
  \<^verbatim>\<open>raxd service install\<close>, \<^verbatim>\<open>uninstall\<close>, \<^verbatim>\<open>start\<close>, \<^verbatim>\<open>stop\<close> and \<^verbatim>\<open>status\<close>: the manager is
  built from the configuration, its operation is called on the host, and the result becomes
  messages and an exit code. The record that a purge writes before it deletes anything is the
  event \<open>EvAudit\<close> of the host; all other output is in the result.
\<close>

record svc_cli_env =
  sl_goos :: string
  sl_exe :: "string option"
  sl_getenv :: "string \<Rightarrow> string"
  sl_fl :: "int \<Rightarrow> int \<Rightarrow> int \<Rightarrow> int"
  sl_cast :: viper_cast
  sl_config :: read_result
  sl_text :: "config_error \<Rightarrow> string"
  sl_svc :: svc_env

text \<open>The result of a command: its error, standard output, standard error, and the host.\<close>

type_synonym svc_cli_result = "svc_error option \<times> out list \<times> out list \<times> svc_world"

definition resolveManagerWithPort :: "svc_cli_env \<Rightarrow> svc_error + manager \<times> int" where
  "resolveManagerWithPort env =
     (let exe = (case sl_exe env of Some p \<Rightarrow> p | None \<Rightarrow> []);
          new = (\<lambda>cfg. case service_New (sl_goos env) (sl_exe env) cfg of
                   Inl e \<Rightarrow> Inl e | Inr m \<Rightarrow> Inr (m, sc_Port cfg)) in
      case Paths (sl_getenv env) of
        None \<Rightarrow> new ((DefaultConfigForGOOS (sl_goos env))\<lparr>sc_ExecPath := exe\<rparr>)
      | Some paths \<Rightarrow>
          (case Load (sl_fl env) (sl_cast env) (sl_config env) of
             Inl e \<Rightarrow> Inl (plainErr (''cannot load configuration: '' @ sl_text env e))
           | Inr appCfg \<Rightarrow> new ((DefaultConfigForGOOS (sl_goos env))\<lparr>sc_Port := ac_Port appCfg, sc_ExecPath := exe\<rparr>)))"

subsection \<open>Messages\<close>

record serviceErrorMsg =
  sm_err :: string
  sm_hints :: "string list"

definition printSvcError :: "serviceErrorMsg \<Rightarrow> out list" where
  "printSvcError msg = OutLine (''error: '' @ sm_err msg) # map (\<lambda>h. OutLine (''  hint: '' @ h)) (sm_hints msg)"

definition mapManagerError :: "svc_error \<Rightarrow> serviceErrorMsg" where
  "mapManagerError e =
     (if errors_Is e ErrPermission then
        \<lparr>sm_err = ''insufficient privileges to install the service'',
         sm_hints = [''run as root or with sudo: sudo raxd service install'',
                     ''installation requires root to write system service files'']\<rparr>
      else if errors_Is e ErrManagerUnavailable then
        \<lparr>sm_err = ''service manager is not available'',
         sm_hints = [''ensure systemd (Linux) or launchd (macOS) is running'']\<rparr>
      else if errors_Is e ErrUnsupported then
        \<lparr>sm_err = ''this platform is not supported'',
         sm_hints = [''raxd service management is available on Linux and macOS only'']\<rparr>
      else if errors_Is e ErrNotInstalled then
        \<lparr>sm_err = ''raxd service is not installed'', sm_hints = [''install it first with \"raxd service install\"'']\<rparr>
      else if errors_Is e ErrAlreadyInstalled then
        \<lparr>sm_err = ''raxd service is already installed'',
         sm_hints = [''use \"raxd service status\" to check the current state'']\<rparr>
      else
        \<lparr>sm_err = ''service operation failed: '' @ err_text e,
         sm_hints = [''run \"raxd service status\" to check current state'']\<rparr>)"

definition mapPurgeError :: "svc_error \<Rightarrow> serviceErrorMsg" where
  "mapPurgeError e =
     (if errors_Is e ErrPermission then
        \<lparr>sm_err = ''insufficient privileges to run purge'',
         sm_hints = [''run as root or with sudo:'', ''        sudo raxd service uninstall --purge --yes'']\<rparr>
      else if errors_Is e ErrUserMismatch then
        \<lparr>sm_err = ''system user \"raxd\" does not match the expected raxd service account'',
         sm_hints = [''the account may have been modified; inspect it before removing:'', ''        id raxd'',
                     ''        getent passwd raxd'']\<rparr>
      else if errors_Is e ErrSuspiciousPath then
        \<lparr>sm_err = ''resolved path for state/config directory is outside the expected layout'',
         sm_hints = [''inspect the raxd configuration for unexpected symlinks or path overrides:'',
                     ''        raxd service status'']\<rparr>
      else if errors_Is e ErrUnsupported then
        \<lparr>sm_err = ''this platform is not supported'',
         sm_hints = [''raxd service management is available on Linux and macOS only'']\<rparr>
      else if errors_Is e ErrManagerUnavailable then
        \<lparr>sm_err = ''raxd service did not stop within the timeout'',
         sm_hints = [''check service status and stop it manually before purging:'', ''        sudo raxd service stop'',
                     ''        sudo raxd service uninstall --purge --yes'']\<rparr>
      else
        \<lparr>sm_err = ''purge operation failed'', sm_hints = [''run \"raxd service status\" to check current state'']\<rparr>)"

definition unitDisplayPathForOS :: "string \<Rightarrow> string" where
  "unitDisplayPathForOS goos =
     (if goos = ''darwin'' then ''/Library/LaunchDaemons/tech.oem.raxd.plist'' else ''/etc/systemd/system/raxd.service'')"

definition managerNameForOS :: "string \<Rightarrow> string" where
  "managerNameForOS goos = (if goos = ''darwin'' then ''launchd'' else ''systemd'')"

definition field :: "nat \<Rightarrow> string \<Rightarrow> string \<Rightarrow> out" where
  "field n name val = OutLine (''  '' @ pad_right n name @ '' '' @ val)"

subsection \<open>install\<close>

definition serviceInstall :: "svc_cli_env \<Rightarrow> svc_world \<Rightarrow> svc_cli_result" where
  "serviceInstall env w =
     (case resolveManagerWithPort env of
        Inl e \<Rightarrow> (Some e, [], printSvcError (mapManagerError e), w)
      | Inr (m, port) \<Rightarrow>
      (case mgr_Install (sl_svc env) m w of
        (Some e, w1) \<Rightarrow>
          if errors_Is e ErrAlreadyInstalled then
            (None, [], [OutLine ''  already installed   raxd service'',
                        OutLine ''  hint: use \"raxd service status\" to check the current state''], w1)
          else (Some e, [], printSvcError (mapManagerError e), w1)
      | (None, w1) \<Rightarrow>
          (None, [],
           [field 14 ''installed'' ''raxd service'', field 14 ''unit'' (unitDisplayPathForOS (sl_goos env))] @
           (if sl_goos env = ''linux'' then [field 14 ''drop-in'' ''/etc/systemd/journald.conf.d/raxd.conf''] else []) @
           [field 14 ''user'' ''raxd  [not root]''] @
           (if port > 0 then [field 14 ''port'' (fmt_d port)] else []) @
           [field 14 ''autostart'' ''enabled'', field 14 ''hint:'' ''start the service now with \"raxd service start\"'',
            OutLog ''service installed''
              [(''action'', CStr ''install''), (''platform'', CStr (sl_goos env)),
               (''unit'', CStr (unitDisplayPathForOS (sl_goos env))), (''user'', CStr ''raxd''), (''port'', CInt port)]], w1)))"

subsection \<open>uninstall and purge\<close>

definition printPurgeBarrier :: "string \<Rightarrow> out list" where
  "printPurgeBarrier goos =
     (let cfg = DefaultConfigForGOOS goos in
      [OutLine ''warning: this operation is irreversible'', OutLine [],
       OutLine ''  The following will be permanently destroyed:'', OutLine [],
       OutLine (''    '' @ pad_right 8 ''user'' @ '' raxd  (system account, no login shell)''),
       OutLine (''    '' @ pad_right 8 ''state'' @ '' '' @ sc_StateDir cfg),
       OutLine (''    '' @ pad_right 8 ''config'' @ '' '' @ sc_ConfigDir cfg),
       OutLine (''    '' @ pad_right 8 ''keys.db'' @ '' all API keys and audit log '' @ em_dash @ '' cannot be recovered''),
       OutLine [], OutLine ''  hint: to confirm, re-run with --yes:'',
       OutLine ''          sudo raxd service uninstall --purge --yes''])"

definition printPurgeReport :: "string \<Rightarrow> PurgeReport \<Rightarrow> out list" where
  "printPurgeReport goos r =
     [OutLog ''purge complete''
        [(''action'', CStr ''purge''), (''platform'', CStr (pr_Platform r)), (''user_removed'', CBool (pr_UserRemoved r)),
         (''user_absent'', CBool (pr_UserAbsent r)), (''dirs_removed'', CStrs (pr_DirsRemoved r)),
         (''dirs_absent'', CStrs (pr_DirsAbsent r)), (''stopped'', CBool (pr_Stopped r))]] @
     [if pr_Stopped r then field 14 ''stopped'' ''raxd service'' else field 14 ''not running'' ''raxd service'', OutLine []] @
     (if pr_Uninstalled r then
        field 14 ''uninstalled'' ''raxd service'' #
        (if goos = ''linux'' then
           [field 14 ''removed'' ''unit file and autostart registration'', field 14 ''removed'' ''journal size limit drop-in'']
         else [field 14 ''removed'' ''plist file and autostart registration''])
      else [field 14 ''not installed'' ''raxd service  [already unregistered]'']) @
     [OutLine []] @
     (if pr_UserRemoved r then [field 14 ''removed'' ''user raxd'']
      else if pr_UserAbsent r then [field 14 ''absent'' ''user raxd  [already removed]''] else []) @
     map (field 14 ''removed'') (pr_DirsRemoved r) @ map (field 14 ''absent'') (pr_DirsAbsent r) @
     [OutLine [],
      if pr_UserRemoved r \<or> pr_DirsRemoved r \<noteq> [] then
        OutLine ''  purge complete   raxd has been fully removed from this host''
      else OutLine (''  purge complete   nothing to remove '' @ em_dash @ '' host is already clean'')]"

definition runPurgeCmd :: "svc_cli_env \<Rightarrow> manager \<Rightarrow> svc_world \<Rightarrow> svc_cli_result" where
  "runPurgeCmd env m w =
     (case mgr_Purge (sl_svc env) m \<lparr>po_Confirmed = True, po_AuditOut = True\<rparr> w of
        ((report, Some e), w1) \<Rightarrow> (Some e, [], printSvcError (mapPurgeError e), w1)
      | ((report, None), w1) \<Rightarrow> (None, [], printPurgeReport (sl_goos env) report, w1))"

definition serviceUninstall :: "svc_cli_env \<Rightarrow> bool \<Rightarrow> bool \<Rightarrow> svc_world \<Rightarrow> svc_cli_result" where
  "serviceUninstall env doPurge doYes w =
     (if doPurge \<and> \<not> doYes then
        (Some (plainErr ''purge requires --yes flag''), [], printPurgeBarrier (sl_goos env), w)
      else case resolveManagerWithPort env of
        Inl e \<Rightarrow> (Some e, [], printSvcError (mapManagerError e), w)
      | Inr (m, _) \<Rightarrow>
          if doPurge \<and> doYes then runPurgeCmd env m w
          else case mgr_Uninstall (sl_svc env) m w of
            (Some e, w1) \<Rightarrow>
              if errors_Is e ErrNotInstalled then
                (None, [], [OutLine ''  not installed   raxd service'',
                            OutLine ''  hint: use \"raxd service install\" to set up the service''], w1)
              else (Some e, [], printSvcError (mapManagerError e), w1)
          | (None, w1) \<Rightarrow>
              (None, [],
               field 14 ''uninstalled'' ''raxd service'' #
               (if sl_goos env = ''linux'' then
                  [field 14 ''removed'' ''unit file and autostart registration'',
                   field 14 ''removed'' ''journal size limit drop-in'',
                   field 14 ''kept'' ''system user \"raxd\" (no shell, no home, not running)'',
                   OutLine ''  hint: to also remove the user: sudo userdel raxd'']
                else
                  [field 14 ''removed'' ''plist file and autostart registration'',
                   field 14 ''kept'' ''system user \"raxd\" (no shell, no home, not running)'',
                   OutLine ''  hint: to also remove the user: sudo dscl . -delete /Users/raxd'']) @
               [OutLine (''  hint: data in '' @ sc_StateDir (DefaultConfigForGOOS (sl_goos env)) @ '' is preserved '' @ em_dash @
                         '' remove manually if no longer needed''),
                OutLog ''service uninstalled'' [(''action'', CStr ''uninstall''), (''platform'', CStr (sl_goos env))]], w1))"

subsection \<open>start, stop, status\<close>

definition notInstalledError :: "out list" where
  "notInstalledError =
     [OutLine ''error: raxd service is not installed'', OutLine ''  hint: install it first with \"raxd service install\"'']"

definition serviceStart :: "svc_cli_env \<Rightarrow> svc_world \<Rightarrow> svc_cli_result" where
  "serviceStart env w =
     (case resolveManagerWithPort env of
        Inl e \<Rightarrow> (Some e, [], printSvcError (mapManagerError e), w)
      | Inr (m, _) \<Rightarrow>
      (case mgr_Start (sl_svc env) m w of
        (Some e, w1) \<Rightarrow>
          (Some e, [], if errors_Is e ErrNotInstalled then notInstalledError else printSvcError (mapManagerError e), w1)
      | (None, w1) \<Rightarrow>
          (let (st, w2) = mgr_Status (sl_svc env) m w1 in
           (None, [],
            [field 14 ''started'' ''raxd service''] @
            (if ss_PID st > 0 then [field 14 ''pid'' (fmt_d (ss_PID st))] else []) @
            [OutLine ''  hint: check status with \"raxd service status\"'',
             OutLog ''service started'' [(''action'', CStr ''start''), (''pid'', CInt (ss_PID st))]], w2))))"

definition serviceStop :: "svc_cli_env \<Rightarrow> svc_world \<Rightarrow> svc_cli_result" where
  "serviceStop env w =
     (case resolveManagerWithPort env of
        Inl e \<Rightarrow> (Some e, [], printSvcError (mapManagerError e), w)
      | Inr (m, _) \<Rightarrow>
      (case mgr_Stop (sl_svc env) m w of
        (Some e, w1) \<Rightarrow>
          (Some e, [], if errors_Is e ErrNotInstalled then notInstalledError else printSvcError (mapManagerError e), w1)
      | (None, w1) \<Rightarrow>
          (None, [],
           [field 14 ''stopped'' ''raxd service'', OutLine ''  hint: start again with \"raxd service start\"'',
            OutLog ''service stopped'' [(''action'', CStr ''stop'')]], w1)))"

definition printStatusHuman :: "string \<Rightarrow> svc_status \<Rightarrow> int \<Rightarrow> out list" where
  "printStatusHuman goos st port =
     (if \<not> ss_Installed st then
        [field 12 ''installed'' ''no'', OutLine ''  hint: install with \"raxd service install\"'']
      else
        let running = (if ss_Active st then ''yes'' else ''no'') in
        [field 12 ''installed'' ''yes'', field 12 ''running'' running] @
        (if ss_PID st > 0 then [field 12 ''pid'' (fmt_d (ss_PID st))] else [field 12 ''pid'' ''-'']) @
        (if ss_EUID st > 0 then [field 12 ''euid'' (fmt_d (ss_EUID st))] else []) @
        [field 12 ''user'' ''raxd  [not root]''] @
        (if port > 0 then [field 12 ''port'' (fmt_d port)] else []) @
        [field 12 ''autostart'' ''enabled'', field 12 ''unit'' (unitDisplayPathForOS goos),
         field 12 ''manager'' (managerNameForOS goos), field 12 ''state'' (ss_State st)] @
        (if \<not> ss_Active st then [OutLine ''  hint: start with \"raxd service start\"''] else []))"

definition printStatusJSON :: "string \<Rightarrow> svc_status \<Rightarrow> int \<Rightarrow> out list" where
  "printStatusJSON goos st port =
     (let user = (if ss_Installed st then ''raxd'' else '''');
          autostart = (if ss_Installed st then ''enabled'' else ''disabled'') in
      [OutJson
         [(''installed'', CBool (ss_Installed st)), (''active'', CBool (ss_Active st)), (''pid'', CInt (ss_PID st)),
          (''euid'', CInt (ss_EUID st)), (''user'', CStr user), (''port'', CInt port), (''autostart'', CStr autostart),
          (''unit_path'', CStr (unitDisplayPathForOS goos)), (''state'', CStr (ss_State st)),
          (''manager'', CStr (managerNameForOS goos))]])"

definition serviceStatus :: "svc_cli_env \<Rightarrow> bool \<Rightarrow> svc_world \<Rightarrow> svc_cli_result" where
  "serviceStatus env jsonFlag w =
     (case resolveManagerWithPort env of
        Inl e \<Rightarrow> (Some e, [], printSvcError (mapManagerError e), w)
      | Inr (m, port) \<Rightarrow>
          (let (st, w1) = mgr_Status (sl_svc env) m w in
           (None, if jsonFlag then printStatusJSON (sl_goos env) st port else printStatusHuman (sl_goos env) st port, [], w1)))"

end
