(* ===== verification/CliServiceProps.thy ===== *)
theory CliServiceProps
  imports CliService ServiceProps SettingsProps
begin

section \<open>Properties of the service commands\<close>

text \<open>
  What \<^verbatim>\<open>raxd service uninstall\<close> may touch with and without its flags, and what
  \<^verbatim>\<open>raxd service status\<close> says of a daemon that runs as root.
\<close>

subsection \<open>The manager\<close>

text \<open>
  The directories and the registration files of raxd on a platform. They are constants of the
  program: neither the configuration file nor the environment can move them.
\<close>

definition own_dirs :: "string \<Rightarrow> string list" where
  "own_dirs goos =
     (if goos = ''darwin'' then [''/usr/local/var/raxd'', ''/usr/local/etc/raxd'', ''/usr/local/var/log/raxd'']
      else [''/var/lib/raxd'', ''/etc/raxd''])"

definition own_files :: "string \<Rightarrow> string list" where
  "own_files goos = (if goos = ''darwin'' then [plistPath] else [unitPath, dropInPath])"

lemma resolved_manager:
  assumes "resolveManagerWithPort env = Inr (m, port)"
  shows "purge_dirs m = own_dirs (sl_goos env) \<and> registration m = own_files (sl_goos env) \<and>
    user_deletion m \<in> {userdelCmd ''raxd'', dsclDeleteCmd ''raxd''}"
  using assms
  by (auto simp: resolveManagerWithPort_def service_New_def DefaultConfigForGOOS_def own_dirs_def own_files_def
      or_default_def Let_def split: option.splits sum.splits if_splits)

lemma purge_frame:
  assumes "mgr_Purge env m opts w = ((r, e), w')" and "\<not> below_any (purge_dirs m) q" and "q \<notin> set (registration m)"
  shows "map_of (sw_nodes w') q = map_of (sw_nodes w) q"
  using assms linux.purge_effect [of env _ opts w r e w'] mac.purge_effect [of env _ opts w r e w']
  by (cases m) (auto simp: mgr_Purge_def)

text \<open>An event that destroys data: the deletion of a user or of a directory tree.\<close>

definition destructive :: "sevent \<Rightarrow> bool" where
  "destructive ev \<longleftrightarrow> (\<exists>u. ev = userdelCmd u \<or> ev = dsclDeleteCmd u) \<or> (\<exists>d. ev = EvRemoveAll d)"

lemma bins_differ_cross: "launchctlBin \<noteq> userdelBin" "systemctlBin \<noteq> dsclBin"
  by (simp_all add: systemctlBin_def userdelBin_def launchctlBin_def dsclBin_def)

lemma uninstall_frame:
  assumes "mgr_Uninstall env m w = (e, w')"
  shows "q \<notin> set (registration m) \<Longrightarrow> map_of (sw_nodes w') q = map_of (sw_nodes w) q"
    and "\<exists>es. sw_trace w' = sw_trace w @ es \<and> (\<forall>ev \<in> set es. \<not> destructive ev)"
proof -
  obtain es where es: "sw_trace w' = sw_trace w @ es" "\<forall>ev \<in> set es.
      (\<exists>a. ev = EvCmd systemctlBin a \<or> ev = EvCmd launchctlBin a) \<or> (\<exists>p. ev = EvRemove p)"
    using assms systemd_Uninstall_effect [of env w e w'] launchd_Uninstall_effect [of env w e w']
    by (cases m) (fastforce simp: mgr_Uninstall_def)+
  have "\<not> destructive ev" if "ev \<in> set es" for ev
    using es(2) that bins_differ_cross by (fastforce simp: destructive_def userdelCmd_def dsclDeleteCmd_def)
  then show "\<exists>es. sw_trace w' = sw_trace w @ es \<and> (\<forall>ev \<in> set es. \<not> destructive ev)"
    using es(1) by blast
  show "q \<notin> set (registration m) \<Longrightarrow> map_of (sw_nodes w') q = map_of (sw_nodes w) q"
    using assms systemd_Uninstall_effect [of env w e w'] launchd_Uninstall_effect [of env w e w']
    by (cases m) (auto simp: mgr_Uninstall_def)
qed

subsection \<open>Uninstall\<close>

text \<open>
  Removing the service keeps its data unless both \<^verbatim>\<open>--purge\<close> and \<^verbatim>\<open>--yes\<close> are given. With
  \<^verbatim>\<open>--purge\<close> alone the command fails and the host is as it was; without both flags no user and
  no directory is deleted; and whatever the flags, the configuration and the faults, every file
  outside the fixed registration paths, and outside the fixed data directories when both flags
  are given, is as it was.
\<close>

theorem purge_needs_both_flags:
  assumes "serviceUninstall env doPurge doYes w = (e, out, err, w')"
  shows "(doPurge \<and> \<not> doYes \<longrightarrow> e \<noteq> None \<and> w' = w) \<and>
    (\<not> (doPurge \<and> doYes) \<longrightarrow> (\<exists>es. sw_trace w' = sw_trace w @ es \<and> (\<forall>ev \<in> set es. \<not> destructive ev))) \<and>
    (\<forall>q. \<not> (doPurge \<and> doYes \<and> below_any (own_dirs (sl_goos env)) q) \<longrightarrow> q \<notin> set (own_files (sl_goos env)) \<longrightarrow>
       map_of (sw_nodes w') q = map_of (sw_nodes w) q)"
proof (cases "resolveManagerWithPort env")
  case (Inl a)
  then show ?thesis using assms by (auto simp: serviceUninstall_def split: if_splits)
next
  case (Inr mp)
  obtain m port where mp: "mp = (m, port)" by fastforce
  note own = resolved_manager [OF Inr [unfolded mp]]
  show ?thesis
  proof (cases "doPurge")
    case False
    obtain ue w1 where u: "mgr_Uninstall (sl_svc env) m w = (ue, w1)" by fastforce
    have "w' = w1" using assms Inr mp False u by (auto simp: serviceUninstall_def split: option.splits if_splits)
    then show ?thesis using uninstall_frame [OF u] own False by simp
  next
    case True
    obtain r pe w1 where p: "mgr_Purge (sl_svc env) m \<lparr>po_Confirmed = True, po_AuditOut = True\<rparr> w = ((r, pe), w1)"
      by (metis prod.exhaust)
    have "doYes \<Longrightarrow> w' = w1" using assms Inr mp True p
      by (auto simp: serviceUninstall_def runPurgeCmd_def split: option.splits)
    moreover have "\<not> doYes \<Longrightarrow> e \<noteq> None \<and> w' = w" using assms True by (auto simp: serviceUninstall_def)
    ultimately show ?thesis using purge_frame [OF p] own True by (cases doYes) auto
  qed
qed

text \<open>A Linux host with the service installed, and the command on it.\<close>

definition svc_host :: "svc_env \<Rightarrow> svc_cli_env" where
  "svc_host sv =
     \<lparr>sl_goos = ''linux'', sl_exe = Some ''/usr/bin/raxd'', sl_getenv = home_env, sl_fl = (\<lambda>_ _ _. 0), sl_cast = plain_cast,
      sl_config = ReadMissing, sl_text = (\<lambda>_. []), sl_svc = sv\<rparr>"

lemma svc_host_simps:
  "sl_goos (svc_host sv) = ''linux''" "sl_svc (svc_host sv) = sv"
  by (simp_all add: svc_host_def)

lemma svc_host_manager: "\<exists>c. resolveManagerWithPort (svc_host sv) = Inr (Systemd c, 7822)"
  by (simp add: resolveManagerWithPort_def svc_host_def home_paths plain_load service_New_def Let_def default_config_def)

theorem purge_needs_both_flags_witness:
  "map_of (sw_nodes (snd (snd (snd (serviceUninstall (svc_host (host_env (\<lambda>_. CmdOk []))) False True installed_host)))))
     ''/etc/raxd/config.yaml'' = Some (NFile [] 0x180)"
proof -
  obtain e out err w' where p: "serviceUninstall (svc_host (host_env (\<lambda>_. CmdOk []))) False True installed_host = (e, out, err, w')"
    by (metis prod.exhaust)
  have "''/etc/raxd/config.yaml'' \<notin> set (own_files ''linux'')" by code_simp
  moreover have "map_of (sw_nodes installed_host) ''/etc/raxd/config.yaml'' = Some (NFile [] 0x180)" by code_simp
  ultimately show ?thesis using purge_needs_both_flags [OF p] by (simp add: p svc_host_simps)
qed

subsection \<open>Status\<close>

text \<open>
  The daemon runs with effective user id 0, \<^verbatim>\<open>/proc\<close> says so and the status carries it; the
  printed report has no line with the id, and says that the user is not root.
\<close>

definition root_daemon :: svc_env where
  "root_daemon = (host_env (\<lambda>_. CmdOk (''MainPID=77'' @ [CHR 0x0A] @ ''ActiveState=active'' @ [CHR 0x0A])))
     \<lparr>sv_proc := (\<lambda>_ pid. if pid = 77 then Some (''Uid: 0 0 0 0'') else None)\<rparr>"

lemma root_status:
  "systemd_Status root_daemon installed_host =
    (\<lparr>ss_Installed = True, ss_Active = True, ss_PID = 77, ss_EUID = 0, ss_State = ''active''\<rparr>,
     snd (RunManager root_daemon systemctlBin [''show'', ''-p'', ''MainPID,ActiveState,SubState,UnitFileState'', ''raxd''] installed_host))"
  by code_simp

theorem status_denies_root:
  "let (e, out, err, w') = serviceStatus (svc_host root_daemon) False installed_host in
   e = None \<and> readProcEUID root_daemon 77 installed_host = 0 \<and>
   field 12 ''user'' ''raxd  [not root]'' \<in> set out \<and> (\<forall>v. field 12 ''euid'' v \<notin> set out)"
proof -
  obtain c where c: "resolveManagerWithPort (svc_host root_daemon) = Inr (Systemd c, 7822)" using svc_host_manager by blast
  have "readProcEUID root_daemon 77 installed_host = 0" by code_simp
  then show ?thesis
    by (simp add: serviceStatus_def c mgr_Status_def root_status svc_host_simps printStatusHuman_def field_def pad_right_def)
qed

end
