(* ===== verification/Raxd.thy ===== *)
theory Raxd
  imports Startup CliService
begin

section \<open>The program (\<open>internal/cli/root.go\<close>, \<open>cmd/raxd/main.go\<close>)\<close>

text \<open>
  The command tree: what runs before every command, the dispatch to the command, and the exit
  status of the process. A run starts here from the command that the library found with the
  values of its flags; theory \<open>CommandTree\<close> starts from the words of the command line.

  The state has one view per part of the program: the directories that the program makes, the
  files of the key store and of the TLS pair, the host as the service manager sees it, and the host
  as the tools of the server see it.
\<close>

datatype command =
    KeyCreate string
  | KeyList
  | KeyDelete "string list"
  | ConfigPort "string list"
  | ServeCmd
  | VersionCmd
  | StatusCmd
  | SvcInstall
  | SvcUninstall bool bool
  | SvcStart
  | SvcStop
  | SvcStatus bool

datatype cmd_error =
    ErrNotImplemented
  | KeyErr cli_error
  | ServeErr serve_error
  | SvcErr svc_error

record 'c raxd_env =
  re_getenv :: "string \<Rightarrow> string"
  re_dirs :: dirs_env
  re_config :: read_result
  re_key :: cli_env
  re_serve :: "'c startup_env"
  re_svc :: svc_cli_env

record raxd_state =
  rs_dirs :: dirs
  rs_disk :: disk
  rs_host :: svc_world
  rs_tools :: host

type_synonym cmd_result = "cmd_error option \<times> out list \<times> out list \<times> raxd_state"

text \<open>The parts of the program see the same environment variables, configuration file and directories.\<close>

definition key_env :: "'c raxd_env \<Rightarrow> cli_env" where
  "key_env env = (re_key env)\<lparr>ce_getenv := re_getenv env\<rparr>"

definition serve_env :: "'c raxd_env \<Rightarrow> build_info \<Rightarrow> 'c startup_env" where
  "serve_env env b =
     (re_serve env)\<lparr>su_getenv := re_getenv env, su_dirs := re_dirs env, su_config := re_config env, su_version := bi_Version b\<rparr>"

definition service_env :: "'c raxd_env \<Rightarrow> svc_cli_env" where
  "service_env env = (re_svc env)\<lparr>sl_getenv := re_getenv env, sl_config := re_config env\<rparr>"

subsection \<open>Commands\<close>

definition newStub :: "string \<Rightarrow> cmd_error option \<times> out list" where
  "newStub name = (Some ErrNotImplemented, [OutLine (''error: '' @ name @ '': not implemented yet'')])"

definition newVersionCmd :: "build_info \<Rightarrow> out list" where
  "newVersionCmd b = [OutLine (version_Info b)]"

text \<open>\<^verbatim>\<open>PersistentPreRun\<close>: the banner, then the directories, whose errors are ignored.\<close>

definition persistentPreRun :: "'c raxd_env \<Rightarrow> build_info \<Rightarrow> raxd_state \<Rightarrow> out list \<times> raxd_state" where
  "persistentPreRun env b s =
     (map OutLine (banner_Render b),
      case Paths (re_getenv env) of
        None \<Rightarrow> s
      | Some paths \<Rightarrow> s\<lparr>rs_dirs := snd (EnsureDirs (re_dirs env) paths (rs_dirs s))\<rparr>)"

definition on_disk :: "cli_result \<Rightarrow> raxd_state \<Rightarrow> cmd_result" where
  "on_disk r s = (case r of (e, stdout, stderr, d) \<Rightarrow> (map_option KeyErr e, stdout, stderr, s\<lparr>rs_disk := d\<rparr>))"

definition on_host :: "svc_cli_result \<Rightarrow> raxd_state \<Rightarrow> cmd_result" where
  "on_host r s = (case r of (e, stdout, stderr, w) \<Rightarrow> (map_option SvcErr e, stdout, stderr, s\<lparr>rs_host := w\<rparr>))"

fun runE :: "'c raxd_env \<Rightarrow> build_info \<Rightarrow> command \<Rightarrow> raxd_state \<Rightarrow> cmd_result" where
  "runE env b (KeyCreate name) s = on_disk (runKeyCreate (key_env env) name (rs_disk s)) s"
| "runE env b KeyList s = on_disk (runKeyList (key_env env) (rs_disk s)) s"
| "runE env b (KeyDelete args) s = on_disk (runKeyDelete (key_env env) args (rs_disk s)) s"
| "runE env b (ConfigPort args) s = (let (e, stderr) = newStub ''config port'' in (e, [], stderr, s))"
| "runE env b ServeCmd s =
     (case runServe (serve_env env b) \<lparr>ss_dirs = rs_dirs s, ss_disk = rs_disk s, ss_host = rs_tools s\<rparr> of
        (e, lines, acts, s') \<Rightarrow>
          (map_option ServeErr e, [], map OutLine lines, s\<lparr>rs_dirs := ss_dirs s', rs_disk := ss_disk s', rs_tools := ss_host s'\<rparr>))"
| "runE env b VersionCmd s = (None, newVersionCmd b, [], s)"
| "runE env b StatusCmd s =
     (case runStatus (key_env env) (case re_config env of ReadMissing \<Rightarrow> True | _ \<Rightarrow> False) of
        (e, stdout, stderr) \<Rightarrow> (map_option KeyErr e, stdout, stderr, s))"
| "runE env b SvcInstall s = on_host (serviceInstall (service_env env) (rs_host s)) s"
| "runE env b (SvcUninstall doPurge doYes) s = on_host (serviceUninstall (service_env env) doPurge doYes (rs_host s)) s"
| "runE env b SvcStart s = on_host (serviceStart (service_env env) (rs_host s)) s"
| "runE env b SvcStop s = on_host (serviceStop (service_env env) (rs_host s)) s"
| "runE env b (SvcStatus jsonFlag) s = on_host (serviceStatus (service_env env) jsonFlag (rs_host s)) s"

definition Execute :: "'c raxd_env \<Rightarrow> build_info \<Rightarrow> command \<Rightarrow> raxd_state \<Rightarrow> cmd_result" where
  "Execute env b cmd s =
     (let (banner, s1) = persistentPreRun env b s; (e, stdout, stderr, s2) = runE env b cmd s1 in
      (e, stdout, banner @ stderr, s2))"

subsection \<open>main\<close>

definition default_build :: build_info where
  "default_build = \<lparr>bi_Version = ''dev'', bi_Commit = ''none'', bi_Date = ''unknown''\<rparr>"

text \<open>The exit status, the two outputs and the state after a run; the first three arguments are set by the linker.\<close>

definition raxd_main ::
  "string \<Rightarrow> string \<Rightarrow> string \<Rightarrow> 'c raxd_env \<Rightarrow> command \<Rightarrow> raxd_state \<Rightarrow> nat \<times> out list \<times> out list \<times> raxd_state" where
  "raxd_main buildVersion buildCommit buildDate env cmd s =
     (let (e, stdout, stderr, s') = Execute env (version_Set buildVersion buildCommit buildDate default_build) cmd s in
      (if e = None then 0 else 1, stdout, stderr, s'))"

end
