(* ===== verification/RaxdProps.thy ===== *)
theory RaxdProps
  imports Raxd StartupProps CliKeyProps CliServiceProps
begin

section \<open>Properties of the program\<close>

text \<open>
  What each command may change, and what sequences of commands keep: the key database never
  loses or resurrects a key, whatever commands follow one another, with faults and crashes in
  the middle of any of them.
\<close>

subsection \<open>Commands and the key database\<close>

lemma holds_then:
  assumes "always (holds js p db) d d1"
    and "\<And>db1. db_at js p (files d1) = Some db1 \<Longrightarrow> wf_db db1 \<Longrightarrow> always (holds js p db1) d1 d2"
  shows "always (holds js p db) d d2"
proof -
  obtain db1 where db1: "db_at js p (files d1) = Some db1" "wf_db db1" "grows db db1"
    using always_files [OF assms(1)] by (auto simp: holds_def)
  have "always (holds js p db) d1 d2"
    using assms(2) [OF db1(1,2)] by (rule always_mono) (rule holds_grow [OF db1(3)])
  then show ?thesis by (rule always_trans [OF assms(1)])
qed

lemma holds_same:
  assumes "always (\<lambda>f. f p = files d p) d d'" and "db_at js p (files d) = Some db" and "wf_db db"
  shows "always (holds js p db) d d'"
proof (rule always_mono [OF assms(1)])
  fix f assume "f p = files d p"
  then have "db_at js p f = Some db" using assms(2) by (simp add: db_at_def)
  then show "holds js p db f" using assms(3) by (rule holds_self)
qed

lemma FlushUsage_holds:
  assumes "json_law js" "tmp_name env \<noteq> path s" "FlushUsage js env s d = (e, s', d')"
    and db: "db_at js (path s) (files d) = Some db" "wf_db db"
  shows "always (holds js (path s) db) d d'"
proof (cases "usageBuf s = []")
  case True
  then show ?thesis using assms(3) db by (simp add: FlushUsage_def always_refl holds_self)
next
  case False
  then have "flushCommit js env (usageBuf s) (s\<lparr>usageBuf := []\<rparr>) d = (e, s', d')"
    using assms(3) by (simp add: FlushUsage_def flushTake_def)
  from flushCommit_holds [OF assms(1) _ this] show ?thesis using assms(2) db by simp
qed

subsection \<open>The TLS pair and the key database are different files\<close>

lemma writePEM_keeps:
  assumes "writePEM env p ty data perm d = (r, d')" and "tmp_name env \<noteq> p" and "q \<noteq> p" and "q \<noteq> tmp_name env"
  shows "always (\<lambda>f. f q = files d q) d d'"
  using write_tmp_rename_states [of perm env p "pem_Encode ty data" d r d'] assms
  by (auto simp: writePEM_def elim!: always_mono)

lemma loadOrCreateCert_keeps:
  assumes "loadOrCreateCert lib envK envC dir d = (r, d')"
    and "tmp_name envK \<notin> {q, Join [dir, certFile], Join [dir, keyFile]}"
    and "tmp_name envC \<notin> {q, Join [dir, certFile], Join [dir, keyFile]}"
    and "q \<notin> {Join [dir, certFile], Join [dir, keyFile]}"
  shows "always (\<lambda>f. f q = files d q) d d'"
proof -
  let ?P = "\<lambda>f. f q = files d q"
  have refl: "always ?P d d" by (simp add: always_refl)
  show ?thesis
  proof (cases "generate lib")
    case None
    then show ?thesis using assms(1) refl
      by (auto simp: loadOrCreateCert_def generateSelfSigned_def Let_def split: if_splits option.splits)
  next
    case (Some cp)
    obtain cert priv where cp: "cp = (cert, priv)" by fastforce
    obtain r1 d1 where w1: "writePEM envK (Join [dir, keyFile]) ''PRIVATE KEY'' priv 0x180 d = (r1, d1)" by fastforce
    obtain r2 d2 where w2: "writePEM envC (Join [dir, certFile]) ''CERTIFICATE'' cert 0x1A4 d1 = (r2, d2)" by fastforce
    have a1: "always ?P d d1" using writePEM_keeps [OF w1, of q] assms(2,4) by auto
    have "always (\<lambda>f. f q = files d1 q) d1 d2" using writePEM_keeps [OF w2, of q] assms(3,4) by auto
    then have a2: "always ?P d d2" using always_trans [OF a1] always_files [OF a1] by simp
    have a3: "always ?P d (os_remove envC (Join [dir, keyFile]) d2)"
      using always_remove [OF a2] always_files [OF a2] assms(4) by simp
    show ?thesis using assms(1) refl a1 a2 a3
      by (auto simp: loadOrCreateCert_def generateSelfSigned_def Some cp w1 w2 Let_def
          split: if_splits option.splits bool.splits)
  qed
qed

lemma KeysDB_not_tls:
  assumes "Paths g = Some p"
  shows "KeysDB p \<notin> {Join [TLSDir p, certFile], Join [TLSDir p, keyFile]}"
proof -
  have "plain_elem ''keys.db''" "plain_elem certFile" "plain_elem keyFile"
    by (simp_all add: plain_elem_def certFile_def keyFile_def)
  note l = this [THEN Join_dir_file]
  have "KeysDB p = Join [StateDir p, ''keys.db'']" using assms by (auto simp: Paths_def Let_def split: if_splits)
  then have "last (path_elems (KeysDB p)) = ''keys.db''" using l(1) by simp
  then show ?thesis using l(2,3) [of "TLSDir p"] by (auto simp: certFile_def keyFile_def)
qed

subsection \<open>A command in a well-behaved environment\<close>

text \<open>
  All commands run with the same environment variables and the same encoding of the database,
  and a temporary file never gets the name of one of the program's own files, which the names
  that the program asks for rule out.
\<close>

definition well_run :: "json \<Rightarrow> (string \<Rightarrow> string) \<Rightarrow> PathSet \<Rightarrow> 'c raxd_env \<Rightarrow> bool" where
  "well_run js g p env \<longleftrightarrow>
     re_getenv env = g \<and> ce_json (re_key env) = js \<and> su_json (re_serve env) = js \<and>
     tmp_name (ce_os (re_key env)) \<noteq> KeysDB p \<and> tmp_name (su_os (re_serve env)) \<noteq> KeysDB p \<and>
     tmp_name (su_osKey (re_serve env)) \<notin> {KeysDB p, Join [TLSDir p, certFile], Join [TLSDir p, keyFile]} \<and>
     tmp_name (su_osCert (re_serve env)) \<notin> {KeysDB p, Join [TLSDir p, certFile], Join [TLSDir p, keyFile]}"

lemma openStore_path:
  "openStore env d = Inr st \<Longrightarrow> Paths (ce_getenv env) = Some p \<Longrightarrow> path st = KeysDB p"
  by (auto simp: openStore_def Open_def Let_def split: sum.splits option.splits if_splits)

lemma key_commands_holds:
  assumes js: "json_law (ce_json env)" and p: "Paths (ce_getenv env) = Some p" and tmp: "tmp_name (ce_os env) \<noteq> KeysDB p"
    and db: "db_at (ce_json env) (KeysDB p) (files d) = Some db" "wf_db db"
  shows "always (holds (ce_json env) (KeysDB p) db) d (snd (snd (snd (runKeyCreate env name d))))"
    and "always (holds (ce_json env) (KeysDB p) db) d (snd (snd (snd (runKeyDelete env args d))))"
    and "snd (snd (snd (runKeyList env d))) = d"
proof -
  have self: "always (holds (ce_json env) (KeysDB p) db) d d" using db by (simp add: always_refl holds_self)
  show "snd (snd (snd (runKeyList env d))) = d" by (auto simp: runKeyList_def split: sum.splits)
  show "always (holds (ce_json env) (KeysDB p) db) d (snd (snd (snd (runKeyCreate env name d))))"
  proof (cases "openStore env d")
    case (Inr st)
    obtain res d1 where c: "Create (ce_json env) (ce_os env) (ce_now env) (ce_ent env) st name d = (res, d1)" by fastforce
    have "always (holds (ce_json env) (KeysDB p) db) d d1"
      using Create_holds [OF js _ c] db tmp openStore_path [OF Inr p] by simp
    then show ?thesis using Inr c by (auto simp: runKeyCreate_def Let_def split: ks_result.splits)
  qed (simp add: runKeyCreate_def self)
  show "always (holds (ce_json env) (KeysDB p) db) d (snd (snd (snd (runKeyDelete env args d))))"
  proof (cases args)
    case (Cons ident rest)
    show ?thesis
    proof (cases "openStore env d")
      case (Inr st)
      obtain res d1 where c: "Revoke (ce_json env) (ce_os env) (ce_now env) st ident d = (res, d1)" by fastforce
      have "always (holds (ce_json env) (KeysDB p) db) d d1"
        using Revoke_holds [OF js _ c] db tmp openStore_path [OF Inr p] by simp
      then show ?thesis using Inr c Cons by (auto simp: runKeyDelete_def Let_def split: option.splits)
    qed (simp add: runKeyDelete_def self Cons)
  qed (simp add: runKeyDelete_def self)
qed

lemma runServe_disk:
  assumes "runServe env s = (e, out, acts, s')" and "Paths (su_getenv env) = Some p"
  shows "ss_disk s' = ss_disk s \<or>
    (\<exists>r d1. loadOrCreateCert (su_lib env) (su_osKey env) (su_osCert env) (TLSDir p) (ss_disk s) = (r, d1) \<and>
       (ss_disk s' = d1 \<or> (\<exists>st fe fs. path st = KeysDB p \<and> FlushUsage (su_json env) (su_os env) st d1 = (fe, fs, ss_disk s'))))"
  using assms(1)
proof (cases rule: runServe_run)
  case idle
  then show ?thesis using assms(2) by auto
next
  case (served p' cfg cert d1 srv os s1 b ver xcfg ucfg)
  have "path (st_store s1) = KeysDB p" using srv_loop_effect(1) [OF served(6)] served(1,4) assms(2) by simp
  then show ?thesis using served(1,3,9) assms(2) by auto
qed

lemma runServe_holds:
  assumes js: "json_law (su_json env)" and p: "Paths (su_getenv env) = Some p" and tmp: "tmp_name (su_os env) \<noteq> KeysDB p"
    and tk: "tmp_name (su_osKey env) \<notin> {KeysDB p, Join [TLSDir p, certFile], Join [TLSDir p, keyFile]}"
    and tc: "tmp_name (su_osCert env) \<notin> {KeysDB p, Join [TLSDir p, certFile], Join [TLSDir p, keyFile]}"
    and run: "runServe env s = (e, out, acts, s')"
    and db: "db_at (su_json env) (KeysDB p) (files (ss_disk s)) = Some db" "wf_db db"
  shows "always (holds (su_json env) (KeysDB p) db) (ss_disk s) (ss_disk s')"
  using runServe_disk [OF run p]
proof (elim disjE exE conjE)
  assume "ss_disk s' = ss_disk s"
  then show ?thesis using db by (simp add: always_refl holds_self)
next
  fix r d1
  assume c: "loadOrCreateCert (su_lib env) (su_osKey env) (su_osCert env) (TLSDir p) (ss_disk s) = (r, d1)"
  then have a: "always (holds (su_json env) (KeysDB p) db) (ss_disk s) d1"
    using holds_same [OF loadOrCreateCert_keeps [OF c] db] tk tc KeysDB_not_tls [OF p] by blast
  { assume "ss_disk s' = d1"
    then show ?thesis using a by simp }
  fix st fe fs
  assume st: "path st = KeysDB p" and f: "FlushUsage (su_json env) (su_os env) st d1 = (fe, fs, ss_disk s')"
  show ?thesis using FlushUsage_holds [OF js _ f] tmp by (intro holds_then [OF a]) (simp add: st)
qed

lemma preRun_disk [simp]:
  "rs_disk (snd (persistentPreRun env b s)) = rs_disk s" "rs_host (snd (persistentPreRun env b s)) = rs_host s"
  "rs_tools (snd (persistentPreRun env b s)) = rs_tools s"
  by (simp_all add: persistentPreRun_def split: option.splits)

lemma on_state [simp]:
  "snd (snd (snd (on_disk r s))) = s\<lparr>rs_disk := snd (snd (snd r))\<rparr>"
  "snd (snd (snd (on_host hr s))) = s\<lparr>rs_host := snd (snd (snd hr))\<rparr>"
  by (simp_all add: on_disk_def on_host_def split: prod.splits)

lemma raxd_main_runE:
  assumes "raxd_main v c t env cmd s = (code, out, err, s')"
  shows "\<exists>b e stderr. runE env b cmd (snd (persistentPreRun env b s)) = (e, out, stderr, s') \<and>
    code = (if e = None then 0 else 1) \<and> err = map OutLine (banner_Render b) @ stderr"
proof -
  let ?b = "version_Set v c t default_build"
  obtain e so se s2 where r: "runE env ?b cmd (snd (persistentPreRun env ?b s)) = (e, so, se, s2)" by (metis prod_cases4)
  have "fst (persistentPreRun env ?b s) = map OutLine (banner_Render ?b)" by (simp add: persistentPreRun_def)
  then show ?thesis using assms r
    by (intro exI [of _ ?b] exI [of _ e] exI [of _ se]) (auto simp: raxd_main_def Execute_def Let_def split: prod.splits)
qed

lemma runE_holds:
  assumes js: "json_law js" and p: "Paths g = Some p" and w: "well_run js g p env"
    and db: "db_at js (KeysDB p) (files (rs_disk s)) = Some db" "wf_db db"
  shows "always (holds js (KeysDB p) db) (rs_disk s) (rs_disk (snd (snd (snd (runE env b cmd s)))))"
proof -
  have self: "always (holds js (KeysDB p) db) (rs_disk s) (rs_disk s)" using db by (simp add: always_refl holds_self)
  have k: "ce_json (key_env env) = js" "ce_getenv (key_env env) = g" "tmp_name (ce_os (key_env env)) \<noteq> KeysDB p"
    using w by (simp_all add: key_env_def well_run_def)
  note kc = key_commands_holds [of "key_env env" p "rs_disk s" db, unfolded k, OF js p k(3) db]
  have sv: "su_json (serve_env env b) = js" "su_getenv (serve_env env b) = g" "tmp_name (su_os (serve_env env b)) \<noteq> KeysDB p"
    "tmp_name (su_osKey (serve_env env b)) \<notin> {KeysDB p, Join [TLSDir p, certFile], Join [TLSDir p, keyFile]}"
    "tmp_name (su_osCert (serve_env env b)) \<notin> {KeysDB p, Join [TLSDir p, certFile], Join [TLSDir p, keyFile]}"
    using w by (simp_all add: serve_env_def well_run_def)
  show ?thesis
  proof (cases cmd)
    case ServeCmd
    obtain e out acts s' where r: "runServe (serve_env env b) \<lparr>ss_dirs = rs_dirs s, ss_disk = rs_disk s, ss_host = rs_tools s\<rparr> = (e, out, acts, s')"
      by (metis prod_cases4)
    from runServe_holds [of "serve_env env b" p, unfolded sv(1,2), OF js p sv(3-5) r] show ?thesis
      using db by (simp add: ServeCmd r)
  qed (use self kc in \<open>auto simp: newStub_def split: prod.splits\<close>)
qed

lemma raxd_main_holds:
  assumes "json_law js" and "Paths g = Some p" and "well_run js g p env"
    and "db_at js (KeysDB p) (files (rs_disk s)) = Some db" and "wf_db db"
    and "raxd_main v c t env cmd s = (code, out, err, s')"
  shows "always (holds js (KeysDB p) db) (rs_disk s) (rs_disk s')"
proof -
  obtain b e stderr where r: "runE env b cmd (snd (persistentPreRun env b s)) = (e, out, stderr, s')"
    using raxd_main_runE [OF assms(6)] by blast
  show ?thesis using runE_holds [OF assms(1-3), of "snd (persistentPreRun env b s)" db b cmd] assms(4,5) r by simp
qed

subsection \<open>Sequences of commands\<close>

text \<open>
  Commands that follow one another, each in an environment of its own that satisfies \<open>ok\<close>: its
  clock, entropy, faults and requests. A command may also be cut off by a crash, after which
  the disk is in one of the states it went through.
\<close>

inductive session :: "('c raxd_env \<Rightarrow> bool) \<Rightarrow> raxd_state \<Rightarrow> raxd_state \<Rightarrow> bool" for ok s where
  session_start: "session ok s s"
| session_cmd: "session ok s s1 \<Longrightarrow> ok env \<Longrightarrow> raxd_main v c t env cmd s1 = (code, out, err, s2) \<Longrightarrow> session ok s s2"
| session_crash: "session ok s s1 \<Longrightarrow> ok env \<Longrightarrow> raxd_main v c t env cmd s1 = (code, out, err, s2) \<Longrightarrow>
    f \<in> set (added (rs_disk s1) (rs_disk s2)) \<Longrightarrow> session ok s (s2\<lparr>rs_disk := set_files f (rs_disk s1)\<rparr>)"

lemma session_holds:
  assumes "session (well_run js g p) s s'" and js: "json_law js" and p: "Paths g = Some p"
    and db: "db_at js (KeysDB p) (files (rs_disk s)) = Some db" "wf_db db"
  shows "holds js (KeysDB p) db (files (rs_disk s'))"
  using assms(1)
proof (induction rule: session.induct)
  case session_start
  then show ?case using db by (rule holds_self)
next
  case (session_cmd s1 env v c t cmd code out err s2)
  then obtain db1 where d1: "db_at js (KeysDB p) (files (rs_disk s1)) = Some db1" "wf_db db1" "grows db db1"
    by (auto simp: holds_def)
  from always_files [OF raxd_main_holds [OF js p session_cmd.hyps(2) d1(1,2) session_cmd.hyps(3)]]
  show ?case by (rule holds_grow [OF d1(3)])
next
  case (session_crash s1 env v c t cmd code out err s2 f)
  then obtain db1 where d1: "db_at js (KeysDB p) (files (rs_disk s1)) = Some db1" "wf_db db1" "grows db db1"
    by (auto simp: holds_def)
  have "holds js (KeysDB p) db1 f"
    using raxd_main_holds [OF js p session_crash.hyps(2) d1(1,2) session_crash.hyps(3)] session_crash.hyps(4)
    unfolding always_def by blast
  from holds_grow [OF d1(3) this] show ?case by simp
qed

lemma Revoke_active:
  assumes "json_law js" and "db_at js (path s) (files d) = Some db" and "wf_db db"
    and "tmp_name env \<noteq> path s" and "Revoke js env now s ident d = (None, d1)"
  shows "\<exists>k \<in> set (Keys db). d_ID k = ident \<and> \<not> d_Revoked k"
proof -
  have rd: "\<not> fails env SysOpen" "\<not> fails env SysFlock" "\<not> fails env SysRead"
    using Revoke_reads [OF assms(5)] by auto
  then have "abs_db db ident = Some False"
    using Revoke_ok [OF assms(1,4,5) rd assms(2,3)] by (auto simp: spec_revoke_def split: option.splits bool.splits sum.splits)
  then show ?thesis using abs_db_Some [OF assms(3)] by auto
qed

lemma listed_active:
  assumes "x \<in> set (listed env d)" and "Paths (ce_getenv env) = Some p"
  shows "\<exists>db k. db_at (ce_json env) (KeysDB p) (files d) = Some db \<and> k \<in> set (Keys db) \<and> \<not> d_Revoked k \<and> x = ''  '' @ d_ID k"
proof (cases "openStore env d")
  case (Inl e)
  then show ?thesis using assms(1) by (simp add: listed_def runKeyList_def)
next
  case (Inr st)
  note path = openStore_path [OF Inr assms(2)]
  obtain rs where rs: "List (ce_json env) (ce_os env) st d = Inr rs" "rs \<noteq> []" "x \<in> set (map (\<lambda>r. hd (keyRow r)) rs)"
    using assms(1) Inr by (auto simp: listed_def runKeyList_def split: sum.splits if_splits)
  then obtain db where "readDB (ce_json env) (ce_os env) st d = Inr db" "rs = map fromDBRecord [k \<leftarrow> Keys db. \<not> d_Revoked k]"
    by (auto simp: List_def split: sum.splits if_splits)
  then show ?thesis using rs(3) path by (auto simp: readDB_db_at keyRow_def fromDBRecord_def Let_def)
qed

lemma KeyDelete_revokes:
  assumes "well_run js g p env" and "Paths g = Some p"
    and "raxd_main v c t env (KeyDelete (ident # rest)) s = (0, out, err, s')"
  shows "\<exists>st. path st = KeysDB p \<and>
    Revoke js (ce_os (re_key env)) (ce_now (re_key env)) st ident (rs_disk s) = (None, rs_disk s')"
proof -
  obtain b e stderr where r: "runE env b (KeyDelete (ident # rest)) (snd (persistentPreRun env b s)) = (e, out, stderr, s')" "e = None"
    using raxd_main_runE [OF assms(3)] by (auto split: if_splits)
  then obtain st where st: "openStore (key_env env) (rs_disk s) = Inr st"
    "Revoke (ce_json (key_env env)) (ce_os (key_env env)) (ce_now (key_env env)) st ident (rs_disk s) = (None, rs_disk s')"
    by (auto simp: runKeyDelete_def on_disk_def Let_def split: sum.splits prod.splits option.splits)
  then show ?thesis using openStore_path [OF st(1), of p] assms(1,2)
    by (intro exI [of _ st]) (auto simp: key_env_def well_run_def)
qed

text \<open>
  C3. A deleted key stays deleted. Once \<^verbatim>\<open>raxd key delete\<close> has ended with status 0, then after
  any sequence of further commands, among them servers with any requests, with failing system
  calls and with crashes in the middle of a command, no key verifies as the deleted one, no
  list shows its identifier, and deleting it once more ends with status 1.
\<close>

theorem deleted_key_stays_deleted:
  fixes env :: "'a raxd_env"
  assumes "json_law js" and "Paths g = Some p" and "well_run js g p env"
    and "db_at js (KeysDB p) (files (rs_disk s0)) = Some db" and "wf_db db"
    and "raxd_main v c t env (KeyDelete (ident # rest)) s0 = (0, out, err, s1)"
    and "session (well_run js g p :: 'a raxd_env \<Rightarrow> bool) s1 s2"
  shows "(\<forall>oenv now st presented r. path st = KeysDB p \<longrightarrow>
      fst (Verify js oenv now st presented (rs_disk s2)) = Inr (Some r) \<longrightarrow> r_ID r \<noteq> ident) \<and>
    (\<forall>env' :: 'a raxd_env. well_run js g p env' \<longrightarrow> ''  '' @ ident \<notin> set (listed (key_env env') (rs_disk s2)) \<and>
      (\<forall>v c t more. fst (raxd_main v c t env' (KeyDelete (ident # more)) s2) = 1))"
proof -
  have tmp: "tmp_name (ce_os (re_key env)) \<noteq> KeysDB p" if "well_run js g p env" for env :: "'a raxd_env"
    using that by (simp add: well_run_def)
  obtain st where st: "path st = KeysDB p"
    "Revoke js (ce_os (re_key env)) (ce_now (re_key env)) st ident (rs_disk s0) = (None, rs_disk s1)"
    using KeyDelete_revokes [OF assms(3,2,6)] by blast
  obtain db1 k where db1: "db_at js (KeysDB p) (files (rs_disk s1)) = Some db1" "wf_db db1"
    "k \<in> set (Keys db1)" "d_ID k = ident" "d_Revoked k"
    by (rule Revoke_marks [OF assms(1) _ assms(5) _ st(2)]) (use st(1) assms(3,4) tmp in auto)
  obtain db2 where db2: "db_at js (KeysDB p) (files (rs_disk s2)) = Some db2" "wf_db db2" "grows db1 db2"
    using session_holds [OF assms(7,1,2) db1(1,2)] by (auto simp: holds_def)
  obtain k2 where k2: "k2 \<in> set (Keys db2)" "d_ID k2 = ident" "d_Revoked k2" by (rule grows_revoked [OF db2(3) db1(3-5)])
  have only: "d_Revoked k'" if "k' \<in> set (Keys db2)" "d_ID k' = ident" for k'
    using wf_db_unique [OF db2(2)] that k2 by blast
  have "''  '' @ ident \<notin> set (listed (key_env env') (rs_disk s2))" if "well_run js g p env'" for env' :: "'a raxd_env"
    using listed_active [of _ "key_env env'" "rs_disk s2" p] that assms(2) db2(1) only
    by (fastforce simp: key_env_def well_run_def)
  moreover have "fst (raxd_main v c t env' (KeyDelete (ident # more)) s2) = 1" if w: "well_run js g p env'"
    for env' :: "'a raxd_env" and v c t more
  proof -
    obtain code o3 e3 s3 where r: "raxd_main v c t env' (KeyDelete (ident # more)) s2 = (code, o3, e3, s3)" by (metis prod_cases4)
    have "code \<noteq> 0"
    proof
      assume "code = 0"
      then obtain st' where st': "path st' = KeysDB p"
        "Revoke js (ce_os (re_key env')) (ce_now (re_key env')) st' ident (rs_disk s2) = (None, rs_disk s3)"
        using KeyDelete_revokes [OF w assms(2)] r by blast
      then show False using Revoke_active [OF assms(1) _ db2(2) _ st'(2)] db2(1) tmp [OF w] only by auto
    qed
    then show ?thesis using raxd_main_runE [OF r] r by (auto split: if_splits)
  qed
  moreover have "r_ID r \<noteq> ident"
    if "path st' = KeysDB p" and v: "fst (Verify js oenv now st' presented (rs_disk s2)) = Inr (Some r)" for oenv now st' presented r
    using Verify_not_revoked [OF _ db2(2) k2 v] db2(1) that(1) by simp
  ultimately show ?thesis by blast
qed

text \<open>A home with one key, an environment for every command, and the deletion of the key.\<close>

definition demo_raxd :: "unit raxd_env" where
  "demo_raxd =
     \<lparr>re_getenv = home_env, re_dirs = \<lparr>mkdir_fails = (\<lambda>_. False), umask = 0x12\<rparr>, re_config = ReadMissing,
      re_key = first_key_env\<lparr>ce_json := demo_json, ce_now := 7\<rparr>, re_serve = first_start\<lparr>su_json := demo_json\<rparr>,
      re_svc = svc_host (host_env (\<lambda>_. CmdOk []))\<rparr>"

definition demo_home :: raxd_state where
  "demo_home =
     \<lparr>rs_dirs = (\<lambda>_. None), rs_disk = \<lparr>files = [KeysDB home_paths \<mapsto> \<lparr>fcontent = ''1'', fperm = 0x180\<rparr>], hist = []\<rparr>,
      rs_host = installed_host, rs_tools = \<lparr>hs_tree = [], hs_started = []\<rparr>\<rparr>"

lemma demo_home_db:
  "db_at demo_json (KeysDB home_paths) (files (rs_disk demo_home)) = Some demo_db"
  by (simp add: db_at_def demo_home_def demo_json_def table_json_def)

lemma demo_raxd_well_run: "well_run demo_json home_env home_paths demo_raxd"
  by (simp add: well_run_def demo_raxd_def first_key_env_def ok_env_def home_paths_def first_start_def calm_os_def
      Join_def Clean_def certFile_def keyFile_def Let_def)

lemma demo_deleted: "fst (raxd_main ''1'' ''c'' ''d'' demo_raxd (KeyDelete [''0a'']) demo_home) = 0"
proof -
  let ?st = "cli_store home_paths"
  have c: "calm (key_env demo_raxd) home_paths"
    using first_key_calm demo_json_law by (simp add: calm_def key_env_def demo_raxd_def first_key_env_def)
  have k: "ce_json (key_env demo_raxd) = demo_json" "ce_os (key_env demo_raxd) = ok_env" "ce_now (key_env demo_raxd) = 7"
    by (simp_all add: key_env_def demo_raxd_def first_key_env_def)
  have st: "openStore (key_env demo_raxd) (rs_disk demo_home) = Inr ?st"
    using openStore_calm [OF c, of "rs_disk demo_home" demo_db] demo_home_db by (simp add: k)
  have "Revoke demo_json ok_env 7 ?st ''0a'' (rs_disk demo_home) =
      writeDB demo_json ok_env ?st demo_db_revoked (rs_disk demo_home)"
    by (simp add: Revoke_def acquireLock_def os_open_create_def readDB_def demo_defs cli_store_def demo_home_def)
      (simp add: demo_db_def demo_key_def demo_db_revoked_def)
  moreover have "fst (writeDB demo_json ok_env ?st demo_db_revoked (rs_disk demo_home)) = None"
    by (simp add: writeDB_def commit_file_def os_defs demo_defs cli_store_def demo_home_def home_paths_def Let_def)
  ultimately obtain d where "Revoke demo_json ok_env 7 ?st ''0a'' (rs_disk demo_home) = (None, d)"
    by (metis prod.collapse)
  then obtain so se d1 where del: "runKeyDelete (key_env demo_raxd) [''0a''] (rs_disk demo_home) = (None, so, se, d1)"
    by (simp add: runKeyDelete_def st k Let_def)
  obtain code out err s' where m: "raxd_main ''1'' ''c'' ''d'' demo_raxd (KeyDelete [''0a'']) demo_home = (code, out, err, s')"
    by (metis prod_cases4)
  then show ?thesis using raxd_main_runE [OF m] del by (auto simp: on_disk_def)
qed

theorem deleted_key_stays_deleted_witness:
  "\<exists>s1 s2. session (well_run demo_json home_env home_paths :: unit raxd_env \<Rightarrow> bool) s1 s2 \<and>
     ''  '' @ ''0a'' \<notin> set (listed (key_env demo_raxd) (rs_disk s2)) \<and>
     fst (raxd_main ''1'' ''c'' ''d'' demo_raxd (KeyDelete [''0a'']) s2) = 1"
proof -
  obtain out err s1 where d: "raxd_main ''1'' ''c'' ''d'' demo_raxd (KeyDelete [''0a'']) demo_home = (0, out, err, s1)"
    using demo_deleted by (metis prod.collapse)
  obtain code o2 e2 s2 where r: "raxd_main ''1'' ''c'' ''d'' demo_raxd SvcStart s1 = (code, o2, e2, s2)"
    by (metis prod_cases4)
  have s: "session (well_run demo_json home_env home_paths :: unit raxd_env \<Rightarrow> bool) s1 s2"
    by (rule session_cmd [where ok = "well_run demo_json home_env home_paths", OF session_start demo_raxd_well_run r])
  note t = deleted_key_stays_deleted [OF demo_json_law home_paths demo_raxd_well_run demo_home_db demo_db_at(2) d s]
  note u = t [THEN conjunct2, THEN spec, THEN mp, OF demo_raxd_well_run]
  show ?thesis
    by (rule exI [of _ s1], rule exI [of _ s2]) (intro conjI s conjunct1 [OF u] conjunct2 [OF u, rule_format])
qed

subsection \<open>What a command may change\<close>

lemma mkdir_step: "os_MkdirAll env q 0x1C0 ds = (ok, ds') \<Longrightarrow> dirs_step (0x1C0 AND NOT (umask env)) ds ds'"
  using mkdirs_effect [of env "[q]" ds ok ds'] by (simp split: bool.splits)

lemma ensure_step: "EnsureDirs env p ds = (ok, ds') \<Longrightarrow> dirs_step (0x1C0 AND NOT (umask env)) ds ds'"
  unfolding EnsureDirs_def by (drule mkdirs_effect) (rule conjunct1)

lemma runServe_dirs:
  assumes "runServe env s = (e, out, acts, s')"
  shows "dirs_step (0x1C0 AND NOT (umask (su_dirs env))) (ss_dirs s) (ss_dirs s')"
proof (cases "Paths (su_getenv env)")
  case None
  then show ?thesis using assms by (auto simp: runServe_def dirs_step_def)
next
  case (Some p)
  obtain ok ds where ed: "EnsureDirs (su_dirs env) p (ss_dirs s) = (ok, ds)" by fastforce
  have s1: "dirs_step (0x1C0 AND NOT (umask (su_dirs env))) (ss_dirs s) ds"
    by (rule ensure_step [OF ed])
  show ?thesis
  proof (cases "\<exists>cfg ks. ok \<and> Load (su_fl env) (su_cast env) (su_config env) = Inr cfg \<and>
      Open (su_json env) (su_os env) (KeysDB p) (ss_disk s) = Inr ks")
    case False
    then have "ss_dirs s' = ds" using assms Some ed
      by (cases ok; cases "Load (su_fl env) (su_cast env) (su_config env)";
          cases "Open (su_json env) (su_os env) (KeysDB p) (ss_disk s)") (auto simp: runServe_def Let_def)
    then show ?thesis using s1 by simp
  next
    case True
    then obtain cfg ks where h: "ok" "Load (su_fl env) (su_cast env) (su_config env) = Inr cfg"
      "Open (su_json env) (su_os env) (KeysDB p) (ss_disk s) = Inr ks" by blast
    obtain ok2 ds2 where md: "os_MkdirAll (su_dirs env) (uploadRoot cfg p) 0x1C0 ds = (ok2, ds2)" by fastforce
    obtain m where m: "ParseMode (uc_DefaultMode (ac_Upload cfg)) = Inr m" using Load_ParseMode [OF h(2)] by blast
    have "ss_dirs s' = ds2" using assms Some ed h md m
      by (cases ok2) (auto simp: runServe_def Let_def dest: runServer_listens(3))
    then show ?thesis using dirs_step_trans [OF s1 mkdir_step [OF md]] by simp
  qed
qed

text \<open>Whatever the command, each directory it made is closed to group and others and no other directory changed.\<close>

lemma main_dirs:
  assumes "raxd_main v c t env cmd s = (code, out, err, s')"
  shows "rs_dirs s' q = rs_dirs s q \<or> rs_dirs s q = None \<and> (\<exists>m. rs_dirs s' q = Some m \<and> m AND 0x3F = 0)"
proof -
  obtain b e stderr where r: "runE env b cmd (snd (persistentPreRun env b s)) = (e, out, stderr, s')"
    using raxd_main_runE [OF assms] by blast
  let ?s1 = "snd (persistentPreRun env b s)"
  have s': "s' = snd (snd (snd (runE env b cmd ?s1)))" using r(1) by simp
  have pre: "dirs_step (0x1C0 AND NOT (umask (re_dirs env))) (rs_dirs s) (rs_dirs ?s1)"
  proof (cases "Paths (re_getenv env)")
    case (Some p)
    obtain ok ds where "EnsureDirs (re_dirs env) p (rs_dirs s) = (ok, ds)" by fastforce
    then show ?thesis using ensure_step [of "re_dirs env" p "rs_dirs s" ok ds] Some by (simp add: persistentPreRun_def)
  qed (simp add: persistentPreRun_def dirs_step_def)
  have "dirs_step (0x1C0 AND NOT (umask (re_dirs env))) (rs_dirs ?s1) (rs_dirs s')"
  proof (cases "cmd = ServeCmd")
    case True
    obtain e' out' acts s2 where run: "runServe (serve_env env b) \<lparr>ss_dirs = rs_dirs ?s1, ss_disk = rs_disk ?s1, ss_host = rs_tools ?s1\<rparr> = (e', out', acts, s2)"
      by (metis prod_cases4)
    have "rs_dirs s' = ss_dirs s2" unfolding s' using run by (simp add: True)
    moreover have "su_dirs (serve_env env b) = re_dirs env" by (simp add: serve_env_def)
    ultimately show ?thesis using runServe_dirs [OF run] by simp
  next
    case False
    then have "rs_dirs s' = rs_dirs ?s1" unfolding s' by (cases cmd) (auto simp: newStub_def split: prod.splits)
    then show ?thesis by (simp add: dirs_step_def)
  qed
  from private_step [OF dirs_step_trans [OF pre this]] show ?thesis .
qed

text \<open>Only the key commands and the server reach the state directory.\<close>

lemma main_disk:
  assumes "raxd_main v c t env cmd s = (code, out, err, s')" and "\<forall>name args. cmd \<notin> {KeyCreate name, KeyDelete args, ServeCmd}"
  shows "rs_disk s' = rs_disk s"
proof -
  obtain b e stderr where r: "runE env b cmd (snd (persistentPreRun env b s)) = (e, out, stderr, s')"
    using raxd_main_runE [OF assms(1)] by blast
  have "rs_disk (snd (persistentPreRun env b s)) = rs_disk s" by (simp add: persistentPreRun_def split: option.splits)
  then show ?thesis using r assms(2)
    by (cases cmd) (auto simp: runKeyList_def newStub_def on_disk_def on_host_def split: prod.splits sum.splits if_splits)
qed

subsection \<open>What a server may change\<close>

lemma runE_tools:
  "cmd \<noteq> ServeCmd \<Longrightarrow> rs_tools (snd (snd (snd (runE env b cmd s)))) = rs_tools s"
  by (cases cmd) (auto simp: newStub_def split: prod.splits)

lemma main_tools:
  assumes "raxd_main v c t env cmd s = (code, out, err, s')" and "cmd \<noteq> ServeCmd"
  shows "rs_tools s' = rs_tools s"
proof -
  obtain b e stderr where r: "runE env b cmd (snd (persistentPreRun env b s)) = (e, out, stderr, s')"
    using raxd_main_runE [OF assms(1)] by blast
  moreover have "rs_tools (snd (persistentPreRun env b s)) = rs_tools s" by (simp add: persistentPreRun_def split: option.splits)
  ultimately show ?thesis using runE_tools [OF assms(2), of env b "snd (persistentPreRun env b s)"] by simp
qed

text \<open>
  C1. No effect on the host without a key. If a run of raxd starts a process for a client or
  changes the upload root, then it is \<^verbatim>\<open>raxd serve\<close>, and among the requests that the server got
  there is one whose host and origin are allowed by the loaded configuration, whose path is
  \<^verbatim>\<open>/mcp\<close>, whose bearer token verifies to an active key of the key store, and for which the audit
  log has a record of execute_command or upload_file under that key's fingerprint and the
  client's address; whatever the protocol library decodes, however it answers, and whatever
  fails.
\<close>

theorem host_effect_needs_key:
  assumes "raxd_main v c t env cmd s = (code, out, err, s')" and "rs_tools s' \<noteq> rs_tools s"
  shows "cmd = ServeCmd \<and>
    (\<exists>p cfg q r as. Paths (re_getenv env) = Some p \<and>
       Load (su_fl (re_serve env)) (su_cast (re_serve env)) (re_config env) = Inr cfg \<and>
       SrvRequest q r \<in> set (su_events (re_serve env)) \<and> keyed_effect (serverCfg cfg) (KeysDB p) as (rv_server q) r \<and>
       (\<exists>e lines acts b s1 s2 os. runServe (serve_env env b) s1 = (e, lines, acts, s2) \<and> ActServe os as \<in> set acts \<and>
          rs_tools s' = ss_host s2))"
proof -
  obtain b e stderr where r: "runE env b cmd (snd (persistentPreRun env b s)) = (e, out, stderr, s')"
    using raxd_main_runE [OF assms(1)] by blast
  let ?s1 = "snd (persistentPreRun env b s)"
  have serve: "cmd = ServeCmd" using runE_tools [of cmd env b ?s1] r assms(2) by fastforce
  let ?ss = "\<lparr>ss_dirs = rs_dirs ?s1, ss_disk = rs_disk ?s1, ss_host = rs_tools ?s1\<rparr>"
  obtain e' lines acts s2 where run: "runServe (serve_env env b) ?ss = (e', lines, acts, s2)" by (metis prod_cases4)
  have tools: "rs_tools s' = ss_host s2" using r run by (auto simp: serve)
  then have "ss_host s2 \<noteq> ss_host ?ss" using assms(2) by simp
  moreover have env: "su_getenv (serve_env env b) = re_getenv env" "su_fl (serve_env env b) = su_fl (re_serve env)"
    "su_cast (serve_env env b) = su_cast (re_serve env)" "su_config (serve_env env b) = re_config env"
    "su_events (serve_env env b) = su_events (re_serve env)"
    by (simp_all add: serve_env_def)
  moreover have "ss_disk ?ss = rs_disk s" "ss_host ?ss = rs_tools s" by simp_all
  ultimately show ?thesis using runServe_effect [OF run] serve tools run unfolding env by metis
qed

text \<open>A server that gets one request with the key of the home, for a command.\<close>

definition demo_query :: srv_event where
  "demo_query = SrvRequest \<lparr>rv_server = srv_env\<lparr>se_disk := rs_disk demo_home\<rparr>, rv_tools = (\<lambda>_. tool_env)\<rparr> srv_request"

definition demo_server :: "unit raxd_env" where
  "demo_server = demo_raxd\<lparr>re_serve := (re_serve demo_raxd)\<lparr>su_events := [demo_query], su_dec := (\<lambda>_. [CallExec exec_call])\<rparr>\<rparr>"

lemma demo_exec_starts:
  "snd (snd (execHandler (execCfg default_config) tool_env c exec_call)) \<noteq> []"
  by code_simp

lemma demo_handler_starts:
  assumes "hs_started (st_ext s) = []"
  shows "hs_started (st_ext (snd (NewHandler ver (execCfg default_config) ucfg (\<lambda>_. [CallExec exec_call]) enc (\<lambda>_. tool_env) r c s))) \<noteq> []"
proof -
  obtain x as sp where h: "execHandler (execCfg default_config) tool_env c exec_call = (x, as, sp)" by (metis prod.collapse)
  then show ?thesis using assms demo_exec_starts [of c] by (simp add: NewHandler_def callTool_def fold_auditFn Let_def)
qed

lemma demo_query_starts:
  assumes "path (st_store s) = KeysDB home_paths" and "st_limiters s = serverLimiters default_config"
    and "hs_started (st_ext s) = []"
  shows "hs_started (st_ext (snd (srv_loop (tool_handler (serverCfg default_config) ver (execCfg default_config) ucfg
     (\<lambda>_. [CallExec exec_call]) enc) [demo_query] s))) \<noteq> []"
proof -
  let ?env = "srv_env\<lparr>se_disk := rs_disk demo_home\<rparr>"
  have "verifyScan ''secret'' (Keys demo_db) = Some (fromDBRecord demo_key)"
    by (simp add: demo_db_def verifyScan_def) (simp add: demo_key_def)
  moreover have "readDB demo_json ok_env (st_store s) (rs_disk demo_home) = Inr demo_db"
    using demo_home_db assms(1) by (simp add: readDB_db_at ok_env_def)
  moreover have "acquireLock ok_env (path (st_store s)) lockShared (rs_disk demo_home) = (Inr True, rs_disk demo_home)"
    by (simp add: acquireLock_def demo_defs assms(1) demo_home_def)
  ultimately obtain k st where v: "Verify (se_json ?env) (se_os ?env) (se_now ?env) (st_store s) ''secret'' (se_disk ?env) = (Inr (Some k), st)"
    by (auto simp: Verify_def srv_env_def)
  have "fl64 20 = 20" "fl64 19 = 19" "20 < fl64 (20 + tokensFromDuration 10 5)" by code_simp+
  moreover have "(10 :: rat) \<noteq> rate_Inf" by (simp add: rate_Inf_def)
  ultimately have "fst (AllowN 5 (NewLimiter 10 20))"
    by (simp add: NewLimiter_def AllowN_def advance_def time_Sub_def maxDuration_def)
  then have "fst (Allow 5 5 5 fp ip (serverLimiters default_config))" for fp ip
    by (auto simp: Allow_def serverLimiters_def NewLimiters_def getOrCreate_def default_config_def Let_def split: prod.splits)
  then obtain l where al: "Allow (se_now ?env) (se_t1 ?env) (se_t2 ?env) (fingerprintFromCtx (key_ctx srv_request no_ctx ''secret'' k))
      (ipOnly (rq_RemoteAddr srv_request)) (st_limiters s) = (True, l)"
    unfolding assms(2) by (simp add: srv_env_def) (metis (full_types) prod.collapse)
  have host: "contains (se_uni ?env) (HostAllow (serverCfg default_config)) (hostOnly srv_request)"
    by (simp add: srv_env_def serverCfg_def default_config_def) code_simp
  have path: "rq_Path srv_request = ''/mcp''" by (simp add: srv_request_def)
  let ?h = "NewHandler ver (execCfg default_config) ucfg (\<lambda>_. [CallExec exec_call]) enc (\<lambda>_. tool_env)"
  obtain s1 where "st_ext s1 = st_ext s" "snd (serve ?env (serverCfg default_config) (Some ?h) srv_request no_ctx s) =
      snd (?h (srv_request\<lparr>rq_Limit := Some (MaxBodyBytes (serverCfg default_config))\<rparr>) (key_ctx srv_request no_ctx ''secret'' k) s1)"
    using serve_passes [OF host srv_checks(2,3) v al path] by blast
  then show ?thesis using demo_handler_starts [of s1] assms(3)
    by (simp add: demo_query_def tool_handler_def case_prod_beta Let_def)
qed

lemma demo_server_starts:
  assumes "raxd_main ''1'' ''c'' ''d'' demo_server ServeCmd demo_home = (code, out, err, s')"
  shows "rs_tools s' \<noteq> rs_tools demo_home"
proof -
  obtain b e stderr where r: "runE demo_server b ServeCmd (snd (persistentPreRun demo_server b demo_home)) = (e, out, stderr, s')"
    using raxd_main_runE [OF assms] by blast
  let ?s1 = "snd (persistentPreRun demo_server b demo_home)"
  let ?s = "\<lparr>ss_dirs = rs_dirs ?s1, ss_disk = rs_disk ?s1, ss_host = rs_tools ?s1\<rparr>"
  let ?env = "serve_env demo_server b"
  note defs = serve_env_def demo_server_def demo_raxd_def first_start_def
  have p: "Join [''/home/u/.local/state/raxd/tls'', ''cert.pem''] = ''/home/u/.local/state/raxd/tls/cert.pem''"
    "Join [''/home/u/.local/state/raxd/tls'', ''key.pem''] = ''/home/u/.local/state/raxd/tls/key.pem''"
    by code_simp+
  have "\<exists>d. loadOrCreateCert (su_lib first_start) (su_osKey first_start) (su_osCert first_start)
      (TLSDir home_paths) (rs_disk demo_home) = (Inr ((), True), d)"
    by (simp add: loadOrCreateCert_def fileExists_def generateSelfSigned_def generate_def writePEM_def
        write_tmp_rename_def os_defs LoadX509KeyPair_def first_start_def calm_os_def demo_home_def home_paths_def
        certFile_def keyFile_def p Let_def)
  then obtain d where c: "loadOrCreateCert (su_lib ?env) (su_osKey ?env) (su_osCert ?env) (TLSDir home_paths) (ss_disk ?s) =
      (Inr ((), True), d)"
    by (auto simp: serve_env_def demo_server_def demo_raxd_def)
  have g: "Paths (su_getenv ?env) = Some home_paths" using home_paths by (simp add: defs)
  have l: "Load (su_fl ?env) (su_cast ?env) (su_config ?env) = Inr default_config" using plain_load by (simp add: defs)
  have o: "Open (su_json ?env) (su_os ?env) (KeysDB home_paths) (ss_disk ?s) = Inr \<lparr>path = KeysDB home_paths, usageBuf = []\<rparr>"
    using demo_home_db by (auto simp: Open_def defs calm_os_def demo_home_def db_at_def Let_def)
  have m: "mkdir_all_ok ?env default_config home_paths ?s"
    by (simp add: mkdir_all_ok_def EnsureDirs_def os_MkdirAll_def defs)
  have ev: "su_listen ?env = Inr ''127.0.0.1:7822''" "su_event ?env = CtxDone None" by (simp_all add: defs)
  have evs: "su_events ?env = [demo_query]" "su_dec ?env = (\<lambda>_. [CallExec exec_call])" by (simp_all add: defs)
  show ?thesis
  proof (rule start_runs [OF g l o m c ev], unfold evs)
    fix lines acts s2 and srv :: "unit Server" and m0
    assume a: "runServe ?env ?s = (None, lines, acts, s2)" "srv_store srv = \<lparr>path = KeysDB home_paths, usageBuf = []\<rparr>"
      "srv_limiters srv = serverLimiters default_config"
      "ss_host s2 = st_ext (snd (srv_loop (tool_handler (serverCfg default_config) (su_version ?env) (execCfg default_config)
         (uplCfg default_config home_paths m0) (\<lambda>_. [CallExec exec_call]) (su_enc ?env)) [demo_query] (start_state srv (ss_host ?s))))"
    have "hs_started (ss_host s2) \<noteq> []"
      unfolding a(4) by (rule demo_query_starts) (simp_all add: start_state_def a(2,3) demo_home_def)
    moreover have "rs_tools s' = ss_host s2" using r a(1) by auto
    moreover have "hs_started (rs_tools demo_home) = []" by (simp add: demo_home_def)
    ultimately show ?thesis by metis
  qed
qed

theorem host_effect_needs_key_witness:
  "\<exists>(s' :: raxd_state) cfg as q r. rs_tools s' \<noteq> rs_tools demo_home \<and> SrvRequest q r = demo_query \<and>
     keyed_effect (serverCfg cfg) (KeysDB home_paths) as (rv_server q) r"
proof -
  obtain code out err s' where m: "raxd_main ''1'' ''c'' ''d'' demo_server ServeCmd demo_home = (code, out, err, s')"
    by (metis prod_cases4)
  note t = demo_server_starts [OF m]
  obtain p cfg q r as where h: "Paths (re_getenv demo_server) = Some p" "SrvRequest q r \<in> set (su_events (re_serve demo_server))"
    "keyed_effect (serverCfg cfg) (KeysDB p) as (rv_server q) r"
    using host_effect_needs_key [OF m t] by blast
  have "p = home_paths" using h(1) home_paths by (simp add: demo_server_def demo_raxd_def)
  moreover have "SrvRequest q r = demo_query" using h(2) by (simp add: demo_server_def)
  ultimately show ?thesis using t h(3)
    by (intro exI [of _ s'] exI [of _ cfg] exI [of _ as] exI [of _ q] exI [of _ r] conjI) simp_all
qed

end
