(* ===== verification/Cobra.thy ===== *)
theory Cobra
  imports GoStd
begin

section \<open>The command-line library (\<open>spf13/cobra\<close>, \<open>spf13/pflag\<close>)\<close>

text \<open>
  What the program uses of its vendored command library, from
  \<^verbatim>\<open>vendor/github.com/spf13/cobra/command.go\<close> and \<^verbatim>\<open>pflag/flag.go\<close>: commands as a tree, the
  search for the command that the arguments name, the parser of its flags, and the decision
  between an error, the help text and running the command. The library's own commands
  (\<^verbatim>\<open>help\<close>, \<^verbatim>\<open>completion\<close>, \<^verbatim>\<open>__complete\<close>) have a place in the tree; what they print is not modelled.
\<close>

subsection \<open>Commands and flags\<close>

datatype flag_type = FString | FBool

record flag =
  fl_Name :: string
  fl_Shorthand :: string
  fl_Type :: flag_type
  fl_Usage :: string

datatype args_policy = LegacyArgs | NoArgs | MinimumNArgs nat

record cmd_text =
  Use :: string
  Aliases :: "string list"
  Short :: string
  Long :: string

datatype 'h Command =
  Command (cmd_text: cmd_text) (cmd_RunE: "'h option") (cmd_Flags: "flag list") (cmd_Args: args_policy)
    (cmd_DisableFlagParsing: bool) (cmd_Commands: "'h Command list")

definition mkCommand :: "string \<Rightarrow> string \<Rightarrow> string \<Rightarrow> 'h option \<Rightarrow> flag list \<Rightarrow> 'h Command list \<Rightarrow> 'h Command" where
  "mkCommand use short long run flags cmds =
     Command \<lparr>Use = use, Aliases = [], Short = short, Long = long\<rparr> run flags LegacyArgs False cmds"

definition cmd_Name :: "'h Command \<Rightarrow> string" where
  "cmd_Name c = takeWhile (\<lambda>x. x \<noteq> CHR '' '') (Use (cmd_text c))"

datatype parse_error =
    InvalidSyntax string
  | UnknownFlag string
  | ValueRequired string
  | InvalidValue string string
  | FlagHelp
  | UnknownCommand string
  | WrongArgs

text \<open>The values that the parser set, by the name of the flag; a flag that is not there has its default.\<close>

type_synonym flag_vals = "string \<rightharpoonup> string"

definition ParseBool :: "string \<Rightarrow> bool option" where
  "ParseBool s =
     (if s \<in> set [''1'', ''t'', ''T'', ''true'', ''TRUE'', ''True''] then Some True
      else if s \<in> set [''0'', ''f'', ''F'', ''false'', ''FALSE'', ''False''] then Some False else None)"

definition GetString :: "flag_vals \<Rightarrow> string \<Rightarrow> string" where
  "GetString vals n = (case vals n of None \<Rightarrow> '''' | Some v \<Rightarrow> v)"

definition GetBool :: "flag_vals \<Rightarrow> string \<Rightarrow> bool" where
  "GetBool vals n = (case vals n of None \<Rightarrow> False | Some v \<Rightarrow> ParseBool v = Some True)"

subsection \<open>Parsing flags (pflag)\<close>

definition Lookup :: "flag list \<Rightarrow> string \<Rightarrow> flag option" where
  "Lookup fs n = List.find (\<lambda>f. fl_Name f = n) fs"

definition ShorthandLookup :: "flag list \<Rightarrow> char \<Rightarrow> flag option" where
  "ShorthandLookup fs c = List.find (\<lambda>f. fl_Shorthand f = [c]) fs"

definition flag_Set :: "flag \<Rightarrow> string \<Rightarrow> flag_vals \<Rightarrow> parse_error + flag_vals" where
  "flag_Set f v vals =
     (if fl_Type f = FBool \<and> ParseBool v = None then Inl (InvalidValue (fl_Name f) v)
      else Inr (vals(fl_Name f \<mapsto> v)))"

text \<open>\<^verbatim>\<open>strings.SplitN(s, "=", 2)\<close>\<close>

definition split_eq :: "string \<Rightarrow> string \<times> string option" where
  "split_eq s =
     (takeWhile (\<lambda>c. c \<noteq> CHR ''='') s,
      case dropWhile (\<lambda>c. c \<noteq> CHR ''='') s of [] \<Rightarrow> None | _ # v \<Rightarrow> Some v)"

text \<open>The value for a flag without one in its own word: \<^verbatim>\<open>NoOptDefVal\<close>, or the next word.\<close>

definition next_value :: "flag \<Rightarrow> string list \<Rightarrow> (string \<times> string list) option" where
  "next_value f args =
     (if fl_Type f = FBool then Some (''true'', args)
      else case args of [] \<Rightarrow> None | v # rest \<Rightarrow> Some (v, rest))"

definition parseLongArg ::
  "flag list \<Rightarrow> string \<Rightarrow> string list \<Rightarrow> flag_vals \<Rightarrow> parse_error + flag_vals \<times> string list" where
  "parseLongArg fs s args vals =
     (let body = drop 2 s in
      if body = [] \<or> hd body = CHR ''-'' \<or> hd body = CHR ''='' then Inl (InvalidSyntax s)
      else let (name, val) = split_eq body in
        case Lookup fs name of
          None \<Rightarrow> Inl (if name = ''help'' then FlagHelp else UnknownFlag name)
        | Some f \<Rightarrow>
        (case (case val of Some v \<Rightarrow> Some (v, args) | None \<Rightarrow> next_value f args) of
          None \<Rightarrow> Inl (ValueRequired name)
        | Some (v, rest) \<Rightarrow> (case flag_Set f v vals of Inl e \<Rightarrow> Inl e | Inr vals' \<Rightarrow> Inr (vals', rest))))"

text \<open>One letter of a word of shorthands: the letters and the words left, and the values.\<close>

definition parseSingleShortArg ::
  "flag list \<Rightarrow> char \<Rightarrow> string \<Rightarrow> string list \<Rightarrow> flag_vals \<Rightarrow> parse_error + string \<times> string list \<times> flag_vals" where
  "parseSingleShortArg fs c shorts args vals =
     (if HasPrefix (c # shorts) ''test.'' then Inr ([], args, vals)
      else case ShorthandLookup fs c of
        None \<Rightarrow> Inl (if c = CHR ''h'' then FlagHelp else UnknownFlag [c])
      | Some f \<Rightarrow>
      (case (if length shorts > 1 \<and> hd shorts = CHR ''='' then Some (tl shorts, [], args)
             else if fl_Type f = FBool then Some (''true'', shorts, args)
             else if shorts \<noteq> [] then Some (shorts, [], args)
             else case args of [] \<Rightarrow> None | v # rest \<Rightarrow> Some (v, [], rest)) of
        None \<Rightarrow> Inl (ValueRequired [c])
      | Some (v, shorts', rest) \<Rightarrow>
          (case flag_Set f v vals of Inl e \<Rightarrow> Inl e | Inr vals' \<Rightarrow> Inr (shorts', rest, vals'))))"

lemma parseSingleShortArg_shorter:
  "parseSingleShortArg fs c shorts args vals = Inr (shorts', rest, vals') \<Longrightarrow>
   length shorts' \<le> length shorts \<and> length rest \<le> length args"
  by (auto simp: parseSingleShortArg_def split: if_splits option.splits sum.splits list.splits)

text \<open>\<open>a\<close> is what the previous letter left; every letter starts from the same \<open>args\<close>, as in the source.\<close>

function parseShortArg ::
  "flag list \<Rightarrow> string \<Rightarrow> string list \<Rightarrow> string list \<Rightarrow> flag_vals \<Rightarrow> parse_error + flag_vals \<times> string list" where
  "parseShortArg fs [] args a vals = Inr (vals, a)"
| "parseShortArg fs (c # shorts) args a vals =
     (case parseSingleShortArg fs c shorts args vals of
        Inl e \<Rightarrow> Inl e
      | Inr (shorts', rest, vals') \<Rightarrow> parseShortArg fs shorts' args rest vals')"
  by pat_completeness auto
termination
  by (relation "measure (\<lambda>(fs, shorts, args, a, vals). length shorts)")
    (auto dest: parseSingleShortArg_shorter)

lemma parseLongArg_shorter:
  "parseLongArg fs s args vals = Inr (vals', rest) \<Longrightarrow> length rest \<le> length args"
  by (auto simp: parseLongArg_def next_value_def Let_def
      split: if_splits option.splits sum.splits list.splits prod.splits)

lemma parseShortArg_shorter:
  "parseShortArg fs shorts args a vals = Inr (vals', rest) \<Longrightarrow> length a \<le> length args \<Longrightarrow> length rest \<le> length args"
  by (induction fs shorts args a vals rule: parseShortArg.induct)
    (auto split: sum.splits dest: parseSingleShortArg_shorter)

function parseArgs ::
  "flag list \<Rightarrow> string list \<Rightarrow> string list \<Rightarrow> flag_vals \<Rightarrow> parse_error + flag_vals \<times> string list" where
  "parseArgs fs [] pos vals = Inr (vals, pos)"
| "parseArgs fs (s # args) pos vals =
     (if length s \<le> 1 \<or> hd s \<noteq> CHR ''-'' then parseArgs fs args (pos @ [s]) vals
      else if s = ''--'' then Inr (vals, pos @ args)
      else case (if s ! 1 = CHR ''-'' then parseLongArg fs s args vals
                 else parseShortArg fs (tl s) args args vals) of
        Inl e \<Rightarrow> Inl e
      | Inr (vals', rest) \<Rightarrow> parseArgs fs rest pos vals')"
  by pat_completeness auto
termination
  by (relation "measure (\<lambda>(fs, args, pos, vals). length args)")
    (auto split: if_splits dest: parseLongArg_shorter parseShortArg_shorter [OF _ order_refl])

subsection \<open>Finding the command (cobra)\<close>

text \<open>A word of flags whose value is the next word.\<close>

definition takes_value :: "flag list \<Rightarrow> string \<Rightarrow> bool" where
  "takes_value fs s \<longleftrightarrow> CHR ''='' \<notin> set s \<and>
     (HasPrefix s ''--'' \<and> (\<forall>f \<in> set (filter (\<lambda>f. fl_Name f = drop 2 s) fs). fl_Type f \<noteq> FBool) \<or>
      HasPrefix s ''-'' \<and> length s = 2 \<and>
        (\<forall>f \<in> set (filter (\<lambda>f. fl_Shorthand f = tl s) fs). fl_Type f \<noteq> FBool))"

fun stripFlags :: "flag list \<Rightarrow> string list \<Rightarrow> string list" where
  "stripFlags fs [] = []"
| "stripFlags fs [s] = (if s \<noteq> ''--'' \<and> \<not> takes_value fs s \<and> s \<noteq> [] \<and> \<not> HasPrefix s ''-'' then [s] else [])"
| "stripFlags fs (s # v # args) =
     (if s = ''--'' then []
      else if takes_value fs s then (if args = [] then [] else stripFlags fs args)
      else if s \<noteq> [] \<and> \<not> HasPrefix s ''-'' then s # stripFlags fs (v # args)
      else stripFlags fs (v # args))"

fun argsMinusFirstX :: "flag list \<Rightarrow> string list \<Rightarrow> string \<Rightarrow> string list" where
  "argsMinusFirstX fs [] x = []"
| "argsMinusFirstX fs [s] x = (if s \<noteq> ''--'' \<and> \<not> takes_value fs s \<and> \<not> HasPrefix s ''-'' \<and> s = x then [] else [s])"
| "argsMinusFirstX fs (s # v # args) x =
     (if s = ''--'' then s # v # args
      else if takes_value fs s then s # v # argsMinusFirstX fs args x
      else if \<not> HasPrefix s ''-'' \<and> s = x then v # args
      else s # argsMinusFirstX fs (v # args) x)"

definition findNext :: "'h Command \<Rightarrow> string \<Rightarrow> 'h Command option" where
  "findNext c n = List.find (\<lambda>d. cmd_Name d = n \<or> n \<in> set (Aliases (cmd_text d))) (cmd_Commands c)"

lemma findNext_size: "findNext c n = Some d \<Longrightarrow> size d < size c"
proof -
  assume "findNext c n = Some d"
  then have "d \<in> set (cmd_Commands c)" by (auto simp: findNext_def find_Some_iff)
  then have "size d \<le> size_list size (cmd_Commands c)" by (rule size_list_estimation') simp
  then show "size d < size c" by (cases c) simp
qed

text \<open>The command found, the names on the way to it, and the arguments that are left.\<close>

function innerfind :: "'h Command \<Rightarrow> string list \<Rightarrow> 'h Command \<times> string list \<times> string list" where
  "innerfind c args =
     (case stripFlags (cmd_Flags c) args of
        [] \<Rightarrow> (c, [], args)
      | n # _ \<Rightarrow>
      (case findNext c n of
        None \<Rightarrow> (c, [], args)
      | Some d \<Rightarrow>
          (let (e, path, rest) = innerfind d (argsMinusFirstX (cmd_Flags c) args n) in (e, cmd_Name d # path, rest))))"
  by pat_completeness auto
termination
  by (relation "measure (\<lambda>(c, args). size c)") (auto dest: findNext_size)

declare innerfind.simps [simp del]

definition Find :: "'h Command \<Rightarrow> string list \<Rightarrow> parse_error + 'h Command \<times> string list \<times> string list" where
  "Find root args =
     (let (c, path, rest) = innerfind root args; words = stripFlags (cmd_Flags c) rest in
      if cmd_Args c = LegacyArgs \<and> path = [] \<and> cmd_Commands c \<noteq> [] \<and> words \<noteq> [] then Inl (UnknownCommand (hd words))
      else Inr (c, path, rest))"

subsection \<open>Executing it\<close>

datatype 'h cobra_outcome =
    UsageError parse_error
  | ShowHelp "string list"
  | RunCommand 'h flag_vals "string list"

definition helpFlag :: flag where
  "helpFlag = \<lparr>fl_Name = ''help'', fl_Shorthand = ''h'', fl_Type = FBool, fl_Usage = ''help for this command''\<rparr>"

definition ValidateArgs :: "args_policy \<Rightarrow> string list \<Rightarrow> bool" where
  "ValidateArgs p args = (case p of LegacyArgs \<Rightarrow> True | NoArgs \<Rightarrow> args = [] | MinimumNArgs n \<Rightarrow> n \<le> length args)"

definition cobra_execute :: "'h Command \<Rightarrow> string list \<Rightarrow> string list \<Rightarrow> 'h cobra_outcome" where
  "cobra_execute c path a =
     (let flags = (if Lookup (cmd_Flags c) ''help'' = None then cmd_Flags c @ [helpFlag] else cmd_Flags c) in
      case (if cmd_DisableFlagParsing c then Inr (Map.empty, a) else parseArgs flags a [] Map.empty) of
        Inl e \<Rightarrow> if e = FlagHelp then ShowHelp path else UsageError e
      | Inr (vals, args) \<Rightarrow>
          if GetBool vals ''help'' then ShowHelp path
          else case cmd_RunE c of
            None \<Rightarrow> ShowHelp path
          | Some run \<Rightarrow> if ValidateArgs (cmd_Args c) args then RunCommand run vals args else UsageError WrongArgs)"

text \<open>
  The commands that the library adds; \<open>lib\<close> makes the handlers. \<^verbatim>\<open>__complete\<close> is there only when
  the arguments name it.
\<close>

definition helpCommand :: "(string \<Rightarrow> 'h) \<Rightarrow> 'h Command" where
  "helpCommand lib =
     mkCommand ''help [command]'' ''Help about any command'' ''Help provides help for any command in the application.''
       (Some (lib ''help'')) [] []"

definition shellCommand :: "(string \<Rightarrow> 'h) \<Rightarrow> string \<Rightarrow> 'h Command" where
  "shellCommand lib shell =
     Command \<lparr>Use = shell, Aliases = [], Short = ''Generate the autocompletion script for '' @ shell, Long = []\<rparr> (Some (lib shell))
       [\<lparr>fl_Name = ''no-descriptions'', fl_Shorthand = [], fl_Type = FBool, fl_Usage = ''disable completion descriptions''\<rparr>]
       NoArgs False []"

definition completionCommand :: "(string \<Rightarrow> 'h) \<Rightarrow> 'h Command" where
  "completionCommand lib =
     Command \<lparr>Use = ''completion'', Aliases = [], Short = ''Generate the autocompletion script for the specified shell'', Long = []\<rparr>
       None [] NoArgs False (map (shellCommand lib) [''bash'', ''zsh'', ''fish'', ''powershell''])"

definition completeCommand :: "(string \<Rightarrow> 'h) \<Rightarrow> 'h Command" where
  "completeCommand lib =
     Command \<lparr>Use = ''__complete [command-line]'', Aliases = [''__completeNoDesc''],
         Short = ''Request shell completion choices for the specified command-line'', Long = []\<rparr>
       (Some (lib ''__complete'')) [] (MinimumNArgs 1) True []"

fun add_commands :: "'h Command \<Rightarrow> 'h Command list \<Rightarrow> 'h Command" where
  "add_commands (Command t run flags pol dis cmds) new = Command t run flags pol dis (cmds @ new)"

definition with_defaults :: "(string \<Rightarrow> 'h) \<Rightarrow> 'h Command \<Rightarrow> string list \<Rightarrow> 'h Command" where
  "with_defaults lib root args =
     (let r1 = add_commands root [helpCommand lib]; r2 = add_commands r1 [completeCommand lib];
          called = (case Find r2 args of Inl _ \<Rightarrow> False | Inr (c, _) \<Rightarrow> cmd_Name c = ''__complete'') in
      add_commands (if called then r2 else r1) [completionCommand lib])"

definition ExecuteC :: "(string \<Rightarrow> 'h) \<Rightarrow> 'h Command \<Rightarrow> string list \<Rightarrow> 'h cobra_outcome" where
  "ExecuteC lib root args =
     (case Find (with_defaults lib root args) args of
        Inl e \<Rightarrow> UsageError e
      | Inr (c, path, rest) \<Rightarrow> cobra_execute c path rest)"

end
