(* ===== verification/CommandTree.thy ===== *)
theory CommandTree
  imports Raxd Cobra
begin

section \<open>The command tree (\<open>internal/cli\<close>, \<open>cmd/raxd/main.go\<close>)\<close>

text \<open>
  The commands with their names, texts, flags and handlers as \<^verbatim>\<open>buildRootCmd\<close> registers them, and
  the program from the words of its command line: the library of theory \<open>Cobra\<close> finds the command and
  reads its flags, theory \<open>Raxd\<close> runs it. Help texts and the library's own commands are printed
  by the library; \<open>cli_lib\<close> stands for what they print.
\<close>

datatype cmd_handler =
    HKeyCreate | HKeyList | HKeyDelete | HConfigPort | HServe | HVersion | HStatus
  | HInstall | HUninstall | HStart | HStop | HSvcStatus | HLib string

definition text_lines :: "string list \<Rightarrow> string" where
  "text_lines ls = Join_sep ls [CHR 0x0A]"

definition flag_of :: "string \<Rightarrow> flag_type \<Rightarrow> string \<Rightarrow> flag" where
  "flag_of name ty usage = \<lparr>fl_Name = name, fl_Shorthand = [], fl_Type = ty, fl_Usage = usage\<rparr>"

subsection \<open>raxd key (key.go)\<close>

definition keyCreateCmd :: "cmd_handler Command" where
  "keyCreateCmd =
   mkCommand ''create [--name <label>]''
     ''Create a new API key''
     (text_lines
       [''Generate a new API key for remote access authentication.'',
        ''The key is displayed once and cannot be retrieved afterwards.'',
        '''',
        ''Store the key securely immediately after creation.'',
        '''',
        ''Flags:'',
        ''  --name string   optional human-readable label for the key (max 64 characters)''])
     (Some HKeyCreate) [flag_of ''name'' FString ''optional human-readable label for the key (max 64 characters)''] []"

definition keyListCmd :: "cmd_handler Command" where
  "keyListCmd =
   mkCommand ''list''
     ''List all API keys''
     (text_lines
       [''Display a table of active API keys with their ID, label, creation date,'',
        ''and last-used date. Revoked keys are not shown.''])
     (Some HKeyList) [] []"

definition keyDeleteCmd :: "cmd_handler Command" where
  "keyDeleteCmd =
   mkCommand ''delete <id>''
     ''Revoke an API key''
     (text_lines
       [''Revoke the API key with the given ID. The key is immediately invalidated'',
        ''and can no longer be used for authentication. This action cannot be undone.'',
        '''',
        ''The key record is retained for audit purposes and will not appear in \"key list\".'',
        '''',
        ''Example:'',
        ''  raxd key delete abc123de''])
     (Some HKeyDelete) [] []"

definition newKeyCmd :: "cmd_handler Command" where
  "newKeyCmd =
   mkCommand ''key [command]''
     ''Manage API keys''
     ''Create, list, and delete API keys used to authenticate remote access.''
     None [] [keyCreateCmd, keyListCmd, keyDeleteCmd]"

subsection \<open>raxd config, serve, version, status\<close>

definition configPortCmd :: "cmd_handler Command" where
  "configPortCmd =
   mkCommand ''port <PORT>''
     ''Set the listening port''
     (text_lines
       [''Configure the TCP port that raxd listens on for incoming connections.'',
        ''Default port is 7822.'',
        '''',
        ''  Example:'',
        ''    raxd config port 8080''])
     (Some HConfigPort) [] []"

definition newConfigCmd :: "cmd_handler Command" where
  "newConfigCmd =
   mkCommand ''config [command]''
     ''Manage configuration''
     (text_lines
       [''View and modify raxd configuration settings.'',
        ''Configuration is stored in ~/.config/raxd/config.yaml.''])
     None [] [configPortCmd]"

definition newServeCmd :: "cmd_handler Command" where
  "newServeCmd =
   mkCommand ''serve''
     ''Start the raxd TLS server''
     (text_lines
       [''Start raxd as a foreground TLS server.'',
        '''',
        ''The server listens on the configured address (default: 127.0.0.1:7822)'',
        ''with TLS 1.3. Every connection is authenticated with an API key before'',
        ''any request is processed.'',
        '''',
        ''Configuration is read from ~/.config/raxd/config.yaml.'',
        ''For production use, register raxd as a system service instead.''])
     (Some HServe) [] []"

definition versionCmd :: "cmd_handler Command" where
  "versionCmd =
   mkCommand ''version''
     ''Print version information''
     ''Print the raxd version, git commit, and build date.''
     (Some HVersion) [] []"

definition newStatusCmd :: "cmd_handler Command" where
  "newStatusCmd =
   mkCommand ''status''
     ''Show daemon status and configuration paths''
     (text_lines
       [''Display the current state of the raxd daemon and the filesystem paths'',
        ''used for configuration, key storage, and TLS certificates.''])
     (Some HStatus) [] []"

subsection \<open>raxd service (service.go)\<close>

definition newServiceInstallCmd :: "cmd_handler Command" where
  "newServiceInstallCmd =
   mkCommand ''install''
     ''Register raxd as a system service and enable autostart''
     (text_lines
       [''Register raxd with the OS service manager (systemd on Linux, launchd on macOS).'',
        '''',
        ''Creates system user \"raxd\" if not present, installs the service unit/plist,'',
        ''and enables autostart at boot. Requires root or sudo.'',
        '''',
        ''After install, start the service with \"raxd service start\".''])
     (Some HInstall) [] []"

definition newServiceUninstallCmd :: "cmd_handler Command" where
  "newServiceUninstallCmd =
   mkCommand ''uninstall''
     ''Remove the system service registration and disable autostart''
     (text_lines
       [''Unregister raxd from the OS service manager.'',
        '''',
        ''Stops the service if running, removes the unit/plist file, and disables autostart.'',
        ''The system user \"raxd\" is intentionally kept (see SR-93, ADR-002).'',
        ''Data in the state directory is preserved.'',
        '''',
        ''Use --purge --yes to also remove the system user and all data (irreversible).'',
        '''',
        ''Requires root or sudo.''])
     (Some HUninstall) 
     [flag_of ''purge'' FBool ''also remove the system user \"raxd\" and all data (irreversible, requires --yes)'',
      flag_of ''yes'' FBool ''confirm the irreversible purge operation (required with --purge)''] []"

definition newServiceStartCmd :: "cmd_handler Command" where
  "newServiceStartCmd =
   mkCommand ''start''
     ''Start the raxd service''
     ''''
     (Some HStart) [] []"

definition newServiceStopCmd :: "cmd_handler Command" where
  "newServiceStopCmd =
   mkCommand ''stop''
     ''Stop the raxd service''
     ''''
     (Some HStop) [] []"

definition newServiceStatusCmd :: "cmd_handler Command" where
  "newServiceStatusCmd =
   mkCommand ''status''
     ''Show the status of the raxd system service''
     (text_lines
       [''Show whether the raxd system service is installed and running.'',
        '''',
        ''Output goes to stdout (suitable for scripting). Use --json for machine-readable JSON.''])
     (Some HSvcStatus) [flag_of ''json'' FBool ''output status as JSON''] []"

definition buildServiceCmd :: "cmd_handler Command" where
  "buildServiceCmd =
   mkCommand ''service [command]''
     ''Manage raxd as a system service''
     (text_lines
       [''Register, start, stop, and monitor raxd as a managed OS service.'',
        '''',
        ''On Linux, raxd uses systemd. On macOS, it uses launchd.'',
        ''The service runs under the unprivileged user \"raxd\" (not root).'',
        '''',
        ''Installation requires root/sudo. The daemon itself always runs as a non-root user.''])
     None [] 
     [newServiceInstallCmd, newServiceUninstallCmd, newServiceStartCmd, newServiceStopCmd, newServiceStatusCmd]"

subsection \<open>The root (root.go)\<close>

definition buildRootCmd :: "cmd_handler Command" where
  "buildRootCmd =
   mkCommand ''raxd [command]''
     (''raxd '' @ em_dash @ '' remote access daemon for AI agents'')
     (text_lines
       [''raxd is a remote access daemon that provides secure command execution,'',
        ''file transfer, and API key management for AI agents.'',
        '''',
        ''Use \"raxd [command] --help\" for more information about a command.''])
     None [] 
     [newKeyCmd, newConfigCmd, newServeCmd, versionCmd, newStatusCmd, buildServiceCmd]"

text \<open>The handler with what it reads of its flags and words; \<open>None\<close> for a command of the library.\<close>

fun command_of :: "cmd_handler \<Rightarrow> flag_vals \<Rightarrow> string list \<Rightarrow> command option" where
  "command_of HKeyCreate vals args = Some (KeyCreate (GetString vals ''name''))"
| "command_of HKeyList vals args = Some KeyList"
| "command_of HKeyDelete vals args = Some (KeyDelete args)"
| "command_of HConfigPort vals args = Some (ConfigPort args)"
| "command_of HServe vals args = Some ServeCmd"
| "command_of HVersion vals args = Some VersionCmd"
| "command_of HStatus vals args = Some StatusCmd"
| "command_of HInstall vals args = Some SvcInstall"
| "command_of HUninstall vals args = Some (SvcUninstall (GetBool vals ''purge'') (GetBool vals ''yes''))"
| "command_of HStart vals args = Some SvcStart"
| "command_of HStop vals args = Some SvcStop"
| "command_of HSvcStatus vals args = Some (SvcStatus (GetBool vals ''json''))"
| "command_of (HLib name) vals args = None"

text \<open>
  The help text of a command, and the outcome of a command of the library: whether it failed and
  its two outputs.
\<close>

record cli_lib =
  lib_help :: "string list \<Rightarrow> out list"
  lib_run :: "string \<Rightarrow> flag_vals \<Rightarrow> string list \<Rightarrow> bool \<times> out list \<times> out list"

text \<open>
  A run of the program with the words of its command line: the exit status, the two outputs and the
  state. The root command silences errors and usage texts, so a word or flag that the library rejects
  ends the run with status 1 and no output. Help does not run \<open>persistentPreRun\<close>; the
  commands of the library do.
\<close>

definition raxd_args_main ::
  "string \<Rightarrow> string \<Rightarrow> string \<Rightarrow> cli_lib \<Rightarrow> 'c raxd_env \<Rightarrow> string list \<Rightarrow> raxd_state \<Rightarrow>
   nat \<times> out list \<times> out list \<times> raxd_state" where
  "raxd_args_main buildVersion buildCommit buildDate lib env args s =
     (case ExecuteC HLib buildRootCmd args of
        UsageError e \<Rightarrow> (1, [], [], s)
      | ShowHelp names \<Rightarrow> (0, lib_help lib names, [], s)
      | RunCommand h vals words \<Rightarrow>
      (case command_of h vals words of
        Some cmd \<Rightarrow> raxd_main buildVersion buildCommit buildDate env cmd s
      | None \<Rightarrow>
          (let (banner, s1) = persistentPreRun env (version_Set buildVersion buildCommit buildDate default_build) s;
               (failed, stdout, stderr) = lib_run lib (case h of HLib n \<Rightarrow> n | _ \<Rightarrow> []) vals words in
           (if failed then 1 else 0, stdout, banner @ stderr, s1))))"

end
