(* ===== verification/CobraProofs.thy ===== *)
theory CobraProofs
  imports Cobra
begin

section \<open>Lemmas on the command-line library\<close>

text \<open>
  The search for a command: words are followed downwards, what is left of the arguments comes from
  the arguments, and the handler found is one of the tree. The parser: a flag gets a value only
  from a word that names it.
\<close>

subsection \<open>Finding\<close>

lemma stripFlags_dashes [simp]: "stripFlags fs (''--'' # xs) = []"
  by (cases xs) auto

lemma stripFlags_word:
  "\<not> HasPrefix s ''-'' \<Longrightarrow> s \<noteq> [] \<Longrightarrow> stripFlags fs (s # xs) = s # stripFlags fs xs"
proof -
  assume a: "\<not> HasPrefix s ''-''" "s \<noteq> []"
  moreover have "\<not> HasPrefix s ''--''" using a by (auto simp: prefix_def)
  ultimately show ?thesis by (cases xs) (auto simp: takes_value_def)
qed

lemma argsMinusFirstX_word:
  "\<not> HasPrefix s ''-'' \<Longrightarrow> argsMinusFirstX fs (s # xs) s = xs"
proof -
  assume a: "\<not> HasPrefix s ''-''"
  moreover have "\<not> HasPrefix s ''--''" using a by (auto simp: prefix_def)
  ultimately show ?thesis by (cases xs) (auto simp: takes_value_def)
qed

lemma argsMinusFirstX_subset: "set (argsMinusFirstX fs xs x) \<subseteq> set xs"
  by (induction fs xs x rule: argsMinusFirstX.induct) auto

lemma stripFlags_subset: "set (stripFlags fs xs) \<subseteq> set xs"
  by (induction fs xs rule: stripFlags.induct) auto

lemma innerfind_word:
  assumes "\<not> HasPrefix n ''-''" and "n \<noteq> []" and "findNext c n = Some d" and "innerfind d xs = (e, names, rest)"
  shows "innerfind c (n # xs) = (e, cmd_Name d # names, rest)"
  using assms by (subst innerfind.simps) (simp add: stripFlags_word argsMinusFirstX_word)

lemma innerfind_stop: "stripFlags (cmd_Flags c) xs = [] \<Longrightarrow> innerfind c xs = (c, [], xs)"
  by (subst innerfind.simps) simp

lemma innerfind_cases:
  assumes "innerfind c args = (d, names, rest)"
  obtains (here) "d = c" "names = []" "rest = args" "stripFlags (cmd_Flags c) args = [] \<or>
      findNext c (hd (stripFlags (cmd_Flags c) args)) = None"
  | (below) n e names' where "n \<in> set args" "findNext c n = Some e" "names = cmd_Name e # names'"
      "innerfind e (argsMinusFirstX (cmd_Flags c) args n) = (d, names', rest)"
proof (cases "stripFlags (cmd_Flags c) args")
  case Nil
  then show thesis using assms here by (simp add: innerfind_stop)
next
  case (Cons n ns)
  then have n: "n \<in> set args" using stripFlags_subset [of "cmd_Flags c" args] by auto
  show thesis
  proof (cases "findNext c n")
    case None
    then show thesis using assms here Cons by (simp add: innerfind.simps [of c])
  next
    case (Some e)
    then show thesis using assms below n Cons
      by (subst (asm) innerfind.simps) (auto simp: Let_def split: prod.splits)
  qed
qed

lemma findNext_mem: "findNext c n = Some e \<Longrightarrow> e \<in> set (cmd_Commands c) \<and> (cmd_Name e = n \<or> n \<in> set (Aliases (cmd_text e)))"
  by (auto simp: findNext_def find_Some_iff)

lemma handlers_below: "e \<in> set (cmd_Commands c) \<Longrightarrow> set_Command e \<subseteq> set_Command c"
  by (cases c) auto

lemma innerfind_handler: "innerfind c args = (d, names, rest) \<Longrightarrow> cmd_RunE d = Some h \<Longrightarrow> h \<in> set_Command c"
proof (induction c args arbitrary: names rule: innerfind.induct)
  case (1 c args)
  from 1(2) show ?case
  proof (cases rule: innerfind_cases)
    case here
    then show ?thesis using 1(3) by (cases c) auto
  next
    case (below n e names')
    have "stripFlags (cmd_Flags c) args \<noteq> []" using below 1(2) by (auto simp: innerfind_stop)
    then obtain m ms where m: "stripFlags (cmd_Flags c) args = m # ms" by (cases "stripFlags (cmd_Flags c) args") auto
    then obtain e' names'' where e': "findNext c m = Some e'"
      "innerfind e' (argsMinusFirstX (cmd_Flags c) args m) = (d, names'', rest)"
      using 1(2) below(3) by (subst (asm) innerfind.simps) (auto simp: Let_def split: option.splits prod.splits)
    then have "h \<in> set_Command e'" using 1(1) [OF m e'(1)] 1(3) by blast
    then show ?thesis using handlers_below findNext_mem [OF e'(1)] by blast
  qed
qed

lemma innerfind_rest: "innerfind c args = (d, names, rest) \<Longrightarrow> set rest \<subseteq> set args"
proof (induction c args arbitrary: names rule: innerfind.induct)
  case (1 c args)
  show ?case
  proof (cases "stripFlags (cmd_Flags c) args")
    case Nil
    then show ?thesis using 1(2) by (simp add: innerfind_stop)
  next
    case (Cons m ms)
    show ?thesis
    proof (cases "findNext c m")
      case None
      then show ?thesis using 1(2) Cons by (simp add: innerfind.simps [of c])
    next
      case (Some e)
      obtain names' where "innerfind e (argsMinusFirstX (cmd_Flags c) args m) = (d, names', rest)"
        using 1(2) Cons Some by (subst (asm) innerfind.simps) (auto simp: Let_def split: prod.splits)
      then show ?thesis using 1(1) [OF Cons Some] argsMinusFirstX_subset by blast
    qed
  qed
qed

subsection \<open>Parsing\<close>

lemma Lookup_Some: "Lookup fs n = Some f \<Longrightarrow> f \<in> set fs \<and> fl_Name f = n"
  by (auto simp: Lookup_def find_Some_iff)

lemma split_eq_prefix: "prefix (fst (split_eq s)) s"
  by (simp add: split_eq_def prefix_def) (metis takeWhile_dropWhile_id)

lemma flag_Set_other: "flag_Set f v vals = Inr vals' \<Longrightarrow> n \<noteq> fl_Name f \<Longrightarrow> vals' n = vals n"
  by (auto simp: flag_Set_def split: if_splits)

lemma parseLongArg_sets:
  assumes "parseLongArg fs s args vals = Inr (vals', rest)"
  shows "set rest \<subseteq> set args" and "vals' n = vals n \<or> prefix n (drop 2 s)"
proof -
  obtain name val where sp: "split_eq (drop 2 s) = (name, val)" by fastforce
  obtain f v where f: "Lookup fs name = Some f" "flag_Set f v vals = Inr vals'"
    "(case val of Some v \<Rightarrow> Some (v, args) | None \<Rightarrow> next_value f args) = Some (v, rest)"
    using assms sp by (auto simp: parseLongArg_def Let_def split: if_splits option.splits sum.splits prod.splits)
  show "set rest \<subseteq> set args"
    using f(3) by (auto simp: next_value_def split: option.splits if_splits list.splits)
  have "prefix name (drop 2 s)" using split_eq_prefix [of "drop 2 s"] sp by simp
  then show "vals' n = vals n \<or> prefix n (drop 2 s)"
    using flag_Set_other [OF f(2)] Lookup_Some [OF f(1)] by metis
qed

lemma parseSingleShortArg_sets:
  assumes "parseSingleShortArg fs c shorts args vals = Inr (shorts', rest, vals')"
  shows "set rest \<subseteq> set args" and "vals' n = vals n \<or> (\<exists>f \<in> set fs. fl_Name f = n \<and> fl_Shorthand f \<noteq> [])"
proof -
  have bound: "set r \<subseteq> set args"
    if "(if length shorts > 1 \<and> hd shorts = CHR ''='' then Some (tl shorts, [], args)
         else if fl_Type f = FBool then Some (''true'', shorts, args)
         else if shorts \<noteq> [] then Some (shorts, [], args)
         else case args of [] \<Rightarrow> None | v # rest \<Rightarrow> Some (v, [], rest)) = Some (v, sh, r)" for f v sh r
    using that by (auto split: if_splits list.splits)
  consider "rest = args" "vals' = vals"
    | f v where "ShorthandLookup fs c = Some f" "flag_Set f v vals = Inr vals'" "set rest \<subseteq> set args"
  proof (cases "HasPrefix (c # shorts) ''test.''")
    case True
    then have "parseSingleShortArg fs c shorts args vals = Inr ([], args, vals)"
      by (simp only: parseSingleShortArg_def if_True)
    then show thesis using assms that(1) by simp
  next
    case False
    then obtain f where f: "ShorthandLookup fs c = Some f"
      using assms by (cases "ShorthandLookup fs c") (simp_all only: parseSingleShortArg_def if_False option.case sum.distinct)
    define ov where "ov = (if length shorts > 1 \<and> hd shorts = CHR ''='' then Some (tl shorts, [], args)
         else if fl_Type f = FBool then Some (''true'', shorts, args)
         else if shorts \<noteq> [] then Some (shorts, [], args)
         else case args of [] \<Rightarrow> None | v # rest \<Rightarrow> Some (v, [], rest))"
    have eq: "parseSingleShortArg fs c shorts args vals =
        (case ov of None \<Rightarrow> Inl (ValueRequired [c])
         | Some (v, shorts', rest) \<Rightarrow> (case flag_Set f v vals of Inl e \<Rightarrow> Inl e | Inr vals' \<Rightarrow> Inr (shorts', rest, vals')))"
      using False f by (simp only: parseSingleShortArg_def if_False option.case ov_def)
    obtain v where v: "ov = Some (v, shorts', rest)" "flag_Set f v vals = Inr vals'"
      using assms unfolding eq by (auto split: option.splits sum.splits)
    show thesis using that(2) [OF f v(2) bound [OF v(1) [unfolded ov_def]]] .
  qed
  then show "set rest \<subseteq> set args" "vals' n = vals n \<or> (\<exists>f \<in> set fs. fl_Name f = n \<and> fl_Shorthand f \<noteq> [])"
  proof (atomize (full), cases)
    case (2 f v)
    then have "f \<in> set fs" "fl_Shorthand f \<noteq> []" by (auto simp: ShorthandLookup_def find_Some_iff)
    then show "set rest \<subseteq> set args \<and> (vals' n = vals n \<or> (\<exists>f \<in> set fs. fl_Name f = n \<and> fl_Shorthand f \<noteq> []))"
      using flag_Set_other [OF 2(2), of n] 2(3) by (cases "n = fl_Name f") auto
  qed auto
qed

lemma parseShortArg_sets:
  assumes "parseShortArg fs shorts args a vals = Inr (vals', rest)" and "set a \<subseteq> set args"
  shows "set rest \<subseteq> set args \<and> (vals' n = vals n \<or> (\<exists>f \<in> set fs. fl_Name f = n \<and> fl_Shorthand f \<noteq> []))"
  using assms
proof (induction fs shorts args a vals rule: parseShortArg.induct)
  case (2 fs c shorts args a vals)
  then obtain shorts' rest1 vals1 where s: "parseSingleShortArg fs c shorts args vals = Inr (shorts', rest1, vals1)"
    "parseShortArg fs shorts' args rest1 vals1 = Inr (vals', rest)"
    by (auto split: sum.splits)
  show ?case using 2(1) [OF s(1) refl refl s(2)] parseSingleShortArg_sets [OF s(1)] by metis
qed simp

text \<open>A flag without a shorthand has a value only if a word starts with two dashes and its name.\<close>

lemma parseArgs_sets:
  assumes "parseArgs fs args pos vals = Inr (vals', pos')" and "\<And>f. f \<in> set fs \<Longrightarrow> fl_Name f = n \<Longrightarrow> fl_Shorthand f = []"
    and "vals' n \<noteq> vals n"
  shows "\<exists>a \<in> set args. prefix (''--'' @ n) a"
  using assms
proof (induction fs args pos vals rule: parseArgs.induct)
  case (2 fs s args pos vals)
  show ?case
  proof (cases "length s \<le> 1 \<or> hd s \<noteq> CHR ''-''")
    case True
    then show ?thesis using 2(1) 2(3-5) by auto
  next
    case False
    then obtain c s' where s: "s = CHR ''-'' # c # s'" by (cases s; cases "tl s") auto
    show ?thesis
    proof (cases "s = ''--''")
      case True
      then show ?thesis using 2(3,5) by simp
    next
      case dd: False
      define r where "r = (if c = CHR ''-'' then parseLongArg fs s args vals else parseShortArg fs (c # s') args args vals)"
      have eq: "(if s ! 1 = CHR ''-'' then parseLongArg fs s args vals else parseShortArg fs (tl s) args args vals) = r"
        by (simp add: r_def s)
      have "(case r of Inl e \<Rightarrow> Inl e | Inr (v, rest) \<Rightarrow> parseArgs fs rest pos v) = Inr (vals', pos')"
        using 2(3) False dd unfolding parseArgs.simps eq by simp
      then obtain vals1 rest where r: "r = Inr (vals1, rest)" "parseArgs fs rest pos vals1 = Inr (vals', pos')"
        by (cases r) auto
      have IH: "vals' n \<noteq> vals1 n \<Longrightarrow> \<exists>a \<in> set rest. prefix (''--'' @ n) a"
        using 2(2) [OF False dd eq [unfolded r(1)] refl r(2) 2(4)] by blast
      have long: "prefix n s' \<Longrightarrow> c = CHR ''-'' \<Longrightarrow> prefix (''--'' @ n) s" by (simp add: s)
      have "set rest \<subseteq> set args" "vals1 n = vals n \<or> c = CHR ''-'' \<and> prefix n s'"
        using r(1) parseLongArg_sets(1) [of fs s args vals vals1 rest] parseLongArg_sets(2) [of fs s args vals vals1 rest n]
          parseShortArg_sets [of fs "c # s'" args args vals vals1 rest n] 2(4)
        by (auto simp: r_def s split: if_splits)
      then show ?thesis using IH long 2(5) by (metis list.set_intros(1,2) subsetD)
    qed
  qed
qed simp

lemma execute_runs:
  assumes "cobra_execute c names a = RunCommand h vals words"
  shows "cmd_RunE c = Some h"
    and "\<not> cmd_DisableFlagParsing c \<Longrightarrow> \<exists>fs. set fs \<subseteq> set (cmd_Flags c) \<union> {helpFlag} \<and> parseArgs fs a [] Map.empty = Inr (vals, words)"
proof -
  let ?fs = "if Lookup (cmd_Flags c) ''help'' = None then cmd_Flags c @ [helpFlag] else cmd_Flags c"
  show "cmd_RunE c = Some h"
    using assms by (auto simp: cobra_execute_def Let_def split: sum.splits option.splits if_splits)
  show "\<exists>fs. set fs \<subseteq> set (cmd_Flags c) \<union> {helpFlag} \<and> parseArgs fs a [] Map.empty = Inr (vals, words)"
    if "\<not> cmd_DisableFlagParsing c"
  proof (intro exI [of _ ?fs] conjI)
    show "parseArgs ?fs a [] Map.empty = Inr (vals, words)"
      using assms that by (auto simp: cobra_execute_def Let_def split: sum.splits option.splits if_splits)
  qed auto
qed

lemma ExecuteC_runs:
  assumes "ExecuteC lib root args = RunCommand h vals words"
  obtains c names rest where "innerfind (with_defaults lib root args) args = (c, names, rest)"
    "cobra_execute c names rest = RunCommand h vals words"
  using assms by (auto simp: ExecuteC_def Find_def Let_def split: sum.splits prod.splits if_splits)

end
