(* ===== verification/HostProps.thy ===== *)
theory HostProps
  imports CliServiceProps
begin

section \<open>Service commands that destroy nothing\<close>

text \<open>
  Every operation of the service managers but the purge leaves the user, the directories and
  all files outside the registration alone, whatever fails; and what an installation leaves
  behind when it fails or when it is removed again.
\<close>

text \<open>
  \<open>careful U w w'\<close>: on the way from one host to the other no user and no directory was deleted, and what
  existed outside the paths \<open>U\<close> is as it was.
\<close>

definition careful :: "string set \<Rightarrow> svc_world \<Rightarrow> svc_world \<Rightarrow> bool" where
  "careful U w w' \<longleftrightarrow>
     (\<exists>es. sw_trace w' = sw_trace w @ es \<and> (\<forall>ev \<in> set es. \<not> destructive ev)) \<and>
     (\<forall>q n. q \<notin> U \<longrightarrow> map_of (sw_nodes w) q = Some n \<longrightarrow> map_of (sw_nodes w') q = Some n)"

lemma careful_refl [simp]: "careful U w w"
  by (simp add: careful_def)

lemma careful_trans: "careful U a b \<Longrightarrow> careful U b c \<Longrightarrow> careful U a c"
  unfolding careful_def by (metis (no_types, lifting) UnE append.assoc set_append)

lemma not_destructive:
  "b \<notin> {userdelBin, dsclBin} \<Longrightarrow> \<not> destructive (EvCmd b args)" "\<not> destructive (EvWrite p)" "\<not> destructive (EvMkdir p)"
  "\<not> destructive (EvRemove p)"
  by (auto simp: destructive_def userdelCmd_def dsclDeleteCmd_def)

lemma careful_RunManager:
  "RunManager env b args w = (r, w') \<Longrightarrow> b \<notin> {userdelBin, dsclBin} \<Longrightarrow> careful U w w'"
  using RunManager_pair [of env b args w r w'] not_destructive(1) [of b args] by (auto simp: careful_def)

lemma careful_run_cmd:
  "run_cmd env b args w = (r, w') \<Longrightarrow> b \<notin> {userdelBin, dsclBin} \<Longrightarrow> careful U w w'"
  using not_destructive(1) [of b args] by (auto simp: run_cmd_def careful_def)

lemma careful_Remove: "os_Remove env p w = (r, w') \<Longrightarrow> p \<in> U \<Longrightarrow> careful U w w'"
  using os_Remove_effect [of env p w r w'] not_destructive(4) [of p] by (auto simp: careful_def)

lemma add_dirs_keep: "map_of ns q = Some n \<Longrightarrow> map_of (fold (add_dir m) as ns) q = Some n"
  by (induction as arbitrary: ns) (auto simp: add_dir_def map_add_def split: option.splits)

lemma careful_MkdirAll: "svc_MkdirAll env p m w = (ok, w') \<Longrightarrow> careful U w w'"
  using not_destructive(3) [of p]
  by (auto simp: svc_MkdirAll_def Let_def careful_def add_dirs_keep split: if_splits)

lemma careful_WriteFile: "os_WriteFile env p data m w = (ok, w') \<Longrightarrow> p \<in> U \<Longrightarrow> careful U w w'"
  using not_destructive(2) [of p]
  by (auto simp: os_WriteFile_def Let_def careful_def update_conv' split: option.splits node.splits write_fault.splits)

lemma careful_writeFile: "writeFile env p data m w = (e, w') \<Longrightarrow> p \<in> U \<Longrightarrow> careful U w w'"
  by (auto simp: writeFile_def Let_def split: prod.splits bool.splits
      intro: careful_trans dest!: careful_MkdirAll [where U = U] careful_WriteFile [where U = U])

lemma careful_rollback: "unitPath \<in> U \<Longrightarrow> dropInPath \<in> U \<Longrightarrow> careful U w (rollback env a b w)"
  by (auto simp: rollback_def Let_def intro: careful_trans careful_Remove [OF surjective_pairing])

lemma manager_bins:
  "systemctlBin \<notin> {userdelBin, dsclBin}" "useraddBin \<notin> {userdelBin, dsclBin}" "launchctlBin \<notin> {userdelBin, dsclBin}"
  "''/usr/sbin/chown'' \<notin> {userdelBin, dsclBin}"
  by (simp_all add: systemctlBin_def useraddBin_def launchctlBin_def userdelBin_def dsclBin_def)

lemmas careful_cmds = careful_RunManager [OF _ manager_bins(1)] careful_RunManager [OF _ manager_bins(3)]
  careful_run_cmd [OF _ manager_bins(2)] careful_run_cmd [OF _ manager_bins(4)]

lemma careful_installUnit:
  assumes "installUnit env content w = (e, w')" and U: "unitPath \<in> U" "dropInPath \<in> U"
  shows "careful U w w'"
proof -
  note roll = careful_rollback [OF U]
  obtain e2 w2 where w2: "writeFile env unitPath content 0x1A4 w = (e2, w2)" by fastforce
  obtain ok w3 where w3: "svc_MkdirAll env dropInDir 0x1ED w2 = (ok, w3)" by fastforce
  obtain e4 w4 where w4: "writeFile env dropInPath JournaldDropIn 0x1A4 w3 = (e4, w4)" by fastforce
  obtain r5 w5 where w5: "RunManager env systemctlBin [''daemon-reload''] w4 = (r5, w5)" by fastforce
  obtain r6 w6 where w6: "RunManager env systemctlBin [''enable'', ''raxd''] w5 = (r6, w6)" by fastforce
  have c2: "careful U w w2" using careful_writeFile [OF w2] U by blast
  have c3: "careful U w w3" using careful_trans [OF c2] careful_MkdirAll [OF w3] by blast
  have c4: "careful U w w4" using careful_trans [OF c3] careful_writeFile [OF w4] U by blast
  have c5: "careful U w w5" using careful_trans [OF c4] careful_cmds(1) [OF w5] by blast
  have c6: "careful U w w6" using careful_trans [OF c5] careful_cmds(1) [OF w6] by blast
  show ?thesis
    using assms(1) c2 careful_trans [OF c3 roll] careful_trans [OF c4 roll] careful_trans [OF c5 roll] careful_trans [OF c6 roll] c6
    by (auto simp: installUnit_def w2 w3 w4 w5 w6 split: option.splits bool.splits sum.splits)
qed

lemma careful_systemd_Install:
  assumes "systemd_Install env cfg w = (e, w')" and "unitPath \<in> U" and "dropInPath \<in> U"
  shows "careful U w w'"
proof -
  obtain e1 w1 where c: "createUser env cfg w = (e1, w1)" by fastforce
  then have c1: "careful U w w1" by (auto simp: createUser_def Let_def split: prod.splits dest: careful_cmds(3))
  show ?thesis
    using assms(1) c c1 careful_trans [OF c1 careful_installUnit [OF _ assms(2,3)]]
    by (auto simp: systemd_Install_def split: if_splits option.splits sum.splits)
qed

lemma careful_createDirs: "createDirsLoop env cfg ds w = (e, w') \<Longrightarrow> careful U w w'"
proof (induction ds arbitrary: w)
  case (Cons d ds)
  obtain ok w1 where w1: "svc_MkdirAll env d 0x1C0 w = (ok, w1)" by fastforce
  obtain r w2 where w2: "run_cmd env ''/usr/sbin/chown'' [''-R'', sc_User cfg @ '':'' @ sc_Group cfg, d] w1 = (r, w2)" by fastforce
  have "careful U w w2" using careful_trans [OF careful_MkdirAll [OF w1] careful_cmds(4) [OF w2]] .
  then show ?case using Cons w1 w2 careful_MkdirAll [OF w1] careful_trans by (cases ok) auto
qed simp

lemma careful_launchd_Install:
  assumes "launchd_Install env cfg w = (e, w')" and U: "plistPath \<in> U"
  shows "careful U w w'"
proof (cases "sv_euid env \<noteq> 0 \<or> os_Stat env (sw_nodes w) plistPath = StatOk")
  case True
  then show ?thesis using assms(1) by (auto simp: launchd_Install_def split: if_splits)
next
  case False
  show ?thesis
  proof (cases "RenderPlist (sv_uni env) (TemplateDataFromConfig cfg)")
    case (Inl m)
    then show ?thesis using assms(1) False by (auto simp: launchd_Install_def)
  next
    case (Inr content)
    obtain e1 w1 where w1: "createDirs env cfg w = (e1, w1)" by fastforce
    obtain e2 w2 where w2: "writeFile env plistPath content 0x1A4 w1 = (e2, w2)" by fastforce
    obtain r3 w3 where w3: "RunManager env launchctlBin [''bootstrap'', ''system'', plistPath] w2 = (r3, w3)" by fastforce
    obtain r4 w4 where w4: "RunManager env launchctlBin [''enable'', launchLabel] w3 = (r4, w4)" by fastforce
    have c1: "careful U w w1" using w1 careful_createDirs unfolding createDirs_def by blast
    have c2: "careful U w w2" using careful_trans [OF c1 careful_writeFile [OF w2 U]] .
    have c3: "careful U w w3" using careful_trans [OF c2 careful_cmds(2) [OF w3]] .
    have c4: "careful U w w4" using careful_trans [OF c3 careful_cmds(2) [OF w4]] .
    have "careful U w (snd (os_Remove env plistPath w3))"
      using careful_trans [OF c3 careful_Remove [OF surjective_pairing U]] .
    then show ?thesis using assms(1) False c1 c2 c3 c4
      by (auto simp: launchd_Install_def Inr w1 w2 w3 w4 split: option.splits sum.splits)
  qed
qed

lemma careful_managers:
  "mgr_Install env m w = (e, w') \<Longrightarrow> careful (set (registration m)) w w'"
  "mgr_Uninstall env m w = (e, w') \<Longrightarrow> careful (set (registration m)) w w'"
  "mgr_Start env m w = (e, w') \<Longrightarrow> careful (set (registration m)) w w'"
  "mgr_Stop env m w = (e, w') \<Longrightarrow> careful (set (registration m)) w w'"
  "mgr_Status env m w = (st, w') \<Longrightarrow> careful (set (registration m)) w w'"
proof -
  show "mgr_Install env m w = (e, w') \<Longrightarrow> careful (set (registration m)) w w'"
    using careful_systemd_Install [of env _ w e w' "set (registration m)"]
      careful_launchd_Install [of env _ w e w' "set (registration m)"]
    by (cases m) (auto simp: mgr_Install_def)
  show "mgr_Uninstall env m w = (e, w') \<Longrightarrow> careful (set (registration m)) w w'"
    using uninstall_frame [of env m w e w'] by (auto simp: careful_def)
qed (cases m; auto simp: mgr_Start_def systemd_Start_def launchd_Start_def mgr_Stop_def systemd_Stop_def launchd_Stop_def
    mgr_Status_def systemd_Status_def launchd_Status_def Let_def
    split: if_splits prod.splits sum.splits dest: careful_cmds(1,2))+

lemma careful_service:
  assumes "own_files (sl_goos env) = fs"
  shows "serviceInstall env w = (e, o1, o2, w') \<Longrightarrow> careful (set fs) w w'"
    and "serviceStart env w = (e, o1, o2, w') \<Longrightarrow> careful (set fs) w w'"
    and "serviceStop env w = (e, o1, o2, w') \<Longrightarrow> careful (set fs) w w'"
    and "serviceStatus env j w = (e, o1, o2, w') \<Longrightarrow> careful (set fs) w w'"
    and "serviceUninstall env p y w = (e, o1, o2, w') \<Longrightarrow> \<not> (p \<and> y) \<Longrightarrow> careful (set fs) w w'"
proof -
  have mgr: "careful (set fs) w w'" if "resolveManagerWithPort env = Inr (m, port)"
    "mgr_Install sv m w = (e, w') \<or> mgr_Start sv m w = (e, w') \<or> mgr_Stop sv m w = (e, w') \<or> mgr_Status sv m w = (st, w')"
    for m port sv w w' e st
    using careful_managers resolved_manager [OF that(1)] that(2) assms by metis
  show "serviceInstall env w = (e, o1, o2, w') \<Longrightarrow> careful (set fs) w w'"
    "serviceStop env w = (e, o1, o2, w') \<Longrightarrow> careful (set fs) w w'"
    "serviceStatus env j w = (e, o1, o2, w') \<Longrightarrow> careful (set fs) w w'"
    by (auto simp: serviceInstall_def serviceStop_def serviceStatus_def
        split: sum.splits prod.splits option.splits if_splits intro: mgr)
  show "serviceStart env w = (e, o1, o2, w') \<Longrightarrow> careful (set fs) w w'"
    by (auto simp: serviceStart_def Let_def split: sum.splits prod.splits option.splits if_splits
        intro: mgr careful_trans [OF mgr mgr])
  show "serviceUninstall env p y w = (e, o1, o2, w') \<Longrightarrow> \<not> (p \<and> y) \<Longrightarrow> careful (set fs) w w'"
    using purge_needs_both_flags [of env p y w e o1 o2 w'] assms by (auto simp: careful_def)
qed

subsection \<open>An installation, undone\<close>

text \<open>
  C34. A failed installation on systemd removes the files that it wrote. On a host where neither
  the unit nor the drop-in existed, where files are written completely or not at all, and where
  nothing keeps the two files from being removed, every error of \<^verbatim>\<open>Install\<close> leaves all files as they
  were, as far as raxd's own file operations go; only empty parent directories may be new.
  Only the files are rolled back: no user and no directory tree is deleted, so a user that the
  installation made stays, and its creation is the only thing that the failure may leave in the accounts.
\<close>

theorem install_rolled_back:
  assumes "systemd_Install env cfg w = (Some e, w')" and "map_of (sw_nodes w) unitPath = None"
    and "map_of (sw_nodes w) dropInPath = None" and "removable env (sw_nodes w)" and "\<forall>p n. sv_write env p \<noteq> WriteCut n"
  shows "only_new_dirs (sw_nodes w) (sw_nodes w') \<and>
    (\<exists>es. sw_trace w' = sw_trace w @ es \<and> (\<forall>ev \<in> set es. \<not> destructive ev))"
  using install_failed_nodes [OF assms] careful_systemd_Install [OF assms(1), of "{unitPath, dropInPath}"]
  by (simp add: careful_def)

theorem install_rolled_back_witness:
  "only_new_dirs (sw_nodes fresh_world)
     (sw_nodes (snd (systemd_Install (host_env (\<lambda>_. CmdExit 1 [])) raxd_cfg fresh_world)))"
proof -
  have "fst (systemd_Install (host_env (\<lambda>_. CmdExit 1 [])) raxd_cfg fresh_world) \<noteq> None" by code_simp
  then obtain e w1 where i: "systemd_Install (host_env (\<lambda>_. CmdExit 1 [])) raxd_cfg fresh_world = (Some e, w1)"
    by (metis prod.collapse not_Some_eq)
  show ?thesis using install_rolled_back [OF i] fresh_world_fresh i by (simp add: fresh_host_def host_env_def)
qed

text \<open>
  The rollback does not know what was there before: a drop-in that the administrator had put
  in place is overwritten by an installation and then removed when \<^verbatim>\<open>systemctl\<close> fails.
\<close>

definition prior_drop_in :: svc_world where
  "prior_drop_in = fresh_world\<lparr>sw_nodes := (dropInPath, NFile ''mine'' 0x1A4) # sw_nodes fresh_world\<rparr>"

lemma rollback_removes_prior_drop_in:
  "map_of (sw_nodes prior_drop_in) dropInPath = Some (NFile ''mine'' 0x1A4)"
  "map_of (sw_nodes (snd (systemd_Install
     ((host_env (\<lambda>_. CmdOk []))\<lparr>sv_cmd := (\<lambda>_ b _. if b = systemctlBin then CmdExit 1 [] else CmdOk [])\<rparr>)
     raxd_cfg prior_drop_in))) dropInPath = None"
  by code_simp+

text \<open>
  C35. An installation on systemd can be repeated, and its files can be removed. After a successful
  \<^verbatim>\<open>Install\<close> on a fresh host (no unit, no drop-in, no symbolic link above them) the unit file holds
  exactly the rendered unit, a second \<^verbatim>\<open>Install\<close> changes nothing and says that the service is
  installed, and \<^verbatim>\<open>Uninstall\<close>, as root and when the two files can be removed, succeeds whatever
  \<^verbatim>\<open>systemctl\<close> answers and leaves every file as it was before the installation, as far as
  raxd's own file operations go. The user is kept: neither command deletes a user or a directory tree.
\<close>

theorem install_then_uninstall:
  assumes "systemd_Install env cfg w = (None, w1)" and "fresh_host (sw_nodes w)"
    and "sv_euid env' = 0" and "\<forall>p. \<not> sv_lstat_fails env' p" and "removable env' (sw_nodes w)"
  shows "systemd_Install env' cfg w1 = (Some (bareErr ErrAlreadyInstalled), w1) \<and>
    (\<exists>content m. RenderUnit (sv_uni env) (TemplateDataFromConfig cfg) = Inr content \<and>
       map_of (sw_nodes w1) unitPath = Some (NFile content m)) \<and>
    (\<exists>w2 es. systemd_Uninstall env' w1 = (None, w2) \<and> only_new_dirs (sw_nodes w) (sw_nodes w2) \<and>
       sw_trace w2 = sw_trace w @ es \<and> (\<forall>ev \<in> set es. \<not> destructive ev))"
proof -
  note r = uninstall_restores_nodes [OF assms]
  obtain w2 where u: "systemd_Uninstall env' w1 = (None, w2)" "only_new_dirs (sw_nodes w) (sw_nodes w2)" using r by blast
  have "careful {unitPath, dropInPath} w w1" using careful_systemd_Install [OF assms(1)] by simp
  moreover have "mgr_Uninstall env' (Systemd cfg) w1 = (None, w2)" using u(1) by (simp add: mgr_Uninstall_def)
  then have "careful (set (registration (Systemd cfg))) w1 w2" by (rule careful_managers(2))
  ultimately have "careful ({unitPath, dropInPath} \<union> set (registration (Systemd cfg))) w w2"
    by (intro careful_trans [of _ w w1 w2]) (auto simp: careful_def)
  then obtain es where "sw_trace w2 = sw_trace w @ es" "\<forall>ev \<in> set es. \<not> destructive ev" by (auto simp: careful_def)
  then show ?thesis using r u by blast
qed

theorem install_then_uninstall_witness:
  "fst (systemd_Uninstall (host_env (\<lambda>_. CmdExit 1 []))
     (snd (systemd_Install (host_env (\<lambda>_. CmdOk [])) raxd_cfg fresh_world))) = None"
proof -
  have "fst (systemd_Install (host_env (\<lambda>_. CmdOk [])) raxd_cfg fresh_world) = None" by code_simp
  then obtain w1 where i: "systemd_Install (host_env (\<lambda>_. CmdOk [])) raxd_cfg fresh_world = (None, w1)"
    by (metis prod.collapse)
  have e: "sv_euid (host_env (\<lambda>_. CmdExit 1 [])) = 0" "\<forall>p. \<not> sv_lstat_fails (host_env (\<lambda>_. CmdExit 1 [])) p"
    by (simp_all add: host_env_def)
  show ?thesis using install_then_uninstall [OF i fresh_world_fresh(1) e fresh_world_fresh(2)] i by auto
qed

end
