(* ===== verification/CommandTreeProps.thy ===== *)
theory CommandTreeProps
  imports CommandTree CobraProofs HostProps RaxdProps
begin

section \<open>Properties of the command line\<close>

text \<open>
  Every command can be typed, with any label and any identifier; what a misspelt command does; and
  what has to be typed before the program destroys data.
\<close>

subsection \<open>The tree\<close>

definition full_root :: "bool \<Rightarrow> cmd_handler Command" where
  "full_root b =
     (let r1 = add_commands buildRootCmd [helpCommand HLib] in
      add_commands (if b then add_commands r1 [completeCommand HLib] else r1) [completionCommand HLib])"

lemma with_defaults_full: "\<exists>b. with_defaults HLib buildRootCmd args = full_root b"
  by (auto simp: with_defaults_def full_root_def Let_def)

lemma add_commands_sel [simp]:
  "cmd_Commands (add_commands c new) = cmd_Commands c @ new" "cmd_Flags (add_commands c new) = cmd_Flags c"
  "cmd_RunE (add_commands c new) = cmd_RunE c" "cmd_Args (add_commands c new) = cmd_Args c"
  "set_Command (add_commands c new) = set_Command c \<union> \<Union> (set_Command ` set new)"
  by (cases c; auto)+

lemma mkCommand_sel [simp]:
  "cmd_Name (mkCommand u s l r f cs) = takeWhile (\<lambda>x. x \<noteq> CHR '' '') u"
  "Aliases (cmd_text (mkCommand u s l r f cs)) = []"
  "cmd_RunE (mkCommand u s l r f cs) = r" "cmd_Flags (mkCommand u s l r f cs) = f"
  "cmd_Args (mkCommand u s l r f cs) = LegacyArgs" "cmd_DisableFlagParsing (mkCommand u s l r f cs) = False"
  "cmd_Commands (mkCommand u s l r f cs) = cs" "set_Command (mkCommand u s l r f cs) = set_option r \<union> \<Union> (set_Command ` set cs)"
  by (auto simp: mkCommand_def cmd_Name_def)

lemmas key_tree = newKeyCmd_def keyCreateCmd_def keyListCmd_def keyDeleteCmd_def
lemmas plain_tree = configPortCmd_def newConfigCmd_def newServeCmd_def versionCmd_def newStatusCmd_def
lemmas service_tree = buildServiceCmd_def newServiceInstallCmd_def newServiceUninstallCmd_def newServiceStartCmd_def
  newServiceStopCmd_def newServiceStatusCmd_def

lemma root_tree:
  "cmd_Commands (full_root b) =
     [newKeyCmd, newConfigCmd, newServeCmd, versionCmd, newStatusCmd, buildServiceCmd, helpCommand HLib] @
     (if b then [completeCommand HLib] else []) @ [completionCommand HLib]"
  "cmd_Flags (full_root b) = []" "cmd_RunE (full_root b) = None" "cmd_Args (full_root b) = LegacyArgs"
  by (simp_all add: full_root_def Let_def buildRootCmd_def)

lemma lib_names:
  "cmd_Name (helpCommand HLib) = ''help''" "cmd_Name (completeCommand HLib) = ''__complete''"
  "cmd_Name (completionCommand HLib) = ''completion''" "Aliases (cmd_text (helpCommand HLib)) = []"
  "Aliases (cmd_text (completionCommand HLib)) = []" "Aliases (cmd_text (completeCommand HLib)) = [''__completeNoDesc'']"
  by (simp_all add: helpCommand_def, simp_all add: completeCommand_def completionCommand_def cmd_Name_def)

lemma find_group:
  "findNext (full_root b) ''key'' = Some newKeyCmd" "findNext (full_root b) ''config'' = Some newConfigCmd"
  "findNext (full_root b) ''serve'' = Some newServeCmd" "findNext (full_root b) ''version'' = Some versionCmd"
  "findNext (full_root b) ''status'' = Some newStatusCmd" "findNext (full_root b) ''service'' = Some buildServiceCmd"
  by (simp_all add: findNext_def root_tree newKeyCmd_def plain_tree buildServiceCmd_def)

lemma find_command:
  "findNext newKeyCmd ''create'' = Some keyCreateCmd" "findNext newKeyCmd ''list'' = Some keyListCmd"
  "findNext newKeyCmd ''delete'' = Some keyDeleteCmd" "findNext newConfigCmd ''port'' = Some configPortCmd"
  "findNext buildServiceCmd ''install'' = Some newServiceInstallCmd"
  "findNext buildServiceCmd ''uninstall'' = Some newServiceUninstallCmd"
  "findNext buildServiceCmd ''start'' = Some newServiceStartCmd" "findNext buildServiceCmd ''stop'' = Some newServiceStopCmd"
  "findNext buildServiceCmd ''status'' = Some newServiceStatusCmd"
  by (simp_all add: findNext_def key_tree plain_tree service_tree)

lemma node_names:
  "cmd_Name newKeyCmd = ''key''" "cmd_Name newConfigCmd = ''config''" "cmd_Name newServeCmd = ''serve''"
  "cmd_Name versionCmd = ''version''" "cmd_Name newStatusCmd = ''status''" "cmd_Name buildServiceCmd = ''service''"
  by (simp_all add: newKeyCmd_def plain_tree buildServiceCmd_def)

text \<open>A command that is found by its words, with what is left for its flags.\<close>

lemma ExecuteC_one:
  assumes "\<And>b. findNext (full_root b) g = Some d" and "\<not> HasPrefix g ''-''" and "g \<noteq> []"
    and "stripFlags (cmd_Flags d) rest = []"
  shows "ExecuteC HLib buildRootCmd (g # rest) = cobra_execute d [cmd_Name d] rest"
proof -
  obtain b where b: "with_defaults HLib buildRootCmd (g # rest) = full_root b" using with_defaults_full by blast
  have "innerfind (full_root b) (g # rest) = (d, [cmd_Name d], rest)"
    using innerfind_word [OF assms(2,3,1) innerfind_stop [OF assms(4)]] .
  then show ?thesis by (simp add: ExecuteC_def Find_def b)
qed

lemma ExecuteC_two:
  assumes "\<And>b. findNext (full_root b) g = Some d" and "findNext d w = Some e" and "\<not> HasPrefix g ''-''" and "g \<noteq> []"
    and "\<not> HasPrefix w ''-''" and "w \<noteq> []" and "stripFlags (cmd_Flags e) rest = []"
  shows "ExecuteC HLib buildRootCmd (g # w # rest) = cobra_execute e [cmd_Name d, cmd_Name e] rest"
proof -
  obtain b where b: "with_defaults HLib buildRootCmd (g # w # rest) = full_root b" using with_defaults_full by blast
  have "innerfind (full_root b) (g # w # rest) = (e, [cmd_Name d, cmd_Name e], rest)"
    using innerfind_word [OF assms(3,4,1) innerfind_word [OF assms(5,6,2) innerfind_stop [OF assms(7)]]] .
  then show ?thesis by (simp add: ExecuteC_def Find_def b)
qed

subsection \<open>Every command can be typed\<close>

text \<open>A command line for a command.\<close>

fun args_of :: "command \<Rightarrow> string list" where
  "args_of (KeyCreate name) = [''key'', ''create'', ''--name='' @ name]"
| "args_of KeyList = [''key'', ''list'']"
| "args_of (KeyDelete ids) = [''key'', ''delete'', ''--''] @ ids"
| "args_of (ConfigPort ps) = [''config'', ''port'', ''--''] @ ps"
| "args_of ServeCmd = [''serve'']"
| "args_of VersionCmd = [''version'']"
| "args_of StatusCmd = [''status'']"
| "args_of SvcInstall = [''service'', ''install'']"
| "args_of (SvcUninstall doPurge doYes) =
     [''service'', ''uninstall''] @ (if doPurge then [''--purge''] else []) @ (if doYes then [''--yes''] else [])"
| "args_of SvcStart = [''service'', ''start'']"
| "args_of SvcStop = [''service'', ''stop'']"
| "args_of (SvcStatus jsonFlag) = [''service'', ''status''] @ (if jsonFlag then [''--json''] else [])"

lemmas run_simps = cobra_execute_def ValidateArgs_def Lookup_def helpFlag_def flag_of_def GetBool_def GetString_def
  parseLongArg_def split_eq_def flag_Set_def next_value_def ParseBool_def takes_value_def

lemma args_of_run:
  "\<exists>h vals words. ExecuteC HLib buildRootCmd (args_of c) = RunCommand h vals words \<and> command_of h vals words = Some c"
proof (cases c)
  case (KeyCreate name)
  have "ExecuteC HLib buildRootCmd (args_of c) = cobra_execute keyCreateCmd [''key'', cmd_Name keyCreateCmd] [''--name='' @ name]"
    unfolding KeyCreate args_of.simps by (subst ExecuteC_two [OF find_group(1) find_command(1)])
      (simp_all add: node_names takes_value_def)
  then show ?thesis using KeyCreate by (simp add: run_simps keyCreateCmd_def)
next
  case KeyList
  then show ?thesis using ExecuteC_two [OF find_group(1) find_command(2), of "[]"]
    by (simp add: node_names run_simps keyListCmd_def)
next
  case (KeyDelete ids)
  then show ?thesis using ExecuteC_two [OF find_group(1) find_command(3), of "''--'' # ids"]
    by (simp add: node_names run_simps keyDeleteCmd_def)
next
  case (ConfigPort ps)
  then show ?thesis using ExecuteC_two [OF find_group(2) find_command(4), of "''--'' # ps"]
    by (simp add: node_names run_simps configPortCmd_def)
next
  case ServeCmd
  then show ?thesis using ExecuteC_one [OF find_group(3), of "[]"] by (simp add: run_simps newServeCmd_def)
next
  case VersionCmd
  then show ?thesis using ExecuteC_one [OF find_group(4), of "[]"] by (simp add: run_simps versionCmd_def)
next
  case StatusCmd
  then show ?thesis using ExecuteC_one [OF find_group(5), of "[]"] by (simp add: run_simps newStatusCmd_def)
next
  case SvcInstall
  then show ?thesis using ExecuteC_two [OF find_group(6) find_command(5), of "[]"]
    by (simp add: node_names run_simps newServiceInstallCmd_def)
next
  case (SvcUninstall doPurge doYes)
  then show ?thesis
    using ExecuteC_two [OF find_group(6) find_command(6), of "(if doPurge then [''--purge''] else []) @ (if doYes then [''--yes''] else [])"]
    by (cases doPurge; cases doYes) (simp_all add: node_names run_simps newServiceUninstallCmd_def)
next
  case SvcStart
  then show ?thesis using ExecuteC_two [OF find_group(6) find_command(7), of "[]"]
    by (simp add: node_names run_simps newServiceStartCmd_def)
next
  case SvcStop
  then show ?thesis using ExecuteC_two [OF find_group(6) find_command(8), of "[]"]
    by (simp add: node_names run_simps newServiceStopCmd_def)
next
  case (SvcStatus jsonFlag)
  then show ?thesis
    using ExecuteC_two [OF find_group(6) find_command(9), of "if jsonFlag then [''--json''] else []"]
    by (cases jsonFlag) (simp_all add: node_names run_simps newServiceStatusCmd_def)
qed

text \<open>
  C30. Every command can be given on the command line. For every command of the program, with any
  label, any identifiers and any flags, there is a command line that runs exactly it, also when a
  label or an identifier looks like a flag.
\<close>

theorem command_line_roundtrip:
  "raxd_args_main v c t lib env (args_of cmd) s = raxd_main v c t env cmd s"
proof -
  obtain h vals words where "ExecuteC HLib buildRootCmd (args_of cmd) = RunCommand h vals words" "command_of h vals words = Some cmd"
    using args_of_run by blast
  then show ?thesis by (simp add: raxd_args_main_def)
qed

subsection \<open>What a misspelt command does\<close>

lemma word_not_flag: "x \<noteq> [] \<Longrightarrow> hd x \<noteq> CHR ''-'' \<Longrightarrow> \<not> HasPrefix x ''-''"
  by (cases x) auto

lemma parseArgs_words:
  "\<forall>x \<in> set ws. hd x \<noteq> CHR ''-'' \<Longrightarrow> parseArgs fs ws pos vals = Inr (vals, pos @ ws)"
  by (induction ws arbitrary: pos) auto

lemma findNext_None:
  "\<forall>d \<in> set (cmd_Commands c). cmd_Name d \<noteq> n \<and> n \<notin> set (Aliases (cmd_text d)) \<Longrightarrow> findNext c n = None"
  by (auto simp: findNext_def find_None_iff)

text \<open>
  A misspelt command is not reported. After the name of a group, a word that is none of its
  commands makes the program print the help text of the group and end with status 0, so that
  \<^verbatim>\<open>raxd key delet\<close> with the identifier of a key looks like a success; and a first word
  that is no command at all ends it with status 1 without a word on either output.
\<close>

theorem misspelt_command:
  assumes "\<forall>x \<in> set (w # ws). x \<noteq> [] \<and> hd x \<noteq> CHR ''-''"
  shows "(w \<notin> {''create'', ''list'', ''delete''} \<longrightarrow>
      raxd_args_main v c t lib env (''key'' # w # ws) s = (0, lib_help lib [''key''], [], s)) \<and>
    (w \<notin> {''install'', ''uninstall'', ''start'', ''stop'', ''status''} \<longrightarrow>
      raxd_args_main v c t lib env (''service'' # w # ws) s = (0, lib_help lib [''service''], [], s)) \<and>
    (w \<notin> {''key'', ''config'', ''serve'', ''version'', ''status'', ''service'', ''help'', ''completion'',
           ''__complete'', ''__completeNoDesc''} \<longrightarrow>
      raxd_args_main v c t lib env (w # ws) s = (1, [], [], s))"
proof -
  have plain: "\<not> HasPrefix w ''-''" "w \<noteq> []" using assms word_not_flag by auto
  have words: "\<forall>x \<in> set (w # ws). hd x \<noteq> CHR ''-''" using assms by blast
  have group: "raxd_args_main v c t lib env (g # w # ws) s = (0, lib_help lib [g], [], s)"
    if g: "\<And>b. findNext (full_root b) g = Some d" "cmd_Name d = g" "\<not> HasPrefix g ''-''" "g \<noteq> []"
      and d: "cmd_Flags d = []" "cmd_RunE d = None" "cmd_DisableFlagParsing d = False" "findNext d w = None" for g d
  proof -
    obtain b where b: "with_defaults HLib buildRootCmd (g # w # ws) = full_root b" using with_defaults_full by blast
    have "innerfind d (w # ws) = (d, [], w # ws)"
      using d(4) by (subst innerfind.simps) (simp add: stripFlags_word [OF plain])
    from innerfind_word [OF g(3,4,1) this] have "Find (full_root b) (g # w # ws) = Inr (d, [g], w # ws)"
      by (simp add: Find_def g(2))
    moreover have "parseArgs [helpFlag] (w # ws) [] Map.empty = Inr (Map.empty, w # ws)"
      using parseArgs_words [OF words, of "[helpFlag]" "[]"] by (simp del: parseArgs.simps)
    ultimately show ?thesis
      by (simp add: raxd_args_main_def ExecuteC_def b cobra_execute_def d Lookup_def GetBool_def)
  qed
  have "raxd_args_main v c t lib env (w # ws) s = (1, [], [], s)" if "\<And>b. findNext (full_root b) w = None"
  proof -
    obtain b where b: "with_defaults HLib buildRootCmd (w # ws) = full_root b" using with_defaults_full by blast
    have "innerfind (full_root b) (w # ws) = (full_root b, [], w # ws)"
      using that by (subst innerfind.simps) (simp add: stripFlags_word [OF plain])
    then show ?thesis
      by (simp add: raxd_args_main_def ExecuteC_def b Find_def root_tree stripFlags_word [OF plain])
  qed
  moreover have "findNext (full_root b) w = None" if "w \<notin> {''key'', ''config'', ''serve'', ''version'', ''status'', ''service'',
      ''help'', ''completion'', ''__complete'', ''__completeNoDesc''}" for b
    using that by (intro findNext_None) (auto simp: root_tree node_names lib_names newKeyCmd_def plain_tree buildServiceCmd_def)
  moreover have "findNext newKeyCmd w = None" if "w \<notin> {''create'', ''list'', ''delete''}"
    using that by (intro findNext_None) (auto simp: key_tree)
  moreover have "findNext buildServiceCmd w = None" if "w \<notin> {''install'', ''uninstall'', ''start'', ''stop'', ''status''}"
    using that by (intro findNext_None) (auto simp: service_tree)
  moreover note group [OF find_group(1) node_names(1)] group [OF find_group(6) node_names(6)]
  ultimately show ?thesis by (simp add: newKeyCmd_def buildServiceCmd_def)
qed

definition mute_lib :: cli_lib where
  "mute_lib = \<lparr>lib_help = (\<lambda>_. []), lib_run = (\<lambda>_ _ _. (False, [], []))\<rparr>"

theorem misspelt_command_witness:
  "raxd_args_main ''1'' ''c'' ''d'' mute_lib demo_raxd [''key'', ''delet'', ''0a''] demo_home = (0, [], [], demo_home)"
  using misspelt_command [of "''delet''" "[''0a'']" "''1''" "''c''" "''d''" mute_lib demo_raxd demo_home]
  by (simp add: mute_lib_def)

subsection \<open>What has to be typed before data is destroyed\<close>

lemma careful_main:
  assumes "raxd_main v c t env cmd s = (code, out, err, s')" and "cmd \<noteq> SvcUninstall True True"
  shows "careful (set (own_files (sl_goos (re_svc env)))) (rs_host s) (rs_host s')"
proof -
  obtain b e stderr where r: "runE env b cmd (snd (persistentPreRun env b s)) = (e, out, stderr, s')"
    using raxd_main_runE [OF assms(1)] by blast
  let ?s1 = "snd (persistentPreRun env b s)"
  have pre: "rs_host ?s1 = rs_host s" by (simp add: persistentPreRun_def split: option.splits)
  have os: "own_files (sl_goos (service_env env)) = own_files (sl_goos (re_svc env))" by (simp add: service_env_def)
  note svc = careful_service [OF os]
  show ?thesis using r assms(2) unfolding pre [symmetric]
    by (cases cmd) (auto simp: on_host_def on_disk_def newStub_def split: prod.splits intro: svc)
qed

definition asks_for_purge :: "string list \<Rightarrow> bool" where
  "asks_for_purge args \<longleftrightarrow> ''service'' \<in> set args \<and> ''uninstall'' \<in> set args \<and>
     list_ex (prefix ''--purge'') args \<and> list_ex (prefix ''--yes'') args"

lemma uninstall_found:
  assumes "innerfind (full_root b) args = (c, names, rest)" and "cmd_RunE c = Some HUninstall"
  shows "c = newServiceUninstallCmd \<and> ''service'' \<in> set args \<and> ''uninstall'' \<in> set args"
  using assms(1)
proof (cases rule: innerfind_cases)
  case here
  then show ?thesis using assms(2) by (simp add: root_tree)
next
  case (below n e names1)
  note e = findNext_mem [OF below(2)]
  have "HUninstall \<in> set_Command e" using innerfind_handler [OF below(4) assms(2)] .
  then have "e = buildServiceCmd" using e
    by (auto simp: root_tree key_tree plain_tree helpCommand_def completeCommand_def completionCommand_def shellCommand_def
        split: if_splits)
  moreover from this have "n = ''service''" using e by (simp add: node_names) (simp add: buildServiceCmd_def)
  ultimately have n: "''service'' \<in> set args" "innerfind buildServiceCmd (argsMinusFirstX (cmd_Flags (full_root b)) args n) = (c, names1, rest)"
    using below(1,4) by auto
  from n(2) show ?thesis
  proof (cases rule: innerfind_cases)
    case here
    then show ?thesis using assms(2) by (simp add: buildServiceCmd_def)
  next
    case (below m f names2)
    note f = findNext_mem [OF below(2)]
    have "HUninstall \<in> set_Command f" using innerfind_handler [OF below(4) assms(2)] .
    then have "f = newServiceUninstallCmd" using f by (auto simp: service_tree)
    moreover from this have "m = ''uninstall''" using f by (simp add: newServiceUninstallCmd_def)
    ultimately have m: "''uninstall'' \<in> set args"
      "innerfind newServiceUninstallCmd (argsMinusFirstX (cmd_Flags buildServiceCmd) (argsMinusFirstX (cmd_Flags (full_root b)) args n) m) = (c, names2, rest)"
      using below(1,4) argsMinusFirstX_subset by blast+
    from m(2) have "c = newServiceUninstallCmd"
    proof (cases rule: innerfind_cases)
      case (below k g names3)
      then show ?thesis by (simp add: findNext_def newServiceUninstallCmd_def)
    qed simp
    then show ?thesis using n(1) m(1) by blast
  qed
qed

lemma purge_words:
  assumes "ExecuteC HLib buildRootCmd args = RunCommand h vals words" and "command_of h vals words = Some (SvcUninstall True True)"
  shows "asks_for_purge args"
proof -
  obtain b where b: "with_defaults HLib buildRootCmd args = full_root b" using with_defaults_full by blast
  obtain c names rest where c: "innerfind (full_root b) args = (c, names, rest)" "cobra_execute c names rest = RunCommand h vals words"
    using ExecuteC_runs [OF assms(1)] unfolding b by blast
  have h: "h = HUninstall" "GetBool vals ''purge''" "GetBool vals ''yes''" using assms(2) by (cases h; simp)+
  have found: "c = newServiceUninstallCmd" "''service'' \<in> set args" "''uninstall'' \<in> set args"
    using uninstall_found [OF c(1)] execute_runs(1) [OF c(2)] h(1) by blast+
  then obtain fs where fs: "set fs \<subseteq> set (cmd_Flags newServiceUninstallCmd) \<union> {helpFlag}" "parseArgs fs rest [] Map.empty = Inr (vals, words)"
    using execute_runs(2) [OF c(2)] by (auto simp: newServiceUninstallCmd_def)
  have "\<exists>a \<in> set rest. prefix (''--'' @ n) a" if "GetBool vals n" "n \<in> {''purge'', ''yes''}" for n
  proof (rule parseArgs_sets [OF fs(2)])
    show "fl_Shorthand f = []" if "f \<in> set fs" "fl_Name f = n" for f
      using that fs(1) \<open>n \<in> {''purge'', ''yes''}\<close> by (auto simp: newServiceUninstallCmd_def flag_of_def helpFlag_def)
    show "vals n \<noteq> Map.empty n" using that(1) by (auto simp: GetBool_def split: option.splits)
  qed
  then have "\<exists>a \<in> set args. prefix ''--purge'' a" "\<exists>a \<in> set args. prefix ''--yes'' a"
    using h(2,3) innerfind_rest [OF c(1)] by fastforce+
  then show ?thesis using found(2,3) by (auto simp: asks_for_purge_def list_ex_iff)
qed

lemma word_found:
  assumes "innerfind (full_root b) args = (c, names, rest)" and "cmd_RunE c = Some h"
  shows "(h \<in> {HKeyCreate, HKeyDelete} \<longrightarrow> ''key'' \<in> set args) \<and> (h = HServe \<longrightarrow> ''serve'' \<in> set args)"
  using assms(1)
proof (cases rule: innerfind_cases)
  case here
  then show ?thesis using assms(2) by (simp add: root_tree)
next
  case (below n e names1)
  note e = findNext_mem [OF below(2)]
  have h: "h \<in> set_Command e" using innerfind_handler [OF below(4) assms(2)] .
  have "h \<in> {HKeyCreate, HKeyDelete} \<longrightarrow> e = newKeyCmd" "h = HServe \<longrightarrow> e = newServeCmd"
    using e h by (auto simp: root_tree service_tree plain_tree helpCommand_def completeCommand_def completionCommand_def
        shellCommand_def key_tree split: if_splits)
  moreover have "e = newKeyCmd \<longrightarrow> n = ''key''" "e = newServeCmd \<longrightarrow> n = ''serve''"
    using e by (auto simp: node_names newKeyCmd_def newServeCmd_def)
  ultimately show ?thesis using below(1) by blast
qed

lemma command_words:
  assumes "ExecuteC HLib buildRootCmd args = RunCommand h vals words" and "command_of h vals words = Some cmd"
  shows "(cmd = ServeCmd \<longrightarrow> ''serve'' \<in> set args) \<and>
    ((\<exists>name args'. cmd \<in> {KeyCreate name, KeyDelete args'}) \<longrightarrow> ''key'' \<in> set args)"
proof -
  obtain b where b: "with_defaults HLib buildRootCmd args = full_root b" using with_defaults_full by blast
  obtain c names rest where c: "innerfind (full_root b) args = (c, names, rest)" "cobra_execute c names rest = RunCommand h vals words"
    using ExecuteC_runs [OF assms(1)] unfolding b by blast
  have "(cmd = ServeCmd \<longrightarrow> h = HServe) \<and> ((\<exists>name args'. cmd \<in> {KeyCreate name, KeyDelete args'}) \<longrightarrow> h \<in> {HKeyCreate, HKeyDelete})"
    using assms(2) by (cases h) auto
  then show ?thesis using word_found [OF c(1) execute_runs(1) [OF c(2)]] by blast
qed

text \<open>What a command line for which no command of raxd runs may change: it makes directories.\<close>

lemma library_run:
  assumes "raxd_args_main v c t lib env args s = (code, out, err, s')"
    and "\<And>h vals words cmd. ExecuteC HLib buildRootCmd args = RunCommand h vals words \<Longrightarrow> command_of h vals words \<noteq> Some cmd"
  shows "rs_host s' = rs_host s \<and> rs_disk s' = rs_disk s \<and> rs_tools s' = rs_tools s \<and>
    (\<forall>q m. rs_dirs s q = Some m \<longrightarrow> rs_dirs s' q = Some m)"
proof (cases "ExecuteC HLib buildRootCmd args")
  case (RunCommand h vals words)
  then have "command_of h vals words = None" using assms(2) by (cases "command_of h vals words") auto
  moreover obtain banner s1 where p: "persistentPreRun env (version_Set v c t default_build) s = (banner, s1)" by fastforce
  moreover obtain failed so se where "lib_run lib (case h of HLib n \<Rightarrow> n | _ \<Rightarrow> []) vals words = (failed, so, se)" by (metis prod_cases3)
  ultimately have "s' = s1" using assms(1) RunCommand by (simp add: raxd_args_main_def)
  then have s': "s' = snd (persistentPreRun env (version_Set v c t default_build) s)" by (simp add: p)
  show ?thesis
  proof (cases "Paths (re_getenv env)")
    case (Some p)
    obtain ok ds where ed: "EnsureDirs (re_dirs env) p (rs_dirs s) = (ok, ds)" by fastforce
    have "rs_dirs s q = Some m \<longrightarrow> ds q = Some m" for q m
      using ensure_step [OF ed] unfolding dirs_step_def by (metis option.distinct(1))
    then show ?thesis using Some ed s' by (simp add: persistentPreRun_def)
  qed (simp add: s' persistentPreRun_def)
qed (use assms(1) in \<open>auto simp: raxd_args_main_def\<close>)



end
