(* ===== verification/Spec2Isabelle.thy ===== *)
theory Spec2Isabelle
  imports KeystoreProps KeyLock CmdExec UploadLock AuditLog RateLimit Tls ServerProps McpProps SettingsProps StartupProps
    UnitFileProps ServiceProps CliKeyProps CliServiceProps RaxdProps CommandTreeProps
begin

text \<open>
  raxd is a remote access daemon: a TLS server through which an agent that holds an API key runs
  commands and uploads files on a host, and a command line that manages the keys, the server and
  its registration with the system's service manager. This development models the Go sources
  under \<^verbatim>\<open>src/cmd/raxd\<close> and \<^verbatim>\<open>src/internal\<close> as HOL functions and proves what makes them correct.

  \<^bold>\<open>How the program is put together.\<close> A request passes the body limit, the panic guard, the check
  of host and origin, the verification of its bearer token against the key store, and the rate
  limiter; it is logged once and reaches the health check or the MCP handler, whose tools run a
  command or store a file and write their own audit record. The key store is one JSON file that
  several processes share under advisory locks and replace atomically. \<^verbatim>\<open>raxd serve\<close> prepares
  directories, configuration, key store, upload root and certificate and runs the server;
  \<^verbatim>\<open>raxd key\<close> works on the key store; \<^verbatim>\<open>raxd service\<close> installs, controls and purges the service.

  \<^bold>\<open>Theories and sources.\<close> A theory named after a component holds its definitions, in the order of
  the source and under its names (a suffix or prefix is added where HOL or another component has
  the name); the theories ending in Proofs and Props hold its lemmas and its properties.

  \<^item> \<open>Prelude\<close>: types (bytes, times, modes), 64-bit wrap-around, Go's division, association lists.
  \<^item> \<open>GoStd\<close>, \<open>GoBase64\<close>, \<open>GoPath\<close>, \<open>GoSha256\<close>, \<open>GoParse\<close>: the parts of Go's standard library that
    the program calls, executable: strings, formatting, UTF-8 counting, base64 with its round
    trip, \<^verbatim>\<open>filepath.Clean\<close> and \<^verbatim>\<open>Join\<close>, SHA-256 on 32-bit words, \<^verbatim>\<open>net.ParseIP\<close>, \<^verbatim>\<open>time.ParseDuration\<close>.
  \<^item> \<open>GoFloat\<close>: the value that \<^verbatim>\<open>float64\<close> arithmetic rounds a rational to, and its relative error.
  \<^item> \<open>OsFile\<close>: a disk as a map from paths to files with its history, system calls that may fail,
    and the locale \<open>atomic_commit\<close> of a replacement by temporary file and rename.
  \<^item> \<open>Keystore\<close>, \<open>KeystoreProofs\<close>, \<open>KeystoreProps\<close>: \<^verbatim>\<open>internal/keystore\<close>. The database at an instant is
    \<open>db_at\<close>; \<open>ks_run\<close> is any sequence of operations by any processes, with faults and crashes.
    Records are never lost, a revocation is final, and Create and Revoke refine an abstract map
    from identifiers to revocation marks.
  \<^item> \<open>KeyLock\<close>: the interleaving of processes that lock and replace the file, as a step function over
    inodes; what the lock guarantees and the interleaving it does not exclude.
  \<^item> \<open>CmdExec\<close>: \<^verbatim>\<open>internal/cmdexec\<close>. The child process is an argument; \<open>Run\<close> has every check and error.
  \<^item> \<open>FileUpload\<close> and its proofs: \<^verbatim>\<open>internal/fileupload\<close> with \<^verbatim>\<open>os.Root\<close> resolution over a tree of files,
    directories and symbolic links; confinement, quota, and the effect of success and failure.
  \<^item> \<open>UploadLock\<close>: any number of overlapping calls of \<^verbatim>\<open>Write\<close> under a total limit, a step per
    access to the tree, with the registry of mutexes of \<^verbatim>\<open>quota.go\<close>. Every interleaving is equivalent
    to the same calls one after another, none waits for ever, and the quota holds.
  \<^item> \<open>AuditLog\<close>, \<open>RateLimit\<close>, \<open>Tls\<close>, \<open>Server\<close> and its proofs: \<^verbatim>\<open>internal/server\<close>. The locale \<open>metered\<close> gives
    the bound of a token bucket in \<^verbatim>\<open>float64\<close>, rounding included, and is interpreted on the bucket, on the limit per key and on the
    limit per address; \<open>audited_gate\<close> is the contract of a middleware, \<open>two_gates\<close> composes two.
  \<^item> \<open>Mcp\<close>, \<open>McpProps\<close>: \<^verbatim>\<open>internal/mcp\<close>. The locale \<open>audited_tool\<close> is the contract of a tool that writes
    its own record and is interpreted on both of them.
  \<^item> \<open>Settings\<close>, \<open>SettingsProps\<close>: \<^verbatim>\<open>internal/config\<close>. Paths, directories, defaults and every check.
  \<^item> \<open>HttpServer\<close>: \<^verbatim>\<open>internal/server/server.go\<close>. The server object with its TLS configuration, hooks
    and limits, and \<open>Server_Run\<close> from the bind over a sequence of requests, each with its own
    environment, and garbage collections to the flush at the end.
  \<^item> \<open>RequestProps\<close>: what one request and a sequence of them can do to the host.
  \<^item> \<open>Startup\<close>, \<open>StartupProps\<close>: \<^verbatim>\<open>internal/cli/serve.go\<close>, from the paths to the shutdown; the
    server is built by \<^verbatim>\<open>New\<close> with the MCP handler and then run.
  \<^item> \<open>UnitFile\<close>, \<open>UnitFileProps\<close>: \<^verbatim>\<open>internal/service/templates.go\<close>, line by line.
  \<^item> \<open>Service\<close>, \<open>Systemd\<close>, \<open>Launchd\<close>, \<open>ServiceProofs\<close>, \<open>ServiceProps\<close>: the other files of
    \<^verbatim>\<open>internal/service\<close>, over a tree of files and a trace of commands and removals. The locale
    \<open>service_manager\<close> states what a purge relies on and is interpreted on both managers.
  \<^item> \<open>CliKey\<close>, \<open>CliService\<close> and their properties: the commands of \<^verbatim>\<open>internal/cli\<close>, with both output
    streams and log entries, the status command, \<^verbatim>\<open>internal/banner\<close> and \<^verbatim>\<open>internal/version\<close>.
  \<^item> \<open>Raxd\<close>, \<open>RaxdProps\<close>: \<^verbatim>\<open>internal/cli/root.go\<close> and \<^verbatim>\<open>cmd/raxd/main.go\<close>. A command with what runs before
    it and its exit status; \<open>session\<close> is any sequence of commands, faults and crashes included.
  \<^item> \<open>Cobra\<close>, \<open>CobraProofs\<close>: the part of the vendored \<^verbatim>\<open>cobra\<close> and \<^verbatim>\<open>pflag\<close> that raxd uses: the search
    for the command in the tree and the parser of its flags.
  \<^item> \<open>CommandTree\<close>, \<open>CommandTreeProps\<close>, \<open>HostProps\<close>: the tree that \<^verbatim>\<open>buildRootCmd\<close> registers, with all
    names, texts, flags and handlers, and the program from the words of its command line; every
    command can be typed, what has to be typed before data is destroyed, and what is left of an
    installation that failed or was undone.
  \<^item> this theory: the properties that join the key store, the server and the tools.

  \<^bold>\<open>What is shown.\<close> No run of the program affects the host for a client without
  an active key and an audit record; a revoked or deleted key is never accepted again, over
  sequences of store operations and of commands; the key file is replaced atomically and never
  corrupt; a new key has its full entropy in its text, verifies and is served; uploads stay in their
  root, within the quota, all or nothing, also when they overlap; commands are started once,
  checked, with bounded output and bounded cleaning up; request rates are bounded per key and per
  address; the server listens exactly when everything it needs is in place; service definitions
  cannot be injected; the files of an installation are removed when it fails or is undone; a purge destroys only raxd's own
  data, in the order check, record, delete, and only when both flags were typed; a created key is
  listed and its deletion restores the list. The same theories show where the code differs from its
  comments, for example an interleaving of a creation, a revocation and a flush that undoes the
  revocation.

  \<^bold>\<open>Bounds and fuel.\<close> Integers that Go keeps in 64 bits are \<open>int\<close> with the wrap-around written out where
  an operation can leave the range; file modes are 32-bit words. Token counts and
  durations in seconds are \<^verbatim>\<open>float64\<close>: rationals that \<open>fl64\<close> rounds to 53 bits, ties to even, after
  each operation, in the order of the source (a processor that fuses a product and a sum rounds once
  less; overflow to infinity is not cut off; a conversion to \<^verbatim>\<open>int64\<close> out of range gives what amd64
  gives). The walk through \<^verbatim>\<open>os.Root\<close> carries the bound of 8 symbolic links, and
  \<^verbatim>\<open>EvalSymlinks\<close> the bound of 255, of the Go library, so these are the code's own limits. Random bytes are
  a list that is consumed; when it is too short, the process ends as the code does. The loop that
  reaps processes is a partial function into \<open>option\<close>, because it ends by the clock; it is proved to
  return within 200 sleeps. All other loops are total.

  \<^bold>\<open>Parameters.\<close> Code outside the repository's own sources is an argument: the JSON codec (law
  \<open>json_law\<close>: what was marshalled parses back, up to labels that are not valid UTF-8), the X.509
  library, URL parsing, Unicode case folding and printability, the conversions of the configuration
  library (law \<open>cast_law\<close>: a value of the right type is returned as it is), the decoding and encoding
  of the MCP library, one floating-point product in the duration parser, the texts of operating
  system errors, the results of system commands, the clock, and which system calls fail.

  \<^bold>\<open>Not modelled.\<close> The vendored libraries, but for the part of the command
  library in \<open>Cobra\<close>; TLS and HTTP framing, what \<^verbatim>\<open>net/http\<close>
  does with the timeouts that are fields of the server, and its goroutines (requests are handled one
  after another, with the ticks of the limiters' garbage collection between them; interleavings of
  the key store are in \<open>KeyLock\<close>, those of uploads under a quota in
  \<open>UploadLock\<close>, where the temporary file, the write and the rename of the call that
  holds the mutex are one step); the layout of help texts and the completion scripts of the command
  library; file owners and \<^verbatim>\<open>chown\<close>; the layout of the table that
  \<^verbatim>\<open>key list\<close> prints, whose rows are modelled; the empty variants of
  functions for systems other than Linux and macOS. The commands that raxd runs on the host
  (\<^verbatim>\<open>useradd\<close>, \<^verbatim>\<open>userdel\<close>, \<^verbatim>\<open>systemctl\<close>, \<^verbatim>\<open>launchctl\<close>, \<^verbatim>\<open>dscl\<close>) are in the trace with their arguments
  and answer as a parameter says, but have no effect on the modelled files and accounts: what is
  proved of files is proved of raxd's own file operations. The unit, the drop-in and the property
  list are written and removed at their fixed paths as texts, without following symbolic links in
  the directories above them. The directories, the state files and the host
  that the service manager sees are separate views, so what a command does to a file in one view is
  not reflected in the others, for example a purge of directories that hold the key store.
\<close>

section \<open>From the key store to the handlers\<close>

text \<open>
  C2. A revoked key never reaches the tools. After a successful \<open>Revoke\<close> and any further
  operations on the store by any processes, with faults and crashes, a request is served in
  the same way whatever the MCP handler would do for that key: two handlers that agree on
  every other key give the same answer and the same state.
\<close>

theorem revoked_key_never_reaches_handler:
  assumes "json_law (se_json env)" and "db_at (se_json env) p (files d0) = Some db" and "wf_db db"
    and "path st = p" and "tmp_name e \<noteq> p" and "Revoke (se_json env) e t st ident d0 = (None, d1)"
    and "ks_run (se_json env) p d1 (se_disk env)" and "path (st_store s) = p"
    and "\<And>r c s. cx_keyID c \<noteq> Some ident \<Longrightarrow> h1 r c s = h2 r c s"
  shows "serve env cfg (Some h1) r c s = serve env cfg (Some h2) r c s"
proof (rule ccontr)
  let ?r = "r\<lparr>rq_Limit := Some (MaxBodyBytes cfg)\<rparr>"
  let ?i = "\<lambda>h. authSuccessAuditMiddleware (mux (Some h))"
  assume "serve env cfg (Some h1) r c s \<noteq> serve env cfg (Some h2) r c s"
  then have "gates env cfg (?i h1) ?r c s \<noteq> gates env cfg (?i h2) ?r c s"
    by (auto simp: serve_gates recoverMiddleware_def)
  then obtain token k s' where v: "?i h1 ?r (key_ctx ?r c token k) s' \<noteq> ?i h2 ?r (key_ctx ?r c token k) s'"
    "fst (Verify (se_json env) (se_os env) (se_now env) (st_store s) token (se_disk env)) = Inr (Some k)"
    by (rule gates_key) blast
  have "r_ID k \<noteq> ident"
    using revoked_not_verified [OF assms(1) _ assms(3) _ assms(6) _ _ v(2)] assms(2,4,5,7,8) by simp
  then have "mux (Some h1) ?r (key_ctx ?r c token k) x = mux (Some h2) ?r (key_ctx ?r c token k) x" for x
    using assms(9) by (auto simp: mux_def key_ctx_def)
  then show False using v(1) by (simp add: authSuccessAuditMiddleware_def)
qed

theorem revoked_key_never_reaches_handler_witness:
  "serve (srv_env\<lparr>se_disk := demo_disk_revoked\<rparr>) srv_cfg (Some count_handler) srv_request no_ctx srv_state =
   serve (srv_env\<lparr>se_disk := demo_disk_revoked\<rparr>) srv_cfg
     (Some (\<lambda>r c s. if cx_keyID c = Some ''0a'' then (Panicked, s) else count_handler r c s)) srv_request no_ctx srv_state"
proof (rule revoked_key_never_reaches_handler [where ?d0.0 = demo_disk and db = demo_db and ident = "''0a''"])
  show "Revoke (se_json (srv_env\<lparr>se_disk := demo_disk_revoked\<rparr>)) ok_env 7 demo_store ''0a'' demo_disk = (None, demo_disk_revoked)"
    using demo_revoke by (simp add: srv_env_def)
qed (use demo_json_law demo_db_at demo_env(1) run_start in \<open>simp_all add: srv_env_def srv_state_def\<close>)

lemma url_char_visible: "n < 64 \<Longrightarrow> visible (b64_char CHR ''-'' CHR ''_'' n)"
  by (auto simp: visible_def b64_char_def of_char_of)

lemma rawurl_visible: "list_all visible (RawURLEncoding_EncodeToString bs)"
proof (induction bs rule: list_triple_induct)
  case (Three a b c r)
  then show ?case by (simp add: encode_defs b64_sextets url_char_visible)
qed (simp_all add: encode_defs b64_sextets url_char_visible)

lemma Create_body_visible:
  assumes "Create js env now ent s label d = (Ret (body, rec), d')"
  shows "list_all visible body" "body \<noteq> []"
proof -
  have "\<exists>buf. body = keyPrefix @ RawURLEncoding_EncodeToString buf"
    using assms
  proof (cases rule: Create_cases)
    case (wrote b d1 db0 body' ent1 salt ent2 ident ent3 e)
    then show ?thesis by (auto simp: generateBody_def split: option.splits)
  qed auto
  moreover have "list_all visible keyPrefix" "keyPrefix \<noteq> []" by code_simp+
  ultimately show "list_all visible body" "body \<noteq> []" using rawurl_visible by auto
qed

lemma bearerToken_body:
  assumes "rq_Header r ''Authorization'' = ''Bearer '' @ body" and "list_all visible body" and "body \<noteq> []"
  shows "bearerToken r = Some body"
  using assms TrimSpace_visible [OF assms(2)] by (simp add: bearerToken_def TrimPrefix_def)

text \<open>
  C9. A new key works at once. If \<open>Create\<close> returned a key, then a request to \<^verbatim>\<open>/healthz\<close>
  that carries it as its bearer token, from an allowed host and within the rate limits, is
  answered 200 with \<^verbatim>\<open>pong\<close>, and the audit log gains exactly one record: a success under the
  fingerprint of the key.
\<close>

theorem created_key_is_served:
  assumes "json_law (se_json env)" and "tmp_name e \<noteq> path st"
    and "Create (se_json env) e now ent st label d = (Ret (body, rec), se_disk env)"
    and "db_at (se_json env) (path st) (files d) = Some db" and "wf_db db"
    and "\<not> fails (se_os env) SysOpen" and "\<not> fails (se_os env) SysFlock" and "\<not> fails (se_os env) SysRead"
    and "path (st_store s) = path st"
    and "contains (se_uni env) (HostAllow cfg) (hostOnly r)" and "rq_Header r ''Origin'' = []"
    and "rq_Header r ''Authorization'' = ''Bearer '' @ body"
    and "fst (Allow (se_now env) (se_t1 env) (se_t2 env) (Fingerprint body) (ipOnly (rq_RemoteAddr r)) (st_limiters s))"
    and "rq_Path r = ''/healthz''" and "rq_Method r = ''GET''"
  shows "fst (serve env cfg mcp r c s) = Resp 200 ''pong'' \<and>
    st_audit (snd (serve env cfg mcp r c s)) = st_audit s @
      [emptyAudit\<lparr>a_Fingerprint := Fingerprint body, a_RemoteAddr := rq_RemoteAddr r, a_Result := ''success''\<rparr>]"
proof -
  let ?r = "r\<lparr>rq_Limit := Some (MaxBodyBytes cfg)\<rparr>"
  obtain k where k: "fst (Verify (se_json env) (se_os env) (se_now env) (st_store s) body (se_disk env)) = Inr (Some k)"
    "r_Fingerprint k = Fingerprint body"
    using created_verifies [OF assms(1-9)] by blast
  then obtain store where v: "Verify (se_json env) (se_os env) (se_now env) (st_store s) body (se_disk env) = (Inr (Some k), store)"
    by (metis prod.collapse)
  obtain l where l: "Allow (se_now env) (se_t1 env) (se_t2 env) (Fingerprint body) (ipOnly (rq_RemoteAddr r)) (st_limiters s) = (True, l)"
    using assms(13) by (metis (full_types) prod.collapse)
  have tok: "bearerToken ?r = Some body"
    using bearerToken_body [OF _ Create_body_visible [OF assms(3)], of ?r] assms(12) by simp
  have same: "hostOnly ?r = hostOnly r" "remoteIP ?r = rq_RemoteAddr r" by (simp_all add: hostOnly_def remoteIP_def)
  have fp: "Fingerprint body \<noteq> []" by (simp add: Fingerprint_def flip: length_0_conv)
  have "cleanPath ''/healthz'' = ''/healthz''" by code_simp
  then show ?thesis using assms(10,11,14,15) k(2) fp
    by (simp add: serve_gates gates_def hostOriginMiddleware_def authMiddleware_def rateLimitMiddleware_def
        authSuccessAuditMiddleware_def recoverMiddleware_def mux_def healthHandler_def auditFn_def
        fingerprintFromCtx_def same tok v l Let_def)
qed

definition fresh_env :: server_env where
  "fresh_env = srv_env\<lparr>se_json := new_json,
     se_disk := snd (Create new_json ok_env 3 (replicate 56 CHR ''a'') demo_store ''ci'' no_files)\<rparr>"

definition fresh_request :: request where
  "fresh_request = srv_request\<lparr>rq_Path := ''/healthz'', rq_Method := ''GET'',
     rq_Header := (\<lambda>h. if h = ''Authorization'' then ''Bearer '' @ demo_body else [])\<rparr>"

theorem created_key_is_served_witness:
  "fst (serve fresh_env srv_cfg (None :: nat handler option) fresh_request no_ctx srv_state) = Resp 200 ''pong''"
proof -
  have "hostOnly fresh_request = hostOnly srv_request"
    by (simp add: hostOnly_def fresh_request_def srv_request_def)
  then have host: "contains (se_uni fresh_env) (HostAllow srv_cfg) (hostOnly fresh_request)"
    using srv_checks(1) by (simp add: fresh_env_def)
  have allow: "fst (Allow (se_now fresh_env) (se_t1 fresh_env) (se_t2 fresh_env) (Fingerprint demo_body)
      (ipOnly (rq_RemoteAddr fresh_request)) (st_limiters srv_state))"
    using srv_allow by (simp add: fresh_env_def srv_env_def srv_state_def)
  have js: "se_json fresh_env = new_json" "se_disk fresh_env = snd (Create new_json ok_env 3 (replicate 56 CHR ''a'') demo_store ''ci'' no_files)"
    "se_os fresh_env = ok_env" by (simp_all add: fresh_env_def srv_env_def)
  have "Create (se_json fresh_env) ok_env 3 (replicate 56 CHR ''a'') demo_store ''ci'' no_files = (Ret (demo_body, demo_new), se_disk fresh_env)"
    using demo_create_run(3) by (simp only: js)
  from created_key_is_served [OF _ demo_create_run(2) this _ demo_create_run(5) _ _ _ _ host _ _ allow]
  show ?thesis using demo_create_run(1,4) by (simp add: js fresh_request_def ok_env_def srv_state_def)
qed

end
